(* ===== verification/Prelude.thy ===== *)
theory Prelude
  imports Main "HOL-Library.Word"
begin

text \<open>
  Shared vocabulary of the development: the Rust integer types as words, the results a Rust
  function can have (a value, an error, a panic), the integer operations of the standard library
  the program uses (shifts, remainder, saturating arithmetic, casts) and the generic facts on
  them, collected in \<open>rust_arith\<close>, and the \<open>slot_ledger\<close> interface: the contract
  of every component that acts at most once per slot.
\<close>

unbundle bit_operations_syntax

section \<open>Rust types and results\<close>

type_synonym u8 = "8 word"
type_synonym u32 = "32 word"
type_synonym u64 = "64 word"
type_synonym u128 = "128 word"
type_synonym usize = "64 word"
type_synonym h256 = "256 word"
type_synonym account_id = "256 word"
type_synonym bytes = "u8 list"

text \<open>
  The three ways a Rust function ends: it unwinds (with the panic message), it returns \<open>Err\<close>,
  or it returns \<open>Ok\<close>.
\<close>

datatype ('e, 'a) outcome = Panic string | Err 'e | Ok 'a

fun obind :: "('e, 'a) outcome \<Rightarrow> ('a \<Rightarrow> ('e, 'b) outcome) \<Rightarrow> ('e, 'b) outcome" where
  "obind (Panic m) f = Panic m"
| "obind (Err e) f = Err e"
| "obind (Ok v) f = f v"

fun is_panic :: "('e, 'a) outcome \<Rightarrow> bool" where
  "is_panic (Panic m) = True"
| "is_panic (Err e) = False"
| "is_panic (Ok v) = False"

text \<open>
  Shifts by at least the width of the type panic where overflow checks are compiled in (the
  default of development builds) and mask the shift amount otherwise (the default of release
  builds, the profile the runtime is shipped with).
\<close>

datatype profile = Overflow_Checks | Release

definition shr_u32 :: "profile \<Rightarrow> u32 \<Rightarrow> u32 \<Rightarrow> ('e, u32) outcome" where
  "shr_u32 p x n =
     (if unat n < 32 then Ok (drop_bit (unat n) x)
      else case p of
          Overflow_Checks \<Rightarrow> Panic ''attempt to shift right with overflow''
        | Release \<Rightarrow> Ok (drop_bit (unat (n AND 31)) x))"

definition shl_u32 :: "profile \<Rightarrow> u32 \<Rightarrow> u32 \<Rightarrow> ('e, u32) outcome" where
  "shl_u32 p x n =
     (if unat n < 32 then Ok (push_bit (unat n) x)
      else case p of
          Overflow_Checks \<Rightarrow> Panic ''attempt to shift left with overflow''
        | Release \<Rightarrow> Ok (push_bit (unat (n AND 31)) x))"

text \<open>The remainder by zero panics in every profile.\<close>

definition rem_u128 :: "u128 \<Rightarrow> u128 \<Rightarrow> ('e, u128) outcome" where
  "rem_u128 a b =
     (if b = 0 then Panic ''attempt to calculate the remainder with a divisor of zero''
      else Ok (a mod b))"

definition saturating_add :: "'n::len word \<Rightarrow> 'n word \<Rightarrow> 'n word" where
  "saturating_add a b = (if unat a + unat b < 2 ^ LENGTH('n) then a + b else - 1)"

definition saturating_mul :: "'n::len word \<Rightarrow> 'n word \<Rightarrow> 'n word" where
  "saturating_mul a b = (if unat a * unat b < 2 ^ LENGTH('n) then a * b else - 1)"

definition checked_add :: "'n::len word \<Rightarrow> 'n word \<Rightarrow> 'n word option" where
  "checked_add a b = (if unat a + unat b < 2 ^ LENGTH('n) then Some (a + b) else None)"

text \<open>\<open>slice.get(i)\<close>, and \<open>opt.map(decode).transpose()\<close> with a failed decoding as \<open>None\<close>.\<close>

definition slice_get :: "'a list \<Rightarrow> usize \<Rightarrow> 'a option" where
  "slice_get xs i = (if unat i < length xs then Some (xs ! unat i) else None)"

fun decode_transpose :: "('r \<Rightarrow> 'a option) \<Rightarrow> 'r option \<Rightarrow> 'a option option" where
  "decode_transpose dec None = Some None"
| "decode_transpose dec (Some raw) = (case dec raw of None \<Rightarrow> None | Some v \<Rightarrow> Some (Some v))"

section \<open>Generic facts\<close>

named_theorems rust_arith

lemma neq_Some_unit [simp]: "x \<noteq> Some () \<longleftrightarrow> x = None"
  by (cases x) simp_all

lemma obind_eq_Ok_iff: "obind x f = Ok v \<longleftrightarrow> (\<exists>u. x = Ok u \<and> f u = Ok v)"
  by (cases x) simp_all

lemma obind_eq_Err_iff: "obind x f = Err e \<longleftrightarrow> x = Err e \<or> (\<exists>u. x = Ok u \<and> f u = Err e)"
  by (cases x) auto

lemma is_panic_obind: "is_panic (obind x f) \<longleftrightarrow> is_panic x \<or> (\<exists>u. x = Ok u \<and> is_panic (f u))"
  by (cases x) simp_all

lemma is_panic_iff: "is_panic x \<longleftrightarrow> (\<exists>m. x = Panic m)"
  by (cases x) simp_all

lemmas outcome_iffs = obind_eq_Ok_iff obind_eq_Err_iff is_panic_obind

lemma unat_and_31: "unat (n AND 31 :: u32) = unat n mod 32"
proof -
  have "n AND 31 = take_bit 5 n"
    by (simp add: take_bit_eq_mask mask_eq_exp_minus_1)
  moreover have "unat (take_bit 5 n) = unat n mod 2 ^ 5"
    by (simp only: unsigned_take_bit_eq take_bit_nat_def)
  ultimately show ?thesis by simp
qed

lemma shr_u32_Ok_iff:
  "shr_u32 p x n = Ok y \<longleftrightarrow>
     (unat n < 32 \<or> p = Release) \<and> y = drop_bit (unat n mod 32) x"
  by (auto simp: shr_u32_def unat_and_31 split: profile.splits)

lemma shl_u32_Ok_iff:
  "shl_u32 p x n = Ok y \<longleftrightarrow>
     (unat n < 32 \<or> p = Release) \<and> y = push_bit (unat n mod 32) x"
  by (auto simp: shl_u32_def unat_and_31 split: profile.splits)

lemma shr_u32_not_Err [simp]: "shr_u32 p x n \<noteq> Err e"
  by (simp add: shr_u32_def split: profile.splits)

lemma is_panic_shr_u32: "is_panic (shr_u32 p x n) \<longleftrightarrow> 32 \<le> unat n \<and> p = Overflow_Checks"
  by (auto simp: shr_u32_def split: profile.splits)

lemma shr_u32_small: "unat n < 32 \<Longrightarrow> shr_u32 p x n = Ok (drop_bit (unat n) x)"
  by (simp add: shr_u32_def)

lemma unat_drop_bit [rust_arith]: "unat (drop_bit k x :: 'n::len word) = unat x div 2 ^ k"
  by (simp only: unat_drop_bit_eq drop_bit_nat_def)

lemma unat_max_word: "unat (- 1 :: 'n::len word) = 2 ^ LENGTH('n) - 1"
  by (simp add: unsigned_minus_1_eq_mask mask_eq_exp_minus_1)

lemma unat_saturating_add [rust_arith]:
  fixes a b :: "'n::len word"
  shows "unat (saturating_add a b) = min (unat a + unat b) (2 ^ LENGTH('n) - 1)"
proof (cases "unat a + unat b < 2 ^ LENGTH('n)")
  case True
  then show ?thesis by (simp add: saturating_add_def unat_word_ariths)
next
  case False
  moreover from this have "2 ^ LENGTH('n) - 1 \<le> unat a + unat b" by linarith
  ultimately show ?thesis by (simp add: saturating_add_def unat_max_word min_absorb2)
qed

lemma unat_saturating_mul [rust_arith]:
  fixes a b :: "'n::len word"
  shows "unat (saturating_mul a b) = min (unat a * unat b) (2 ^ LENGTH('n) - 1)"
proof (cases "unat a * unat b < 2 ^ LENGTH('n)")
  case True
  then show ?thesis by (simp add: saturating_mul_def unat_word_ariths)
next
  case False
  moreover from this have "2 ^ LENGTH('n) - 1 \<le> unat a * unat b" by linarith
  ultimately show ?thesis by (simp add: saturating_mul_def unat_max_word min_absorb2)
qed

lemma checked_add_Some_iff:
  fixes a b :: "'n::len word"
  shows "checked_add a b = Some c \<longleftrightarrow> unat a + unat b < 2 ^ LENGTH('n) \<and> c = a + b"
  by (auto simp: checked_add_def)

lemma unat_le_max: "unat (t :: 'n::len word) \<le> 2 ^ LENGTH('n) - 1"
  using unsigned_less [of t, where ?'a = nat] by linarith

text \<open>
  A saturating sum compares with a bound of the same type exactly as the unbounded sum does:
  saturation can only stop at the largest value, which no bound exceeds.
\<close>

lemma le_saturating_add_iff [rust_arith]:
  fixes t a b :: "'n::len word"
  shows "t \<le> saturating_add a b \<longleftrightarrow> unat t \<le> unat a + unat b"
  using unat_le_max [of t] by (auto simp: word_le_nat_alt unat_saturating_add)

lemma unat_of_nat_length_u128:
  "length xs < 2 ^ 64 \<Longrightarrow> unat (of_nat (length xs) :: u128) = length xs"
  by (simp add: unat_of_nat)

lemma unat_ucast_u32_u128 [rust_arith]: "unat (ucast (x :: u32) :: u128) = unat x"
  by (simp add: unsigned_ucast_eq take_bit_nat_eq_self_iff order_less_trans [OF unsigned_less])

section \<open>Slots and the elected order placer\<close>

text \<open>
  The reference definitions: a slot is a run of \<open>2 ^ w\<close> relay chain blocks, where the shift amount
  \<open>w\<close> counts modulo 32, and the authorities take turns, one per slot. \<open>shift_ok\<close> says when the
  shift that computes a slot returns.
\<close>

definition slot_number :: "u32 \<Rightarrow> u32 \<Rightarrow> nat" where
  "slot_number relay_height slot_width = unat relay_height div 2 ^ (unat slot_width mod 32)"

definition elected :: "'a list \<Rightarrow> u32 \<Rightarrow> u32 \<Rightarrow> 'a" where
  "elected authorities relay_height slot_width =
     authorities ! (slot_number relay_height slot_width mod length authorities)"

definition shift_ok :: "profile \<Rightarrow> u32 \<Rightarrow> bool" where
  "shift_ok p slot_width \<longleftrightarrow> unat slot_width < 32 \<or> p = Release"

lemma slot_number_bound: "slot_number h w < 2 ^ 32"
proof -
  have "slot_number h w \<le> unat h" by (simp add: slot_number_def)
  also have "\<dots> < 2 ^ 32" using unsigned_less [of h] by simp
  finally show ?thesis .
qed

lemma slot_number_mono: "h \<le> h' \<Longrightarrow> slot_number h w \<le> slot_number h' w"
  by (simp add: slot_number_def word_le_nat_alt div_le_mono)

lemma slot_number_0 [simp]: "slot_number h 0 = unat h"
  by (simp add: slot_number_def)

lemma shr_u32_slot: "shr_u32 p h w = Ok y \<longleftrightarrow> shift_ok p w \<and> unat y = slot_number h w"
proof -
  have "y = drop_bit (unat w mod 32) h \<longleftrightarrow> unat y = slot_number h w"
    by (simp add: slot_number_def flip: unat_drop_bit word_unat_eq_iff)
  then show ?thesis by (simp add: shr_u32_Ok_iff shift_ok_def)
qed

lemma elected_in_set: "authorities \<noteq> [] \<Longrightarrow> elected authorities h w \<in> set authorities"
  by (simp add: elected_def)

text \<open>
  The code reduces the slot modulo the number of authorities at 128 bits and reads the authority
  at the resulting index: this is the elected one.
\<close>

lemma slice_get_elected:
  assumes "authorities \<noteq> []" and "length authorities < 2 ^ 64" and "unat slot = slot_number h w"
  shows "slice_get authorities (ucast ((slot :: u128) mod of_nat (length authorities))) =
         Some (elected authorities h w)"
proof -
  let ?n = "length authorities"
  have "unat (slot mod of_nat ?n) = slot_number h w mod ?n"
    using assms(2,3) by (simp add: unat_mod_distrib unat_of_nat_length_u128)
  moreover have "slot_number h w mod ?n < ?n" using assms(1) by simp
  ultimately have "unat (ucast (slot mod of_nat ?n :: u128) :: usize) = slot_number h w mod ?n"
    using assms(2) by (simp add: unsigned_ucast_eq take_bit_nat_eq_self_iff)
  then show ?thesis
    using assms(1) by (simp add: slice_get_def elected_def)
qed

text \<open>Over as many consecutive slots as there are authorities, each authority has one turn.\<close>

lemma consecutive_turns:
  assumes "0 < n"
  shows "bij_betw (\<lambda>i. (s + i) mod n) {..<n} {..<(n :: nat)}"
proof -
  have "inj_on (\<lambda>i. (s + i) mod n) {..<n}"
  proof (rule inj_onI)
    fix i j assume "i \<in> {..<n}" "j \<in> {..<n}" and eq: "(s + i) mod n = (s + j) mod n"
    then have "\<bar>int i - int j\<bar> < int n" by auto
    moreover from eq have "(int s + int i) mod int n = (int s + int j) mod int n"
      by (metis of_nat_add of_nat_mod)
    then have "int n dvd int i - int j" by (simp add: mod_eq_dvd_iff)
    ultimately show "i = j" using dvd_imp_le_int [of "int i - int j" "int n"] by fastforce
  qed
  moreover have "(\<lambda>i. (s + i) mod n) ` {..<n} \<subseteq> {..<n}" using assms by auto
  ultimately show ?thesis by (simp add: bij_betw_def endo_inj_surj)
qed

section \<open>Acting at most once per slot\<close>

text \<open>
  The on-demand pallet, the order service and the Aura consensus wrapper each remember the last
  slot they acted in and act again only in a later one. The interface they share: a step with the
  label \<open>Some n\<close> acts in slot \<open>n\<close>, any other step keeps the remembered slot. \<open>run\<close> is a sequence
  of steps with its labels.
\<close>

inductive run :: "('s \<Rightarrow> nat option \<Rightarrow> 's \<Rightarrow> bool) \<Rightarrow> 's \<Rightarrow> nat option list \<Rightarrow> 's \<Rightarrow> bool"
  for step where
  run_Nil: "run step s [] s"
| run_Cons: "step s l t \<Longrightarrow> run step t ls u \<Longrightarrow> run step s (l # ls) u"

inductive_cases run_NilE [elim!]: "run step s [] u"
inductive_cases run_ConsE [elim!]: "run step s (l # ls) u"

text \<open>A run with the states it goes through, the first and the last one included.\<close>

inductive trace :: "('s \<Rightarrow> nat option \<Rightarrow> 's \<Rightarrow> bool) \<Rightarrow> 's \<Rightarrow> nat option list \<Rightarrow> 's list \<Rightarrow> bool"
  for step where
  trace_Nil: "trace step s [] [s]"
| trace_Cons: "step s l t \<Longrightarrow> trace step t ls xs \<Longrightarrow> trace step s (l # ls) (s # xs)"

inductive_cases trace_NilE [elim!]: "trace step s [] xs"
inductive_cases trace_ConsE [elim!]: "trace step s (l # ls) xs"

lemma trace_length: "trace step s ls xs \<Longrightarrow> length xs = Suc (length ls)"
  by (induction rule: trace.induct) simp_all

lemma trace_hd: "trace step s ls xs \<Longrightarrow> xs ! 0 = s"
  by (induction rule: trace.induct) simp_all

lemma trace_run: "trace step s ls xs \<Longrightarrow> i < length xs \<Longrightarrow> run step s (take i ls) (xs ! i)"
proof (induction arbitrary: i rule: trace.induct)
  case (trace_Cons s l t ls xs)
  then show ?case by (cases i) (auto intro: run.intros)
qed (simp add: run_Nil)

lemma trace_run_last: "trace step s ls xs \<Longrightarrow> run step s ls (last xs)"
proof (induction rule: trace.induct)
  case (trace_Cons s l t ls xs)
  then show ?case by (cases xs) (auto dest: trace_length intro: run_Cons)
qed (simp add: run_Nil)

lemma run_trace: "run step s ls u \<Longrightarrow> \<exists>xs. trace step s ls xs \<and> last xs = u"
proof (induction rule: run.induct)
  case (run_Cons s l t ls u)
  then obtain xs where "trace step t ls xs" "last xs = u" by blast
  moreover from this have "xs \<noteq> []" by (auto dest: trace_length)
  ultimately show ?case using run_Cons.hyps(1) by (auto intro!: exI [of _ "s # xs"] trace.trace_Cons)
qed (auto intro: trace_Nil)

lemma trace_step: "trace step s ls xs \<Longrightarrow> i < length ls \<Longrightarrow> step (xs ! i) (ls ! i) (xs ! Suc i)"
proof (induction arbitrary: i rule: trace.induct)
  case (trace_Cons s l t ls xs)
  then show ?case by (cases i) (auto simp: trace_hd)
qed simp

definition acted :: "nat option list \<Rightarrow> nat list" where
  "acted ls = map the (filter (\<lambda>l. l \<noteq> None) ls)"

lemma acted_simps [simp]:
  "acted [] = []" "acted (None # ls) = acted ls" "acted (Some n # ls) = n # acted ls"
  by (simp_all add: acted_def)

lemma set_acted: "n \<in> set (acted ls) \<longleftrightarrow> Some n \<in> set ls"
  by (force simp: acted_def)

locale slot_ledger =
  fixes last :: "'s \<Rightarrow> nat"
    and step :: "'s \<Rightarrow> nat option \<Rightarrow> 's \<Rightarrow> bool"
  assumes silent_step: "step s None t \<Longrightarrow> last t = last s"
    and acting_step: "step s (Some n) t \<Longrightarrow> last s < n \<and> last t = n"
begin

lemma step_mono: "step s l t \<Longrightarrow> last s \<le> last t"
  by (cases l) (auto dest: silent_step acting_step)

lemma run_mono: "run step s ls u \<Longrightarrow> last s \<le> last u"
  by (induction rule: run.induct) (auto dest: step_mono)

lemma run_acted_bounds: "run step s ls u \<Longrightarrow> n \<in> set (acted ls) \<Longrightarrow> last s < n \<and> n \<le> last u"
proof (induction rule: run.induct)
  case (run_Nil s)
  then show ?case by simp
next
  case (run_Cons s l t ls u)
  from run_Cons.hyps have "last s \<le> last t" and "last t \<le> last u"
    by (auto dest: step_mono run_mono)
  with run_Cons show ?case
    by (cases l) (auto dest: silent_step acting_step)
qed

lemma run_last_acted: "run step s ls u \<Longrightarrow> last s \<noteq> last u \<Longrightarrow> last u \<in> set (acted ls)"
proof (induction rule: run.induct)
  case (run_Cons s l t ls u)
  then show ?case by (cases l; cases "last t = last u") (auto dest: silent_step acting_step)
qed simp

theorem run_acted_sorted: "run step s ls u \<Longrightarrow> sorted_wrt (<) (acted ls)"
proof (induction rule: run.induct)
  case (run_Nil s)
  then show ?case by simp
next
  case (run_Cons s l t ls u)
  then show ?case
    by (cases l) (auto dest: acting_step run_acted_bounds)
qed

theorem run_acted_distinct: "run step s ls u \<Longrightarrow> distinct (acted ls)"
  using run_acted_sorted strict_sorted_iff by blast

theorem run_acted_count: "run step s ls u \<Longrightarrow> length (acted ls) \<le> last u - last s"
proof (induction rule: run.induct)
  case (run_Nil s)
  then show ?case by simp
next
  case (run_Cons s l t ls u)
  from run_Cons.hyps(2) have "last t \<le> last u" by (rule run_mono)
  with run_Cons show ?case
    by (cases l) (auto dest: silent_step acting_step)
qed

end

end
