(* ===== verification/Order_Primitives.thy ===== *)
theory Order_Primitives
  imports Prelude
begin

text \<open>
  The crate \<open>primitives/order\<close>: the data shared by the order service and the on-demand pallet
  (\<open>lib.rs\<close>), the relay chain storage keys (\<open>well_known_keys.rs\<close>) and the creation of the order
  inherent (\<open>inherent.rs\<close>). The hash functions of \<open>sp_io\<close>, the SCALE encodings and the relay
  chain interface are parameters.
\<close>

section \<open>Data\<close>

record 'proof inherent_data =
  relay_storage_proof :: 'proof
  relay_state_root :: h256
  relay_height :: u32
  para_id :: u32

record 'proof order_inherent_data =
  data :: "'proof inherent_data option"

record order_record =
  relay_block_hash :: "h256 option"
  last_slot :: u32

definition ON_DEMAND_INHERENT_IDENTIFIER :: bytes where
  "ON_DEMAND_INHERENT_IDENTIFIER = [111, 114, 100, 101, 114, 105, 104, 116]"

section \<open>Well-known storage keys\<close>

definition QUEUE_STATUS :: bytes where
  "QUEUE_STATUS =
    [0x8f, 0x32, 0x43, 0x0b, 0x49, 0x60, 0x7f, 0x8d, 0x60, 0xbf, 0xd3,
     0xa0, 0x03, 0xdd, 0xf4, 0xb5, 0x8b, 0xf2, 0x93, 0x30, 0x83, 0x3e,
     0xa7, 0x90, 0x4c, 0x72, 0x09, 0xf4, 0xce, 0x9d, 0x91, 0x7a]"

definition ACTIVE_CONFIG :: bytes where
  "ACTIVE_CONFIG =
    [0x06, 0xde, 0x3d, 0x8a, 0x54, 0xd2, 0x7e, 0x44, 0xa9, 0xd5, 0xce,
     0x18, 0x96, 0x18, 0xf2, 0x2d, 0xb4, 0xb4, 0x9d, 0x95, 0x32, 0x0d,
     0x90, 0x21, 0x99, 0x4c, 0x85, 0x0f, 0x25, 0xb8, 0xe3, 0x85]"

definition PARAS_PARA_LIFECYCLES :: bytes where
  "PARAS_PARA_LIFECYCLES =
    [0xcd, 0x71, 0x0b, 0x30, 0xbd, 0x2e, 0xab, 0x03, 0x52, 0xdd, 0xcc,
     0x26, 0x41, 0x7a, 0xa1, 0x94, 0x28, 0x1e, 0x0b, 0xfd, 0xe1, 0x7b,
     0x36, 0x57, 0x32, 0x08, 0xa0, 0x6c, 0xb5, 0xcf, 0xba, 0x6b]"

definition CORE_DESCRIPTORS :: bytes where
  "CORE_DESCRIPTORS =
    [0x63, 0x85, 0x95, 0xee, 0xba, 0xa4, 0x45, 0xce, 0x03, 0xa1, 0x35,
     0x47, 0xbe, 0xce, 0x90, 0xe7, 0x04, 0xe6, 0xac, 0x77, 0x5a, 0x32,
     0x45, 0x62, 0x31, 0x03, 0xff, 0xec, 0x2c, 0xb2, 0xc9, 0x2f]"

definition SYSTEM_ACCOUNT :: bytes where
  "SYSTEM_ACCOUNT =
    [0x26, 0xaa, 0x39, 0x4e, 0xea, 0x56, 0x30, 0xe0, 0x7c, 0x48, 0xae,
     0x0c, 0x95, 0x58, 0xce, 0xf7, 0xb9, 0x9d, 0x88, 0x0e, 0xc6, 0x81,
     0x79, 0x9c, 0x0c, 0xf3, 0x0e, 0x88, 0x86, 0x37, 0x1d, 0xa9]"

definition EVENTS :: bytes where
  "EVENTS =
    [0x26, 0xaa, 0x39, 0x4e, 0xea, 0x56, 0x30, 0xe0, 0x7c, 0x48, 0xae,
     0x0c, 0x95, 0x58, 0xce, 0xf7, 0x80, 0xd4, 0x1e, 0x5e, 0x16, 0x05,
     0x67, 0x65, 0xbc, 0x84, 0x61, 0x85, 0x10, 0x72, 0xc9, 0xd7]"

definition SESSION_KEY_OWNER :: bytes where
  "SESSION_KEY_OWNER =
    [0xce, 0xc5, 0x07, 0x0d, 0x60, 0x9d, 0xd3, 0x49, 0x7f, 0x72, 0xbd,
     0xe0, 0x7f, 0xc9, 0x6b, 0xa0, 0x72, 0x63, 0x80, 0x40, 0x46, 0x83,
     0xfc, 0x89, 0xe8, 0x23, 0x34, 0x50, 0xc8, 0xaa, 0x19, 0x50]"

record hashers =
  blake2_128 :: "bytes \<Rightarrow> bytes"
  twox_64 :: "bytes \<Rightarrow> bytes"
  twox_256 :: "bytes \<Rightarrow> bytes"

text \<open>
  The last argument is the SCALE encoding (\<open>using_encoded\<close>) of the key the function is called
  with.
\<close>

definition account :: "hashers \<Rightarrow> ('a \<Rightarrow> bytes) \<Rightarrow> 'a \<Rightarrow> bytes" where
  "account h encode acc =
     (let acc = encode acc in SYSTEM_ACCOUNT @ blake2_128 h acc @ acc)"

definition session_key_owner ::
    "hashers \<Rightarrow> (bytes \<times> bytes \<Rightarrow> bytes) \<Rightarrow> bytes \<Rightarrow> bytes \<Rightarrow> bytes" where
  "session_key_owner h encode key_type acc =
     (let encoded = encode (key_type, acc)
      in PARAS_PARA_LIFECYCLES @ twox_64 h encoded @ encoded)"

definition core_descriptor :: "hashers \<Rightarrow> (u32 \<Rightarrow> bytes) \<Rightarrow> u32 \<Rightarrow> bytes" where
  "core_descriptor h encode core_index = CORE_DESCRIPTORS @ twox_256 h (encode core_index)"

definition para_lifecycle :: "hashers \<Rightarrow> (u32 \<Rightarrow> bytes) \<Rightarrow> u32 \<Rightarrow> bytes" where
  "para_lifecycle h encode pid =
     (let pid = encode pid in PARAS_PARA_LIFECYCLES @ twox_64 h pid @ pid)"

section \<open>The order inherent\<close>

record relay_header =
  state_root :: h256
  number :: u32

record ('e, 'proof) relay_reader =
  header :: "h256 \<Rightarrow> 'e + relay_header option"
  header_hash :: "relay_header \<Rightarrow> h256"
  prove_read :: "h256 \<Rightarrow> bytes list \<Rightarrow> 'e + 'proof"

definition collect_relay_storage_proof ::
    "('e, 'proof) relay_reader \<Rightarrow> h256 \<Rightarrow> 'proof option" where
  "collect_relay_storage_proof relay_chain relay_parent =
     (let relevant_keys = [] @ [EVENTS]
      in case prove_read relay_chain relay_parent relevant_keys of
          Inr proof \<Rightarrow> Some proof
        | Inl err \<Rightarrow> None)"

definition create_at ::
    "('e, 'proof) relay_reader \<Rightarrow> h256 option \<Rightarrow> u32 \<Rightarrow> 'proof order_inherent_data option" where
  "create_at relay_chain_interface block_hash pid =
     (case block_hash of
        None \<Rightarrow> Some \<lparr>data = None\<rparr>
      | Some hash \<Rightarrow>
          (case header relay_chain_interface hash of
             Inl e \<Rightarrow> None
           | Inr None \<Rightarrow> None
           | Inr (Some hdr) \<Rightarrow>
               (case collect_relay_storage_proof relay_chain_interface
                       (header_hash relay_chain_interface hdr) of
                  None \<Rightarrow> None
                | Some proof \<Rightarrow>
                    Some \<lparr>data = Some \<lparr>relay_storage_proof = proof,
                                       relay_state_root = state_root hdr,
                                       relay_height = number hdr,
                                       para_id = pid\<rparr>\<rparr>)))"

text \<open>
  \<open>InherentDataProvider\<close>: the inherent data of a block is a value of a type of \<open>sp_inherents\<close>,
  with \<open>put_data\<close> a parameter.
\<close>

record ('inh, 'e, 'proof) inherent_api =
  put_data :: "bytes \<Rightarrow> 'proof order_inherent_data \<Rightarrow> 'inh \<Rightarrow> 'e + 'inh"
  get_data :: "bytes \<Rightarrow> 'inh \<Rightarrow> 'e + 'proof order_inherent_data option"

definition provide_inherent_data ::
    "('inh, 'e, 'proof) inherent_api \<Rightarrow> 'proof order_inherent_data \<Rightarrow> 'inh \<Rightarrow> 'e + 'inh" where
  "provide_inherent_data api self inh = put_data api ON_DEMAND_INHERENT_IDENTIFIER self inh"

definition try_handle_error ::
    "'proof order_inherent_data \<Rightarrow> bytes \<Rightarrow> bytes \<Rightarrow> ('e + unit) option" where
  "try_handle_error self identifier err = None"

section \<open>Lemmas\<close>

lemmas key_constants =
  QUEUE_STATUS_def ACTIVE_CONFIG_def PARAS_PARA_LIFECYCLES_def CORE_DESCRIPTORS_def
  SYSTEM_ACCOUNT_def EVENTS_def SESSION_KEY_OWNER_def

lemmas storage_key_defs = account_def session_key_owner_def core_descriptor_def para_lifecycle_def

lemma length_prefixes [simp]:
  "length SYSTEM_ACCOUNT = 32" "length PARAS_PARA_LIFECYCLES = 32" "length CORE_DESCRIPTORS = 32"
  "length SESSION_KEY_OWNER = 32" "length EVENTS = 32" "length QUEUE_STATUS = 32"
  "length ACTIVE_CONFIG = 32"
  by (simp_all add: key_constants)

lemma prefixes_distinct:
  "distinct [QUEUE_STATUS, ACTIVE_CONFIG, PARAS_PARA_LIFECYCLES, CORE_DESCRIPTORS,
             SYSTEM_ACCOUNT, EVENTS, SESSION_KEY_OWNER]"
  by (simp add: key_constants)

lemma take_32_keys [simp]:
  "take 32 (account h enc a) = SYSTEM_ACCOUNT"
  "take 32 (session_key_owner h enc2 t k) = PARAS_PARA_LIFECYCLES"
  "take 32 (core_descriptor h enc3 c) = CORE_DESCRIPTORS"
  "take 32 (para_lifecycle h enc4 p) = PARAS_PARA_LIFECYCLES"
  by (simp_all add: storage_key_defs Let_def)

text \<open>
  A key with its encoded argument appended (the \<open>Blake2_128Concat\<close> and \<open>Twox64Concat\<close> layouts)
  determines the argument, whatever the hash is, as long as it has a fixed length.
\<close>

lemma concat_layout_inj:
  assumes "\<And>x. length (hash x) = n" and "inj encode"
    and "prefix @ hash (encode a) @ encode a = prefix @ hash (encode b) @ encode b"
  shows "a = b"
proof -
  from assms(3) have "drop n (hash (encode a) @ encode a) = drop n (hash (encode b) @ encode b)"
    by simp
  with assms(1) have "encode a = encode b" by simp
  with assms(2) show ?thesis by (simp add: inj_eq)
qed

section \<open>Storage keys\<close>

text \<open>
  The storage keys tell their arguments and each other apart. For hashes of their documented
  lengths and injective encodings, the account and lifecycle keys are injective whatever the
  hashes are, and keys of different maps differ. The exception is the session key owner: its key
  carries the prefix of the para lifecycles and never the prefix of the key owners.
\<close>

theorem storage_keys_do_not_collide:
  assumes "\<And>x. length (blake2_128 h x) = 16" and "\<And>x. length (twox_64 h x) = 8"
    and "inj enc_account" and "inj enc_u32"
  shows "(account h enc_account a = account h enc_account b \<longleftrightarrow> a = b) \<and>
    (para_lifecycle h enc_u32 p = para_lifecycle h enc_u32 q \<longleftrightarrow> p = q) \<and>
    account h enc_account a \<noteq> para_lifecycle h enc_u32 p \<and>
    account h enc_account a \<noteq> core_descriptor h enc_u32 q \<and>
    para_lifecycle h enc_u32 p \<noteq> core_descriptor h enc_u32 q \<and>
    take 32 (session_key_owner h enc_pair t k) = take 32 (para_lifecycle h enc_u32 p) \<and>
    session_key_owner h enc_pair t k \<noteq> SESSION_KEY_OWNER @ rest"
proof -
  have "account h enc_account a = account h enc_account b \<longrightarrow> a = b"
    using concat_layout_inj [of "blake2_128 h" 16 enc_account SYSTEM_ACCOUNT a b] assms(1,3)
    by (simp add: account_def Let_def)
  moreover have "para_lifecycle h enc_u32 p = para_lifecycle h enc_u32 q \<longrightarrow> p = q"
    using concat_layout_inj [of "twox_64 h" 8 enc_u32 PARAS_PARA_LIFECYCLES p q] assms(2,4)
    by (simp add: para_lifecycle_def Let_def)
  moreover have "x \<noteq> y" if "take 32 x \<noteq> take 32 y" for x y :: bytes
    using that by blast
  then have "account h enc_account a \<noteq> para_lifecycle h enc_u32 p"
    "account h enc_account a \<noteq> core_descriptor h enc_u32 q"
    "para_lifecycle h enc_u32 p \<noteq> core_descriptor h enc_u32 q"
    "session_key_owner h enc_pair t k \<noteq> SESSION_KEY_OWNER @ rest"
    using prefixes_distinct by auto
  ultimately show ?thesis by auto
qed

theorem storage_keys_do_not_collide_witness:
  "account \<lparr>blake2_128 = \<lambda>x. replicate 16 0, twox_64 = \<lambda>x. replicate 8 0, twox_256 = id\<rparr>
     (\<lambda>a. [a]) 1 \<noteq>
   account \<lparr>blake2_128 = \<lambda>x. replicate 16 0, twox_64 = \<lambda>x. replicate 8 0, twox_256 = id\<rparr>
     (\<lambda>a. [a]) (2 :: u8)"
proof -
  have inj: "inj (\<lambda>n :: u32. replicate (unat n) (0 :: u8))"
    by (rule injI) (metis length_replicate word_unat_eq_iff)
  show ?thesis
    using storage_keys_do_not_collide
      [of "\<lparr>blake2_128 = \<lambda>x. replicate 16 0, twox_64 = \<lambda>x. replicate 8 0, twox_256 = id\<rparr>"
        "\<lambda>a :: u8. [a]" "\<lambda>n :: u32. replicate (unat n) (0 :: u8)" 1 2] inj
    by (simp add: inj_def)
qed

end
