(* ===== verification/On_Demand_Pallet.thy ===== *)
theory On_Demand_Pallet
  imports Order_Primitives
begin

text \<open>
  The crate \<open>pallets/on-demand\<close>: the storage, calls, hooks and inherent of the pallet that rewards
  the collator who placed the on-demand order of a slot, and the two implementations it offers for
  its configuration (\<open>FixedReward\<close>, \<open>FeeBasedCriteria\<close>). A runtime's state is the record \<open>chain\<close>:
  the pallet's storage items, the events the pallet has deposited, and the storage of other
  pallets the code reads or writes through the configuration. What the runtime supplies
  (\<open>Config\<close> and the FRAME pallets) is the record \<open>config\<close>, a parameter of every definition.
\<close>

section \<open>Storage, events, errors\<close>

datatype ('thr, 'bal) event =
    SlotWidthSet u32
  | ThresholdParameterSet 'thr
  | OrderPlacerRewarded account_id 'bal
  | BulkModeSet bool

datatype pallet_error =
    InvalidProof
  | FailedProofReading
  | FailedToGetOrderPlacerAccount
  | FailedToDecodeInherentData

datatype dispatch_error = BadOrigin | Module pallet_error

record ('auth, 'vid, 'thr, 'cur, 'bal) chain =
  Authorities :: "'auth list"
  SlotWidth :: u32
  ThresholdParameter :: 'thr
  BulkMode :: "unit option"
  PreviousSlot :: u128
  Events :: "('thr, 'bal) event list"
  Aura_Authorities :: "'auth list"
  KeyOwner :: "bytes \<times> bytes \<Rightarrow> 'vid option"
  Currency :: 'cur

text \<open>
  The configuration: \<open>ensure_none\<close> and \<open>ensure_origin_or_root\<close> say which origins pass the two
  origin checks, \<open>relay_chain_state_proof_new\<close> is \<open>RelayChainStateProof::new\<close> with \<open>None\<close> for an
  error, \<open>key_type_AURA\<close> the key type the session pallet files Aura keys under.
\<close>

record ('origin, 'auth, 'vid, 'thr, 'cur, 'bal, 'proof, 'rsp) config =
  ensure_none :: "'origin \<Rightarrow> bool"
  ensure_origin_or_root :: "'origin \<Rightarrow> bool"
  key_type_AURA :: bytes
  to_raw_vec :: "'auth \<Rightarrow> bytes"
  ValidatorIdOf :: "account_id \<Rightarrow> 'vid option"
  ToAccountId :: "'vid \<Rightarrow> account_id"
  OnReward :: "account_id \<Rightarrow> ('auth, 'vid, 'thr, 'cur, 'bal) chain \<Rightarrow>
     ('auth, 'vid, 'thr, 'cur, 'bal) chain"
  should_place_order :: "('auth, 'vid, 'thr, 'cur, 'bal) chain \<Rightarrow> bool"
  relay_chain_state_proof_new :: "u32 \<Rightarrow> h256 \<Rightarrow> 'proof \<Rightarrow> 'rsp option"
  orders_placed :: "'rsp \<Rightarrow> u32 \<Rightarrow> ('bal \<times> account_id) list"

definition deposit_event ::
    "('thr, 'bal) event \<Rightarrow> ('auth, 'vid, 'thr, 'cur, 'bal) chain \<Rightarrow>
     ('auth, 'vid, 'thr, 'cur, 'bal) chain" where
  "deposit_event e s = s\<lparr>Events := Events s @ [e]\<rparr>"

record 'thr genesis_config =
  threshold_parameter :: 'thr
  bulk_mode :: bool

definition build ::
    "'thr genesis_config \<Rightarrow> ('auth, 'vid, 'thr, 'cur, 'bal) chain \<Rightarrow>
     ('auth, 'vid, 'thr, 'cur, 'bal) chain" where
  "build self s =
     (let s = s\<lparr>ThresholdParameter := threshold_parameter self\<rparr>
      in if bulk_mode self then s\<lparr>BulkMode := Some ()\<rparr> else s)"

section \<open>Hooks and helpers\<close>

definition on_finalize ::
    "('auth, 'vid, 'thr, 'cur, 'bal) chain \<Rightarrow> ('auth, 'vid, 'thr, 'cur, 'bal) chain" where
  "on_finalize s = s\<lparr>Authorities := Aura_Authorities s\<rparr>"

definition slot_at ::
    "profile \<Rightarrow> ('auth, 'vid, 'thr, 'cur, 'bal) chain \<Rightarrow> u32 \<Rightarrow> ('e, u128) outcome" where
  "slot_at p s height =
     obind (shr_u32 p height (SlotWidth s)) (\<lambda>slot. Ok (ucast slot))"

definition order_placer_at ::
    "profile \<Rightarrow> ('auth, 'vid, 'thr, 'cur, 'bal) chain \<Rightarrow> u32 \<Rightarrow> ('e, 'auth option) outcome" where
  "order_placer_at p s height =
     obind (slot_at p s height) (\<lambda>slot.
     obind (rem_u128 slot (of_nat (length (Authorities s)))) (\<lambda>indx.
     Ok (slice_get (Authorities s) (ucast indx))))"

section \<open>Calls\<close>

datatype ('thr, 'proof) call =
    Create_order "'proof order_inherent_data"
  | Set_slot_width u32
  | Set_threshold_parameter 'thr
  | Set_bulk_mode bool

definition create_order ::
    "profile \<Rightarrow> ('origin, 'auth, 'vid, 'thr, 'cur, 'bal, 'proof, 'rsp) config \<Rightarrow> 'origin \<Rightarrow>
     'proof order_inherent_data \<Rightarrow> ('auth, 'vid, 'thr, 'cur, 'bal) chain \<Rightarrow>
     (dispatch_error, ('auth, 'vid, 'thr, 'cur, 'bal) chain) outcome" where
  "create_order p cfg origin d s =
     (if \<not> ensure_none cfg origin then Err BadOrigin
      else case data d of
        None \<Rightarrow> Ok s
      | Some dt \<Rightarrow>
          if BulkMode s \<noteq> None then Ok s
          else if length (Authorities s) = 0 then Ok s
          else if \<not> should_place_order cfg s then Ok s
          else obind (slot_at p s (relay_height dt)) (\<lambda>slot.
            if slot \<le> PreviousSlot s then Ok s
            else case relay_chain_state_proof_new cfg (para_id dt) (relay_state_root dt)
                        (relay_storage_proof dt) of
              None \<Rightarrow> Panic ''Invalid relay chain state proof''
            | Some relay_state_proof \<Rightarrow>
                let result = orders_placed cfg relay_state_proof (para_id dt) in
                obind (order_placer_at p s (relay_height dt)) (\<lambda>placer.
                case placer of
                  None \<Rightarrow> Ok s
                | Some order_placer \<Rightarrow>
                    (case KeyOwner s (key_type_AURA cfg, to_raw_vec cfg order_placer) of
                       None \<Rightarrow> Err (Module FailedToGetOrderPlacerAccount)
                     | Some order_placer_acc \<Rightarrow>
                         if \<not> list_ex (\<lambda>(_, ordered_by).
                               ValidatorIdOf cfg ordered_by = Some order_placer_acc) result
                         then Ok s
                         else Ok ((OnReward cfg (ToAccountId cfg order_placer_acc) s)
                                    \<lparr>PreviousSlot := slot\<rparr>)))))"

definition set_slot_width ::
    "('origin, 'auth, 'vid, 'thr, 'cur, 'bal, 'proof, 'rsp) config \<Rightarrow> 'origin \<Rightarrow> u32 \<Rightarrow>
     ('auth, 'vid, 'thr, 'cur, 'bal) chain \<Rightarrow>
     (dispatch_error, ('auth, 'vid, 'thr, 'cur, 'bal) chain) outcome" where
  "set_slot_width cfg origin width s =
     (if \<not> ensure_origin_or_root cfg origin then Err BadOrigin
      else Ok (deposit_event (SlotWidthSet width) (s\<lparr>SlotWidth := width\<rparr>)))"

definition set_threshold_parameter ::
    "('origin, 'auth, 'vid, 'thr, 'cur, 'bal, 'proof, 'rsp) config \<Rightarrow> 'origin \<Rightarrow> 'thr \<Rightarrow>
     ('auth, 'vid, 'thr, 'cur, 'bal) chain \<Rightarrow>
     (dispatch_error, ('auth, 'vid, 'thr, 'cur, 'bal) chain) outcome" where
  "set_threshold_parameter cfg origin parameter s =
     (if \<not> ensure_origin_or_root cfg origin then Err BadOrigin
      else Ok (deposit_event (ThresholdParameterSet parameter)
                 (s\<lparr>ThresholdParameter := parameter\<rparr>)))"

definition set_bulk_mode ::
    "('origin, 'auth, 'vid, 'thr, 'cur, 'bal, 'proof, 'rsp) config \<Rightarrow> 'origin \<Rightarrow> bool \<Rightarrow>
     ('auth, 'vid, 'thr, 'cur, 'bal) chain \<Rightarrow>
     (dispatch_error, ('auth, 'vid, 'thr, 'cur, 'bal) chain) outcome" where
  "set_bulk_mode cfg origin mode s =
     (if \<not> ensure_origin_or_root cfg origin then Err BadOrigin
      else let s = (if mode then s\<lparr>BulkMode := Some ()\<rparr> else s\<lparr>BulkMode := None\<rparr>)
           in Ok (deposit_event (BulkModeSet mode) s))"

fun dispatch ::
    "profile \<Rightarrow> ('origin, 'auth, 'vid, 'thr, 'cur, 'bal, 'proof, 'rsp) config \<Rightarrow> 'origin \<Rightarrow>
     ('thr, 'proof) call \<Rightarrow> ('auth, 'vid, 'thr, 'cur, 'bal) chain \<Rightarrow>
     (dispatch_error, ('auth, 'vid, 'thr, 'cur, 'bal) chain) outcome" where
  "dispatch p cfg origin (Create_order d) s = create_order p cfg origin d s"
| "dispatch p cfg origin (Set_slot_width w) s = set_slot_width cfg origin w s"
| "dispatch p cfg origin (Set_threshold_parameter t) s = set_threshold_parameter cfg origin t s"
| "dispatch p cfg origin (Set_bulk_mode b) s = set_bulk_mode cfg origin b s"

section \<open>The inherent\<close>

definition create_inherent ::
    "('inh, 'e, 'proof) inherent_api \<Rightarrow> 'inh \<Rightarrow> ('x, ('thr, 'proof) call option) outcome" where
  "create_inherent api inh =
     (case get_data api ON_DEMAND_INHERENT_IDENTIFIER inh of
        Inr (Some d) \<Rightarrow> Ok (Some (Create_order d))
      | _ \<Rightarrow> Panic ''there is not data to be posted; qed'')"

fun is_inherent :: "('thr, 'proof) call \<Rightarrow> bool" where
  "is_inherent (Create_order d) = True"
| "is_inherent _ = False"

section \<open>Rewards and criteria offered to the configuration\<close>

text \<open>
  \<open>mint_into\<close> is the currency's: it returns whether it failed and the currency's next state.
\<close>

definition reward ::
    "(account_id \<Rightarrow> 'bal \<Rightarrow> 'cur \<Rightarrow> ('err + unit) \<times> 'cur) \<Rightarrow> 'bal \<Rightarrow> account_id \<Rightarrow>
     ('auth, 'vid, 'thr, 'cur, 'bal) chain \<Rightarrow> ('auth, 'vid, 'thr, 'cur, 'bal) chain" where
  "reward mint_into reward_size rewardee s =
     (case mint_into rewardee reward_size (Currency s) of
        (Inl e, c) \<Rightarrow> s\<lparr>Currency := c\<rparr>
      | (Inr _, c) \<Rightarrow>
          deposit_event (OrderPlacerRewarded rewardee reward_size) (s\<lparr>Currency := c\<rparr>))"

definition fixed_reward_size :: "'b::len word \<Rightarrow> 'b word" where
  "fixed_reward_size amount = saturating_add 0 amount"

record ('s, 'w, 'fixed, 'fee) fee_env =
  block_weight_total :: "'s \<Rightarrow> 'w"
  weight_to_fee :: "'w \<Rightarrow> 'fee"
  next_fee_multiplier :: "'s \<Rightarrow> 'fixed"
  saturating_mul_int :: "'fixed \<Rightarrow> 'fee \<Rightarrow> 'fee"
  all_extrinsics_len :: "'s \<Rightarrow> u32 option"
  length_to_fee :: "u32 \<Rightarrow> 'fee"
  base_weight :: 'w

definition fee_based_should_place_order ::
    "(('auth, 'vid, 'b::len word, 'cur, 'bal) chain, 'w, 'fixed, 'b word) fee_env \<Rightarrow>
     ('auth, 'vid, 'b word, 'cur, 'bal) chain \<Rightarrow> bool" where
  "fee_based_should_place_order env s =
     (let total_weight = block_weight_total env s;
          unadjusted_weight_fee = weight_to_fee env total_weight;
          multiplier = next_fee_multiplier env s;
          adjusted_weight_fee = saturating_mul_int env multiplier unadjusted_weight_fee;
          all_xt_len = (case all_extrinsics_len env s of None \<Rightarrow> 0 | Some n \<Rightarrow> n);
          len_fee = length_to_fee env all_xt_len;
          base = weight_to_fee env (base_weight env);
          total_fees = saturating_add (saturating_add base adjusted_weight_fee) len_fee
      in ThresholdParameter s \<le> total_fees)"

section \<open>Slots and the order placer\<close>

lemma slot_at_Ok_iff:
  "slot_at p s h = Ok slot \<longleftrightarrow>
     shift_ok p (SlotWidth s) \<and> unat slot = slot_number h (SlotWidth s)"
proof -
  have "(\<exists>y :: u32. unat y = slot_number h w \<and> slot = ucast y) \<longleftrightarrow> unat slot = slot_number h w" for w
  proof
    assume r: "unat slot = slot_number h w"
    have "unat (of_nat (slot_number h w) :: u32) = slot_number h w"
      using slot_number_bound [of h w] by (simp add: unat_of_nat)
    moreover from this r have "slot = ucast (of_nat (slot_number h w) :: u32)"
      by (simp add: word_unat_eq_iff rust_arith)
    ultimately show "\<exists>y :: u32. unat y = slot_number h w \<and> slot = ucast y" by blast
  qed (auto simp: rust_arith)
  then show ?thesis
    by (auto simp: slot_at_def obind_eq_Ok_iff shr_u32_slot)
qed

lemma slot_at_total: "shift_ok p (SlotWidth s) \<Longrightarrow> \<exists>slot. slot_at p s h = Ok slot"
  by (auto simp: slot_at_def obind_eq_Ok_iff shr_u32_Ok_iff shift_ok_def)

lemma slot_at_not_Err [simp]: "slot_at p s h \<noteq> Err e"
  by (simp add: slot_at_def obind_eq_Err_iff)

lemma is_panic_slot_at: "is_panic (slot_at p s h) \<longleftrightarrow> \<not> shift_ok p (SlotWidth s)"
  by (auto simp: slot_at_def is_panic_obind is_panic_shr_u32 shift_ok_def intro: profile.exhaust)

lemma order_placer_at_elected:
  assumes "Authorities s \<noteq> []" and "length (Authorities s) < 2 ^ 64" and "shift_ok p (SlotWidth s)"
  shows "(order_placer_at p s h :: ('e, 'auth option) outcome) =
         Ok (Some (elected (Authorities s) h (SlotWidth s)))"
proof -
  from slot_at_total [OF assms(3)] obtain slot
    where slot: "(slot_at p s h :: ('e, u128) outcome) = Ok slot" by blast
  then have "unat slot = slot_number h (SlotWidth s)" by (simp add: slot_at_Ok_iff)
  moreover have "(of_nat (length (Authorities s)) :: u128) \<noteq> 0"
    using assms(1,2) unat_of_nat_length_u128 [OF assms(2)] by (metis length_0_conv unsigned_0)
  ultimately show ?thesis
    using slot assms(1,2) by (simp add: order_placer_at_def rem_u128_def slice_get_elected)
qed

section \<open>What create_order decides\<close>

text \<open>
  The specification of a reward: the inherent comes without an origin, on-demand mode is on, there
  are authorities, the runtime's criteria are met, the slot of the order's relay block is later
  than the last rewarded one, the state proof is valid, the elected authority has an owner \<open>vid\<close>
  in the session pallet, and the proof shows an order placed by that owner.
\<close>

definition reward_due ::
    "('origin, 'auth, 'vid, 'thr, 'cur, 'bal, 'proof, 'rsp) config \<Rightarrow> 'origin \<Rightarrow>
     'proof order_inherent_data \<Rightarrow> ('auth, 'vid, 'thr, 'cur, 'bal) chain \<Rightarrow> nat \<Rightarrow> 'vid \<Rightarrow> bool" where
  "reward_due cfg origin d s slot vid \<longleftrightarrow>
     ensure_none cfg origin \<and> BulkMode s = None \<and> Authorities s \<noteq> [] \<and>
     should_place_order cfg s \<and> unat (PreviousSlot s) < slot \<and>
     (\<exists>dt rsp. data d = Some dt \<and> slot = slot_number (relay_height dt) (SlotWidth s) \<and>
        relay_chain_state_proof_new cfg (para_id dt) (relay_state_root dt)
          (relay_storage_proof dt) = Some rsp \<and>
        KeyOwner s (key_type_AURA cfg,
          to_raw_vec cfg (elected (Authorities s) (relay_height dt) (SlotWidth s))) = Some vid \<and>
        (\<exists>(b, ordered_by) \<in> set (orders_placed cfg rsp (para_id dt)).
           ValidatorIdOf cfg ordered_by = Some vid))"

lemma reward_due_unique:
  "reward_due cfg o1 d s n v \<Longrightarrow> reward_due cfg o2 d s n' v' \<Longrightarrow> n = n' \<and> v = v'"
  by (auto simp: reward_due_def)

text \<open>The next state where a reward is due, and the well-formedness of the authority list.\<close>

definition rewarded ::
    "('origin, 'auth, 'vid, 'thr, 'cur, 'bal, 'proof, 'rsp) config \<Rightarrow>
     ('auth, 'vid, 'thr, 'cur, 'bal) chain \<Rightarrow> nat \<Rightarrow> 'vid \<Rightarrow>
     ('auth, 'vid, 'thr, 'cur, 'bal) chain" where
  "rewarded cfg s slot vid = (OnReward cfg (ToAccountId cfg vid) s)\<lparr>PreviousSlot := of_nat slot\<rparr>"

definition wf_chain :: "('auth, 'vid, 'thr, 'cur, 'bal) chain \<Rightarrow> bool" where
  "wf_chain s \<longleftrightarrow> length (Authorities s) < 2 ^ 64 \<and> length (Aura_Authorities s) < 2 ^ 64"

lemma wf_chain_Authorities: "wf_chain s \<Longrightarrow> length (Authorities s) < 2 ^ 64"
  by (simp add: wf_chain_def)

lemma slot_le_PreviousSlot: "unat slot = n \<Longrightarrow> (slot :: u128) \<le> PreviousSlot s \<longleftrightarrow> n \<le> unat (PreviousSlot s)"
  by (simp add: word_le_nat_alt)

lemma of_nat_slot: "unat slot = n \<Longrightarrow> (of_nat n :: u128) = slot"
  by auto

definition skips ::
    "('origin, 'auth, 'vid, 'thr, 'cur, 'bal, 'proof, 'rsp) config \<Rightarrow>
     'proof order_inherent_data \<Rightarrow> ('auth, 'vid, 'thr, 'cur, 'bal) chain \<Rightarrow> bool" where
  "skips cfg d s \<longleftrightarrow>
     data d = None \<or> BulkMode s \<noteq> None \<or> Authorities s = [] \<or> \<not> should_place_order cfg s"

lemma create_order_bad_origin: "\<not> ensure_none cfg origin \<Longrightarrow> create_order p cfg origin d s = Err BadOrigin"
  by (simp add: create_order_def)

lemma create_order_skips:
  "ensure_none cfg origin \<Longrightarrow> skips cfg d s \<Longrightarrow> create_order p cfg origin d s = Ok s"
  by (auto simp: create_order_def skips_def split: option.splits)

lemma create_order_shift_panic:
  assumes "ensure_none cfg origin" and "\<not> skips cfg d s" and "\<not> shift_ok p (SlotWidth s)"
  shows "is_panic (create_order p cfg origin d s)"
  using assms by (auto simp: create_order_def skips_def is_panic_obind is_panic_slot_at)

lemma create_order_early:
  assumes "\<not> (ensure_none cfg origin \<and> \<not> skips cfg d s \<and> shift_ok p (SlotWidth s))"
  obtains (bad_origin) "\<not> ensure_none cfg origin" "create_order p cfg origin d s = Err BadOrigin"
  | (skipped) "ensure_none cfg origin" "skips cfg d s" "create_order p cfg origin d s = Ok s"
  | (shift) m where "ensure_none cfg origin" "\<not> skips cfg d s" "\<not> shift_ok p (SlotWidth s)"
      "create_order p cfg origin d s = Panic m"
  using assms
  by (metis create_order_bad_origin create_order_skips create_order_shift_panic is_panic_iff)

lemma create_order_checked:
  assumes "ensure_none cfg origin" and "\<not> skips cfg d s" and "data d = Some dt"
    and "wf_chain s" and "shift_ok p (SlotWidth s)"
    and n: "n = slot_number (relay_height dt) (SlotWidth s)"
  shows "create_order p cfg origin d s =
    (if n \<le> unat (PreviousSlot s) then Ok s
     else case relay_chain_state_proof_new cfg (para_id dt) (relay_state_root dt)
            (relay_storage_proof dt) of
       None \<Rightarrow> Panic ''Invalid relay chain state proof''
     | Some rsp \<Rightarrow>
         (case KeyOwner s (key_type_AURA cfg,
            to_raw_vec cfg (elected (Authorities s) (relay_height dt) (SlotWidth s))) of
            None \<Rightarrow> Err (Module FailedToGetOrderPlacerAccount)
          | Some vid \<Rightarrow>
              if \<exists>(b, ordered_by) \<in> set (orders_placed cfg rsp (para_id dt)).
                   ValidatorIdOf cfg ordered_by = Some vid
              then Ok (rewarded cfg s n vid) else Ok s))"
proof -
  from assms(2,3) have early: "BulkMode s = None" "Authorities s \<noteq> []" "should_place_order cfg s"
    by (auto simp: skips_def)
  from slot_at_total [OF assms(5)] obtain slot
    where slot: "(slot_at p s (relay_height dt) :: (dispatch_error, u128) outcome) = Ok slot"
    by blast
  then have un: "unat slot = n" by (simp add: slot_at_Ok_iff n)
  have placer: "(order_placer_at p s (relay_height dt) :: (dispatch_error, 'b option) outcome) =
      Ok (Some (elected (Authorities s) (relay_height dt) (SlotWidth s)))"
    using early(2) wf_chain_Authorities [OF assms(4)] assms(5) by (rule order_placer_at_elected)
  show ?thesis
    using assms(1,3) early
    by (auto simp: create_order_def slot placer slot_le_PreviousSlot [OF un] rewarded_def
        of_nat_slot [OF un] list_ex_iff split: option.splits)
qed

lemma create_order_cases:
  assumes "wf_chain s"
  obtains (bad_origin) "\<not> ensure_none cfg origin" "create_order p cfg origin d s = Err BadOrigin"
  | (silent) "\<nexists>n v. reward_due cfg origin d s n v" "create_order p cfg origin d s = Ok s"
  | (no_owner) "\<nexists>n v. reward_due cfg origin d s n v"
      "create_order p cfg origin d s = Err (Module FailedToGetOrderPlacerAccount)"
  | (panics) "is_panic (create_order p cfg origin d s)"
      "\<not> shift_ok p (SlotWidth s) \<or>
       (\<exists>dt. data d = Some dt \<and> relay_chain_state_proof_new cfg (para_id dt) (relay_state_root dt)
          (relay_storage_proof dt) = None)"
  | (rewards) n v where "reward_due cfg origin d s n v"
      "create_order p cfg origin d s = Ok (rewarded cfg s n v)"
proof (cases "ensure_none cfg origin")
  case False
  then show ?thesis by (intro bad_origin create_order_bad_origin)
next
  case origin: True
  show ?thesis
  proof (cases "skips cfg d s")
    case True
    then have "\<nexists>n v. reward_due cfg origin d s n v" by (auto simp: skips_def reward_due_def)
    then show ?thesis using origin True by (intro silent create_order_skips)
  next
    case no_skip: False
    show ?thesis
    proof (cases "shift_ok p (SlotWidth s)")
      case False
      with origin no_skip show ?thesis by (intro panics create_order_shift_panic) auto
    next
      case shift: True
      from no_skip obtain dt where dt: "data d = Some dt" by (auto simp: skips_def)
      note eq = create_order_checked [OF origin no_skip dt assms shift refl]
      show ?thesis
      proof (cases "\<exists>n v. reward_due cfg origin d s n v")
        case True
        then obtain n v where due: "reward_due cfg origin d s n v" by blast
        with dt have "create_order p cfg origin d s = Ok (rewarded cfg s n v)"
          unfolding eq by (auto simp: reward_due_def)
        with due show ?thesis by (rule rewards)
      next
        case False
        with origin no_skip dt have "is_panic (create_order p cfg origin d s) \<and>
            relay_chain_state_proof_new cfg (para_id dt) (relay_state_root dt)
              (relay_storage_proof dt) = None \<or>
          create_order p cfg origin d s \<in> {Ok s, Err (Module FailedToGetOrderPlacerAccount)}"
          unfolding eq by (auto simp: reward_due_def skips_def split: option.splits)
        with False dt show ?thesis by (auto intro: silent no_owner panics)
      qed
    qed
  qed
qed

lemma create_order_due:
  assumes "wf_chain s" and "reward_due cfg origin d s n v" and "shift_ok p (SlotWidth s)"
  shows "create_order p cfg origin d s = Ok (rewarded cfg s n v)"
  using assms(1)
proof (cases rule: create_order_cases [where cfg = cfg and origin = origin and d = d and p = p])
  case (rewards m w)
  with assms(2) show ?thesis by (auto dest: reward_due_unique)
qed (use assms(2,3) in \<open>auto simp: reward_due_def\<close>)

lemma create_order_Ok_cases:
  assumes "create_order p cfg origin d s = Ok t" and "wf_chain s"
  obtains (silent) "t = s" "\<nexists>n v. reward_due cfg origin d s n v"
  | (rewards) n v where "t = rewarded cfg s n v" "reward_due cfg origin d s n v"
  using assms(2)
  by (cases rule: create_order_cases [where cfg = cfg and origin = origin and d = d and p = p])
    (use assms(1) in \<open>auto intro: silent rewards\<close>)

section \<open>The reward hook\<close>

text \<open>
  What \<open>create_order\<close> relies on in the configured \<open>OnReward\<close>: it touches neither the pallet's
  storage nor the authorities. The pallet's own \<open>reward\<close> provides it, for every currency and
  reward size.
\<close>

locale reward_hook =
  fixes on_reward :: "account_id \<Rightarrow> ('auth, 'vid, 'thr, 'cur, 'bal) chain \<Rightarrow>
    ('auth, 'vid, 'thr, 'cur, 'bal) chain"
  assumes keeps_Authorities: "Authorities (on_reward a s) = Authorities s"
    and keeps_SlotWidth: "SlotWidth (on_reward a s) = SlotWidth s"
    and keeps_ThresholdParameter: "ThresholdParameter (on_reward a s) = ThresholdParameter s"
    and keeps_BulkMode: "BulkMode (on_reward a s) = BulkMode s"
    and keeps_Aura_Authorities: "Aura_Authorities (on_reward a s) = Aura_Authorities s"
    and keeps_KeyOwner: "KeyOwner (on_reward a s) = KeyOwner s"
begin

lemmas keeps = keeps_Authorities keeps_SlotWidth keeps_ThresholdParameter keeps_BulkMode
  keeps_Aura_Authorities keeps_KeyOwner

lemma create_order_keeps_configuration:
  assumes "OnReward cfg = on_reward" and "wf_chain s" and "create_order p cfg origin d s = Ok t"
  shows "SlotWidth t = SlotWidth s \<and> ThresholdParameter t = ThresholdParameter s \<and>
         BulkMode t = BulkMode s \<and> Authorities t = Authorities s"
  using assms(3,2) by (cases rule: create_order_Ok_cases) (simp_all add: rewarded_def keeps assms(1))

lemma create_order_wf:
  assumes "OnReward cfg = on_reward" and "wf_chain s" and "create_order p cfg origin d s = Ok t"
  shows "wf_chain t"
  using assms(3,2)
  by (cases rule: create_order_Ok_cases)
    (use assms(2) in \<open>simp_all add: rewarded_def keeps assms(1) wf_chain_def\<close>)

end

lemma deposit_event_simps [simp]:
  "Authorities (deposit_event e s) = Authorities s" "SlotWidth (deposit_event e s) = SlotWidth s"
  "ThresholdParameter (deposit_event e s) = ThresholdParameter s"
  "BulkMode (deposit_event e s) = BulkMode s" "PreviousSlot (deposit_event e s) = PreviousSlot s"
  "Aura_Authorities (deposit_event e s) = Aura_Authorities s"
  "KeyOwner (deposit_event e s) = KeyOwner s" "Currency (deposit_event e s) = Currency s"
  "Events (deposit_event e s) = Events s @ [e]"
  by (simp_all add: deposit_event_def)

interpretation pallet_reward: reward_hook "reward mint_into reward_size" for mint_into reward_size
  by unfold_locales (simp_all add: reward_def split: prod.split sum.split)

section \<open>Runs of the pallet\<close>

text \<open>
  The steps of a chain that carries the pallet: a call that succeeds, labelled with the slot it
  rewards if it rewards one, a call that fails and is rolled back, the end of a block, and any
  change other pallets make to their own storage.
\<close>

inductive pallet_step ::
    "profile \<Rightarrow> ('origin, 'auth, 'vid, 'thr, 'cur, 'bal, 'proof, 'rsp) config \<Rightarrow>
     ('auth, 'vid, 'thr, 'cur, 'bal) chain \<Rightarrow> nat option \<Rightarrow>
     ('auth, 'vid, 'thr, 'cur, 'bal) chain \<Rightarrow> bool"
  for p cfg where
  rewarding_call: "wf_chain s \<Longrightarrow> dispatch p cfg origin (Create_order d) s = Ok t \<Longrightarrow>
     reward_due cfg origin d s n v \<Longrightarrow> pallet_step p cfg s (Some n) t"
| silent_call: "wf_chain s \<Longrightarrow> dispatch p cfg origin c s = Ok t \<Longrightarrow>
     (\<And>d n v. c = Create_order d \<Longrightarrow> \<not> reward_due cfg origin d s n v) \<Longrightarrow>
     pallet_step p cfg s None t"
| failed_call: "dispatch p cfg origin c s = Err e \<Longrightarrow> pallet_step p cfg s None s"
| end_of_block: "pallet_step p cfg s None (on_finalize s)"
| other_pallets: "pallet_step p cfg s None
     (s\<lparr>Aura_Authorities := auths, KeyOwner := owners, Currency := c\<rparr>)"

lemmas setter_defs = set_slot_width_def set_threshold_parameter_def set_bulk_mode_def

lemma setter_keeps_PreviousSlot:
  "dispatch p cfg origin c s = Ok t \<Longrightarrow> \<not> is_inherent c \<Longrightarrow> PreviousSlot t = PreviousSlot s"
  by (cases c) (auto simp: setter_defs Let_def split: if_splits)

lemma reward_due_slot_bound: "reward_due cfg origin d s n v \<Longrightarrow> n < 2 ^ 32"
  unfolding reward_due_def using slot_number_bound by blast

lemma unat_PreviousSlot_rewarded:
  "reward_due cfg origin d s n v \<Longrightarrow> unat (PreviousSlot (rewarded cfg s n v)) = n"
  by (drule reward_due_slot_bound) (simp add: rewarded_def unat_of_nat)

lemma create_order_rewards:
  assumes "wf_chain s" and "create_order p cfg origin d s = Ok t"
    and "reward_due cfg origin d s n v"
  shows "t = rewarded cfg s n v"
  using assms(2,1)
  by (cases rule: create_order_Ok_cases) (use assms(3) in \<open>auto dest: reward_due_unique\<close>)

lemma create_order_silent:
  assumes "wf_chain s" and "create_order p cfg origin d s = Ok t"
    and "\<nexists>n v. reward_due cfg origin d s n v"
  shows "t = s"
  using assms(2,1) by (cases rule: create_order_Ok_cases) (use assms(3) in auto)

lemma pallet_silent_step:
  assumes "pallet_step p cfg s None t"
  shows "PreviousSlot t = PreviousSlot s"
  using assms
proof cases
  case (silent_call origin c)
  show ?thesis
  proof (cases c)
    case (Create_order d)
    with silent_call have "t = s" by (intro create_order_silent [of s p cfg origin d]) auto
    then show ?thesis by simp
  qed (use silent_call setter_keeps_PreviousSlot in fastforce)+
qed (auto simp: on_finalize_def)

lemma pallet_rewarding_step:
  assumes "pallet_step p cfg s (Some n) t"
  shows "unat (PreviousSlot s) < n \<and> unat (PreviousSlot t) = n"
  using assms
proof cases
  case (rewarding_call origin d v)
  then have "t = rewarded cfg s n v" by (auto intro: create_order_rewards)
  with rewarding_call show ?thesis
    by (simp add: unat_PreviousSlot_rewarded) (simp add: reward_due_def)
qed

interpretation pallet_ledger:
  slot_ledger "\<lambda>s. unat (PreviousSlot s)" "pallet_step p cfg" for p cfg
  by unfold_locales (auto dest: pallet_silent_step pallet_rewarding_step)

lemma setter_unauthorised:
  "\<not> ensure_origin_or_root cfg origin \<Longrightarrow> \<not> is_inherent c \<Longrightarrow>
   dispatch p cfg origin c s = Err BadOrigin"
  by (cases c) (simp_all add: setter_defs)

lemma setter_Ok_authorised:
  "dispatch p cfg origin c s = Ok t \<Longrightarrow> \<not> is_inherent c \<Longrightarrow> ensure_origin_or_root cfg origin"
  using setter_unauthorised by fastforce

context reward_hook
begin

lemma step_Authorities:
  assumes "OnReward cfg = on_reward" and "pallet_step p cfg s l t"
  shows "Authorities t = Authorities s \<or> t = on_finalize s"
  using assms(2)
proof cases
  case (rewarding_call origin d n v)
  then have "create_order p cfg origin d s = Ok t" by simp
  from create_order_keeps_configuration [OF assms(1) rewarding_call(2) this] show ?thesis by simp
next
  case (silent_call origin c)
  show ?thesis
  proof (cases c)
    case (Create_order d)
    with silent_call(3) have "create_order p cfg origin d s = Ok t" by simp
    from create_order_keeps_configuration [OF assms(1) silent_call(2) this] show ?thesis by simp
  qed (use silent_call(3) in \<open>auto simp: setter_defs Let_def split: if_splits\<close>)
qed auto

text \<open>
  The authorities in use are those the run began with, or Aura's at the end of an earlier block of
  the run.
\<close>

lemma trace_Authorities:
  assumes "OnReward cfg = on_reward" and tr: "trace (pallet_step p cfg) s ls xs" and "i \<le> length ls"
  shows "Authorities (xs ! i) = Authorities s \<or>
    (\<exists>k < i. xs ! Suc k = on_finalize (xs ! k) \<and> Authorities (xs ! i) = Aura_Authorities (xs ! k))"
  using assms(3)
proof (induction i)
  case 0
  then show ?case by (simp add: trace_hd [OF tr])
next
  case (Suc i)
  then have "pallet_step p cfg (xs ! i) (ls ! i) (xs ! Suc i)" by (intro trace_step [OF tr]) simp
  from step_Authorities [OF assms(1) this] show ?case
  proof
    assume "Authorities (xs ! Suc i) = Authorities (xs ! i)"
    with Suc show ?case by (auto simp: less_Suc_eq)
  next
    assume "xs ! Suc i = on_finalize (xs ! i)"
    then show ?case by (intro disjI2 exI [of _ i]) (simp add: on_finalize_def)
  qed
qed

text \<open>A run that begins without authorities pays nothing until a block has ended.\<close>

lemma first_reward_after_block_end:
  assumes "OnReward cfg = on_reward" and tr: "trace (pallet_step p cfg) s ls xs"
    and "Authorities s = []" and "i < length ls" and "ls ! i = Some n"
  shows "\<exists>k < i. xs ! Suc k = on_finalize (xs ! k)"
proof -
  from trace_step [OF tr assms(4)] assms(5) have "Authorities (xs ! i) \<noteq> []"
    by (auto elim!: pallet_step.cases simp: reward_due_def)
  with trace_Authorities [OF assms(1) tr, of i] assms(3,4) show ?thesis by auto
qed

end

section \<open>The fee criteria\<close>

text \<open>
  The runtime and the node decide on the same kind of criteria: the fees collected reach a
  threshold. The interface states it over the natural numbers, where no sum saturates.
\<close>

locale fee_criteria =
  fixes decide :: "'s \<Rightarrow> bool"
    and fees :: "'s \<Rightarrow> nat"
    and threshold :: "'s \<Rightarrow> nat"
  assumes decide_iff: "decide s \<longleftrightarrow> threshold s \<le> fees s"
begin

lemma unset_threshold: "threshold s = 0 \<Longrightarrow> decide s"
  by (simp add: decide_iff)

lemma more_fees: "decide s \<Longrightarrow> fees s \<le> fees t \<Longrightarrow> threshold t \<le> threshold s \<Longrightarrow> decide t"
  by (simp add: decide_iff)

lemma not_reached: "fees s < threshold s \<Longrightarrow> \<not> decide s"
  by (simp add: decide_iff)

end

definition runtime_fees ::
    "(('auth, 'vid, 'b::len word, 'cur, 'bal) chain, 'w, 'fixed, 'b word) fee_env \<Rightarrow>
     ('auth, 'vid, 'b word, 'cur, 'bal) chain \<Rightarrow> nat" where
  "runtime_fees env s =
     unat (weight_to_fee env (base_weight env)) +
     unat (saturating_mul_int env (next_fee_multiplier env s)
             (weight_to_fee env (block_weight_total env s))) +
     unat (length_to_fee env (case all_extrinsics_len env s of None \<Rightarrow> 0 | Some n \<Rightarrow> n))"

lemma le_saturating_add3:
  fixes a b c t :: "'n::len word"
  shows "t \<le> saturating_add (saturating_add a b) c \<longleftrightarrow> unat t \<le> unat a + unat b + unat c"
  using unat_le_max [of t] by (auto simp: le_saturating_add_iff unat_saturating_add min_def)

interpretation runtime_criteria:
  fee_criteria "fee_based_should_place_order env" "runtime_fees env"
    "\<lambda>s. unat (ThresholdParameter s)" for env
  by unfold_locales
    (simp add: fee_based_should_place_order_def runtime_fees_def le_saturating_add3 Let_def)

end
