(* ===== verification/Mock_Runtime.thy ===== *)
theory Mock_Runtime
  imports On_Demand_Pallet
begin

text \<open>
  A runtime that carries the pallet. \<open>frame\<close> collects what FRAME and the other pallets supply to
  any such runtime, as a parameter; \<open>mock_config\<close> is the configuration of the pallet's own test
  runtime (\<open>pallets/on-demand/src/mock.rs\<close>) over it, and \<open>new_test_ext\<close> its initial state.
\<close>

record ('origin, 'auth, 'vid, 'thr, 'cur, 'bal, 'proof, 'rsp, 'err, 'w, 'fixed) frame =
  fr_ensure_none :: "'origin \<Rightarrow> bool"
  fr_ensure_root :: "'origin \<Rightarrow> bool"
  fr_key_type_AURA :: bytes
  fr_to_raw_vec :: "'auth \<Rightarrow> bytes"
  fr_identity_collator :: "account_id \<Rightarrow> 'vid option"
  fr_state_proof_new :: "u32 \<Rightarrow> h256 \<Rightarrow> 'proof \<Rightarrow> 'rsp option"
  fr_mint_into :: "account_id \<Rightarrow> 'bal \<Rightarrow> 'cur \<Rightarrow> ('err + unit) \<times> 'cur"
  fr_weight_from_parts :: "u64 \<Rightarrow> u64 \<Rightarrow> 'w"
  fr_fee_env :: "(('auth, 'vid, 'thr, 'cur, 'bal) chain, 'w, 'fixed, 'bal) fee_env"

text \<open>Storage values that were never written read as their type's default.\<close>

definition default_chain ::
    "'thr \<Rightarrow> 'auth list \<Rightarrow> (bytes \<times> bytes \<Rightarrow> 'vid option) \<Rightarrow> 'cur \<Rightarrow>
     ('auth, 'vid, 'thr, 'cur, 'bal) chain" where
  "default_chain thr auths owners c =
     \<lparr>Authorities = [], SlotWidth = 0, ThresholdParameter = thr, BulkMode = None,
      PreviousSlot = 0, Events = [], Aura_Authorities = auths, KeyOwner = owners, Currency = c\<rparr>"

definition to_account_id_impl :: "account_id \<Rightarrow> account_id" where
  "to_account_id_impl v = v"

definition mock_orders_placed :: "'rsp \<Rightarrow> u32 \<Rightarrow> (u64 \<times> account_id) list" where
  "mock_orders_placed relay_state_proof expected_para_id = []"

definition Mock_Reward :: u64 where
  "Mock_Reward = 1000000"

type_synonym ('origin, 'auth, 'cur, 'proof, 'rsp, 'err, 'w, 'fixed) mock_frame =
  "('origin, 'auth, account_id, u64, 'cur, u64, 'proof, 'rsp, 'err, 'w, 'fixed) frame"

definition mock_config ::
    "('origin, 'auth, 'cur, 'proof, 'rsp, 'err, 'w, 'fixed) mock_frame \<Rightarrow>
     ('origin, 'auth, account_id, u64, 'cur, u64, 'proof, 'rsp) config" where
  "mock_config fr =
     \<lparr>ensure_none = fr_ensure_none fr,
      ensure_origin_or_root = fr_ensure_root fr,
      key_type_AURA = fr_key_type_AURA fr,
      to_raw_vec = fr_to_raw_vec fr,
      ValidatorIdOf = fr_identity_collator fr,
      ToAccountId = to_account_id_impl,
      OnReward = reward (fr_mint_into fr) (fixed_reward_size Mock_Reward),
      should_place_order = fee_based_should_place_order
        ((fr_fee_env fr)\<lparr>base_weight := fr_weight_from_parts fr 125000 0\<rparr>),
      relay_chain_state_proof_new = fr_state_proof_new fr,
      orders_placed = mock_orders_placed\<rparr>"

definition new_test_ext ::
    "(bytes \<times> bytes \<Rightarrow> account_id option) \<Rightarrow> 'cur \<Rightarrow> ('auth, account_id, u64, 'cur, u64) chain" where
  "new_test_ext owners c = default_chain 0 [] owners c"

section \<open>A sample environment\<close>

text \<open>
  A concrete environment on which the witnesses of the development are evaluated: origins are
  strings, a state proof is the list of orders it shows, the currency is the list of the amounts
  minted, weights are their reference time. The chain has three authorities and slots of four
  relay chain blocks; relay block 20 is in slot 5, the turn of authority 13, owned by account 113.
\<close>

type_synonym sample_cur = "(account_id \<times> u64) list"
type_synonym sample_proof = "(u64 \<times> account_id) list"
type_synonym sample_chain_t = "(u32, account_id, u64, sample_cur, u64) chain"

definition sample_owner :: "bytes \<times> bytes \<Rightarrow> account_id option" where
  "sample_owner k =
     (case k of (t, raw) \<Rightarrow> if t = [97] \<and> raw \<noteq> [] then Some (ucast (hd raw) + 100) else None)"

definition sample_frame ::
    "(string, u32, sample_cur, sample_proof, sample_proof, unit, u64, unit) mock_frame" where
  "sample_frame =
     \<lparr>fr_ensure_none = (\<lambda>o'. o' = ''none''),
      fr_ensure_root = (\<lambda>o'. o' = ''root''),
      fr_key_type_AURA = [97],
      fr_to_raw_vec = (\<lambda>a. [ucast a]),
      fr_identity_collator = Some,
      fr_state_proof_new = (\<lambda>_ root proof. if root = 0 then None else Some proof),
      fr_mint_into = (\<lambda>a b c. (Inr (), c @ [(a, b)])),
      fr_weight_from_parts = (\<lambda>r _. r),
      fr_fee_env =
        \<lparr>block_weight_total = (\<lambda>_. 0), weight_to_fee = (\<lambda>w. w),
         next_fee_multiplier = (\<lambda>_. ()), saturating_mul_int = (\<lambda>_ f. f),
         all_extrinsics_len = (\<lambda>_. None), length_to_fee = ucast, base_weight = 0\<rparr>\<rparr>"

definition sample_config ::
    "(string, u32, account_id, u64, sample_cur, u64, sample_proof, sample_proof) config" where
  "sample_config = (mock_config sample_frame)\<lparr>orders_placed := (\<lambda>rsp _. rsp)\<rparr>"

definition sample_chain :: sample_chain_t where
  "sample_chain =
     (default_chain 125000 [11, 12, 13] sample_owner [])
       \<lparr>Authorities := [11, 12, 13], SlotWidth := 2, PreviousSlot := 4\<rparr>"

definition sample_inherent :: "sample_proof order_inherent_data" where
  "sample_inherent =
     \<lparr>data = Some \<lparr>relay_storage_proof = [(7, 55), (9, 113)], relay_state_root = 1,
                    relay_height = 20, para_id = 2000\<rparr>\<rparr>"

lemmas sample_defs = sample_config_def sample_frame_def sample_chain_def sample_inherent_def
  sample_owner_def mock_config_def default_chain_def to_account_id_impl_def

lemma sample_hook:
  "OnReward sample_config = reward (fr_mint_into sample_frame) (fixed_reward_size Mock_Reward)"
  by (simp add: sample_config_def mock_config_def)

lemma sample_data:
  "data sample_inherent = Some \<lparr>relay_storage_proof = [(7, 55), (9, 113)], relay_state_root = 1,
     relay_height = 20, para_id = 2000\<rparr>"
  by (simp add: sample_inherent_def)

lemma sample_wf: "wf_chain sample_chain"
  by (simp add: sample_defs wf_chain_def)

lemma sample_criteria: "should_place_order sample_config sample_chain"
  by (simp add: sample_defs fee_based_should_place_order_def le_saturating_add3)

lemma sample_reward_due: "reward_due sample_config ''none'' sample_inherent sample_chain 5 113"
  using sample_criteria by (simp add: reward_due_def sample_defs slot_number_def elected_def)

end
