(* ===== verification/Pallet_Properties.thy ===== *)
theory Pallet_Properties
  imports Mock_Runtime
begin

text \<open>
  The properties of the on-demand pallet, each with its witness on the sample environment: what
  \<open>create_order\<close> rewards and whom, that no slot is rewarded twice along any run, when a call fails
  or panics, who may change the configuration, and what a change of the slot width does.
\<close>

text \<open>
  C1: \<open>create_order\<close> implements its specification. Where a reward is due and the slot can be
  computed, the call succeeds, rewards the owner of the elected authority and records the slot;
  wherever the call succeeds, it either did exactly that with a reward due or changed nothing.
\<close>

theorem create_order_refines_reward_due:
  assumes "wf_chain s"
  shows "(\<forall>n v. reward_due cfg origin d s n v \<longrightarrow> shift_ok p (SlotWidth s) \<longrightarrow>
            create_order p cfg origin d s = Ok (rewarded cfg s n v)) \<and>
         (\<forall>t. create_order p cfg origin d s = Ok t \<longrightarrow>
            t = s \<or> (\<exists>n v. reward_due cfg origin d s n v \<and> t = rewarded cfg s n v))"
proof (intro conjI allI impI)
  fix n v assume due: "reward_due cfg origin d s n v" and shift: "shift_ok p (SlotWidth s)"
  then show "create_order p cfg origin d s = Ok (rewarded cfg s n v)"
    by (rule create_order_due [OF assms])
next
  fix t assume "create_order p cfg origin d s = Ok t"
  then show "t = s \<or> (\<exists>n v. reward_due cfg origin d s n v \<and> t = rewarded cfg s n v)"
    using assms by (cases rule: create_order_Ok_cases) auto
qed

theorem create_order_refines_reward_due_witness:
  "wf_chain sample_chain \<and>
   create_order Release sample_config ''none'' sample_inherent sample_chain =
     Ok (rewarded sample_config sample_chain 5 113)"
  using create_order_refines_reward_due [OF sample_wf, of sample_config "''none''" sample_inherent
      Release] sample_reward_due sample_wf
  by (simp add: shift_ok_def)

text \<open>
  C2: along any run of the chain, with any calls, failures, block ends and changes by other
  pallets, the slots for which a reward is paid strictly increase, so no slot is rewarded twice,
  and there are at most as many rewards as slots between the recorded slots at the two ends.
\<close>

theorem pallet_rewards_once_per_slot:
  assumes "run (pallet_step p cfg) s ls u"
  shows "sorted_wrt (<) (acted ls) \<and> distinct (acted ls) \<and>
         length (acted ls) \<le> unat (PreviousSlot u) - unat (PreviousSlot s)"
  using assms pallet_ledger.run_acted_sorted pallet_ledger.run_acted_distinct
    pallet_ledger.run_acted_count by blast

lemma sample_create_order:
  "create_order Release sample_config ''none'' sample_inherent sample_chain =
     Ok (rewarded sample_config sample_chain 5 113)"
proof -
  have "\<not> skips sample_config sample_inherent sample_chain"
    using sample_criteria by (auto simp: skips_def sample_defs)
  then show ?thesis
    by (subst create_order_checked [OF _ _ _ sample_wf _ refl])
      (auto simp: sample_defs shift_ok_def slot_number_def elected_def)
qed

theorem pallet_rewards_once_per_slot_witness:
  "run (pallet_step Release sample_config) sample_chain [Some 5, None]
     (on_finalize (rewarded sample_config sample_chain 5 113)) \<and>
   sorted_wrt (<) (acted [Some 5, None]) \<and> length (acted [Some 5, None]) \<le> 5 - 4"
proof -
  have "run (pallet_step Release sample_config) sample_chain [Some 5, None]
     (on_finalize (rewarded sample_config sample_chain 5 113))"
    using sample_create_order sample_reward_due sample_wf
    by (auto intro!: run.intros pallet_step.rewarding_call pallet_step.end_of_block)
  from this pallet_rewards_once_per_slot [OF this] show ?thesis
    by (simp add: on_finalize_def rewarded_def sample_defs)
qed

text \<open>
  C10: where the configuration rewards through the pallet's own \<open>reward\<close>, a successful
  \<open>create_order\<close> leaves the events and the currency alone, or calls \<open>mint_into\<close> once, for the
  account of the owner of the elected authority, who is shown to have placed an order, with the
  configured amount; the event is deposited exactly if the mint succeeded.
\<close>

theorem create_order_pays_elected:
  assumes "wf_chain s" and "OnReward cfg = reward mint_into amount"
    and "create_order p cfg origin d s = Ok t"
  shows "Events t = Events s \<and> Currency t = Currency s \<or>
    (\<exists>dt rsp vid b ordered_by res. data d = Some dt \<and>
       KeyOwner s (key_type_AURA cfg,
         to_raw_vec cfg (elected (Authorities s) (relay_height dt) (SlotWidth s))) = Some vid \<and>
       relay_chain_state_proof_new cfg (para_id dt) (relay_state_root dt)
         (relay_storage_proof dt) = Some rsp \<and>
       (b, ordered_by) \<in> set (orders_placed cfg rsp (para_id dt)) \<and>
       ValidatorIdOf cfg ordered_by = Some vid \<and>
       mint_into (ToAccountId cfg vid) amount (Currency s) = (res, Currency t) \<and>
       Events t = Events s @
         (if isl res then [] else [OrderPlacerRewarded (ToAccountId cfg vid) amount]))"
  using assms(3,1)
proof (cases rule: create_order_Ok_cases)
  case (rewards n v)
  obtain res c where m: "mint_into (ToAccountId cfg v) amount (Currency s) = (res, c)" by fastforce
  then have "Currency t = c" and "Events t = Events s @
      (if isl res then [] else [OrderPlacerRewarded (ToAccountId cfg v) amount])"
    using rewards(1) assms(2) by (auto simp: rewarded_def reward_def split: sum.splits)
  with m rewards(2) show ?thesis unfolding reward_due_def by fast
qed simp

theorem create_order_pays_elected_witness:
  "\<exists>t. create_order Release sample_config ''none'' sample_inherent sample_chain = Ok t \<and>
     Currency t = [(113, 1000000)] \<and> Events t = [OrderPlacerRewarded 113 1000000]"
proof -
  let ?t = "rewarded sample_config sample_chain 5 113"
  have t: "Currency ?t = [(113, 1000000)]"
    by (simp add: rewarded_def reward_def sample_defs fixed_reward_size_def saturating_add_def
        Mock_Reward_def)
  from create_order_pays_elected [OF sample_wf sample_hook sample_create_order] t show ?thesis
    using sample_create_order
    by (auto simp: sample_defs rewarded_def reward_def fixed_reward_size_def saturating_add_def
        Mock_Reward_def)
qed

text \<open>
  C27: \<open>create_order\<close> panics (and so invalidates the block that carries it) in exactly two
  situations, both reached only past the early returns: the slot width is at least 32 and overflow
  checks are compiled in, or the slot is a new one and the state proof is rejected. In particular
  the remainder by the number of authorities and the authority index never fail.
\<close>

theorem create_order_panics_iff:
  assumes "wf_chain s"
  shows "is_panic (create_order p cfg origin d s) \<longleftrightarrow>
    ensure_none cfg origin \<and> \<not> skips cfg d s \<and>
    (\<not> shift_ok p (SlotWidth s) \<or>
     (\<exists>dt. data d = Some dt \<and>
        unat (PreviousSlot s) < slot_number (relay_height dt) (SlotWidth s) \<and>
        relay_chain_state_proof_new cfg (para_id dt) (relay_state_root dt)
          (relay_storage_proof dt) = None))"
proof (cases "ensure_none cfg origin \<and> \<not> skips cfg d s \<and> shift_ok p (SlotWidth s)")
  case True
  then obtain dt where dt: "data d = Some dt" by (auto simp: skips_def)
  show ?thesis
    using True dt by (auto simp: create_order_checked [OF _ _ dt assms _ refl] split: option.splits)
next
  case False
  then show ?thesis by (cases rule: create_order_early) auto
qed

theorem create_order_panics_iff_witness:
  "is_panic (create_order Release sample_config ''none''
     \<lparr>data = Some \<lparr>relay_storage_proof = [], relay_state_root = 0, relay_height = 20,
                    para_id = 2000\<rparr>\<rparr> sample_chain)"
  using sample_criteria
  by (subst create_order_panics_iff [OF sample_wf]) (simp add: skips_def sample_defs slot_number_def)

text \<open>
  The errors of \<open>create_order\<close>: a signed or root origin, or an elected authority without an
  owner in the session pallet. The errors \<open>InvalidProof\<close>, \<open>FailedProofReading\<close> and
  \<open>FailedToDecodeInherentData\<close> of the pallet are never returned by any of its calls.
\<close>

theorem call_errors:
  assumes "wf_chain s" and "dispatch p cfg origin c s = Err e"
  shows "e = BadOrigin \<or>
    (\<exists>d dt. c = Create_order d \<and> data d = Some dt \<and> e = Module FailedToGetOrderPlacerAccount \<and>
       KeyOwner s (key_type_AURA cfg,
         to_raw_vec cfg (elected (Authorities s) (relay_height dt) (SlotWidth s))) = None)"
proof (cases c)
  case (Create_order d)
  show ?thesis
  proof (cases "ensure_none cfg origin \<and> \<not> skips cfg d s \<and> shift_ok p (SlotWidth s)")
    case True
    then obtain dt where dt: "data d = Some dt" by (auto simp: skips_def)
    show ?thesis
      using True dt assms(2) Create_order
      by (auto simp: create_order_checked [OF _ _ dt assms(1) _ refl]
          split: option.splits if_splits)
  next
    case False
    then show ?thesis
      by (cases rule: create_order_early) (use assms(2) Create_order in auto)
  qed
qed (use assms(2) in \<open>auto simp: setter_defs Let_def split: if_splits\<close>)

theorem call_errors_witness:
  "dispatch Release sample_config ''none'' (Create_order sample_inherent)
     (sample_chain\<lparr>KeyOwner := (\<lambda>_. None)\<rparr>) = Err (Module FailedToGetOrderPlacerAccount) \<and>
   KeyOwner (sample_chain\<lparr>KeyOwner := (\<lambda>_. None)\<rparr>)
     (key_type_AURA sample_config, to_raw_vec sample_config (elected [11, 12, 13] 20 2)) = None"
proof -
  let ?s = "sample_chain\<lparr>KeyOwner := (\<lambda>_. None)\<rparr>"
  have wf: "wf_chain ?s" by (simp add: sample_defs wf_chain_def)
  have "\<not> skips sample_config sample_inherent ?s"
    by (simp add: skips_def sample_defs fee_based_should_place_order_def le_saturating_add3)
  then have err: "dispatch Release sample_config ''none'' (Create_order sample_inherent) ?s =
      Err (Module FailedToGetOrderPlacerAccount)"
    by (simp, subst create_order_checked [OF _ _ _ wf _ refl])
      (auto simp: sample_defs shift_ok_def slot_number_def)
  from call_errors [OF wf err] err show ?thesis by (simp add: sample_defs)
qed

text \<open>
  C29: the configuration changes only by authorised calls. If a successful call, through a
  configuration that rewards with the pallet's own \<open>reward\<close>, changes the slot width, the threshold
  or the mode, its origin passed the admin check, it is the setter of that item with the new value,
  and the last event deposited reports the value.
\<close>

theorem configuration_changes_are_authorised:
  assumes "wf_chain s" and "OnReward cfg = reward mint_into amount"
    and "dispatch p cfg origin c s = Ok t"
  shows "(SlotWidth t \<noteq> SlotWidth s \<longrightarrow> ensure_origin_or_root cfg origin \<and>
            c = Set_slot_width (SlotWidth t) \<and> last (Events t) = SlotWidthSet (SlotWidth t)) \<and>
         (ThresholdParameter t \<noteq> ThresholdParameter s \<longrightarrow> ensure_origin_or_root cfg origin \<and>
            c = Set_threshold_parameter (ThresholdParameter t) \<and>
            last (Events t) = ThresholdParameterSet (ThresholdParameter t)) \<and>
         (BulkMode t \<noteq> BulkMode s \<longrightarrow> ensure_origin_or_root cfg origin \<and>
            c = Set_bulk_mode (BulkMode t \<noteq> None) \<and>
            last (Events t) = BulkModeSet (BulkMode t \<noteq> None))"
proof (cases c)
  case (Create_order d)
  with assms(3) have "create_order p cfg origin d s = Ok t" by simp
  from pallet_reward.create_order_keeps_configuration [OF assms(2,1) this] show ?thesis by simp
qed (use assms(3) in \<open>auto simp: setter_defs Let_def split: if_splits\<close>)

theorem configuration_changes_are_authorised_witness:
  "\<exists>t. dispatch Release sample_config ''root'' (Set_slot_width 3) sample_chain = Ok t \<and>
     SlotWidth t = 3 \<and> last (Events t) = SlotWidthSet 3"
proof -
  obtain t where t: "dispatch Release sample_config ''root'' (Set_slot_width 3) sample_chain = Ok t"
      "SlotWidth t = 3"
    by (simp add: set_slot_width_def sample_defs)
  with configuration_changes_are_authorised [OF sample_wf sample_hook t(1)] show ?thesis
    by (simp add: sample_defs)
qed



text \<open>
  C35: after the slots are narrowed, an order that was already rewarded is rewarded again. If the
  relay block of the order has a later slot number at the new width \<open>w\<close> and the turn falls on the
  same authority, the very same inherent data, executed again, earns the same owner a second reward.
\<close>

theorem narrowing_renews_reward:
  assumes "wf_chain s" and "OnReward cfg = reward mint_into amount"
    and "reward_due cfg origin d s n v" and "create_order p cfg origin d s = Ok t"
    and "set_slot_width cfg admin w t = Ok u" and "data d = Some dt"
    and "n < slot_number (relay_height dt) w"
    and "elected (Authorities s) (relay_height dt) w =
         elected (Authorities s) (relay_height dt) (SlotWidth s)"
    and "should_place_order cfg u" and "shift_ok p w"
  shows "create_order p cfg origin d u = Ok (rewarded cfg u (slot_number (relay_height dt) w) v) \<and>
    unat (PreviousSlot t) = n \<and> n < unat (PreviousSlot (rewarded cfg u (slot_number (relay_height dt) w) v))"
proof -
  have t: "t = rewarded cfg s n v" using assms(1,4,3) by (rule create_order_rewards)
  have prev: "unat (PreviousSlot t) = n" unfolding t using assms(3) by (rule unat_PreviousSlot_rewarded)
  have keeps: "Authorities t = Authorities s" "KeyOwner t = KeyOwner s" "BulkMode t = BulkMode s"
    "Aura_Authorities t = Aura_Authorities s"
    by (simp_all add: t rewarded_def assms(2) pallet_reward.keeps)
  from assms(5) have u: "PreviousSlot u = PreviousSlot t" "Authorities u = Authorities t"
    "KeyOwner u = KeyOwner t" "BulkMode u = BulkMode t" "SlotWidth u = w"
    "Aura_Authorities u = Aura_Authorities t"
    by (auto simp: set_slot_width_def split: if_splits)
  have due: "reward_due cfg origin d u (slot_number (relay_height dt) w) v"
    using assms(3,6-9) prev by (auto simp: reward_due_def keeps u)
  have "wf_chain u" using assms(1) by (simp add: wf_chain_def keeps u)
  from create_order_due [OF this due] unat_PreviousSlot_rewarded [OF due] assms(7,10) prev
  show ?thesis by (simp add: u)
qed

theorem narrowing_renews_reward_witness:
  "\<exists>t u. create_order Release sample_config ''none'' sample_inherent sample_chain = Ok t \<and>
     set_slot_width sample_config ''root'' 0 t = Ok u \<and>
     create_order Release sample_config ''none'' sample_inherent u = Ok (rewarded sample_config u 20 113)"
proof -
  let ?t = "rewarded sample_config sample_chain 5 113"
  obtain u where u: "set_slot_width sample_config ''root'' 0 ?t = Ok u"
    by (simp add: set_slot_width_def sample_defs)
  have criteria: "should_place_order sample_config u"
    using u by (auto simp: set_slot_width_def sample_defs rewarded_def reward_def
        fee_based_should_place_order_def le_saturating_add3 split: if_splits)
  have "create_order Release sample_config ''none'' sample_inherent u =
      Ok (rewarded sample_config u (slot_number 20 0) 113) \<and> unat (PreviousSlot ?t) = 5 \<and>
      5 < unat (PreviousSlot (rewarded sample_config u (slot_number 20 0) 113))"
    using narrowing_renews_reward [OF sample_wf sample_hook sample_reward_due sample_create_order u
        sample_data _ _ criteria]
    by (simp add: sample_chain_def default_chain_def slot_number_def elected_def shift_ok_def)
  with u sample_create_order show ?thesis by (auto simp: slot_number_def)
qed

text \<open>
  The authorities that are paid lag the consensus by a block. At every point of any run the
  authority list in use is the one the run began with or the list Aura had at the end of some
  earlier block of that run, never one that changed since.
\<close>

theorem authorities_come_from_block_ends:
  assumes "OnReward cfg = reward mint_into amount" and "trace (pallet_step p cfg) s ls xs"
    and "i \<le> length ls"
  shows "Authorities (xs ! i) = Authorities s \<or>
    (\<exists>k < i. xs ! Suc k = on_finalize (xs ! k) \<and> Authorities (xs ! i) = Aura_Authorities (xs ! k))"
  using assms by (rule pallet_reward.trace_Authorities)

text \<open>A run of the sample chain: Aura's authorities change, and the block ends.\<close>

definition sample_trace :: "sample_chain_t list" where
  "sample_trace =
     (let t = sample_chain\<lparr>Aura_Authorities := [14], KeyOwner := sample_owner, Currency := []\<rparr>
      in [sample_chain, t, on_finalize t])"

lemma sample_trace: "trace (pallet_step Release sample_config) sample_chain [None, None] sample_trace"
  unfolding sample_trace_def Let_def
  by (rule trace_Cons pallet_step.other_pallets pallet_step.end_of_block trace_Nil)+

theorem authorities_come_from_block_ends_witness:
  "Authorities (sample_trace ! 1) = [11, 12, 13] \<and> Authorities (sample_trace ! 2) = [14] \<and>
   (Authorities (sample_trace ! 2) = Authorities sample_chain \<or>
    (\<exists>k < 2. sample_trace ! Suc k = on_finalize (sample_trace ! k) \<and>
       Authorities (sample_trace ! 2) = Aura_Authorities (sample_trace ! k)))"
proof -
  have "Authorities (sample_trace ! 1) = [11, 12, 13]" "Authorities (sample_trace ! 2) = [14]"
    by (simp_all add: sample_trace_def Let_def on_finalize_def sample_defs)
  with authorities_come_from_block_ends [OF sample_hook sample_trace, of 2] show ?thesis by simp
qed



text \<open>
  A chain started from the genesis configuration has the threshold and the mode the
  configuration names and slots of one relay block, and pays nothing in its first block: a run
  that rewards a slot has an end of a block before.
\<close>

theorem genesis_pays_nothing_in_first_block:
  assumes "s0 = build gc (default_chain thr auths owners c)"
  shows "ThresholdParameter s0 = threshold_parameter gc \<and> (BulkMode s0 \<noteq> None \<longleftrightarrow> bulk_mode gc) \<and>
    SlotWidth s0 = 0 \<and> PreviousSlot s0 = 0 \<and>
    (OnReward cfg = reward mint_into amount \<longrightarrow> trace (pallet_step p cfg) s0 ls xs \<longrightarrow>
     i < length ls \<longrightarrow> ls ! i = Some n \<longrightarrow> (\<exists>k < i. xs ! Suc k = on_finalize (xs ! k)))"
proof -
  have "Authorities s0 = []" by (simp add: assms build_def default_chain_def Let_def)
  then show ?thesis
    using pallet_reward.first_reward_after_block_end [of cfg mint_into amount p s0 ls xs i n]
    by (auto simp: assms build_def default_chain_def Let_def)
qed

theorem genesis_pays_nothing_in_first_block_witness:
  "BulkMode (build \<lparr>threshold_parameter = 7, bulk_mode = True\<rparr> (default_chain 0 [11] sample_owner []))
     = Some () \<and>
   ThresholdParameter (build \<lparr>threshold_parameter = (7 :: u64), bulk_mode = True\<rparr>
     (default_chain 0 [11 :: u32] sample_owner ([] :: sample_cur)) :: sample_chain_t) = 7"
  using genesis_pays_nothing_in_first_block [OF refl,
      of "\<lparr>threshold_parameter = 7 :: u64, bulk_mode = True\<rparr>" 0 "[11 :: u32]" sample_owner
        "[] :: sample_cur" sample_config]
  by (auto simp: build_def default_chain_def)

text \<open>
  C37: the runtime's fee criteria compare the threshold with the true sum of the base fee, the
  adjusted weight fee and the length fee: neither saturating addition ever changes the answer. An
  unset threshold is always met.
\<close>

theorem runtime_fee_criteria_exact:
  fixes env :: "(('auth, 'vid, 'b::len word, 'cur, 'bal) chain, 'w, 'fixed, 'b word) fee_env"
  shows "(fee_based_should_place_order env s \<longleftrightarrow>
     unat (ThresholdParameter s) \<le>
       unat (weight_to_fee env (base_weight env)) +
       unat (saturating_mul_int env (next_fee_multiplier env s)
               (weight_to_fee env (block_weight_total env s))) +
       unat (length_to_fee env (case all_extrinsics_len env s of None \<Rightarrow> 0 | Some n \<Rightarrow> n))) \<and>
    fee_based_should_place_order env (s\<lparr>ThresholdParameter := 0\<rparr>)"
  using runtime_criteria.decide_iff [of env s]
    runtime_criteria.unset_threshold [of "s\<lparr>ThresholdParameter := 0\<rparr>" env]
  by (simp add: runtime_fees_def)

text \<open>
  The pallet's unit tests. On the mock runtime every setter refuses a signed origin and
  leaves no trace, and for root it stores the value and deposits the event.
\<close>

theorem mock_setters_work:
  assumes "fr_ensure_root fr root" and "\<not> fr_ensure_root fr user"
  shows "SlotWidth (new_test_ext owners c) = 0 \<and> ThresholdParameter (new_test_ext owners c) = 0 \<and>
    (\<forall>call. \<not> is_inherent call \<longrightarrow>
       dispatch p (mock_config fr) user call (new_test_ext owners c) = Err BadOrigin) \<and>
    (\<exists>t. dispatch p (mock_config fr) root (Set_slot_width 1) (new_test_ext owners c) = Ok t \<and>
       SlotWidth t = 1 \<and> last (Events t) = SlotWidthSet 1) \<and>
    (\<exists>t. dispatch p (mock_config fr) root (Set_threshold_parameter 1000) (new_test_ext owners c) =
         Ok t \<and> ThresholdParameter t = 1000 \<and> last (Events t) = ThresholdParameterSet 1000) \<and>
    (\<exists>t. dispatch p (mock_config fr) root (Set_bulk_mode True) (new_test_ext owners c) = Ok t \<and>
       BulkMode t = Some () \<and> last (Events t) = BulkModeSet True)"
proof -
  have "dispatch p (mock_config fr) user call (new_test_ext owners c) = Err BadOrigin"
    if "\<not> is_inherent call" for call
    using that assms(2) by (intro setter_unauthorised) (simp_all add: mock_config_def)
  then show ?thesis
    using assms(1) by (simp add: setter_defs mock_config_def new_test_ext_def default_chain_def)
qed

theorem mock_setters_work_witness:
  "dispatch Release (mock_config sample_frame) ''signed'' (Set_bulk_mode True)
     (new_test_ext sample_owner []) = Err BadOrigin"
proof -
  have "fr_ensure_root sample_frame ''root''" "\<not> fr_ensure_root sample_frame ''signed''"
    by (simp_all add: sample_frame_def)
  from mock_setters_work [OF this] show ?thesis by (metis is_inherent.simps(4))
qed

end
