(* ===== verification/Reward_Economy.thy ===== *)
theory Reward_Economy
  imports Pallet_Properties
begin

text \<open>
  What the pallet pays over time, and what it takes on trust. The rewards of a run are counted by
  the events it deposits: they are bounded by the slots that pass, each of the configured size.
  An inherent is made by the author of a block, and \<open>create_order\<close> compares neither its relay
  height nor its state root with anything the runtime knows; the last section states what an
  author can do with that.
\<close>

section \<open>The rewards a run pays\<close>

text \<open>The amounts of the rewards among a list of events.\<close>

fun reward_of :: "('thr, 'bal) event \<Rightarrow> 'bal option" where
  "reward_of (OrderPlacerRewarded who amount) = Some amount"
| "reward_of _ = None"

definition rewards_in :: "('thr, 'bal) event list \<Rightarrow> 'bal list" where
  "rewards_in evs = List.map_filter reward_of evs"

lemma rewards_in_append [simp]: "rewards_in (xs @ ys) = rewards_in xs @ rewards_in ys"
  by (simp add: rewards_in_def List.map_filter_def)

lemma rewards_in_simps [simp]:
  "rewards_in [] = []"
  "rewards_in [OrderPlacerRewarded who amount] = [amount]"
  "rewards_in [SlotWidthSet w] = []" "rewards_in [ThresholdParameterSet t] = []"
  "rewards_in [BulkModeSet b] = []"
  by (simp_all add: rewards_in_def List.map_filter_def)

text \<open>
  A currency that cannot refuse: minting succeeds for every account, amount and state. Without
  it a rewarded slot pays at most once, with it exactly once.
\<close>

definition always_mints :: "(account_id \<Rightarrow> 'bal \<Rightarrow> 'cur \<Rightarrow> ('err + unit) \<times> 'cur) \<Rightarrow> bool" where
  "always_mints mint_into \<longleftrightarrow> (\<forall>a b c. \<not> isl (fst (mint_into a b c)))"

lemma rewards_in_reward:
  "\<exists>k. rewards_in (Events (reward mint_into amount a s)) =
         rewards_in (Events s) @ replicate k amount \<and> k \<le> 1 \<and>
       (always_mints mint_into \<longrightarrow> k = 1)"
proof (cases "mint_into a amount (Currency s)")
  case (Pair res c)
  show ?thesis
  proof (cases res)
    case (Inl e)
    then have "\<not> always_mints mint_into"
      using Pair by (metis always_mints_def fst_conv sum.disc(1))
    with Inl show ?thesis by (intro exI [of _ 0]) (simp add: reward_def Pair)
  next
    case (Inr u)
    then show ?thesis by (intro exI [of _ 1]) (simp add: reward_def Pair)
  qed
qed

lemma silent_step_pays_nothing:
  assumes "pallet_step p cfg s None t"
  shows "rewards_in (Events t) = rewards_in (Events s)"
  using assms
proof cases
  case (silent_call origin c)
  show ?thesis
  proof (cases c)
    case (Create_order d)
    with silent_call have "t = s" by (intro create_order_silent [of s p cfg origin d]) auto
    then show ?thesis by simp
  qed (use silent_call(2) in \<open>auto simp: setter_defs Let_def split: if_splits\<close>)
qed (auto simp: on_finalize_def)

lemma rewarding_step_pays:
  assumes "OnReward cfg = reward mint_into amount" and "pallet_step p cfg s (Some n) t"
  shows "\<exists>k. rewards_in (Events t) = rewards_in (Events s) @ replicate k amount \<and> k \<le> 1 \<and>
    (always_mints mint_into \<longrightarrow> k = 1)"
  using assms(2)
proof cases
  case (rewarding_call origin d v)
  then have "t = rewarded cfg s n v" by (auto intro: create_order_rewards)
  then show ?thesis
    using rewards_in_reward [of mint_into amount "ToAccountId cfg v" s]
    by (simp add: rewarded_def assms(1))
qed

lemma run_pays:
  assumes "OnReward cfg = reward mint_into amount" and "run (pallet_step p cfg) s ls u"
  shows "\<exists>k. rewards_in (Events u) = rewards_in (Events s) @ replicate k amount \<and>
    k \<le> length (acted ls) \<and> (always_mints mint_into \<longrightarrow> k = length (acted ls))"
  using assms(2)
proof (induction rule: run.induct)
  case (run_Nil s)
  then show ?case by (intro exI [of _ 0]) simp
next
  case (run_Cons s l t ls u)
  from run_Cons.IH obtain k where k: "rewards_in (Events u) = rewards_in (Events t) @ replicate k amount"
    "k \<le> length (acted ls)" "always_mints mint_into \<longrightarrow> k = length (acted ls)" by blast
  show ?case
  proof (cases l)
    case None
    with run_Cons.hyps(1) have "rewards_in (Events t) = rewards_in (Events s)"
      by (auto dest: silent_step_pays_nothing)
    with k None show ?thesis by auto
  next
    case (Some n)
    with run_Cons.hyps(1) rewarding_step_pays [OF assms(1)] obtain j
      where "rewards_in (Events t) = rewards_in (Events s) @ replicate j amount" "j \<le> 1"
        "always_mints mint_into \<longrightarrow> j = 1" by blast
    with k Some show ?thesis by (intro exI [of _ "j + k"]) (auto simp: replicate_add)
  qed
qed

text \<open>
  C9: the rewards are bounded by the slots that pass. Along any run of a chain that rewards with
  the pallet's own \<open>reward\<close>, the rewards reported are a sequence of payments of exactly the
  configured amount, at most one per slot between the recorded slots of the two ends, so the total
  paid is at most that many times the amount; with a currency that never refuses, there is exactly
  one payment per rewarded slot.
\<close>

theorem rewards_paid_are_bounded:
  fixes amount :: "'b::len word"
  assumes "OnReward cfg = reward mint_into amount" and "run (pallet_step p cfg) s ls u"
  shows "\<exists>k. rewards_in (Events u) = rewards_in (Events s) @ replicate k amount \<and>
    k \<le> unat (PreviousSlot u) - unat (PreviousSlot s) \<and>
    sum_list (map unat (rewards_in (Events u))) \<le> sum_list (map unat (rewards_in (Events s))) +
      (unat (PreviousSlot u) - unat (PreviousSlot s)) * unat amount \<and>
    (always_mints mint_into \<longrightarrow> k = length (acted ls))"
proof -
  from run_pays [OF assms] obtain k
    where k: "rewards_in (Events u) = rewards_in (Events s) @ replicate k amount"
      "k \<le> length (acted ls)" "always_mints mint_into \<longrightarrow> k = length (acted ls)" by blast
  from k(2) pallet_ledger.run_acted_count [OF assms(2)]
  have bound: "k \<le> unat (PreviousSlot u) - unat (PreviousSlot s)" by simp
  moreover have "sum_list (map unat (rewards_in (Events u))) =
      sum_list (map unat (rewards_in (Events s))) + k * unat amount"
    by (simp add: k(1) sum_list_replicate)
  ultimately show ?thesis using k by (intro exI [of _ k]) (simp add: mult_right_mono)
qed

lemma sample_rewarding_run:
  "run (pallet_step Release sample_config) sample_chain [Some 5] (rewarded sample_config sample_chain 5 113)"
proof -
  have "dispatch Release sample_config ''none'' (Create_order sample_inherent) sample_chain =
      Ok (rewarded sample_config sample_chain 5 113)"
    by (simp add: sample_create_order)
  from pallet_step.rewarding_call [OF sample_wf this sample_reward_due] show ?thesis
    by (rule run_Cons [OF _ run_Nil])
qed

theorem rewards_paid_are_bounded_witness:
  "rewards_in (Events (rewarded sample_config sample_chain 5 113)) = [1000000]"
proof -
  have "always_mints (fr_mint_into sample_frame)" by (simp add: always_mints_def sample_frame_def)
  with rewards_paid_are_bounded [OF sample_hook sample_rewarding_run] show ?thesis
    by (auto simp: sample_chain_def default_chain_def fixed_reward_size_def saturating_add_def
        Mock_Reward_def)
qed

section \<open>Repeated and late inherents\<close>

lemma create_order_not_later:
  assumes "wf_chain s" and "ensure_none cfg origin" and "shift_ok p (SlotWidth s)"
    and "\<And>dt. data d = Some dt \<Longrightarrow> slot_number (relay_height dt) (SlotWidth s) \<le> unat (PreviousSlot s)"
  shows "create_order p cfg origin d s = Ok s"
proof (cases "skips cfg d s")
  case False
  then obtain dt where "data d = Some dt" by (auto simp: skips_def)
  with assms False show ?thesis by (simp add: create_order_checked [OF assms(2) False _ assms(1,3) refl])
qed (use assms(2) in \<open>simp add: create_order_skips\<close>)

lemma create_order_again:
  assumes "wf_chain s" and "OnReward cfg = reward mint_into amount"
    and "create_order p cfg origin d s = Ok t"
  shows "create_order p cfg origin d t = Ok t"
  using assms(3,1)
proof (cases rule: create_order_Ok_cases)
  case silent
  with assms(3) show ?thesis by simp
next
  case (rewards n v)
  have wf: "wf_chain t" and width: "SlotWidth t = SlotWidth s"
    using pallet_reward.create_order_wf [OF assms(2,1,3)]
      pallet_reward.create_order_keeps_configuration [OF assms(2,1,3)] by simp_all
  from rewards(2) have origin: "ensure_none cfg origin" and no_skip: "\<not> skips cfg d s"
    by (auto simp: reward_due_def skips_def)
  have shift: "shift_ok p (SlotWidth s)"
    using create_order_shift_panic [OF origin no_skip] assms(3) by (metis is_panic.simps(3))
  have "unat (PreviousSlot t) = n"
    unfolding rewards(1) by (rule unat_PreviousSlot_rewarded [OF rewards(2)])
  with rewards(2) show ?thesis
    by (intro create_order_not_later wf origin) (auto simp: width shift reward_due_def)
qed

text \<open>
  \<open>create_order\<close> is idempotent. Once a call with some data has succeeded, the same call on the
  resulting state succeeds and changes nothing, whether or not the first one paid, and whatever
  the fee criteria answer by then: an inherent that is executed twice pays once.
\<close>

theorem create_order_is_idempotent:
  assumes "wf_chain s" and "OnReward cfg = reward mint_into amount"
    and "create_order p cfg origin d s = Ok t"
  shows "create_order p cfg origin d t = Ok t"
  using assms by (rule create_order_again)

theorem create_order_is_idempotent_witness:
  "create_order Release sample_config ''none'' sample_inherent (rewarded sample_config sample_chain 5 113) =
     Ok (rewarded sample_config sample_chain 5 113)"
  by (rule create_order_is_idempotent [OF sample_wf sample_hook sample_create_order])

text \<open>
  A reward that comes late is lost. Once a run has rewarded some slot, an inherent for that
  slot or an earlier one, at the width the chain then has, pays nothing, however valid its proof
  is: rewards can be skipped and never be made up for.
\<close>

theorem late_order_is_never_paid:
  assumes "run (pallet_step p cfg) s ls u" and "m \<in> set (acted ls)"
    and "wf_chain u" and "ensure_none cfg origin" and "shift_ok p (SlotWidth u)"
    and "data d = Some dt" and "slot_number (relay_height dt) (SlotWidth u) \<le> m"
  shows "create_order p cfg origin d u = Ok u"
proof (rule create_order_not_later [OF assms(3-5)])
  from pallet_ledger.run_acted_bounds [OF assms(1,2)] have "m \<le> unat (PreviousSlot u)" by simp
  with assms(6,7) show "slot_number (relay_height dt') (SlotWidth u) \<le> unat (PreviousSlot u)"
    if "data d = Some dt'" for dt' using that by simp
qed

theorem late_order_is_never_paid_witness:
  "create_order Release sample_config ''none''
     \<lparr>data = Some \<lparr>relay_storage_proof = [(9, 113)], relay_state_root = 1, relay_height = 19, para_id = 2000\<rparr>\<rparr>
     (rewarded sample_config sample_chain 5 113) = Ok (rewarded sample_config sample_chain 5 113)"
proof (rule late_order_is_never_paid [OF sample_rewarding_run, of 5, where dt =
      "\<lparr>relay_storage_proof = [(9, 113)], relay_state_root = 1, relay_height = 19, para_id = 2000\<rparr>"])
  show "wf_chain (rewarded sample_config sample_chain 5 113)"
    by (rule pallet_reward.create_order_wf [OF sample_hook sample_wf sample_create_order])
qed (simp_all add: sample_config_def sample_frame_def mock_config_def shift_ok_def rewarded_def
    sample_chain_def default_chain_def reward_def slot_number_def)

text \<open>
  A reward that cannot be minted still uses up its slot: the call succeeds, reports nothing and
  records the slot.
\<close>

theorem failed_mint_uses_up_the_slot:
  assumes "wf_chain s" and "OnReward cfg = reward mint_into amount" and "reward_due cfg origin d s n v"
    and "mint_into (ToAccountId cfg v) amount (Currency s) = (Inl e, c)"
    and "create_order p cfg origin d s = Ok t"
  shows "Events t = Events s \<and> unat (PreviousSlot t) = n \<and> create_order p cfg origin d t = Ok t"
proof -
  have t: "t = rewarded cfg s n v" using assms(1,5,3) by (rule create_order_rewards)
  have "unat (PreviousSlot t) = n" unfolding t using assms(3) by (rule unat_PreviousSlot_rewarded)
  moreover have "Events t = Events s"
    by (simp add: t rewarded_def assms(2) reward_def assms(4))
  ultimately show ?thesis
    using create_order_again [OF assms(1,2,5)] by simp
qed

section \<open>What an author can do with an inherent\<close>

text \<open>The calls an author makes with one state proof under many relay heights.\<close>

definition at_height :: "'proof inherent_data \<Rightarrow> u32 \<Rightarrow> 'proof order_inherent_data" where
  "at_height dt h = \<lparr>data = Some (dt\<lparr>relay_height := h\<rparr>)\<rparr>"

primrec replay ::
    "profile \<Rightarrow> ('origin, 'auth, 'vid, 'thr, 'cur, 'bal, 'proof, 'rsp) config \<Rightarrow> 'origin \<Rightarrow>
     'proof inherent_data \<Rightarrow> u32 list \<Rightarrow> ('auth, 'vid, 'thr, 'cur, 'bal) chain \<Rightarrow>
     (dispatch_error, ('auth, 'vid, 'thr, 'cur, 'bal) chain) outcome" where
  "replay p cfg origin dt [] s = Ok s"
| "replay p cfg origin dt (h # hs) s =
     obind (create_order p cfg origin (at_height dt h) s) (replay p cfg origin dt hs)"

text \<open>
  What an author needs of the chain and of a proof to be paid for \<open>v\<close> at the height \<open>h\<close>: the relay
  chain does not occur in it.
\<close>

definition replayable ::
    "('origin, 'auth, 'vid, 'thr, 'cur, 'bal, 'proof, 'rsp) config \<Rightarrow> 'origin \<Rightarrow>
     'proof inherent_data \<Rightarrow> 'vid \<Rightarrow> ('auth, 'vid, 'thr, 'cur, 'bal) chain \<Rightarrow> bool" where
  "replayable cfg origin dt v s \<longleftrightarrow>
     ensure_none cfg origin \<and> BulkMode s = None \<and> Authorities s \<noteq> [] \<and>
     (\<forall>x. ThresholdParameter x = ThresholdParameter s \<longrightarrow> should_place_order cfg x) \<and>
     (\<exists>rsp b who. relay_chain_state_proof_new cfg (para_id dt) (relay_state_root dt)
          (relay_storage_proof dt) = Some rsp \<and>
        (b, who) \<in> set (orders_placed cfg rsp (para_id dt)) \<and> ValidatorIdOf cfg who = Some v)"

lemma replayable_due:
  assumes "replayable cfg origin dt v s" and "unat (PreviousSlot s) < slot_number h (SlotWidth s)"
    and "KeyOwner s (key_type_AURA cfg,
      to_raw_vec cfg (elected (Authorities s) h (SlotWidth s))) = Some v"
  shows "reward_due cfg origin (at_height dt h) s (slot_number h (SlotWidth s)) v"
  using assms by (force simp: replayable_def reward_due_def at_height_def)

lemma replay_run:
  assumes "wf_chain s" and "OnReward cfg = reward mint_into amount" and "shift_ok p (SlotWidth s)"
    and "replayable cfg origin dt v s"
    and "\<And>h. h \<in> set hs \<Longrightarrow> KeyOwner s (key_type_AURA cfg,
      to_raw_vec cfg (elected (Authorities s) h (SlotWidth s))) = Some v"
    and "sorted_wrt (<) (unat (PreviousSlot s) # map (\<lambda>h. slot_number h (SlotWidth s)) hs)"
  shows "\<exists>t. replay p cfg origin dt hs s = Ok t \<and>
    run (pallet_step p cfg) s (map (\<lambda>h. Some (slot_number h (SlotWidth s))) hs) t"
  using assms
proof (induction hs arbitrary: s)
  case Nil
  then show ?case by (auto intro: run_Nil)
next
  case (Cons h hs)
  let ?n = "slot_number h (SlotWidth s)" and ?t = "rewarded cfg s (slot_number h (SlotWidth s)) v"
  have due: "reward_due cfg origin (at_height dt h) s ?n v"
    using Cons.prems(4-) by (intro replayable_due) simp_all
  have step: "create_order p cfg origin (at_height dt h) s = Ok ?t"
    using Cons.prems(1) due Cons.prems(3) by (rule create_order_due)
  have keeps: "Authorities ?t = Authorities s" "SlotWidth ?t = SlotWidth s" "BulkMode ?t = BulkMode s"
    "ThresholdParameter ?t = ThresholdParameter s" "KeyOwner ?t = KeyOwner s"
    by (simp_all add: rewarded_def Cons.prems(2) pallet_reward.keeps)
  have prev: "unat (PreviousSlot ?t) = ?n" by (rule unat_PreviousSlot_rewarded [OF due])
  have "\<exists>t. replay p cfg origin dt hs ?t = Ok t \<and>
      run (pallet_step p cfg) ?t (map (\<lambda>h. Some (slot_number h (SlotWidth ?t))) hs) t"
  proof (rule Cons.IH [OF _ Cons.prems(2)])
    show "wf_chain ?t"
      by (rule pallet_reward.create_order_wf [OF Cons.prems(2,1) step])
    show "replayable cfg origin dt v ?t"
      using Cons.prems(4) by (simp add: replayable_def keeps)
  qed (use Cons.prems in \<open>simp_all add: keeps prev\<close>)
  then obtain t where t: "replay p cfg origin dt hs ?t = Ok t"
    "run (pallet_step p cfg) ?t (map (\<lambda>h. Some (slot_number h (SlotWidth s))) hs) t"
    by (auto simp: keeps)
  have "pallet_step p cfg s (Some ?n) ?t"
    by (rule pallet_step.rewarding_call [OF Cons.prems(1) _ due]) (simp add: step)
  with t step show ?case by (auto intro: run_Cons)
qed

text \<open>
  C31: one order pays for every turn of its placer. Whoever authors blocks can take the state proof
  of a single order by \<open>v\<close>, of whatever relay chain and para its own data name, and present it again
  under any relay heights whose slots increase and fall on an authority of \<open>v\<close>: every one of these
  calls succeeds and is rewarded, since the call compares neither the height nor the state root
  with the relay chain the runtime follows.
\<close>

theorem replayed_proof_pays_every_turn:
  assumes "wf_chain s" and "OnReward cfg = reward mint_into amount" and "shift_ok p (SlotWidth s)"
    and "replayable cfg origin dt v s" and "always_mints mint_into"
    and "\<And>h. h \<in> set hs \<Longrightarrow> KeyOwner s (key_type_AURA cfg,
      to_raw_vec cfg (elected (Authorities s) h (SlotWidth s))) = Some v"
    and "sorted_wrt (<) (unat (PreviousSlot s) # map (\<lambda>h. slot_number h (SlotWidth s)) hs)"
  shows "\<exists>t. replay p cfg origin dt hs s = Ok t \<and>
    rewards_in (Events t) = rewards_in (Events s) @ replicate (length hs) amount"
proof -
  from replay_run [OF assms(1-4,6,7)] obtain t where t: "replay p cfg origin dt hs s = Ok t"
    "run (pallet_step p cfg) s (map (\<lambda>h. Some (slot_number h (SlotWidth s))) hs) t" by blast
  have "acted (map (\<lambda>h. Some (slot_number h (SlotWidth s))) hs) = map (\<lambda>h. slot_number h (SlotWidth s)) hs"
    by (induction hs) simp_all
  with run_pays [OF assms(2) t(2)] assms(5) t(1) show ?thesis by auto
qed

lemma sample_replayable:
  "replayable sample_config ''none''
     \<lparr>relay_storage_proof = [(9, 113)], relay_state_root = 1, relay_height = 20, para_id = 2000\<rparr> 113
     (sample_chain\<lparr>ThresholdParameter := 0\<rparr>)"
  by (simp add: replayable_def sample_defs fee_based_should_place_order_def Let_def)

theorem replayed_proof_pays_every_turn_witness:
  "\<exists>t. replay Release sample_config ''none''
     \<lparr>relay_storage_proof = [(9, 113)], relay_state_root = 1, relay_height = 20, para_id = 2000\<rparr>
     [20, 32, 44] (sample_chain\<lparr>ThresholdParameter := 0\<rparr>) = Ok t \<and>
   rewards_in (Events t) = replicate 3 (fixed_reward_size Mock_Reward)"
proof -
  let ?s = "sample_chain\<lparr>ThresholdParameter := 0\<rparr>"
  have "\<exists>t. replay Release sample_config ''none''
      \<lparr>relay_storage_proof = [(9, 113)], relay_state_root = 1, relay_height = 20, para_id = 2000\<rparr>
      [20, 32, 44] ?s = Ok t \<and>
    rewards_in (Events t) = rewards_in (Events ?s) @ replicate (length [20 :: u32, 32, 44])
      (fixed_reward_size Mock_Reward)"
  proof (rule replayed_proof_pays_every_turn [OF _ sample_hook _ sample_replayable])
    show "wf_chain ?s" using sample_wf by (simp add: wf_chain_def)
    show "always_mints (fr_mint_into sample_frame)" by (simp add: always_mints_def sample_frame_def)
  qed (auto simp: sample_defs shift_ok_def slot_number_def elected_def)
  then show ?thesis by (simp add: sample_defs numeral_3_eq_3)
qed

text \<open>
  C32: one inherent can end all rewards. If an inherent that is rewarded names the largest relay
  height, then in every run that follows, as long as the slot width stays as it is, no slot is
  rewarded again.
\<close>

theorem forged_height_ends_rewards:
  assumes "wf_chain s" and "OnReward cfg = reward mint_into amount"
    and "reward_due cfg origin d s n v" and "data d = Some dt" and "relay_height dt = - 1"
    and "create_order p cfg origin d s = Ok t" and tr: "trace (pallet_step p cfg) t ls xs"
    and width: "\<forall>x \<in> set xs. SlotWidth x = SlotWidth s"
  shows "acted ls = []"
proof (rule ccontr)
  assume "acted ls \<noteq> []"
  then obtain m where "m \<in> set (acted ls)" by (meson list.set_sel(1))
  then obtain i where i: "i < length ls" "ls ! i = Some m" by (metis set_acted in_set_conv_nth)
  from trace_step [OF tr i(1)] have m: "pallet_step p cfg (xs ! i) (Some m) (xs ! Suc i)"
    by (simp add: i(2))
  have len: "i < length xs" using trace_length [OF tr] i(1) by simp
  have t: "t = rewarded cfg s n v" using assms(1,6,3) by (rule create_order_rewards)
  have "unat (PreviousSlot t) = n" unfolding t using assms(3) by (rule unat_PreviousSlot_rewarded)
  with pallet_ledger.run_mono [OF trace_run [OF tr len]] pallet_rewarding_step [OF m]
  have "n < m" by simp
  moreover have top: "slot_number h (SlotWidth s) \<le> n" for h
    using assms(3-5) slot_number_mono [of h "- 1" "SlotWidth s"] by (auto simp: reward_due_def)
  from m have "\<exists>h. m = slot_number h (SlotWidth (xs ! i))"
    by cases (auto simp: reward_due_def)
  with top width len have "m \<le> n" by auto
  ultimately show False by simp
qed

theorem forged_height_ends_rewards_witness:
  "reward_due sample_config ''none'' (at_height
     \<lparr>relay_storage_proof = [(9, 111)], relay_state_root = 1, relay_height = 20, para_id = 2000\<rparr> (- 1))
     sample_chain 1073741823 111 \<and>
   acted [None, None] = []"
proof -
  let ?d = "at_height \<lparr>relay_storage_proof = [(9, 111)], relay_state_root = 1, relay_height = 20,
    para_id = 2000\<rparr> (- 1) :: sample_proof order_inherent_data"
  have due: "reward_due sample_config ''none'' ?d sample_chain 1073741823 111"
    using sample_criteria
    by (simp add: reward_due_def at_height_def sample_defs slot_number_def elected_def unat_max_word)
  have ok: "create_order Release sample_config ''none'' ?d sample_chain =
      Ok (rewarded sample_config sample_chain 1073741823 111)"
    using sample_wf due by (rule create_order_due) (simp add: shift_ok_def)
  let ?t = "rewarded sample_config sample_chain 1073741823 111"
  have tr: "trace (pallet_step Release sample_config) ?t [None, None]
      [?t, on_finalize ?t, on_finalize (on_finalize ?t)]"
    by (rule trace_Cons pallet_step.end_of_block trace_Nil)+
  have "acted [None, None] = []"
    by (rule forged_height_ends_rewards [OF sample_wf sample_hook due _ _ ok tr])
      (auto simp: at_height_def rewarded_def sample_hook pallet_reward.keeps on_finalize_def)
  with due show ?thesis by simp
qed

end
