(* ===== verification/Order_Service.thy ===== *)
theory Order_Service
  imports Order_Primitives
begin

text \<open>
  The crate \<open>services/order\<close>: the collator-side service that follows the relay chain and places an
  order for on-demand coretime when it is the node's turn. \<open>config.rs\<close> elects the order placer,
  \<open>chain.rs\<close> reads the relay chain state and submits orders, \<open>lib.rs\<close> holds the two tasks that
  share the order record. The relay chain, the RPC client, the keystore, the parachain's runtime
  API and the decoders of foreign types are parameters. A call of another crate that fails is an
  \<open>Inl\<close>, and becomes \<open>External\<close> where the code passes the error on.
\<close>

datatype 'e service_error = Message string | Codec_error | External 'e

fun of_result :: "'e + 'a \<Rightarrow> ('e service_error, 'a) outcome" where
  "of_result (Inl e) = Err (External e)"
| "of_result (Inr v) = Ok v"

fun ok_or :: "string \<Rightarrow> 'a option \<Rightarrow> ('e service_error, 'a) outcome" where
  "ok_or m None = Err (Message m)"
| "ok_or m (Some v) = Ok v"

section \<open>config.rs\<close>

definition current_slot :: "profile \<Rightarrow> u32 \<Rightarrow> u32 \<Rightarrow> ('e, u32) outcome" where
  "current_slot p height slot_width = shr_u32 p height slot_width"

definition order_placer ::
    "profile \<Rightarrow> 'auth list \<Rightarrow> u32 \<Rightarrow> u32 \<Rightarrow> ('e service_error, 'auth) outcome" where
  "order_placer p authorities height slot_width =
     obind (current_slot p height slot_width) (\<lambda>slot.
     obind (rem_u128 (ucast slot) (of_nat (length authorities))) (\<lambda>indx.
     ok_or ''Failed to get selected collator'' (slice_get authorities (ucast indx))))"

section \<open>chain.rs: reading the relay chain\<close>

text \<open>
  Of the relay chain's types only what the code looks at: the traffic of the queue status (the
  inner value of a fixed point number), the base fee and the number of cores of the host
  configuration, whether a para is a parathread, and which assignments of a core are to the pool.
\<close>

record queue_status =
  traffic :: u128

record host_configuration =
  on_demand_base_fee :: u128
  num_cores :: u32

datatype lifecycle = Parathread | Not_parathread

datatype core_assignment = Pool | Not_pool

record work_state =
  assignments :: "(core_assignment \<times> u32) list"

record core_descriptor_value =
  current_work :: "work_state option"

record persisted_validation_data =
  parent_head :: bytes
  max_pov_size :: u32

record 'e relay_chain =
  get_storage_by_key :: "h256 \<Rightarrow> bytes \<Rightarrow> 'e + bytes option"
  persisted_validation_data_at :: "h256 \<Rightarrow> u32 \<Rightarrow> 'e + persisted_validation_data option"
  rc_hashers :: hashers
  encode_u32 :: "u32 \<Rightarrow> bytes"
  decode_queue_status :: "bytes \<Rightarrow> queue_status option"
  decode_host_configuration :: "bytes \<Rightarrow> host_configuration option"
  decode_lifecycle :: "bytes \<Rightarrow> lifecycle option"
  decode_core_descriptor :: "bytes \<Rightarrow> core_descriptor_value option"

definition read_entry ::
    "'e relay_chain \<Rightarrow> (bytes \<Rightarrow> 'a option) \<Rightarrow> h256 \<Rightarrow> bytes \<Rightarrow> 'a option option" where
  "read_entry rc dec hash key =
     (case get_storage_by_key rc hash key of
        Inl e \<Rightarrow> None
      | Inr raw \<Rightarrow> decode_transpose dec raw)"

definition get_spot_price :: "'e relay_chain \<Rightarrow> h256 \<Rightarrow> u128 option" where
  "get_spot_price rc hash =
     (case read_entry rc (decode_queue_status rc) hash QUEUE_STATUS of
        None \<Rightarrow> None
      | Some queue_status \<Rightarrow>
          (case read_entry rc (decode_host_configuration rc) hash ACTIVE_CONFIG of
             None \<Rightarrow> None
           | Some active_config \<Rightarrow>
               (case (queue_status, active_config) of
                  (Some q, Some c) \<Rightarrow> Some (saturating_mul (traffic q) (on_demand_base_fee c))
                | _ \<Rightarrow> None)))"

definition is_parathread ::
    "'e relay_chain \<Rightarrow> h256 \<Rightarrow> u32 \<Rightarrow> ('e service_error, bool) outcome" where
  "is_parathread rc r_hash pid =
     obind (of_result (get_storage_by_key rc r_hash
              (para_lifecycle (rc_hashers rc) (encode_u32 rc) pid))) (\<lambda>raw.
     case decode_transpose (decode_lifecycle rc) raw of
       None \<Rightarrow> Err Codec_error
     | Some lc \<Rightarrow> Ok (lc = Some Parathread))"

fun is_pool :: "core_assignment \<times> u32 \<Rightarrow> bool" where
  "is_pool (Pool, _) = True"
| "is_pool (Not_pool, _) = False"

primrec scan_cores :: "'e relay_chain \<Rightarrow> h256 \<Rightarrow> u32 list \<Rightarrow> bool option" where
  "scan_cores rc hash [] = Some False"
| "scan_cores rc hash (core # cores) =
     (case read_entry rc (decode_core_descriptor rc) hash
             (core_descriptor (rc_hashers rc) (encode_u32 rc) core) of
        None \<Rightarrow> None
      | Some None \<Rightarrow> scan_cores rc hash cores
      | Some (Some descriptor) \<Rightarrow>
          (case current_work descriptor of
             None \<Rightarrow> scan_cores rc hash cores
           | Some work \<Rightarrow> Some (list_ex is_pool (assignments work))))"

definition core_range :: "u32 \<Rightarrow> u32 list" where
  "core_range n = map of_nat [0..<unat n]"

definition on_demand_cores_available :: "'e relay_chain \<Rightarrow> h256 \<Rightarrow> bool option" where
  "on_demand_cores_available rc hash =
     (case read_entry rc (decode_host_configuration rc) hash ACTIVE_CONFIG of
        None \<Rightarrow> None
      | Some None \<Rightarrow> None
      | Some (Some active_config) \<Rightarrow> scan_cores rc hash (core_range (num_cores active_config)))"

section \<open>chain.rs: signing and submitting\<close>

datatype multi_signature = Sr25519 bytes

record 'e keystore =
  sr25519_public_keys :: "h256 list"
  sr25519_sign :: "h256 \<Rightarrow> bytes \<Rightarrow> 'e + bytes option"
  has_keys :: "(bytes \<times> bytes) list \<Rightarrow> bool"
  into_account :: "h256 \<Rightarrow> account_id"

record 'e signer_keystore =
  signer_account_id :: account_id
  signer_store :: "'e keystore"

definition first_key :: "'e keystore \<Rightarrow> ('x, h256) outcome" where
  "first_key ks =
     (case sr25519_public_keys ks of [] \<Rightarrow> Panic ''index out of bounds'' | k # _ \<Rightarrow> Ok k)"

definition signer_new :: "'e keystore \<Rightarrow> ('x, 'e signer_keystore) outcome" where
  "signer_new ks =
     obind (first_key ks) (\<lambda>pub_key.
     Ok \<lparr>signer_account_id = into_account ks pub_key, signer_store = ks\<rparr>)"

definition signer_sign :: "'e signer_keystore \<Rightarrow> bytes \<Rightarrow> ('x, multi_signature) outcome" where
  "signer_sign self payload =
     obind (first_key (signer_store self)) (\<lambda>pub_key.
     case sr25519_sign (signer_store self) pub_key payload of
       Inl e \<Rightarrow> Panic ''called `Result::unwrap()` on an `Err` value''
     | Inr None \<Rightarrow> Panic ''called `Option::unwrap()` on a `None` value''
     | Inr (Some signature) \<Rightarrow> Ok (Sr25519 signature))"

record place_order =
  max_amount :: u128
  order_para_id :: u32

record 'hdr submission =
  sub_order :: place_order
  sub_account :: account_id
  sub_birth_number :: u32
  sub_birth :: 'hdr
  sub_mortality :: u64

record ('e, 'hdr) rpc =
  client_from_url :: "'e + unit"
  rpc_from_url :: "'e + unit"
  chain_get_block_hash :: "u32 \<Rightarrow> 'e + h256 option"
  block_header_at :: "h256 \<Rightarrow> 'e + 'hdr"
  sign_and_submit :: "'hdr submission \<Rightarrow> ('e, unit) outcome"

text \<open>
  \<open>submit_order\<close> up to the call of \<open>sign_and_submit\<close>: the transaction, its signer, and the block
  and number of blocks that bound its validity.
\<close>

definition prepare_order ::
    "profile \<Rightarrow> ('e, 'hdr) rpc \<Rightarrow> u32 \<Rightarrow> u32 \<Rightarrow> u32 \<Rightarrow> u128 \<Rightarrow> 'e keystore \<Rightarrow>
     ('e service_error, 'hdr submission) outcome" where
  "prepare_order p rpc pid height slot_width amount ks =
     obind (of_result (client_from_url rpc)) (\<lambda>client.
     obind (of_result (rpc_from_url rpc)) (\<lambda>rpc_client.
     let place_order = \<lparr>max_amount = amount, order_para_id = pid\<rparr> in
     obind (signer_new ks) (\<lambda>signer.
     obind (current_slot p height slot_width) (\<lambda>slot.
     obind (shl_u32 p slot slot_width) (\<lambda>first_block_in_slot.
     obind (of_result (chain_get_block_hash rpc first_block_in_slot)) (\<lambda>found.
     obind (ok_or ''Failed to get hash of slot starting block'' found) (\<lambda>block_hash.
     obind (of_result (block_header_at rpc block_hash)) (\<lambda>hdr.
     obind (shl_u32 p 1 slot_width) (\<lambda>mortality.
     Ok \<lparr>sub_order = place_order, sub_account = signer_account_id signer,
         sub_birth_number = first_block_in_slot, sub_birth = hdr,
         sub_mortality = ucast mortality\<rparr>)))))))))"

fun map_external :: "('e, 'a) outcome \<Rightarrow> ('e service_error, 'a) outcome" where
  "map_external (Panic m) = Panic m"
| "map_external (Err e) = Err (External e)"
| "map_external (Ok v) = Ok v"

definition submit_order ::
    "profile \<Rightarrow> ('e, 'hdr) rpc \<Rightarrow> u32 \<Rightarrow> u32 \<Rightarrow> u32 \<Rightarrow> u128 \<Rightarrow> 'e keystore \<Rightarrow>
     ('e service_error, unit) outcome \<times> 'hdr submission option" where
  "submit_order p rpc pid height slot_width amount ks =
     (case prepare_order p rpc pid height slot_width amount ks of
        Panic m \<Rightarrow> (Panic m, None)
      | Err e \<Rightarrow> (Err e, None)
      | Ok sub \<Rightarrow> (map_external (sign_and_submit rpc sub), Some sub))"

end
