(* ===== verification/Order_Tasks.thy ===== *)
theory Order_Tasks
  imports Order_Service
begin

text \<open>
  The tasks of the order service (\<open>services/order/src/lib.rs\<close>). One task handles every new best
  relay block and may place an order, the other watches the relay chain's events; both write the
  order record behind a mutex. The handler holds the lock from its slot check to its end, so the
  two tasks interleave as whole critical sections. Streams are lists of what they yield; the
  answers of the environment may differ from one relay block to the next.
\<close>

section \<open>Handling a new best relay block\<close>

record ('e, 'auth, 'hdr) service_env =
  relay :: "'e relay_chain"
  decode_header_hash :: "bytes \<Rightarrow> h256 option"
  api_bulk_mode :: "h256 \<Rightarrow> 'e + bool"
  api_slot_width :: "h256 \<Rightarrow> 'e + u32"
  api_authorities :: "h256 \<Rightarrow> 'e + 'auth list"
  env_keystore :: "'e keystore"
  env_key_type_AURA :: bytes
  auth_to_raw_vec :: "'auth \<Rightarrow> bytes"
  criteria_should_place_order :: "u32 \<Rightarrow> bool"
  relay_rpc :: "('e, 'hdr) rpc"

text \<open>Why a handler returns without placing an order, as its log messages say.\<close>

datatype skip_reason =
    Relying_on_bulk_coretime
  | In_bulk_mode
  | No_cores_allocated
  | Order_already_placed
  | Waiting_for_other
  | Criteria_not_reached

text \<open>
  The handler up to the submission: a reason to skip, or the slot width and the price to place the
  order with.
\<close>

definition order_checks ::
    "profile \<Rightarrow> ('e, 'auth, 'hdr) service_env \<Rightarrow> persisted_validation_data \<Rightarrow> u32 \<Rightarrow> h256 \<Rightarrow> u32 \<Rightarrow>
     order_record \<Rightarrow> ('e service_error, skip_reason + u32 \<times> u128) outcome" where
  "order_checks p env validation_data height r_hash pid rec =
     obind (is_parathread (relay env) r_hash pid) (\<lambda>parathread.
     if \<not> parathread then Ok (Inl Relying_on_bulk_coretime) else
     (case decode_header_hash env (parent_head validation_data) of
        None \<Rightarrow> Err Codec_error
      | Some para_head \<Rightarrow>
     obind (of_result (api_bulk_mode env para_head)) (\<lambda>bulk_mode.
     if bulk_mode then Ok (Inl In_bulk_mode) else
     obind (ok_or ''Failed to check if there are on-demand cores available''
              (on_demand_cores_available (relay env) r_hash)) (\<lambda>available.
     if available then Ok (Inl No_cores_allocated) else
     obind (of_result (api_slot_width env para_head)) (\<lambda>slot_width.
     obind (current_slot p height slot_width) (\<lambda>slot.
     if slot \<le> last_slot rec then Ok (Inl Order_already_placed) else
     obind (of_result (api_authorities env para_head)) (\<lambda>authorities.
     obind (order_placer p authorities height slot_width) (\<lambda>placer.
     if \<not> has_keys (env_keystore env) [(auth_to_raw_vec env placer, env_key_type_AURA env)]
     then Ok (Inl Waiting_for_other) else
     if \<not> criteria_should_place_order env height then Ok (Inl Criteria_not_reached) else
     obind (ok_or ''Failed to get spot price'' (get_spot_price (relay env) r_hash)) (\<lambda>spot_price.
     Ok (Inr (slot_width, spot_price)))))))))))"

definition handle_relaychain_stream ::
    "profile \<Rightarrow> ('e, 'auth, 'hdr) service_env \<Rightarrow> persisted_validation_data \<Rightarrow> u32 \<Rightarrow> h256 \<Rightarrow> u32 \<Rightarrow>
     order_record \<Rightarrow>
     ('e service_error, unit) outcome \<times> order_record \<times> 'hdr submission option" where
  "handle_relaychain_stream p env validation_data height r_hash pid rec =
     (case order_checks p env validation_data height r_hash pid rec of
        Panic m \<Rightarrow> (Panic m, rec, None)
      | Err e \<Rightarrow> (Err e, rec, None)
      | Ok (Inl _) \<Rightarrow> (Ok (), rec, None)
      | Ok (Inr (slot_width, spot_price)) \<Rightarrow>
          (case submit_order p (relay_rpc env) pid height slot_width spot_price
                  (env_keystore env) of
             (Panic m, sub) \<Rightarrow> (Panic m, rec, sub)
           | (Err e, sub) \<Rightarrow> (Err e, rec, sub)
           | (Ok _, sub) \<Rightarrow>
               let rec = rec\<lparr>relay_block_hash := Some r_hash\<rparr> in
               (case current_slot p height slot_width of
                  Panic m \<Rightarrow> (Panic m, rec, sub)
                | Err e \<Rightarrow> (Err e, rec, sub)
                | Ok slot \<Rightarrow> (Ok (), rec\<lparr>last_slot := slot\<rparr>, sub))))"

section \<open>Following the relay chain\<close>

definition validation_data ::
    "'e relay_chain \<Rightarrow> h256 \<Rightarrow> u32 \<Rightarrow> persisted_validation_data option" where
  "validation_data rc hash pid =
     (case persisted_validation_data_at rc hash pid of Inl e \<Rightarrow> None | Inr d \<Rightarrow> d)"

text \<open>
  The notification stream yields headers; each is paired with the environment's answers at that
  time. \<open>new_best_heads\<close> keeps those with validation data.
\<close>

record notification =
  n_number :: u32
  n_hash :: h256

definition new_best_heads ::
    "u32 \<Rightarrow> 'e + (notification \<times> ('e, 'auth, 'hdr) service_env) list \<Rightarrow>
     'e + (u32 \<times> persisted_validation_data \<times> h256 \<times> ('e, 'auth, 'hdr) service_env) list" where
  "new_best_heads pid stream =
     map_sum id (List.map_filter (\<lambda>(n, env).
       case validation_data (relay env) (n_hash n) pid of
         None \<Rightarrow> None
       | Some d \<Rightarrow> Some (n_number n, d, n_hash n, env))) stream"

text \<open>
  The loop of \<open>follow_relay_chain\<close> over the heads: errors of a handler are dropped, a panic ends
  the task. It returns whether it panicked, the record and the submissions in order.
\<close>

primrec follow_heads ::
    "profile \<Rightarrow> u32 \<Rightarrow> (u32 \<times> persisted_validation_data \<times> h256 \<times> ('e, 'auth, 'hdr) service_env) list \<Rightarrow>
     order_record \<Rightarrow> string option \<times> order_record \<times> 'hdr submission list" where
  "follow_heads p pid [] rec = (None, rec, [])"
| "follow_heads p pid (h # hs) rec =
     (case h of (height, d, r_hash, env) \<Rightarrow>
        (case handle_relaychain_stream p env d height r_hash pid rec of
           (res, rec', sub) \<Rightarrow>
             (case res of
                Panic m \<Rightarrow> (Some m, rec', case sub of None \<Rightarrow> [] | Some s \<Rightarrow> [s])
              | _ \<Rightarrow>
                  (case follow_heads p pid hs rec' of
                     (fin, rec'', subs) \<Rightarrow>
                       (fin, rec'', (case sub of None \<Rightarrow> subs | Some s \<Rightarrow> s # subs))))))"

definition follow_relay_chain ::
    "profile \<Rightarrow> u32 \<Rightarrow> 'e + (notification \<times> ('e, 'auth, 'hdr) service_env) list \<Rightarrow> order_record \<Rightarrow>
     string option \<times> order_record \<times> 'hdr submission list" where
  "follow_relay_chain p pid stream rec =
     (case new_best_heads pid stream of
        Inl e \<Rightarrow> (None, rec, [])
      | Inr heads \<Rightarrow> follow_heads p pid heads rec)"

section \<open>Watching the relay chain's events\<close>

text \<open>
  An event that decodes as \<open>OnDemandOrderPlaced\<close>, one that is another event or fails to decode;
  an \<open>Inl\<close> in the list is an event the client could not read.
\<close>

datatype relay_event = OnDemandOrderPlaced u32 u128 | Other_event | Undecodable_event

text \<open>The body of the loop over the events of a block.\<close>

fun note_event :: "u32 \<Rightarrow> h256 \<Rightarrow> relay_event \<Rightarrow> order_record \<Rightarrow> order_record" where
  "note_event pid block_hash (OnDemandOrderPlaced ev_para spot_price) rec =
     (if ev_para = pid then rec\<lparr>relay_block_hash := Some block_hash\<rparr> else rec)"
| "note_event pid block_hash Other_event rec = rec"
| "note_event pid block_hash Undecodable_event rec = rec"

primrec watch_events :: "u32 \<Rightarrow> h256 \<Rightarrow> ('e + relay_event) list \<Rightarrow> order_record \<Rightarrow>
    ('e service_error, unit) outcome \<times> order_record" where
  "watch_events pid block_hash [] rec = (Ok (), rec)"
| "watch_events pid block_hash (ev # evs) rec =
     (case ev of
        Inl e \<Rightarrow> (Err (External e), rec)
      | Inr event \<Rightarrow> watch_events pid block_hash evs (note_event pid block_hash event rec))"

record 'e best_block =
  bb_hash :: h256
  bb_events :: "'e + ('e + relay_event) list"

primrec watch_blocks :: "u32 \<Rightarrow> ('e + 'e best_block) list \<Rightarrow> order_record \<Rightarrow>
    ('e service_error, unit) outcome \<times> order_record" where
  "watch_blocks pid [] rec = (Ok (), rec)"
| "watch_blocks pid (b # bs) rec =
     (case b of
        Inl e \<Rightarrow> (Err (External e), rec)
      | Inr block \<Rightarrow>
          (case bb_events block of
             Inl e \<Rightarrow> (Err (External e), rec)
           | Inr events \<Rightarrow>
               (case watch_events pid (bb_hash block) events rec of
                  (Ok _, rec') \<Rightarrow> watch_blocks pid bs rec'
                | (err, rec') \<Rightarrow> (err, rec'))))"

text \<open>A session: the client connects, subscribes to the best blocks, and reads them.\<close>

definition ondemand_event_task ::
    "u32 \<Rightarrow> 'e + ('e + ('e + 'e best_block) list) \<Rightarrow> order_record \<Rightarrow>
     ('e service_error, unit) outcome \<times> order_record" where
  "ondemand_event_task pid session rec =
     (case session of
        Inl e \<Rightarrow> (Err (External e), rec)
      | Inr (Inl e) \<Rightarrow> (Err (External e), rec)
      | Inr (Inr blocks) \<Rightarrow> watch_blocks pid blocks rec)"

text \<open>
  \<open>event_notification\<close> restarts the session for ever; over the first sessions of the loop the
  record is threaded through and their results are dropped.
\<close>

primrec event_notification ::
    "u32 \<Rightarrow> ('e + ('e + ('e + 'e best_block) list)) list \<Rightarrow> order_record \<Rightarrow> order_record" where
  "event_notification pid [] rec = rec"
| "event_notification pid (s # ss) rec =
     event_notification pid ss (snd (ondemand_event_task pid s rec))"

section \<open>Starting the service\<close>

definition start_on_demand :: "string option \<Rightarrow> ('x, string) outcome" where
  "start_on_demand rpc_addr =
     (case rpc_addr of
        None \<Rightarrow> Panic ''RPC address required for submitting on-demand orders''
      | Some addr \<Rightarrow> Ok (''ws://'' @ addr))"

text \<open>
  \<open>run_on_demand_task\<close> runs both tasks over the shared record: the steps of the service in an
  environment that answers every head in one of the ways \<open>envs\<close>. A head step is labelled with the
  slot it records an order for, if it records one.
\<close>

inductive service_step ::
    "('e, 'auth, 'hdr) service_env set \<Rightarrow> profile \<Rightarrow> u32 \<Rightarrow>
     order_record \<times> 'hdr submission list \<Rightarrow> nat option \<Rightarrow>
     order_record \<times> 'hdr submission list \<Rightarrow> bool"
  for envs p pid where
  order_placed: "env \<in> envs \<Longrightarrow>
     handle_relaychain_stream p env d height r_hash pid rec = (Ok (), rec', Some sub) \<Longrightarrow>
     service_step envs p pid (rec, subs) (Some (unat (last_slot rec'))) (rec', subs @ [sub])"
| order_not_placed: "env \<in> envs \<Longrightarrow>
     handle_relaychain_stream p env d height r_hash pid rec = (Ok (), rec', None) \<Longrightarrow>
     service_step envs p pid (rec, subs) None (rec', subs)"
| handler_failed: "env \<in> envs \<Longrightarrow>
     handle_relaychain_stream p env d height r_hash pid rec = (Err e, rec', sub) \<Longrightarrow>
     service_step envs p pid (rec, subs) None
       (rec', subs @ (case sub of None \<Rightarrow> [] | Some s \<Rightarrow> [s]))"
| order_event: "service_step envs p pid (rec, subs) None (note_event pid block_hash event rec, subs)"

section \<open>Lemmas on the handler\<close>

text \<open>
  The specification of an order: what holds of the environment, the relay block and the record
  when the handler goes on to submit an order with slot width \<open>w\<close> and price \<open>price\<close>.
\<close>

definition order_due ::
    "('e, 'auth, 'hdr) service_env \<Rightarrow> persisted_validation_data \<Rightarrow> u32 \<Rightarrow> h256 \<Rightarrow> u32 \<Rightarrow> order_record \<Rightarrow>
     u32 \<Rightarrow> u128 \<Rightarrow> bool" where
  "order_due env d height r_hash pid rec w price \<longleftrightarrow>
     is_parathread (relay env) r_hash pid = Ok True \<and>
     on_demand_cores_available (relay env) r_hash = Some False \<and>
     unat (last_slot rec) < slot_number height w \<and>
     criteria_should_place_order env height \<and>
     get_spot_price (relay env) r_hash = Some price \<and>
     (\<exists>para_head authorities. decode_header_hash env (parent_head d) = Some para_head \<and>
        api_bulk_mode env para_head = Inr False \<and> api_slot_width env para_head = Inr w \<and>
        api_authorities env para_head = Inr authorities \<and> authorities \<noteq> [] \<and>
        has_keys (env_keystore env)
          [(auth_to_raw_vec env (elected authorities height w), env_key_type_AURA env)])"

text \<open>The authority list of a runtime API answer fits a vector.\<close>

definition wf_env :: "('e, 'auth, 'hdr) service_env \<Rightarrow> bool" where
  "wf_env env \<longleftrightarrow> (\<forall>h auths. api_authorities env h = Inr auths \<longrightarrow> length auths < 2 ^ 64)"

lemma of_result_Ok_iff [simp]: "of_result r = Ok v \<longleftrightarrow> r = Inr v"
  by (cases r) simp_all

lemma ok_or_Ok_iff [simp]: "ok_or m x = Ok v \<longleftrightarrow> x = Some v"
  by (cases x) simp_all

lemma map_external_Ok_iff [simp]: "map_external x = Ok v \<longleftrightarrow> x = Ok v"
  by (cases x) simp_all

lemma current_slot_Ok_iff:
  "current_slot p h w = Ok slot \<longleftrightarrow> shift_ok p w \<and> unat slot = slot_number h w"
  by (simp add: current_slot_def shr_u32_slot)

lemma of_nat_length_eq_0:
  assumes "length xs < 2 ^ 64"
  shows "(of_nat (length xs) :: u128) = 0 \<longleftrightarrow> xs = []"
proof -
  have "(of_nat (length xs) :: u128) = 0 \<longleftrightarrow> unat (of_nat (length xs) :: u128) = 0"
    by (simp only: unat_eq_0)
  then show ?thesis by (simp only: unat_of_nat_length_u128 [OF assms] length_0_conv)
qed

lemma order_placer_Ok_iff:
  assumes "length auths < 2 ^ 64"
  shows "order_placer p auths h w = Ok a \<longleftrightarrow> shift_ok p w \<and> auths \<noteq> [] \<and> a = elected auths h w"
proof (cases "auths = []")
  case True
  then show ?thesis by (simp add: order_placer_def obind_eq_Ok_iff rem_u128_def)
next
  case False
  have slot: "\<exists>slot. current_slot p h w = Ok slot" if "shift_ok p w"
    using that by (simp add: current_slot_def shr_u32_Ok_iff shift_ok_def)
  have "slice_get auths (ucast (ucast slot mod of_nat (length auths) :: u128)) =
      Some (elected auths h w)" if "unat slot = slot_number h w" for slot :: u32
    using that by (intro slice_get_elected [OF False assms]) (simp add: rust_arith)
  with False assms slot show ?thesis
    by (auto simp: order_placer_def obind_eq_Ok_iff rem_u128_def of_nat_length_eq_0
        current_slot_Ok_iff)
qed

lemma is_panic_order_placer_Nil: "shift_ok p w \<Longrightarrow> is_panic (order_placer p [] h w)"
  by (auto simp: order_placer_def is_panic_obind rem_u128_def current_slot_def shr_u32_Ok_iff
      shift_ok_def)

lemma skip_iff: "(if b then Ok (Inl x) else y) = Ok (Inr z) \<longleftrightarrow> \<not> b \<and> y = Ok (Inr z)"
  by simp

lemma order_checks_Inr_iff:
  "order_checks p env d height r_hash pid rec = Ok (Inr (w, price)) \<longleftrightarrow>
     is_parathread (relay env) r_hash pid = Ok True \<and>
     (\<exists>para_head. decode_header_hash env (parent_head d) = Some para_head \<and>
        api_bulk_mode env para_head = Inr False \<and>
        on_demand_cores_available (relay env) r_hash = Some False \<and>
        api_slot_width env para_head = Inr w \<and>
        (\<exists>slot. current_slot p height w = (Ok slot :: ('a service_error, u32) outcome) \<and>
           \<not> slot \<le> last_slot rec) \<and>
        (\<exists>auths placer. api_authorities env para_head = Inr auths \<and>
           order_placer p auths height w = (Ok placer :: ('a service_error, 'b) outcome) \<and>
           has_keys (env_keystore env) [(auth_to_raw_vec env placer, env_key_type_AURA env)]) \<and>
        criteria_should_place_order env height \<and>
        get_spot_price (relay env) r_hash = Some price)"
  for env :: "('a, 'b, 'c) service_env"
  unfolding order_checks_def
  by (simp only: obind_eq_Ok_iff skip_iff of_result_Ok_iff ok_or_Ok_iff split: option.split) auto

lemma order_checks_due:
  assumes "wf_env env"
  shows "order_checks p env d height r_hash pid rec = Ok (Inr (w, price)) \<longleftrightarrow>
    order_due env d height r_hash pid rec w price \<and> shift_ok p w"
proof -
  have len: "length auths < 2 ^ 64" if "api_authorities env h = Inr auths" for h auths
    using assms that by (auto simp: wf_env_def)
  have slot: "(\<exists>slot. current_slot p height w = Ok slot \<and> \<not> slot \<le> last_slot rec) \<longleftrightarrow>
      shift_ok p w \<and> unat (last_slot rec) < slot_number height w"
  proof -
    have "current_slot p height w = Ok (drop_bit (unat w mod 32) height)" if "shift_ok p w"
      using that by (simp add: current_slot_def shr_u32_Ok_iff shift_ok_def)
    then show ?thesis by (auto simp: current_slot_Ok_iff word_le_nat_alt not_le)
  qed
  show ?thesis
    unfolding order_checks_Inr_iff slot order_due_def
    by (auto simp: order_placer_Ok_iff [OF len])
qed

text \<open>
  The handler, case by case: no submission and the record as it was, a submission that failed and
  the record as it was, or a submission that succeeded and the record of its slot.
\<close>

lemma handle_cases:
  fixes env :: "('a, 'b, 'c) service_env"
  assumes "handle_relaychain_stream p env d height r_hash pid rec = (res, rec', sub)"
  obtains (skipped) "sub = None" "rec' = rec" "\<nexists>w price. order_checks p env d height r_hash pid rec =
      Ok (Inr (w, price))"
  | (unprepared) w price where "order_checks p env d height r_hash pid rec = Ok (Inr (w, price))"
      "sub = None" "rec' = rec" "res \<noteq> Ok ()"
      "\<nexists>x. prepare_order p (relay_rpc env) pid height w price (env_keystore env) = Ok x"
  | (failed) w price x where "order_checks p env d height r_hash pid rec = Ok (Inr (w, price))"
      "prepare_order p (relay_rpc env) pid height w price (env_keystore env) = Ok x"
      "sub = Some x" "rec' = rec" "res \<noteq> Ok ()" "sign_and_submit (relay_rpc env) x \<noteq> Ok ()"
  | (placed) w price x slot where "order_checks p env d height r_hash pid rec = Ok (Inr (w, price))"
      "prepare_order p (relay_rpc env) pid height w price (env_keystore env) = Ok x"
      "sub = Some x" "res = Ok ()" "sign_and_submit (relay_rpc env) x = Ok ()"
      "current_slot p height w = (Ok slot :: ('a service_error, u32) outcome)"
      "rec' = \<lparr>relay_block_hash = Some r_hash, last_slot = slot\<rparr>"
proof (cases "\<exists>w price. order_checks p env d height r_hash pid rec = Ok (Inr (w, price))")
  case False
  then have "sub = None \<and> rec' = rec"
    using assms
    by (cases "order_checks p env d height r_hash pid rec")
      (auto simp: handle_relaychain_stream_def split: sum.splits)
  with False show ?thesis using skipped by blast
next
  case True
  then obtain w price
    where due: "order_checks p env d height r_hash pid rec = Ok (Inr (w, price))" by blast
  then obtain slot where slot: "current_slot p height w = (Ok slot :: ('a service_error, u32) outcome)"
    by (auto simp: order_checks_Inr_iff)
  let ?prep = "prepare_order p (relay_rpc env) pid height w price (env_keystore env)"
  show ?thesis
  proof (cases ?prep)
    case (Ok x)
    then show ?thesis
      using assms due slot
      by (cases "sign_and_submit (relay_rpc env) x")
        (auto simp: handle_relaychain_stream_def submit_order_def intro: failed placed)
  qed (use assms due in \<open>auto simp: handle_relaychain_stream_def submit_order_def intro: unprepared\<close>)
qed

lemma service_silent_step:
  assumes "service_step envs p pid s None t"
  shows "last_slot (fst t) = last_slot (fst s)"
  using assms
proof cases
  case order_not_placed
  from order_not_placed(4) show ?thesis
    by (cases rule: handle_cases) (simp_all add: order_not_placed)
next
  case handler_failed
  from handler_failed(4) show ?thesis
    by (cases rule: handle_cases) (simp_all add: handler_failed)
next
  case (order_event rec subs block_hash event)
  then show ?thesis by (cases event) auto
qed

lemma service_placing_step:
  assumes "service_step envs p pid s (Some n) t"
  shows "unat (last_slot (fst s)) < n \<and> unat (last_slot (fst t)) = n"
  using assms
proof cases
  case (order_placed env d height r_hash rec rec' sub subs)
  from order_placed(5) show ?thesis
  proof (cases rule: handle_cases)
    case (placed w price x slot)
    then have "\<not> slot \<le> last_slot rec" by (auto simp: order_checks_Inr_iff)
    with placed order_placed show ?thesis by (simp add: word_le_nat_alt)
  qed simp_all
qed

interpretation service_ledger:
  slot_ledger "\<lambda>s. unat (last_slot (fst s))" "service_step envs p pid" for envs p pid
  by unfold_locales (auto dest: service_silent_step service_placing_step)

section \<open>Lemmas on the tasks\<close>

text \<open>The loop over the heads is a run of the service, as long as no handler panics.\<close>

lemma follow_heads_run:
  assumes "follow_heads p pid hs rec = (None, rec', subs)"
    and "(snd \<circ> snd \<circ> snd) ` set hs \<subseteq> envs"
  shows "\<exists>ls. run (service_step envs p pid) (rec, subs0) ls (rec', subs0 @ subs)"
  using assms
proof (induction hs arbitrary: rec subs subs0)
  case Nil
  then show ?case by (auto intro: run.intros)
next
  case (Cons h hs)
  obtain height d r_hash env where h: "h = (height, d, r_hash, env)" by (cases h) auto
  obtain res rec1 sub
    where step: "handle_relaychain_stream p env d height r_hash pid rec = (res, rec1, sub)"
    by (metis prod_cases3)
  obtain fin rec2 subs1 where rest: "follow_heads p pid hs rec1 = (fin, rec2, subs1)"
    by (metis prod_cases3)
  let ?new = "case sub of None \<Rightarrow> [] | Some s \<Rightarrow> [s]"
  from Cons.prems(2) h have env: "env \<in> envs" and envs: "(snd \<circ> snd \<circ> snd) ` set hs \<subseteq> envs"
    by auto
  have "follow_heads p pid (h # hs) rec =
      (case res of Panic m \<Rightarrow> (Some m, rec1, ?new) | _ \<Rightarrow> (fin, rec2, ?new @ subs1))"
    by (simp add: h step rest split: outcome.split option.split)
  with Cons.prems(1) have no_panic: "\<nexists>m. res = Panic m" and fin: "fin = None"
    and rec2: "rec2 = rec'" and subs: "subs = ?new @ subs1"
    by (cases res; simp)+
  have "\<exists>l. service_step envs p pid (rec, subs0) l (rec1, subs0 @ ?new)"
  proof (cases res)
    case (Ok u)
    with step env show ?thesis by (cases sub) (auto intro: service_step.intros)
  qed (use step env no_panic in \<open>auto intro: service_step.handler_failed\<close>)
  then obtain l where l: "service_step envs p pid (rec, subs0) l (rec1, subs0 @ ?new)" ..
  have "\<exists>ls. run (service_step envs p pid) (rec1, subs0 @ ?new) ls (rec', (subs0 @ ?new) @ subs1)"
    by (rule Cons.IH) (use rest fin rec2 envs in simp_all)
  then obtain ls where
    "run (service_step envs p pid) (rec1, subs0 @ ?new) ls (rec', (subs0 @ ?new) @ subs1)" ..
  with l have "run (service_step envs p pid) (rec, subs0) (l # ls) (rec', (subs0 @ ?new) @ subs1)"
    by (rule run_Cons)
  then show ?case unfolding subs append_assoc by (rule exI)
qed

text \<open>
  The specification of the event watcher: the events it gets to see of a block, whether one of
  them is an order of the para, and the blocks of a session it reads to their last event.
\<close>

fun seen_events :: "('e + relay_event) list \<Rightarrow> relay_event list" where
  "seen_events (Inr ev # evs) = ev # seen_events evs"
| "seen_events _ = []"

definition own_order :: "u32 \<Rightarrow> relay_event \<Rightarrow> bool" where
  "own_order pid ev \<longleftrightarrow> (\<exists>price. ev = OnDemandOrderPlaced pid price)"

lemma note_event_own:
  "note_event pid h ev rec =
     (if own_order pid ev then rec\<lparr>relay_block_hash := Some h\<rparr> else rec)"
  by (cases ev) (auto simp: own_order_def)

lemma watch_events_record:
  "snd (watch_events pid h evs rec) =
     (if \<exists>ev \<in> set (seen_events evs). own_order pid ev
      then rec\<lparr>relay_block_hash := Some h\<rparr> else rec)"
proof (induction evs arbitrary: rec)
  case (Cons ev evs)
  then show ?case by (cases ev) (simp_all add: note_event_own)
qed simp

lemma watch_events_result:
  "fst (watch_events pid h evs rec) =
     (case dropWhile (Not \<circ> isl) evs of Inl e # _ \<Rightarrow> Err (External e) | _ \<Rightarrow> Ok ())"
  by (induction evs arbitrary: rec) (auto split: sum.split)

lemma watch_blocks_last_slot: "last_slot (snd (watch_blocks pid bs rec)) = last_slot rec"
proof (induction bs arbitrary: rec)
  case (Cons b bs)
  have "last_slot rec' = last_slot rec" if "watch_events pid h evs rec = (res, rec')"
    for h and evs :: "('a + relay_event) list" and res rec'
    using arg_cong [OF that, of snd] by (auto simp: watch_events_record split: if_splits)
  with Cons.IH show ?case
    by (auto split: sum.split prod.split outcome.split)
qed simp

end
