(* ===== verification/Service_Properties.thy ===== *)
theory Service_Properties
  imports Order_Tasks "HOL-Library.Multiset"
begin

text \<open>
  What the order service guarantees: when it submits an order and what it then records, that it
  orders at most once per slot whatever the relay chain and the events do, the validity window of
  the transaction it submits, the turn of each authority, what it reads off the relay chain's
  cores and prices, and what the event watcher writes. A concrete environment, with a parathread
  that has two authorities and a node that holds the second one's key, serves the witnesses.
\<close>

section \<open>A concrete environment\<close>

definition sample_relay :: "string relay_chain" where
  "sample_relay = \<lparr>
     get_storage_by_key = \<lambda>hash key. Inr (Some []),
     persisted_validation_data_at = \<lambda>hash pid. Inr (Some \<lparr>parent_head = [], max_pov_size = 5\<rparr>),
     rc_hashers = \<lparr>blake2_128 = id, twox_64 = id, twox_256 = id\<rparr>,
     encode_u32 = \<lambda>n. [ucast n],
     decode_queue_status = \<lambda>raw. Some \<lparr>traffic = 3\<rparr>,
     decode_host_configuration = \<lambda>raw. Some \<lparr>on_demand_base_fee = 10, num_cores = 2\<rparr>,
     decode_lifecycle = \<lambda>raw. Some Parathread,
     decode_core_descriptor =
       \<lambda>raw. Some \<lparr>current_work = Some \<lparr>assignments = [(Not_pool, 57600)]\<rparr>\<rparr>\<rparr>"

definition sample_keystore :: "string keystore" where
  "sample_keystore = \<lparr>
     sr25519_public_keys = [77],
     sr25519_sign = \<lambda>key payload. Inr (Some []),
     has_keys = \<lambda>keys. list_all (\<lambda>k. fst k = [2]) keys,
     into_account = id\<rparr>"

definition sample_rpc :: "(string, h256) rpc" where
  "sample_rpc = \<lparr>
     client_from_url = Inr (),
     rpc_from_url = Inr (),
     chain_get_block_hash = \<lambda>n. Inr (Some (ucast n)),
     block_header_at = Inr,
     sign_and_submit = \<lambda>sub. Ok ()\<rparr>"

definition sample_env :: "(string, u8, h256) service_env" where
  "sample_env = \<lparr>
     relay = sample_relay,
     decode_header_hash = \<lambda>raw. Some 9,
     api_bulk_mode = \<lambda>h. Inr False,
     api_slot_width = \<lambda>h. Inr 2,
     api_authorities = \<lambda>h. Inr [1, 2],
     env_keystore = sample_keystore,
     env_key_type_AURA = [97, 117, 114, 97],
     auth_to_raw_vec = \<lambda>a. [a],
     criteria_should_place_order = \<lambda>h. True,
     relay_rpc = sample_rpc\<rparr>"

definition sample_head :: persisted_validation_data where
  "sample_head = \<lparr>parent_head = [], max_pov_size = 5\<rparr>"

definition sample_record :: order_record where
  "sample_record = \<lparr>relay_block_hash = None, last_slot = 0\<rparr>"

definition sample_submission :: "h256 submission" where
  "sample_submission = \<lparr>sub_order = \<lparr>max_amount = 30, order_para_id = 2000\<rparr>, sub_account = 77,
     sub_birth_number = 4, sub_birth = 4, sub_mortality = 4\<rparr>"

lemma sample_wf_env: "wf_env sample_env"
  by (simp add: wf_env_def sample_env_def)

text \<open>At relay block 6 it is the second authority's turn, and the order goes out.\<close>

lemma sample_reads:
  "is_parathread sample_relay r_hash pid = Ok True"
  "on_demand_cores_available sample_relay r_hash = Some False"
  "get_spot_price sample_relay r_hash = Some 30"
  by (simp_all add: is_parathread_def on_demand_cores_available_def get_spot_price_def
      read_entry_def sample_relay_def core_range_def upt_rec saturating_mul_def)

lemma sample_slot: "current_slot p 6 2 = Ok 1"
  by (simp add: current_slot_def shr_u32_small drop_bit_eq_div)

lemma sample_placer: "order_placer p [1 :: u8, 2] 6 2 = Ok 2"
  by (simp add: order_placer_Ok_iff shift_ok_def elected_def slot_number_def)

lemma sample_prepared:
  "prepare_order p sample_rpc 2000 6 2 30 sample_keystore = Ok sample_submission"
  by (simp add: prepare_order_def sample_slot sample_rpc_def sample_keystore_def signer_new_def
      first_key_def shl_u32_def sample_submission_def push_bit_eq_mult)

lemma sample_handler:
  "handle_relaychain_stream p sample_env sample_head 6 42 2000 sample_record =
     (Ok (), \<lparr>relay_block_hash = Some 42, last_slot = 1\<rparr>, Some sample_submission)"
proof -
  have "order_checks p sample_env sample_head 6 42 2000 sample_record = Ok (Inr (2, 30))"
    by (simp add: order_checks_def sample_env_def sample_reads sample_slot sample_placer
        sample_record_def sample_keystore_def)
  moreover have "submit_order p sample_rpc 2000 6 2 30 sample_keystore =
      (Ok (), Some sample_submission)"
    by (simp add: submit_order_def sample_prepared) (simp add: sample_rpc_def)
  ultimately show ?thesis
    by (simp add: handle_relaychain_stream_def sample_slot sample_env_def sample_record_def)
qed

section \<open>When an order is placed\<close>

lemma handler_submits:
  assumes "handle_relaychain_stream p env d height r_hash pid rec = (res, rec', sub)"
  shows "sub = Some x \<longleftrightarrow>
    (\<exists>w price. order_checks p env d height r_hash pid rec = Ok (Inr (w, price)) \<and>
       prepare_order p (relay_rpc env) pid height w price (env_keystore env) = Ok x)"
  using assms by (cases rule: handle_cases) auto

text \<open>
  C7: the handler submits an order exactly when one is due (the para is a parathread, not in bulk
  mode, \<open>on_demand_cores_available\<close> answered \<open>Some False\<close>, the slot is past the recorded one, the
  node holds the key of the slot's elected authority and the criteria hold) and the transaction
  could be prepared; and it submits exactly the prepared transaction.
\<close>

theorem handler_submits_iff_due:
  assumes "wf_env env"
    and "handle_relaychain_stream p env d height r_hash pid rec = (res, rec', sub)"
  shows "sub = Some x \<longleftrightarrow>
    (\<exists>w price. order_due env d height r_hash pid rec w price \<and> shift_ok p w \<and>
       prepare_order p (relay_rpc env) pid height w price (env_keystore env) = Ok x)"
  by (simp add: handler_submits [OF assms(2)] order_checks_due [OF assms(1)])

theorem handler_submits_iff_due_witness:
  "wf_env sample_env \<and>
   (\<exists>w price. order_due sample_env sample_head 6 42 2000 sample_record w price \<and>
      shift_ok Release w \<and>
      prepare_order Release (relay_rpc sample_env) 2000 6 w price (env_keystore sample_env) =
        Ok sample_submission)"
  using handler_submits_iff_due [OF sample_wf_env sample_handler] sample_wf_env by blast

text \<open>
  C8: the order record changes exactly when a submission succeeded, and then it holds the relay
  block of the order and the slot of that block; on every skip and every error it is unchanged.
\<close>

theorem record_follows_submission:
  assumes "wf_env env"
    and "handle_relaychain_stream p env d height r_hash pid rec = (res, rec', sub)"
  shows "(rec' \<noteq> rec \<longleftrightarrow> sub \<noteq> None \<and> res = Ok ()) \<and>
    (rec' \<noteq> rec \<longrightarrow> (\<exists>w price. order_due env d height r_hash pid rec w price \<and>
       relay_block_hash rec' = Some r_hash \<and> unat (last_slot rec') = slot_number height w))"
  using assms(2)
proof (cases rule: handle_cases)
  case (placed w price x slot)
  then have due: "order_due env d height r_hash pid rec w price"
    and slot: "unat slot = slot_number height w"
    by (simp_all add: order_checks_due [OF assms(1)] current_slot_Ok_iff)
  then have "unat (last_slot rec) < unat (last_slot rec')"
    using placed by (simp add: order_due_def)
  with placed due slot show ?thesis by auto
qed auto

theorem record_follows_submission_witness:
  "wf_env sample_env \<and>
   fst (snd (handle_relaychain_stream Release sample_env sample_head 6 42 2000 sample_record)) \<noteq>
     sample_record"
  using record_follows_submission [OF sample_wf_env sample_handler [of Release]]
  by (simp add: sample_wf_env sample_handler)

text \<open>
  Over every interleaving of the two tasks, whatever the relay chain, the RPC node and the
  runtime answer, the slots the service records orders for strictly increase: it places at most
  one order per slot, and no more orders than the recorded slot advances.
\<close>

theorem service_orders_once_per_slot:
  assumes "run (service_step envs p pid) s ls t"
  shows "sorted_wrt (<) (acted ls) \<and>
    length (acted ls) \<le> unat (last_slot (fst t)) - unat (last_slot (fst s))"
  using assms by (auto dest: service_ledger.run_acted_sorted service_ledger.run_acted_count)

lemma sample_service_run:
  "run (service_step {sample_env} p 2000) (sample_record, []) [Some 1]
     (\<lparr>relay_block_hash = Some 42, last_slot = 1\<rparr>, [sample_submission])"
proof (rule run_Cons [OF _ run_Nil])
  show "service_step {sample_env} p 2000 (sample_record, []) (Some 1)
      (\<lparr>relay_block_hash = Some 42, last_slot = 1\<rparr>, [sample_submission])"
    using service_step.order_placed [OF _ sample_handler, of "{sample_env}" p "[]"] by simp
qed

theorem service_orders_once_per_slot_witness:
  "sorted_wrt (<) (acted [Some 1]) \<and> length (acted [Some (1 :: nat)]) \<le> 1"
  using service_orders_once_per_slot [OF sample_service_run] by (simp add: sample_record_def)

text \<open>
  The loop of \<open>follow_relay_chain\<close> that ends without a panic is a run of the service over the
  environments of its heads, so its orders are for distinct slots and the recorded slot never
  falls; every submission it made is one of that run.
\<close>

theorem follow_relay_chain_is_a_run:
  assumes "follow_relay_chain p pid (Inr heads) rec = (None, rec', subs)"
  shows "\<exists>ls. run (service_step (snd ` set heads) p pid) (rec, []) ls (rec', subs) \<and>
    distinct (acted ls) \<and> last_slot rec \<le> last_slot rec'"
proof -
  let ?f = "\<lambda>(n, env). case validation_data (relay env) (n_hash n) pid of
      None \<Rightarrow> None | Some d \<Rightarrow> Some (n_number n, d, n_hash n, env)"
  have "follow_heads p pid (List.map_filter ?f heads) rec = (None, rec', subs)"
    using assms by (simp add: follow_relay_chain_def new_best_heads_def)
  moreover have "(snd \<circ> snd \<circ> snd) ` set (List.map_filter ?f heads) \<subseteq> snd ` set heads"
    by (force simp: List.map_filter_def split: option.splits)
  ultimately obtain ls where
    ls: "run (service_step (snd ` set heads) p pid) (rec, []) ls (rec', [] @ subs)"
    by (meson follow_heads_run)
  from service_ledger.run_acted_distinct [OF ls] service_ledger.run_mono [OF ls] ls
  show ?thesis by (auto simp: word_le_nat_alt)
qed

theorem follow_relay_chain_is_a_run_witness:
  "\<exists>ls. run (service_step {sample_env} Release 2000) (sample_record, []) ls
      (\<lparr>relay_block_hash = Some 42, last_slot = 1\<rparr>, [sample_submission]) \<and>
    distinct (acted ls) \<and> last_slot sample_record \<le> 1"
proof -
  have data: "validation_data (relay sample_env) 42 2000 = Some sample_head"
    by (simp add: validation_data_def sample_env_def sample_relay_def sample_head_def)
  have "follow_relay_chain Release 2000 (Inr [(\<lparr>n_number = 6, n_hash = 42\<rparr>, sample_env)])
      sample_record = (None, \<lparr>relay_block_hash = Some 42, last_slot = 1\<rparr>, [sample_submission])"
    by (simp add: follow_relay_chain_def new_best_heads_def List.map_filter_def data sample_handler)
  from follow_relay_chain_is_a_run [OF this] show ?thesis by simp
qed

text \<open>
  An environment in which the handler cannot panic: the slot width the runtime answers can be
  shifted by, the authorities are not empty, the keystore has a key to sign with, and the client
  does not panic itself.
\<close>

definition healthy :: "profile \<Rightarrow> ('e, 'auth, 'hdr) service_env \<Rightarrow> bool" where
  "healthy p env \<longleftrightarrow> wf_env env \<and>
     (\<forall>h w. api_slot_width env h = Inr w \<longrightarrow> shift_ok p w) \<and>
     (\<forall>h. api_authorities env h \<noteq> Inr []) \<and>
     sr25519_public_keys (env_keystore env) \<noteq> [] \<and>
     (\<forall>sub. \<not> is_panic (sign_and_submit (relay_rpc env) sub))"

lemma not_panic_of_result [simp]: "\<not> is_panic (of_result r)"
  by (cases r) simp_all

lemma not_panic_ok_or [simp]: "\<not> is_panic (ok_or m x)"
  by (cases x) simp_all

lemma is_panic_map_external [simp]: "is_panic (map_external out) \<longleftrightarrow> is_panic out"
  by (cases out) simp_all

lemma not_panic_slot:
  assumes "shift_ok p w"
  shows "\<not> is_panic (current_slot p h w)" "\<not> is_panic (shl_u32 p x w)"
  using assms by (auto simp: current_slot_def is_panic_shr_u32 shl_u32_def shift_ok_def split: profile.splits)

lemma not_panic_order_placer:
  assumes "shift_ok p w" and "auths \<noteq> []" and "length auths < 2 ^ 64"
  shows "\<not> is_panic (order_placer p auths h w)"
  using assms by (metis is_panic.simps(3) order_placer_Ok_iff)

lemma not_panic_order_checks:
  assumes "healthy p env"
  shows "\<not> is_panic (order_checks p env d height r_hash pid rec)"
proof -
  have "length auths < 2 ^ 64" "auths \<noteq> []" if "api_authorities env h = Inr auths" for h auths
    using assms that by (auto simp: healthy_def wf_env_def)
  moreover have "shift_ok p w" if "api_slot_width env h = Inr w" for h w
    using assms that by (auto simp: healthy_def)
  ultimately show ?thesis
    by (auto simp: order_checks_def is_panic_obind is_parathread_def not_panic_slot
        not_panic_order_placer split: option.splits if_splits)
qed

lemma not_panic_handler:
  fixes env :: "('e, 'auth, 'hdr) service_env"
  assumes "healthy p env"
  shows "\<not> is_panic (fst (handle_relaychain_stream p env d height r_hash pid rec))"
proof -
  obtain res rec' sub
    where h: "handle_relaychain_stream p env d height r_hash pid rec = (res, rec', sub)"
    by (metis prod_cases3)
  have checks: "\<not> is_panic (order_checks p env d height r_hash pid rec)"
    by (rule not_panic_order_checks [OF assms])
  have "\<not> is_panic (fst (submit_order p (relay_rpc env) pid height w price (env_keystore env)))"
    "\<not> is_panic (current_slot p height w :: ('e service_error, u32) outcome)"
    if "order_checks p env d height r_hash pid rec = Ok (Inr (w, price))" for w price
  proof -
    from that have w: "shift_ok p w"
      using assms by (auto simp: order_checks_Inr_iff healthy_def)
    then show "\<not> is_panic (current_slot p height w :: ('e service_error, u32) outcome)"
      by (rule not_panic_slot)
    have "\<not> is_panic (prepare_order p (relay_rpc env) pid height w price (env_keystore env))"
      using w assms
      by (auto simp: prepare_order_def is_panic_obind not_panic_slot signer_new_def first_key_def
          healthy_def split: list.splits)
    with assms show "\<not> is_panic (fst (submit_order p (relay_rpc env) pid height w price (env_keystore env)))"
      by (auto simp: submit_order_def healthy_def split: outcome.splits)
  qed
  with checks show ?thesis
    by (auto simp: handle_relaychain_stream_def Let_def split: outcome.splits sum.splits prod.splits)
qed

lemma follow_heads_ends:
  assumes "\<forall>h \<in> set hs. healthy p (snd (snd (snd h)))"
  shows "fst (follow_heads p pid hs rec) = None"
  using assms
proof (induction hs arbitrary: rec)
  case (Cons h hs)
  obtain height d r_hash env where h: "h = (height, d, r_hash, env)" by (cases h) auto
  have "\<not> is_panic (fst (handle_relaychain_stream p env d height r_hash pid rec))"
    using Cons.prems by (intro not_panic_handler) (simp add: h)
  with Cons h show ?case
    by (auto split: prod.splits outcome.splits) (metis fst_conv)+
qed simp

text \<open>
  The loop over the relay chain's heads runs to its end. If the runtime answers with authorities
  and a slot width that can be shifted by, the node has a key to sign with and the client does not
  panic, no head stops the loop, whatever errors its handling meets: the loop ends when the stream
  of heads does, or at once when there is no stream.
\<close>

theorem follow_relay_chain_ends:
  assumes "\<forall>heads. stream = Inr heads \<longrightarrow> (\<forall>(n, env) \<in> set heads. healthy p env)"
  shows "\<exists>rec' subs. follow_relay_chain p pid stream rec = (None, rec', subs)"
proof (cases stream)
  case (Inl e)
  then show ?thesis by (simp add: follow_relay_chain_def new_best_heads_def)
next
  case (Inr heads)
  have "healthy p env" if "(n, env) \<in> set heads" for n env
    using assms Inr that by auto
  then have "fst (follow_relay_chain p pid stream rec) = None"
    unfolding follow_relay_chain_def new_best_heads_def Inr
    by (auto intro!: follow_heads_ends simp: List.map_filter_def split: option.splits)
  then show ?thesis by (metis prod.collapse)
qed

lemma sample_healthy: "healthy Release sample_env"
  by (simp add: healthy_def sample_wf_env)
    (simp add: sample_env_def shift_ok_def sample_keystore_def sample_rpc_def)

theorem follow_relay_chain_ends_witness:
  "\<exists>rec' subs. follow_relay_chain Release 2000
     (Inr [(\<lparr>n_number = 6, n_hash = 42\<rparr>, sample_env), (\<lparr>n_number = 7, n_hash = 43\<rparr>, sample_env)])
     sample_record = (None, rec', subs)"
  by (rule follow_relay_chain_ends) (simp add: sample_healthy)

section \<open>The transaction\<close>

lemma unat_push_drop:
  fixes h :: u32
  shows "unat (push_bit k (drop_bit k h)) = (unat h div 2 ^ k) * 2 ^ k"
proof -
  have "(unat h div 2 ^ k) * 2 ^ k \<le> unat h" by simp
  also have "\<dots> < 2 ^ 32" using unsigned_less [of h] by simp
  finally have "(unat h div 2 ^ k) * 2 ^ k < 2 ^ LENGTH(32)" by simp
  then show ?thesis
    by (simp add: unsigned_push_bit_eq unat_drop_bit push_bit_nat_def take_bit_nat_eq_self_iff
        del: times_div_less_eq_dividend)
qed

lemma prepare_order_life:
  assumes "prepare_order p rpc pid height w price ks = Ok x"
  shows "sub_order x = \<lparr>max_amount = price, order_para_id = pid\<rparr> \<and>
    sub_account x = into_account ks (hd (sr25519_public_keys ks)) \<and>
    unat (sub_birth_number x) = slot_number height w * 2 ^ (unat w mod 32) \<and>
    unat (sub_mortality x) = 2 ^ (unat w mod 32) \<and>
    unat (sub_birth_number x) \<le> unat height \<and>
    unat height < unat (sub_birth_number x) + unat (sub_mortality x)"
proof -
  let ?k = "unat w mod 32"
  from assms have
    x: "x = \<lparr>sub_order = \<lparr>max_amount = price, order_para_id = pid\<rparr>,
      sub_account = into_account ks (hd (sr25519_public_keys ks)),
      sub_birth_number = push_bit ?k (drop_bit ?k height), sub_birth = sub_birth x,
      sub_mortality = ucast (push_bit ?k 1 :: u32)\<rparr>"
    by (auto simp: prepare_order_def obind_eq_Ok_iff current_slot_def shr_u32_Ok_iff
        shl_u32_Ok_iff signer_new_def first_key_def split: list.splits)
  have birth: "unat (sub_birth_number x) = slot_number height w * 2 ^ ?k"
    by (subst x) (simp add: unat_push_drop slot_number_def)
  have "?k < 32" by simp
  then have "(2 :: nat) ^ ?k < 2 ^ 32" by (intro power_strict_increasing) simp_all
  then have "unat (push_bit ?k 1 :: u32) = 2 ^ ?k"
    by (simp add: unsigned_push_bit_eq push_bit_nat_def take_bit_nat_eq_self_iff del: push_bit_of_1)
  then have mort: "unat (sub_mortality x) = 2 ^ ?k"
    using \<open>(2 :: nat) ^ ?k < 2 ^ 32\<close>
    by (subst x) (simp add: unsigned_ucast_eq take_bit_nat_eq_self_iff)
  have "unat height mod 2 ^ ?k < 2 ^ ?k" by simp
  then have "slot_number height w * 2 ^ ?k \<le> unat height"
    "unat height < slot_number height w * 2 ^ ?k + 2 ^ ?k"
    unfolding slot_number_def using div_mult_mod_eq [of "unat height" "2 ^ ?k"] by linarith+
  moreover have "sub_order x = \<lparr>max_amount = price, order_para_id = pid\<rparr>"
    "sub_account x = into_account ks (hd (sr25519_public_keys ks))"
    by (subst x, simp)+
  ultimately show ?thesis by (simp add: birth mort)
qed

lemma slot_within_life:
  assumes "prepare_order p rpc pid height w price ks = Ok x"
    and "unat (sub_birth_number x) \<le> unat h" and "unat h < unat (sub_birth_number x) + unat (sub_mortality x)"
  shows "slot_number h w = slot_number height w"
  using prepare_order_life [OF assms(1)] assms(2,3)
  by (subst slot_number_def) (intro div_nat_eqI, simp_all add: mult.commute)



section \<open>Turns\<close>

lemma slot_number_first_block:
  assumes "n * 2 ^ (unat w mod 32) < 2 ^ 32"
  shows "slot_number (of_nat (n * 2 ^ (unat w mod 32))) w = n"
proof -
  have "unat (of_nat (n * 2 ^ (unat w mod 32)) :: u32) = n * 2 ^ (unat w mod 32)"
    using assms by (simp only: unat_of_nat take_bit_nat_eq_self_iff) simp
  then show ?thesis by (simp add: slot_number_def)
qed

lemma mset_turns:
  assumes "xs \<noteq> []"
  shows "mset (map (\<lambda>i. f (xs ! ((s + i) mod length xs))) [0..<length xs]) = mset (map f xs)"
proof -
  let ?n = "length xs"
  have bij: "bij_betw (\<lambda>i. (s + i) mod ?n) {..<?n} {..<?n}"
    using assms by (intro consecutive_turns) simp
  have "mset (map (\<lambda>i. (s + i) mod ?n) [0..<?n]) = image_mset (\<lambda>i. (s + i) mod ?n) (mset_set {..<?n})"
    by (simp add: lessThan_atLeast0 mset_map)
  also have "\<dots> = mset_set ((\<lambda>i. (s + i) mod ?n) ` {..<?n})"
    using bij by (intro image_mset_mset_set) (simp add: bij_betw_def)
  also have "\<dots> = mset [0..<?n]"
    using bij by (simp add: bij_betw_def lessThan_atLeast0)
  finally have "image_mset (\<lambda>i. f (xs ! i)) (mset (map (\<lambda>i. (s + i) mod ?n) [0..<?n])) =
      image_mset (\<lambda>i. f (xs ! i)) (mset [0..<?n])" by simp
  then have "mset (map (\<lambda>i. f (xs ! ((s + i) mod ?n))) [0..<?n]) = mset (map (\<lambda>i. f (xs ! i)) [0..<?n])"
    by (simp only: mset_map image_mset.compositionality comp_def)
  also have "map (\<lambda>i. f (xs ! i)) [0..<?n] = map f xs"
    by (rule nth_equalityI) simp_all
  finally show ?thesis .
qed

text \<open>
  Over as many consecutive slots as there are authorities, the order placers are the
  authorities, each exactly as often as it is in the list.
\<close>

theorem each_authority_has_its_turn:
  fixes auths :: "'a list"
  assumes "auths \<noteq> []" and "length auths < 2 ^ 64" and "shift_ok p w"
    and "(s + length auths) * 2 ^ (unat w mod 32) \<le> 2 ^ 32"
  shows "mset (map (\<lambda>i. order_placer p auths (of_nat ((s + i) * 2 ^ (unat w mod 32))) w)
      [0..<length auths]) = mset (map (Ok :: 'a \<Rightarrow> ('e service_error, 'a) outcome) auths)"
proof -
  let ?k = "unat w mod 32" and ?n = "length auths"
  have "order_placer p auths (of_nat ((s + i) * 2 ^ ?k)) w =
      (Ok (auths ! ((s + i) mod ?n)) :: ('e service_error, 'a) outcome)"
    if "i < ?n" for i
  proof -
    have "(s + i) * 2 ^ ?k < (s + ?n) * 2 ^ ?k" using that by simp
    also have "\<dots> \<le> 2 ^ 32" by (rule assms(4))
    finally show ?thesis
      using assms(1-3) by (simp only: order_placer_Ok_iff elected_def slot_number_first_block) simp
  qed
  then have "map (\<lambda>i. order_placer p auths (of_nat ((s + i) * 2 ^ ?k)) w) [0..<?n] =
      map (\<lambda>i. Ok (auths ! ((s + i) mod ?n)) :: ('e service_error, 'a) outcome) [0..<?n]"
    by (intro map_cong) simp_all
  then show ?thesis by (simp only: mset_turns [OF assms(1)])
qed

theorem each_authority_has_its_turn_witness:
  "mset (map (\<lambda>i. order_placer Release [1 :: u8, 2] (of_nat ((3 + i) * 2 ^ (unat (2 :: u32) mod 32))) 2)
     [0..<length [1 :: u8, 2]]) = {#Ok 1, Ok 2#}"
  using each_authority_has_its_turn [of "[1 :: u8, 2]" Release 2 3] by (simp add: shift_ok_def)

text \<open>
  With no authorities, \<open>order_placer\<close> unwinds from the remainder by zero before it can return
  its error for a missing collator; with at least one it always returns an authority of the list.
\<close>

theorem order_placer_panics_iff_no_authorities:
  assumes "shift_ok p w" and "length auths < 2 ^ 64"
    and r: "r = order_placer p auths height w"
  shows "(is_panic r \<longleftrightarrow> auths = []) \<and> (auths \<noteq> [] \<longrightarrow> (\<exists>a \<in> set auths. r = Ok a))"
proof (cases "auths = []")
  case True
  with assms(1) show ?thesis by (simp add: r is_panic_order_placer_Nil)
next
  case False
  then have "r = Ok (elected auths height w)"
    using assms(1,2) by (simp add: r order_placer_Ok_iff)
  with False show ?thesis by (simp add: elected_in_set)
qed

theorem order_placer_panics_iff_no_authorities_witness:
  "is_panic (order_placer Release ([] :: u8 list) 6 2 :: (unit service_error, u8) outcome)"
  using order_placer_panics_iff_no_authorities [OF _ _ refl, of Release 2 "[] :: u8 list" 6]
  by (simp add: shift_ok_def)

section \<open>What the service reads\<close>

text \<open>The work of a core as the scan sees it: \<open>None\<close> if it cannot be read.\<close>

definition core_work :: "'e relay_chain \<Rightarrow> h256 \<Rightarrow> u32 \<Rightarrow> work_state option option" where
  "core_work rc hash core =
     map_option (\<lambda>d. Option.bind d current_work)
       (read_entry rc (decode_core_descriptor rc) hash
          (core_descriptor (rc_hashers rc) (encode_u32 rc) core))"

lemma scan_cores_work:
  "scan_cores rc hash (core # cores) =
     (case core_work rc hash core of
        None \<Rightarrow> None
      | Some None \<Rightarrow> scan_cores rc hash cores
      | Some (Some work) \<Rightarrow> Some (list_ex is_pool (assignments work)))"
  by (simp add: core_work_def split: option.split)

lemma scan_cores_Some_iff:
  "scan_cores rc hash cores = Some b \<longleftrightarrow>
     (\<exists>i < length cores. \<exists>work. (\<forall>j < i. core_work rc hash (cores ! j) = Some None) \<and>
        core_work rc hash (cores ! i) = Some (Some work) \<and> b = list_ex is_pool (assignments work)) \<or>
     (\<forall>core \<in> set cores. core_work rc hash core = Some None) \<and> \<not> b"
proof (induction cores)
  case (Cons core cores)
  show ?case
  proof (cases "core_work rc hash core = Some None")
    case True
    then show ?thesis
      unfolding scan_cores_work by (simp add: Cons.IH Ex_less_Suc2 All_less_Suc2)
  next
    case False
    then show ?thesis
      unfolding scan_cores_work
      by (auto simp: Ex_less_Suc2 All_less_Suc2 split: option.splits)
  qed
qed simp

text \<open>
  Which cores decide \<open>on_demand_cores_available\<close>. The answer is that of the first core with
  current work: whether one of its assignments is to the pool. It is false if no core has work,
  and no core after the first with work is looked at.
\<close>

theorem availability_is_decided_by_first_busy_core:
  "on_demand_cores_available rc hash = Some b \<longleftrightarrow>
     (\<exists>config. read_entry rc (decode_host_configuration rc) hash ACTIVE_CONFIG = Some (Some config) \<and>
        ((\<exists>i < unat (num_cores config). \<exists>work.
            (\<forall>j < i. core_work rc hash (of_nat j) = Some None) \<and>
            core_work rc hash (of_nat i) = Some (Some work) \<and>
            b = list_ex is_pool (assignments work)) \<or>
         (\<forall>i < unat (num_cores config). core_work rc hash (of_nat i) = Some None) \<and> \<not> b))"
  by (auto simp: on_demand_cores_available_def scan_cores_Some_iff core_range_def
      split: option.split)

theorem availability_is_decided_by_first_busy_core_witness:
  "on_demand_cores_available sample_relay 42 = Some False"
proof -
  have "read_entry sample_relay (decode_host_configuration sample_relay) 42 ACTIVE_CONFIG =
      Some (Some \<lparr>on_demand_base_fee = 10, num_cores = 2\<rparr>)"
    and "core_work sample_relay 42 (of_nat 0) = Some (Some \<lparr>assignments = [(Not_pool, 57600)]\<rparr>)"
    by (simp_all add: read_entry_def core_work_def sample_relay_def)
  moreover have "0 < unat (num_cores \<lparr>on_demand_base_fee = 10, num_cores = 2\<rparr>)" by simp
  ultimately show ?thesis
    by (subst availability_is_decided_by_first_busy_core)
      (intro exI conjI disjI1 allI impI; assumption?; simp)
qed

text \<open>
  The spot price is the traffic times the base fee, cut off at the largest 128-bit value, and
  there is a price exactly when both entries are stored and decode.
\<close>

theorem spot_price_exact:
  "get_spot_price rc hash = Some price \<longleftrightarrow>
     (\<exists>q c. read_entry rc (decode_queue_status rc) hash QUEUE_STATUS = Some (Some q) \<and>
        read_entry rc (decode_host_configuration rc) hash ACTIVE_CONFIG = Some (Some c) \<and>
        unat price = min (unat (traffic q) * unat (on_demand_base_fee c)) (2 ^ 128 - 1))"
proof -
  have "saturating_mul a b = price \<longleftrightarrow> unat price = min (unat a * unat b) (2 ^ 128 - 1)"
    for a b :: u128
    by (auto simp: word_unat_eq_iff unat_saturating_mul)
  then show ?thesis
    by (auto simp: get_spot_price_def split: option.split)
qed

text \<open>
  When the relay chain reports a core of the pool, the handler does nothing: the branch that
  logs that no cores are allocated to on-demand is taken when some are.
\<close>

theorem no_order_while_pool_core_is_available:
  assumes "on_demand_cores_available (relay env) r_hash = Some True"
    and "handle_relaychain_stream p env d height r_hash pid rec = (res, rec', sub)"
  shows "sub = None \<and> rec' = rec"
  using assms(2,1) by (cases rule: handle_cases) (auto simp: order_checks_Inr_iff)

definition pool_relay :: "string relay_chain" where
  "pool_relay = sample_relay\<lparr>decode_core_descriptor :=
     \<lambda>raw. Some \<lparr>current_work = Some \<lparr>assignments = [(Pool, 57600)]\<rparr>\<rparr>\<rparr>"

theorem no_order_while_pool_core_is_available_witness:
  "on_demand_cores_available pool_relay 42 = Some True \<and>
   snd (snd (handle_relaychain_stream Release (sample_env\<lparr>relay := pool_relay\<rparr>) sample_head 6 42
     2000 sample_record)) = None"
proof -
  let ?env = "sample_env\<lparr>relay := pool_relay\<rparr>"
  have pool: "on_demand_cores_available pool_relay 42 = Some True"
    by (simp add: pool_relay_def on_demand_cores_available_def read_entry_def sample_relay_def
        core_range_def upt_rec)
  obtain res rec' sub
    where h: "handle_relaychain_stream Release ?env sample_head 6 42 2000 sample_record =
      (res, rec', sub)" by (metis prod_cases3)
  have "on_demand_cores_available (relay ?env) 42 = Some True" using pool by simp
  from no_order_while_pool_core_is_available [OF this h] pool h show ?thesis by simp
qed

section \<open>The event watcher\<close>

text \<open>
  The blocks of a session in which the watcher sees an order of the para, up to the first failure
  of the client.
\<close>

fun order_blocks :: "u32 \<Rightarrow> ('e + 'e best_block) list \<Rightarrow> h256 list" where
  "order_blocks pid (Inr b # bs) =
     (case bb_events b of
        Inl e \<Rightarrow> []
      | Inr evs \<Rightarrow>
          (if \<exists>ev \<in> set (seen_events evs). own_order pid ev then [bb_hash b] else []) @
          (if list_all (\<lambda>ev. \<not> isl ev) evs then order_blocks pid bs else []))"
| "order_blocks pid _ = []"

definition note_blocks :: "h256 list \<Rightarrow> order_record \<Rightarrow> order_record" where
  "note_blocks hs rec = (if hs = [] then rec else rec\<lparr>relay_block_hash := Some (last hs)\<rparr>)"

lemma note_blocks_append: "note_blocks (hs @ hs') rec = note_blocks hs' (note_blocks hs rec)"
  by (simp add: note_blocks_def)

lemma watch_events_Ok_iff:
  "fst (watch_events pid h evs rec) = Ok () \<longleftrightarrow> list_all (\<lambda>ev. \<not> isl ev) evs"
  by (induction evs arbitrary: rec) (auto split: sum.split)

lemma watch_blocks_record:
  "snd (watch_blocks pid bs rec) = note_blocks (order_blocks pid bs) rec"
proof (induction bs arbitrary: rec)
  case Nil
  then show ?case by (simp add: note_blocks_def)
next
  case (Cons b bs)
  show ?case
  proof (cases "\<exists>block evs. b = Inr block \<and> bb_events block = Inr evs")
    case False
    then show ?thesis by (auto simp: note_blocks_def split: sum.split)
  next
    case True
    then obtain block evs where b: "b = Inr block" "bb_events block = Inr evs" by blast
    obtain res rec' where w: "watch_events pid (bb_hash block) evs rec = (res, rec')"
      by (cases "watch_events pid (bb_hash block) evs rec")
    then have rec': "rec' = note_blocks (if \<exists>ev \<in> set (seen_events evs). own_order pid ev
        then [bb_hash block] else []) rec"
      using watch_events_record [of pid "bb_hash block" evs rec] by (simp add: note_blocks_def)
    have "res = Ok () \<longleftrightarrow> list_all (\<lambda>ev. \<not> isl ev) evs"
      using watch_events_Ok_iff [of pid "bb_hash block" evs rec] w by simp
    then show ?thesis
      by (cases res) (auto simp: b w Cons.IH rec' simp flip: note_blocks_append)
  qed
qed

lemma event_task_last_slot: "last_slot (snd (ondemand_event_task pid s rec)) = last_slot rec"
  by (auto simp: ondemand_event_task_def watch_blocks_last_slot split: sum.split)

text \<open>
  Over any number of sessions, however they end, the watcher sets the record's relay block to
  the last block in which it saw an order of the para, and never touches the recorded slot.
\<close>

theorem watcher_records_last_order_block:
  "event_notification pid (map (Inr \<circ> Inr) sessions) rec =
     note_blocks (concat (map (order_blocks pid) sessions)) rec \<and>
   last_slot (event_notification pid any_sessions rec) = last_slot rec"
proof
  show "event_notification pid (map (Inr \<circ> Inr) sessions) rec =
     note_blocks (concat (map (order_blocks pid) sessions)) rec"
    by (induction sessions arbitrary: rec)
      (simp_all add: ondemand_event_task_def watch_blocks_record note_blocks_append,
        simp add: note_blocks_def)
next
  show "last_slot (event_notification pid any_sessions rec) = last_slot rec"
    by (induction any_sessions arbitrary: rec) (simp_all add: event_task_last_slot)
qed

end
