(* ===== verification/Collator_Network.thy ===== *)
theory Collator_Network
  imports Service_Properties
begin

text \<open>
  The collators of a parachain, each running its own order service with its own record, keystore
  and view of the relay chain. The interface \<open>turn_taking\<close> is what a member of such a network
  promises: it acts at most once per slot, and only in the slots that are its turn; then the whole
  network acts at most once per slot. The order services interpret it as long as they read the
  same authorities and slot width and no two nodes hold the same authority's key.
\<close>

section \<open>Networks of ledgers\<close>

text \<open>A step of the network is a step of one member; its label names the member.\<close>

inductive network_run ::
    "('c \<Rightarrow> 's \<Rightarrow> nat option \<Rightarrow> 's \<Rightarrow> bool) \<Rightarrow> ('c \<Rightarrow> 's) \<Rightarrow> ('c \<times> nat option) list \<Rightarrow> ('c \<Rightarrow> 's) \<Rightarrow> bool"
  for step where
  network_Nil: "network_run step net [] net"
| network_Cons: "step c (net c) l s \<Longrightarrow> network_run step (net(c := s)) tr net' \<Longrightarrow>
     network_run step net ((c, l) # tr) net'"

inductive_cases network_NilE [elim!]: "network_run step net [] net'"
inductive_cases network_ConsE [elim!]: "network_run step net (x # tr) net'"

text \<open>The actions of a trace, and the labels of one member.\<close>

fun actions :: "('c \<times> nat option) list \<Rightarrow> ('c \<times> nat) list" where
  "actions [] = []"
| "actions ((c, None) # tr) = actions tr"
| "actions ((c, Some n) # tr) = (c, n) # actions tr"

definition member_labels :: "'c \<Rightarrow> ('c \<times> nat option) list \<Rightarrow> nat option list" where
  "member_labels c tr = map snd (filter (\<lambda>x. fst x = c) tr)"

lemma member_labels_simps [simp]:
  "member_labels c [] = []"
  "member_labels c ((c', l) # tr) = (if c' = c then l # member_labels c tr else member_labels c tr)"
  by (simp_all add: member_labels_def)

text \<open>What one member does in a run of the network is a run of that member.\<close>

lemma network_run_member:
  "network_run step net tr net' \<Longrightarrow> run (step c) (net c) (member_labels c tr) (net' c)"
proof (induction rule: network_run.induct)
  case (network_Cons c' net l s tr net')
  then show ?case by (cases "c' = c") (auto intro: run_Cons)
qed (simp add: run_Nil)

lemma actions_member: "n \<in> set (acted (member_labels c tr)) \<longleftrightarrow> (c, n) \<in> set (actions tr)"
  by (induction tr rule: actions.induct) auto

locale turn_taking =
  fixes last :: "'s \<Rightarrow> nat"
    and step :: "'c \<Rightarrow> 's \<Rightarrow> nat option \<Rightarrow> 's \<Rightarrow> bool"
    and turn :: "nat \<Rightarrow> 'c"
  assumes member: "slot_ledger last (step c)"
    and in_turn: "step c s (Some n) t \<Longrightarrow> turn n = c"
begin

lemma network_in_turn: "network_run step net tr net' \<Longrightarrow> (c, n) \<in> set (actions tr) \<Longrightarrow> turn n = c"
proof (induction rule: network_run.induct)
  case (network_Cons c' net l s tr net')
  then show ?case by (cases l) (auto dest: in_turn)
qed simp

lemma network_distinct: "network_run step net tr net' \<Longrightarrow> distinct (map snd (actions tr))"
proof (induction rule: network_run.induct)
  case (network_Cons c net l s tr net')
  show ?case
  proof (cases l)
    case (Some n)
    have "c' = c" if "(c', n) \<in> set (actions tr)" for c'
      using that network_Cons.hyps Some by (auto dest: in_turn network_in_turn)
    moreover have "(c, n) \<notin> set (actions tr)"
    proof -
      have "run (step c) (net c) (Some n # member_labels c tr) (net' c)"
        using network_Cons.hyps Some network_run_member [OF network_Cons.hyps(2), of c]
        by (auto intro: run_Cons)
      from slot_ledger.run_acted_distinct [OF member this] show ?thesis
        by (simp add: actions_member)
    qed
    ultimately have "n \<notin> snd ` set (actions tr)" by force
    with network_Cons.IH Some show ?thesis by simp
  qed (use network_Cons.IH in simp)
qed simp

end

section \<open>The order services of a parachain\<close>

text \<open>
  The environments in which the node \<open>c\<close> of the network runs: whenever the runtime's state can be
  read, it has the slot width \<open>w\<close> and the authorities \<open>auths\<close>, and a node only has the keys of the
  authorities it holds.
\<close>

definition agreed_envs ::
    "'auth list \<Rightarrow> u32 \<Rightarrow> ('auth \<Rightarrow> 'c) \<Rightarrow> 'c \<Rightarrow> ('e, 'auth, 'hdr) service_env set" where
  "agreed_envs auths w holder c = {env. wf_env env \<and>
     (\<forall>h w'. api_slot_width env h = Inr w' \<longrightarrow> w' = w) \<and>
     (\<forall>h auths'. api_authorities env h = Inr auths' \<longrightarrow> auths' = auths) \<and>
     (\<forall>a. has_keys (env_keystore env) [(auth_to_raw_vec env a, env_key_type_AURA env)] \<longrightarrow>
        holder a = c)}"

lemma placing_step_in_turn:
  assumes "service_step (agreed_envs auths w holder c) p pid s (Some n) t"
  shows "auths \<noteq> [] \<and> holder (auths ! (n mod length auths)) = c"
  using assms
proof cases
  case (order_placed env d height r_hash rec rec' sub subs)
  then have wf: "wf_env env" by (simp add: agreed_envs_def)
  from order_placed(5) show ?thesis
  proof (cases rule: handle_cases)
    case (placed w' price x slot)
    then have "order_due env d height r_hash pid rec w' price"
      and "unat slot = slot_number height w'"
      by (simp_all add: order_checks_due [OF wf] current_slot_Ok_iff)
    with order_placed placed show ?thesis
      by (auto simp: order_due_def agreed_envs_def elected_def)
  qed simp_all
qed

interpretation order_network:
  turn_taking "\<lambda>s. unat (last_slot (fst s))" "\<lambda>c. service_step (agreed_envs auths w holder c) p pid"
    "\<lambda>n. holder (auths ! (n mod length auths))" for auths w holder p pid
  by unfold_locales (auto dest: service_silent_step service_placing_step placing_step_in_turn)


lemma sample_env_agreed: "sample_env \<in> agreed_envs [1, 2] 2 (\<lambda>a. a = 2) True"
  by (simp add: agreed_envs_def sample_wf_env) (simp add: sample_env_def sample_keystore_def)

lemma sample_network_run:
  "network_run (\<lambda>c. service_step (agreed_envs [1, 2] 2 (\<lambda>a. a = 2) c ::
        (string, u8, h256) service_env set) Release 2000)
     (\<lambda>c. (sample_record, [])) [(True, Some 1)] ((\<lambda>c. (sample_record, []))
       (True := (\<lparr>relay_block_hash = Some 42, last_slot = 1\<rparr>, [sample_submission])))"
proof (rule network_Cons [OF _ network_Nil])
  show "service_step (agreed_envs [1, 2] 2 (\<lambda>a. a = 2) True :: (string, u8, h256) service_env set)
      Release 2000 (sample_record, []) (Some 1)
      (\<lparr>relay_block_hash = Some 42, last_slot = 1\<rparr>, [sample_submission])"
    using service_step.order_placed [OF sample_env_agreed sample_handler, of Release "[]"] by simp
qed


end
