(* ===== verification/Order_Runs.thy ===== *)
theory Order_Runs
  imports Service_Properties
begin

text \<open>
  \<open>run_on_demand_task\<close> (\<open>services/order/src/lib.rs\<close>) as a program: \<open>select!\<close> polls the loop over the
  relay heads and the event watcher in some order until one of them completes. The watcher loops for
  ever, so only the end of the heads or a panic completes the task. The order of the polls is an
  argument; every order of polls is a run of \<open>service_step\<close>, and with no event in between the task
  is the loop over the heads.
\<close>

section \<open>The task\<close>

text \<open>
  What a poll makes progress with: the next head, the end of the heads (or that there is no stream
  of them), an event of a relay block the watcher read, or a session of the watcher that ended and
  is started again.
\<close>

datatype ('e, 'auth, 'hdr) poll =
    Next_head u32 persisted_validation_data h256 "('e, 'auth, 'hdr) service_env"
  | Heads_ended
  | Order_event h256 relay_event
  | Session_restarted

datatype task_end = Running | Ended | Panicked string

fun run_on_demand_task ::
    "profile \<Rightarrow> u32 \<Rightarrow> ('e, 'auth, 'hdr) poll list \<Rightarrow> order_record \<Rightarrow>
     task_end \<times> order_record \<times> 'hdr submission list" where
  "run_on_demand_task p pid [] rec = (Running, rec, [])"
| "run_on_demand_task p pid (Heads_ended # ps) rec = (Ended, rec, [])"
| "run_on_demand_task p pid (Session_restarted # ps) rec = run_on_demand_task p pid ps rec"
| "run_on_demand_task p pid (Order_event block_hash event # ps) rec =
     run_on_demand_task p pid ps (note_event pid block_hash event rec)"
| "run_on_demand_task p pid (Next_head height d r_hash env # ps) rec =
     (case handle_relaychain_stream p env d height r_hash pid rec of
        (res, rec', sub) \<Rightarrow>
          (let new = (case sub of None \<Rightarrow> [] | Some s \<Rightarrow> [s])
           in case res of
                Panic m \<Rightarrow> (Panicked m, rec', new)
              | _ \<Rightarrow>
                  (case run_on_demand_task p pid ps rec' of
                     (fin, rec'', subs) \<Rightarrow> (fin, rec'', new @ subs))))"

primrec poll_envs :: "('e, 'auth, 'hdr) poll list \<Rightarrow> ('e, 'auth, 'hdr) service_env set" where
  "poll_envs [] = {}"
| "poll_envs (x # ps) = (case x of Next_head height d r_hash env \<Rightarrow> {env} | _ \<Rightarrow> {}) \<union> poll_envs ps"

section \<open>Every order of polls is a run of the service\<close>

text \<open>A handler that does not panic is a step of the service, whatever it returns.\<close>

lemma handler_step:
  assumes "handle_relaychain_stream p env d height r_hash pid rec = (res, rec', sub)"
    and "\<not> is_panic res" and "env \<in> envs"
  shows "\<exists>l. service_step envs p pid (rec, subs) l
    (rec', subs @ (case sub of None \<Rightarrow> [] | Some s \<Rightarrow> [s]))"
proof (cases res)
  case (Ok u)
  with assms show ?thesis by (cases sub) (auto intro: service_step.intros)
qed (use assms in \<open>auto intro: service_step.handler_failed\<close>)

lemma task_Next_head:
  assumes "handle_relaychain_stream p env d height r_hash pid rec = (res, rec1, sub)"
    and "run_on_demand_task p pid ps rec1 = (fin, rec', subs)"
  shows "run_on_demand_task p pid (Next_head height d r_hash env # ps) rec =
    (case res of
       Panic m \<Rightarrow> (Panicked m, rec1, case sub of None \<Rightarrow> [] | Some s \<Rightarrow> [s])
     | _ \<Rightarrow> (fin, rec', (case sub of None \<Rightarrow> [] | Some s \<Rightarrow> [s]) @ subs))"
  using assms by (simp add: Let_def split: outcome.split)

lemma task_run:
  assumes "run_on_demand_task p pid ps rec = (fin, rec', subs)" and "\<And>m. fin \<noteq> Panicked m"
    and "poll_envs ps \<subseteq> envs"
  shows "\<exists>ls. run (service_step envs p pid) (rec, subs0) ls (rec', subs0 @ subs)"
  using assms(1,3)
proof (induction ps arbitrary: rec subs subs0)
  case Nil
  then show ?case by (auto intro: run_Nil)
next
  case (Cons x ps)
  show ?case
  proof (cases x)
    case (Next_head height d r_hash env)
    obtain res rec1 sub
      where h: "handle_relaychain_stream p env d height r_hash pid rec = (res, rec1, sub)"
      by (metis prod_cases3)
    obtain fin1 rec2 subs1 where rest: "run_on_demand_task p pid ps rec1 = (fin1, rec2, subs1)"
      by (metis prod_cases3)
    let ?new = "case sub of None \<Rightarrow> [] | Some s \<Rightarrow> [s]"
    from Cons.prems(1) assms(2) have res: "\<not> is_panic res"
      and eq: "fin1 = fin" "rec2 = rec'" "subs = ?new @ subs1"
      unfolding Next_head task_Next_head [OF h rest] by (cases res; force)+
    from Cons.prems(2) have "env \<in> envs" and envs: "poll_envs ps \<subseteq> envs" by (simp_all add: Next_head)
    with handler_step [OF h res] obtain l
      where l: "service_step envs p pid (rec, subs0) l (rec1, subs0 @ ?new)" by blast
    from Cons.IH [OF rest [unfolded eq(1,2)] envs, of "subs0 @ ?new"] obtain ls
      where "run (service_step envs p pid) (rec1, subs0 @ ?new) ls (rec', (subs0 @ ?new) @ subs1)" ..
    from run_Cons [OF l this] show ?thesis unfolding eq(3) append_assoc by (rule exI)
  next
    case (Order_event block_hash event)
    have "run_on_demand_task p pid ps (note_event pid block_hash event rec) = (fin, rec', subs)"
      "poll_envs ps \<subseteq> envs" using Cons.prems by (simp_all add: Order_event)
    from Cons.IH [OF this] obtain ls where "run (service_step envs p pid)
        (note_event pid block_hash event rec, subs0) ls (rec', subs0 @ subs)" ..
    from run_Cons [OF service_step.order_event this] show ?thesis by (rule exI)
  qed (use Cons in \<open>auto intro: run_Nil\<close>)
qed


lemma task_end:
  assumes "\<forall>env \<in> poll_envs ps. healthy p env"
  shows "fst (run_on_demand_task p pid ps rec) = (if Heads_ended \<in> set ps then Ended else Running)"
  using assms
proof (induction ps arbitrary: rec)
  case (Cons x ps)
  show ?case
  proof (cases x)
    case (Next_head height d r_hash env)
    obtain res rec1 sub
      where h: "handle_relaychain_stream p env d height r_hash pid rec = (res, rec1, sub)"
      by (metis prod_cases3)
    obtain fin rec' subs where rest: "run_on_demand_task p pid ps rec1 = (fin, rec', subs)"
      by (metis prod_cases3)
    have "\<not> is_panic res"
      using not_panic_handler [of p env d height r_hash pid rec] Cons.prems h by (simp add: Next_head)
    with Cons.IH [of rec1] Cons.prems show ?thesis
      unfolding Next_head task_Next_head [OF h rest] by (cases res) (auto simp: rest)
  qed (use Cons in auto)
qed simp

text \<open>
  C16: the task of the order service ends exactly with the relay chain's stream. In environments in
  which a handler cannot panic, it never panics, errors of handlers and sessions of the watcher
  that end never stop it, and it has ended exactly if the stream of the heads has.
\<close>

theorem order_task_ends_with_the_stream:
  assumes "\<forall>env \<in> poll_envs ps. healthy p env"
  shows "fst (run_on_demand_task p pid ps rec) = (if Heads_ended \<in> set ps then Ended else Running)"
  using assms by (rule task_end)

text \<open>Two heads with an event of the relay chain and a restart of the watcher in between.\<close>

definition sample_polls :: "(string, u8, h256) poll list" where
  "sample_polls =
     [Next_head 6 sample_head 42 sample_env, Order_event 50 (OnDemandOrderPlaced 2000 9), Session_restarted,
      Next_head 6 sample_head 42 sample_env, Heads_ended]"

theorem order_task_ends_with_the_stream_witness:
  "fst (run_on_demand_task Release 2000 sample_polls sample_record) = Ended"
  using order_task_ends_with_the_stream [of sample_polls Release 2000 sample_record]
  by (simp add: sample_polls_def sample_healthy)


end
