(* ===== verification/Network_Schedule.thy ===== *)
theory Network_Schedule
  imports Collator_Network Order_Runs
begin

text \<open>
  The order services of all collators of a parachain as one program: a schedule says which node is
  polled next and what its task makes progress with. A task that panicked or whose stream of heads
  ended is not polled again. Here the authorities may change from slot to slot. With a schedule in
  which the elected node sees its slot, the network places exactly one order for it; where the
  nodes disagree on the authorities of one slot, it can place two.
\<close>

section \<open>The program\<close>

text \<open>
  The state of a node's task is its order record and whether the task is still running. A poll
  gives the next state, and the slot and the order if one was placed.
\<close>

type_synonym task_state = "order_record \<times> bool"

definition poll_service ::
    "profile \<Rightarrow> u32 \<Rightarrow> ('e, 'auth, 'hdr) poll \<Rightarrow> order_record \<Rightarrow>
     task_state \<times> (nat \<times> 'hdr submission) option" where
  "poll_service p pid x rec =
     (case x of
        Next_head height d r_hash env \<Rightarrow>
          (case handle_relaychain_stream p env d height r_hash pid rec of
             (res, rec', sub) \<Rightarrow>
               (case res of
                  Panic m \<Rightarrow> ((rec', False), None)
                | Err e \<Rightarrow> ((rec', True), None)
                | Ok _ \<Rightarrow> ((rec', True), map_option (Pair (unat (last_slot rec'))) sub)))
      | Heads_ended \<Rightarrow> ((rec, False), None)
      | Order_event block_hash event \<Rightarrow> ((note_event pid block_hash event rec, True), None)
      | Session_restarted \<Rightarrow> ((rec, True), None))"

primrec network_exec ::
    "profile \<Rightarrow> u32 \<Rightarrow> ('c \<times> ('e, 'auth, 'hdr) poll) list \<Rightarrow> ('c \<Rightarrow> task_state) \<Rightarrow>
     ('c \<times> nat \<times> 'hdr submission) list \<times> ('c \<Rightarrow> task_state)" where
  "network_exec p pid [] net = ([], net)"
| "network_exec p pid (cx # xs) net =
     (case cx of (c, x) \<Rightarrow>
        if \<not> snd (net c) then network_exec p pid xs net else
        (case poll_service p pid x (fst (net c)) of
           (st, placed) \<Rightarrow>
             (case network_exec p pid xs (net(c := st)) of
                (orders, net') \<Rightarrow>
                  ((case placed of None \<Rightarrow> [] | Some (n, sub) \<Rightarrow> [(c, n, sub)]) @ orders, net'))))"

section \<open>The nodes run their tasks\<close>

lemma poll_service_Next_head:
  "handle_relaychain_stream p env d height r_hash pid rec = (res, rec', sub) \<Longrightarrow>
   poll_service p pid (Next_head height d r_hash env) rec =
     ((rec', \<not> is_panic res),
      if res = Ok () then map_option (Pair (unat (last_slot rec'))) sub else None)"
  by (cases res) (auto simp: poll_service_def)

lemma poll_service_simps [simp]:
  "poll_service p pid Heads_ended rec = ((rec, False), None)"
  "poll_service p pid (Order_event h ev) rec = ((note_event pid h ev rec, True), None)"
  "poll_service p pid Session_restarted rec = ((rec, True), None)"
  by (simp_all add: poll_service_def)

definition polls_of :: "'c \<Rightarrow> ('c \<times> 'x) list \<Rightarrow> 'x list" where
  "polls_of c xs = map snd (filter (\<lambda>x. fst x = c) xs)"

lemma polls_of_simps [simp]:
  "polls_of c [] = []"
  "polls_of c ((c', x) # xs) = (if c' = c then x # polls_of c xs else polls_of c xs)"
  by (simp_all add: polls_of_def)

text \<open>One poll of the schedule, with the rest of it.\<close>

definition placed_orders :: "'c \<Rightarrow> (nat \<times> 'hdr submission) option \<Rightarrow> ('c \<times> nat \<times> 'hdr submission) list" where
  "placed_orders c placed = (case placed of None \<Rightarrow> [] | Some (n, sub) \<Rightarrow> [(c, n, sub)])"

lemma network_exec_running:
  "snd (net c) \<Longrightarrow> poll_service p pid x (fst (net c)) = (st, placed) \<Longrightarrow>
   network_exec p pid ((c, x) # xs) net =
     (placed_orders c placed @ fst (network_exec p pid xs (net(c := st))),
      snd (network_exec p pid xs (net(c := st))))"
  by (simp add: placed_orders_def split: prod.split option.split)

lemma network_exec_skip:
  "\<not> snd (net c) \<Longrightarrow> network_exec p pid ((c, x) # xs) net = network_exec p pid xs net"
  by simp

lemmas network_exec_Cons = network_exec_running network_exec_skip

declare network_exec.simps(2) [simp del]

lemma network_exec_stopped:
  "\<not> snd (net c) \<Longrightarrow> snd (network_exec p pid xs net) c = net c"
proof (induction xs arbitrary: net)
  case (Cons cx xs)
  obtain c' x where cx: "cx = (c', x)" by (cases cx)
  obtain st placed where st: "poll_service p pid x (fst (net c')) = (st, placed)"
    by (metis surj_pair)
  from Cons show ?case
    by (cases "snd (net c')"; cases "c' = c") (simp_all add: cx network_exec_Cons st)
qed simp

text \<open>
  What a node does in the network is its own task, over the polls the schedule gives it: it ends
  with the same record, and runs on exactly if the task does.
\<close>

lemma network_exec_member:
  assumes "snd (net c)"
  shows "snd (network_exec p pid xs net) c =
    (case run_on_demand_task p pid (polls_of c xs) (fst (net c)) of
       (fin, rec', subs) \<Rightarrow> (rec', fin = Running))"
  using assms
proof (induction xs arbitrary: net)
  case (Cons cx xs)
  obtain c' x where cx: "cx = (c', x)" by (cases cx)
  obtain st placed where st: "poll_service p pid x (fst (net c')) = (st, placed)"
    by (metis surj_pair)
  have step: "snd (network_exec p pid (cx # xs) net) =
      snd (network_exec p pid xs (if snd (net c') then net(c' := st) else net))"
    by (cases "snd (net c')") (simp_all add: cx network_exec_Cons st)
  show ?case
  proof (cases "c' = c")
    case False
    then show ?thesis using Cons.IH [of "if snd (net c') then net(c' := st) else net"] Cons.prems step
      by (simp add: cx)
  next
    case True
    have net: "snd (network_exec p pid (cx # xs) net) c =
        (if snd st then snd (network_exec p pid xs (net(c := st))) c else st)"
      using Cons.prems step network_exec_stopped [of "net(c := st)" c p pid xs] by (simp add: True)
    have IH: "snd (network_exec p pid xs (net(c := st))) c =
        (case run_on_demand_task p pid (polls_of c xs) (fst st) of (fin, rec', subs) \<Rightarrow> (rec', fin = Running))"
      if "snd st" by (rule Cons.IH [of "net(c := st)", unfolded fun_upd_same, OF that])
    show ?thesis
    proof (cases x)
      case (Next_head height d r_hash env)
      obtain res rec1 sub
        where h: "handle_relaychain_stream p env d height r_hash pid (fst (net c)) = (res, rec1, sub)"
        by (metis prod_cases3)
      have st': "st = (rec1, \<not> is_panic res)"
        using st by (simp add: True Next_head poll_service_Next_head [OF h])
      obtain fin rec' subs where rest: "run_on_demand_task p pid (polls_of c xs) rec1 = (fin, rec', subs)"
        by (metis prod_cases3)
      have "run_on_demand_task p pid (polls_of c (cx # xs)) (fst (net c)) =
          (case res of
             Panic m \<Rightarrow> (Panicked m, rec1, case sub of None \<Rightarrow> [] | Some s \<Rightarrow> [s])
           | _ \<Rightarrow> (fin, rec', (case sub of None \<Rightarrow> [] | Some s \<Rightarrow> [s]) @ subs))"
        using task_Next_head [OF h rest] by (simp add: cx True Next_head)
      then show ?thesis
        unfolding net using IH by (cases res) (simp_all only:, simp_all add: st' rest)
    qed (use st net IH in \<open>auto simp: cx True\<close>)
  qed
qed (simp add: prod_eq_iff)

section \<open>Authorities that change from slot to slot\<close>

text \<open>
  What the nodes agree on: the slot width \<open>w\<close>, for the heads of the slot \<open>n\<close> the authorities
  \<open>auths n\<close>, and who holds which key. Between slots the authorities may change.
\<close>

definition agreed_poll ::
    "(nat \<Rightarrow> 'auth list) \<Rightarrow> u32 \<Rightarrow> ('auth \<Rightarrow> 'c) \<Rightarrow> 'c \<Rightarrow> ('e, 'auth, 'hdr) poll \<Rightarrow> bool" where
  "agreed_poll auths w holder c x \<longleftrightarrow>
     (\<forall>height d r_hash env. x = Next_head height d r_hash env \<longrightarrow> wf_env env \<and>
        (\<forall>h w'. api_slot_width env h = Inr w' \<longrightarrow> w' = w) \<and>
        (\<forall>h as. api_authorities env h = Inr as \<longrightarrow> as = auths (slot_number height w)) \<and>
        (\<forall>a. has_keys (env_keystore env) [(auth_to_raw_vec env a, env_key_type_AURA env)] \<longrightarrow>
           holder a = c))"

text \<open>The node whose turn the slot \<open>n\<close> is.\<close>

definition turn_of :: "(nat \<Rightarrow> 'auth list) \<Rightarrow> ('auth \<Rightarrow> 'c) \<Rightarrow> nat \<Rightarrow> 'c" where
  "turn_of auths holder n = holder (auths n ! (n mod length (auths n)))"

inductive poll_step ::
    "('c \<Rightarrow> ('e, 'auth, 'hdr) poll \<Rightarrow> bool) \<Rightarrow> profile \<Rightarrow> u32 \<Rightarrow> 'c \<Rightarrow> task_state \<Rightarrow> nat option \<Rightarrow>
     task_state \<Rightarrow> bool"
  for agreed p pid c where
  poll: "agreed c x \<Longrightarrow> poll_service p pid x rec = (st, placed) \<Longrightarrow>
     poll_step agreed p pid c (rec, True) (map_option fst placed) st"

lemma poll_service_silent:
  assumes "poll_service p pid x rec = (st, None)"
  shows "last_slot (fst st) = last_slot rec"
proof (cases x)
  case (Next_head height d r_hash env)
  obtain res rec' sub
    where h: "handle_relaychain_stream p env d height r_hash pid rec = (res, rec', sub)"
    by (metis prod_cases3)
  from assms have "st = (rec', \<not> is_panic res)" "res = Ok () \<longrightarrow> sub = None"
    by (simp_all add: Next_head poll_service_Next_head [OF h] split: if_splits)
  with h show ?thesis by (cases rule: handle_cases) auto
next
  case (Order_event block_hash event)
  with assms show ?thesis by (auto simp: note_event_own)
qed (use assms in auto)

lemma poll_service_placed:
  assumes "poll_service p pid x rec = (st, Some (n, sub))"
  obtains height d r_hash env w price slot where "x = Next_head height d r_hash env"
    "order_checks p env d height r_hash pid rec = Ok (Inr (w, price))"
    "prepare_order p (relay_rpc env) pid height w price (env_keystore env) = Ok sub"
    "st = (\<lparr>relay_block_hash = Some r_hash, last_slot = slot\<rparr>, True)"
    "slot_number height w = n" "unat slot = n" "unat (last_slot rec) < n"
proof (cases x)
  case (Next_head height d r_hash env)
  obtain res rec' sub'
    where h: "handle_relaychain_stream p env d height r_hash pid rec = (res, rec', sub')"
    by (metis prod_cases3)
  from assms have "st = (rec', \<not> is_panic res)" "res = Ok ()" "sub' = Some sub" "n = unat (last_slot rec')"
    by (auto simp: Next_head poll_service_Next_head [OF h] split: if_splits)
  from h this show ?thesis
  proof (cases rule: handle_cases)
    case (placed w price y slot)
    moreover from placed have "\<not> slot \<le> last_slot rec"
      by (auto simp: order_checks_Inr_iff)
    ultimately show ?thesis
      using that [of height d r_hash env w price slot] Next_head \<open>st = _\<close> \<open>n = _\<close> \<open>sub' = Some sub\<close>
      by (auto simp: current_slot_Ok_iff word_le_nat_alt)
  qed simp_all
qed (use assms in auto)

lemma poll_service_acts:
  assumes "poll_service p pid x rec = (st, placed)" and "Some n = map_option fst placed"
  shows "unat (last_slot rec) < n \<and> unat (last_slot (fst st)) = n"
proof -
  from assms obtain sub where "poll_service p pid x rec = (st, Some (n, sub))" by (cases placed) auto
  then show ?thesis by (cases rule: poll_service_placed) auto
qed

lemma agreed_placed:
  assumes "agreed_poll auths w holder c x" and "poll_service p pid x rec = (st, placed)"
    and "Some n = map_option fst placed"
  shows "turn_of auths holder n = c"
proof -
  from assms(2,3) obtain sub where "poll_service p pid x rec = (st, Some (n, sub))"
    by (cases placed) auto
  then show ?thesis
  proof (cases rule: poll_service_placed)
    case (1 height d r_hash env w' price slot)
    with assms(1) have wf: "wf_env env" by (simp add: agreed_poll_def)
    from 1(2) have "order_due env d height r_hash pid rec w' price"
      by (simp add: order_checks_due [OF wf])
    with 1 assms(1) show ?thesis
      by (auto simp: order_due_def agreed_poll_def turn_of_def elected_def)
  qed
qed

interpretation scheduled_network:
  turn_taking "\<lambda>s. unat (last_slot (fst s))" "poll_step (agreed_poll auths w holder) p pid"
    "turn_of auths holder" for auths w holder p pid
proof unfold_locales
  fix c s t assume "poll_step (agreed_poll auths w holder) p pid c s None t"
  then show "unat (last_slot (fst t)) = unat (last_slot (fst s))"
    by cases (auto dest: poll_service_silent)
next
  fix c s n t assume "poll_step (agreed_poll auths w holder) p pid c s (Some n) t"
  then show "unat (last_slot (fst s)) < n \<and> unat (last_slot (fst t)) = n"
    by cases (auto dest: poll_service_acts)
next
  fix c s n t assume "poll_step (agreed_poll auths w holder) p pid c s (Some n) t"
  then show "turn_of auths holder n = c"
    by cases (auto dest: agreed_placed)
qed

text \<open>The program is a run of the network, with the orders it places as the actions.\<close>

definition order_slots :: "('c \<times> nat \<times> 'hdr submission) list \<Rightarrow> nat list" where
  "order_slots orders = map (fst \<circ> snd) orders"

lemma network_exec_run:
  assumes "network_exec p pid xs net = (orders, net')"
    and "\<forall>x \<in> set xs. agreed (fst x) (snd x)"
  shows "\<exists>tr. network_run (poll_step agreed p pid) net tr net' \<and>
    actions tr = map (\<lambda>(c, n, sub). (c, n)) orders"
  using assms
proof (induction xs arbitrary: net orders)
  case Nil
  then show ?case by (auto intro: network_Nil exI [of _ "[]"])
next
  case (Cons cx xs)
  obtain c x where cx: "cx = (c, x)" by (cases cx)
  obtain st placed where st: "poll_service p pid x (fst (net c)) = (st, placed)" by (metis surj_pair)
  show ?case
  proof (cases "snd (net c)")
    case False
    with Cons show ?thesis by (simp add: cx network_exec_Cons)
  next
    case True
    obtain orders1 where rest: "network_exec p pid xs (net(c := st)) = (orders1, net')"
      and orders: "orders = placed_orders c placed @ orders1"
      using Cons.prems(1) by (cases "network_exec p pid xs (net(c := st))")
        (simp add: cx network_exec_running [of net c, OF True st])
    from Cons.prems(2) have xs: "\<forall>x \<in> set xs. agreed (fst x) (snd x)" by simp
    obtain tr where tr: "network_run (poll_step agreed p pid) (net(c := st)) tr net'"
        "actions tr = map (\<lambda>(c, n, sub). (c, n)) orders1"
      using Cons.IH [OF rest xs] by blast
    have "poll_step agreed p pid c (fst (net c), True) (map_option fst placed) st"
      using Cons.prems(2) by (intro poll_step.poll [OF _ st]) (simp add: cx)
    with True have "poll_step agreed p pid c (net c) (map_option fst placed) st" by (metis prod.collapse)
    from network_Cons [of "poll_step agreed p pid", OF this tr(1)] tr(2) show ?thesis
      by (intro exI [of _ "(c, map_option fst placed) # tr"])
        (auto simp: orders placed_orders_def split: option.split)
  qed
qed

lemma network_exec_once:
  fixes xs :: "('c \<times> ('e, 'auth, 'hdr) poll) list"
  assumes "network_exec p pid xs net = (orders, net')"
    and "\<forall>x \<in> set xs. agreed_poll auths w holder (fst x) (snd x)"
  shows "distinct (order_slots orders)" and "(c, n, sub) \<in> set orders \<Longrightarrow> turn_of auths holder n = c"
proof -
  let ?agreed = "agreed_poll auths w holder :: 'c \<Rightarrow> ('e, 'auth, 'hdr) poll \<Rightarrow> bool"
  obtain tr where tr: "network_run (poll_step ?agreed p pid) net tr net'"
      and act: "actions tr = map (\<lambda>(c, n, sub). (c, n)) orders"
    using network_exec_run [where agreed = ?agreed, OF assms] by blast
  have "map snd (actions tr) = order_slots orders"
    by (auto simp: act order_slots_def)
  then show "distinct (order_slots orders)"
    using scheduled_network.network_distinct [OF tr] by simp
  show "turn_of auths holder n = c" if "(c, n, sub) \<in> set orders"
    using scheduled_network.network_in_turn [OF tr, of c n] that by (force simp: act)
qed

section \<open>A served slot gets its order\<close>

text \<open>
  A head at which the node's service can place an order, as far as its own record does not stop it:
  all that \<open>order_due\<close> asks of the environment, a transaction that can be prepared, and a client
  that takes it.
\<close>

definition can_place ::
    "profile \<Rightarrow> u32 \<Rightarrow> u32 \<Rightarrow> u32 \<Rightarrow> persisted_validation_data \<Rightarrow> h256 \<Rightarrow> ('e, 'auth, 'hdr) service_env \<Rightarrow> bool" where
  "can_place p pid w height d r_hash env \<longleftrightarrow> wf_env env \<and> shift_ok p w \<and>
     (\<exists>price sub. (\<forall>rec. unat (last_slot rec) < slot_number height w \<longrightarrow>
          order_due env d height r_hash pid rec w price) \<and>
        prepare_order p (relay_rpc env) pid height w price (env_keystore env) = Ok sub \<and>
        sign_and_submit (relay_rpc env) sub = Ok ())"

text \<open>
  A schedule serves the slot \<open>n\<close> through the node \<open>c\<close>: it gives the node a head of the slot at which
  the node can place an order, and before that only heads up to this slot that do not stop it.
\<close>

definition quiet_poll :: "profile \<Rightarrow> u32 \<Rightarrow> nat \<Rightarrow> ('e, 'auth, 'hdr) poll \<Rightarrow> bool" where
  "quiet_poll p w n x \<longleftrightarrow>
     (case x of
        Next_head height d r_hash env \<Rightarrow> slot_number height w \<le> n \<and> healthy p env \<and>
          (\<forall>h w'. api_slot_width env h = Inr w' \<longrightarrow> w' = w)
      | Heads_ended \<Rightarrow> False
      | _ \<Rightarrow> True)"

definition served :: "profile \<Rightarrow> u32 \<Rightarrow> u32 \<Rightarrow> ('c \<times> ('e, 'auth, 'hdr) poll) list \<Rightarrow> nat \<Rightarrow> 'c \<Rightarrow> bool" where
  "served p pid w xs n c \<longleftrightarrow>
     (\<exists>ys height d r_hash env zs. polls_of c xs = ys @ Next_head height d r_hash env # zs \<and>
        slot_number height w = n \<and> can_place p pid w height d r_hash env \<and>
        (\<forall>x \<in> set ys. quiet_poll p w n x))"

lemma poll_service_can_place:
  assumes "can_place p pid w height d r_hash env" and "unat (last_slot rec) < slot_number height w"
  shows "\<exists>st sub. poll_service p pid (Next_head height d r_hash env) rec =
    (st, Some (slot_number height w, sub))"
proof -
  obtain res rec' sub
    where h: "handle_relaychain_stream p env d height r_hash pid rec = (res, rec', sub)"
    by (metis prod_cases3)
  from assms obtain price x where "wf_env env" and due: "order_due env d height r_hash pid rec w price"
    and prep: "prepare_order p (relay_rpc env) pid height w price (env_keystore env) = Ok x"
    and ok: "sign_and_submit (relay_rpc env) x = Ok ()" and "shift_ok p w"
    by (auto simp: can_place_def)
  then have checks: "order_checks p env d height r_hash pid rec = Ok (Inr (w, price))"
    by (simp add: order_checks_due)
  from h show ?thesis
  proof (cases rule: handle_cases)
    case (placed w' price' y slot)
    then have "unat slot = slot_number height w" using checks by (simp add: current_slot_Ok_iff)
    then show ?thesis by (auto simp add: poll_service_Next_head [OF h] placed)
  qed (use checks prep ok in auto)
qed

lemma poll_service_quiet:
  assumes "quiet_poll p w n x" and "poll_service p pid x rec = (st, placed)"
  shows "snd st" and "unat (last_slot rec) \<le> n \<Longrightarrow> unat (last_slot (fst st)) \<le> n"
proof -
  show "snd st"
  proof (cases x)
    case (Next_head height d r_hash env)
    obtain res rec' sub
      where h: "handle_relaychain_stream p env d height r_hash pid rec = (res, rec', sub)"
      by (metis prod_cases3)
    from assms(1) have "\<not> is_panic res"
      using not_panic_handler [of p env d height r_hash pid rec] h by (simp add: Next_head quiet_poll_def)
    with assms(2) show ?thesis by (auto simp: Next_head poll_service_Next_head [OF h])
  qed (use assms in \<open>auto simp: quiet_poll_def\<close>)
  show "unat (last_slot (fst st)) \<le> n" if "unat (last_slot rec) \<le> n"
  proof (cases placed)
    case None
    with assms(2) that show ?thesis by (auto dest: poll_service_silent)
  next
    case (Some y)
    obtain m sub where y: "y = (m, sub)" by (cases y)
    from assms(2) [unfolded Some y] show ?thesis
    proof (cases rule: poll_service_placed)
      case (1 height d r_hash env w' price slot)
      with assms(1) show ?thesis by (auto simp: quiet_poll_def order_checks_Inr_iff)
    qed
  qed
qed

lemma network_exec_append:
  "network_exec p pid (xs @ ys) net =
     (fst (network_exec p pid xs net) @ fst (network_exec p pid ys (snd (network_exec p pid xs net))),
      snd (network_exec p pid ys (snd (network_exec p pid xs net))))"
proof (induction xs arbitrary: net)
  case (Cons cx xs)
  obtain c x where cx: "cx = (c, x)" by (cases cx)
  obtain st placed where st: "poll_service p pid x (fst (net c)) = (st, placed)" by (metis surj_pair)
  from Cons show ?case
    by (cases "snd (net c)") (simp_all add: cx network_exec_Cons st del: fun_upd_apply)
qed simp

text \<open>Quiet polls leave a node running, with a record that is not past the slot.\<close>

lemma network_exec_quiet:
  assumes "snd (net c)" and "unat (last_slot (fst (net c))) \<le> n"
    and "\<forall>x \<in> set (polls_of c xs). quiet_poll p w n x"
  shows "snd (snd (network_exec p pid xs net) c) \<and>
    unat (last_slot (fst (snd (network_exec p pid xs net) c))) \<le> n"
  using assms
proof (induction xs arbitrary: net)
  case (Cons cx xs)
  obtain c' x where cx: "cx = (c', x)" by (cases cx)
  obtain st placed where st: "poll_service p pid x (fst (net c')) = (st, placed)" by (metis surj_pair)
  show ?case
  proof (cases "snd (net c')")
    case True
    define net1 where "net1 = net(c' := st)"
    have "snd (net1 c) \<and> unat (last_slot (fst (net1 c))) \<le> n"
      using Cons.prems st poll_service_quiet [of p w n x pid "fst (net c')" st placed]
      by (auto simp: cx net1_def)
    moreover have "snd (network_exec p pid (cx # xs) net) = snd (network_exec p pid xs net1)"
      by (simp add: cx net1_def network_exec_running [of net c', OF True st])
    moreover have "\<forall>x \<in> set (polls_of c xs). quiet_poll p w n x"
      using Cons.prems(3) by (simp add: cx split: if_splits)
    ultimately show ?thesis using Cons.IH [of net1] by simp
  next
    case False
    with Cons show ?thesis by (auto simp: cx network_exec_Cons split: if_splits)
  qed
qed simp

lemma polls_of_split:
  "polls_of c xs = ys @ x # zs \<Longrightarrow> \<exists>xs1 xs2. xs = xs1 @ (c, x) # xs2 \<and> polls_of c xs1 = ys"
proof (induction xs arbitrary: ys)
  case (Cons cx xs)
  obtain c' y where cx: "cx = (c', y)" by (cases cx)
  show ?case
  proof (cases "c' = c \<and> ys = []")
    case True
    with Cons.prems show ?thesis by (intro exI [of _ "[]"] exI [of _ xs]) (simp add: cx)
  next
    case False
    then have "\<exists>ys'. polls_of c xs = ys' @ x # zs \<and> ys = (if c' = c then y # ys' else ys')"
      using Cons.prems by (cases ys; cases "c' = c") (auto simp: cx)
    then obtain ys' where ys': "polls_of c xs = ys' @ x # zs" "ys = (if c' = c then y # ys' else ys')"
      by blast
    from Cons.IH [OF ys'(1)] obtain xs1 xs2 where "xs = xs1 @ (c, x) # xs2" "polls_of c xs1 = ys'"
      by blast
    with ys' show ?thesis by (intro exI [of _ "cx # xs1"] exI [of _ xs2]) (simp add: cx)
  qed
qed simp

text \<open>The recorded slot of a node moves only with its orders.\<close>

lemma network_exec_moved:
  assumes "network_exec p pid xs net = (orders, net')"
    and "last_slot (fst (net c)) \<noteq> last_slot (fst (net' c))"
  shows "unat (last_slot (fst (net' c))) \<in> set (order_slots orders)"
  using assms
proof (induction xs arbitrary: net orders)
  case (Cons cx xs)
  obtain c' x where cx: "cx = (c', x)" by (cases cx)
  obtain st placed where st: "poll_service p pid x (fst (net c')) = (st, placed)" by (metis surj_pair)
  show ?case
  proof (cases "snd (net c')")
    case False
    with Cons show ?thesis by (simp add: cx network_exec_Cons)
  next
    case True
    obtain orders1 where rest: "network_exec p pid xs (net(c' := st)) = (orders1, net')"
      and orders: "orders = placed_orders c' placed @ orders1"
      using Cons.prems(1) by (cases "network_exec p pid xs (net(c' := st))")
        (simp add: cx network_exec_running [of net c', OF True st])
    show ?thesis
    proof (cases "last_slot (fst ((net(c' := st)) c)) = last_slot (fst (net' c))")
      case False
      from Cons.IH [OF rest this] show ?thesis by (simp add: orders order_slots_def)
    next
      case same: True
      with Cons.prems(2) have c: "c' = c" by (auto split: if_splits)
      have "placed \<noteq> None"
      proof
        assume "placed = None"
        with st c have "last_slot (fst st) = last_slot (fst (net c))" by (auto dest: poll_service_silent)
        with same c Cons.prems(2) show False by simp
      qed
      then obtain n sub where placed: "placed = Some (n, sub)" by (metis not_Some_eq surj_pair)
      then have "unat (last_slot (fst st)) = n" using poll_service_acts [OF st, of n] by simp
      with same c show ?thesis by (simp add: orders placed placed_orders_def order_slots_def)
    qed
  qed
qed simp

lemma served_slot_ordered:
  assumes "network_exec p pid xs net = (orders, net')" and "served p pid w xs n c"
    and "snd (net c)" and "unat (last_slot (fst (net c))) < n"
  shows "n \<in> set (order_slots orders)"
proof -
  from assms(2) obtain ys height d r_hash env zs
    where "polls_of c xs = ys @ Next_head height d r_hash env # zs" and n: "slot_number height w = n"
      and can: "can_place p pid w height d r_hash env" and quiet: "\<forall>x \<in> set ys. quiet_poll p w n x"
    unfolding served_def by blast
  from polls_of_split [OF this(1)] obtain xs1 xs2
    where xs: "xs = xs1 @ (c, Next_head height d r_hash env) # xs2" and ys: "polls_of c xs1 = ys" by blast
  obtain orders1 net1 where before: "network_exec p pid xs1 net = (orders1, net1)" by (metis surj_pair)
  have net1: "snd (net1 c)" "unat (last_slot (fst (net1 c))) \<le> n"
    using network_exec_quiet [of net c n xs1 p w pid] assms(3,4) quiet ys before by auto
  have sub: "set (order_slots orders1) \<subseteq> set (order_slots orders)"
    using assms(1) by (auto simp: xs network_exec_append before order_slots_def)
  show ?thesis
  proof (cases "unat (last_slot (fst (net1 c))) = n")
    case True
    with assms(4) have "last_slot (fst (net c)) \<noteq> last_slot (fst (net1 c))" by auto
    from network_exec_moved [OF before this] True sub show ?thesis by auto
  next
    case False
    with net1(2) n have "unat (last_slot (fst (net1 c))) < slot_number height w" by simp
    from poll_service_can_place [OF can this] obtain st sub
      where "poll_service p pid (Next_head height d r_hash env) (fst (net1 c)) = (st, Some (n, sub))"
      unfolding n by blast
    from network_exec_running [of net1 c, OF net1(1) this] assms(1) show ?thesis
      by (auto simp: xs network_exec_append before order_slots_def placed_orders_def)
  qed
qed

lemma filter_slot:
  assumes "n \<in> set (order_slots orders)" and "distinct (order_slots orders)"
    and "\<And>c sub. (c, n, sub) \<in> set orders \<Longrightarrow> c = f n"
  shows "\<exists>sub. filter (\<lambda>x. fst (snd x) = n) orders = [(f n, n, sub)]"
  using assms
proof (induction orders)
  case (Cons x orders)
  obtain c m sub where x: "x = (c, m, sub)" by (cases x)
  show ?case
  proof (cases "m = n")
    case True
    with Cons.prems(2) have "filter (\<lambda>x. fst (snd x) = n) orders = []"
      by (force simp: x order_slots_def filter_empty_conv)
    with True Cons.prems(3) [of c sub] show ?thesis by (simp add: x)
  qed (use Cons in \<open>auto simp: x order_slots_def\<close>)
qed (simp add: order_slots_def)

lemma mset_slots:
  assumes "distinct (order_slots orders)" and "finite N" and "N \<subseteq> set (order_slots orders)"
  shows "mset (order_slots (filter (\<lambda>x. fst (snd x) \<in> N) orders)) = mset_set N"
proof -
  have eq: "order_slots (filter (\<lambda>x. fst (snd x) \<in> N) orders) = filter (\<lambda>n. n \<in> N) (order_slots orders)"
    by (simp add: order_slots_def filter_map comp_def)
  from assms have "set (filter (\<lambda>n. n \<in> N) (order_slots orders)) = N" by auto
  with assms(1) show ?thesis unfolding eq by (metis distinct_filter mset_set_set)
qed

lemma mset_range: "mset_set {m..<m + k} = image_mset (\<lambda>i. m + i) (mset [0..<k])"
proof -
  have "mset_set {m..<m + k} = mset [m..<m + k]" by simp
  also have "[m..<m + k] = map (\<lambda>i. m + i) [0..<k]" by (simp add: map_add_upt add.commute)
  finally show ?thesis by (simp only: mset_map)
qed

text \<open>
  C4: the network places exactly one order for every slot that is served. Let the nodes agree on the
  slot width, on the authorities of each slot (which may change between slots) and on who holds
  which key. If the schedule gives the node whose turn it is a head of the slot at which it can
  place an order, then, whatever the other nodes, the watchers and the relay chain do in between,
  there is exactly one order for the slot, and it comes from that node. Over as many slots as there
  are authorities, as long as these stay, every authority's holder thus pays for exactly one slot
  per authority it holds.
\<close>

theorem network_serves_each_slot_once:
  fixes xs :: "('c \<times> ('e, 'auth, 'hdr) poll) list"
  assumes exec: "network_exec p pid xs net = (orders, net')"
    and agreed: "\<forall>x \<in> set xs. agreed_poll auths w holder (fst x) (snd x)"
    and fresh: "\<forall>c. snd (net c) \<and> unat (last_slot (fst (net c))) < m"
    and served: "\<forall>n \<in> {m..<m + k}. served p pid w xs n (turn_of auths holder n)"
  shows "(\<forall>n \<in> {m..<m + k}. \<exists>sub. filter (\<lambda>x. fst (snd x) = n) orders = [(turn_of auths holder n, n, sub)]) \<and>
    (\<forall>as. as \<noteq> [] \<longrightarrow> k = length as \<longrightarrow> (\<forall>n \<in> {m..<m + k}. auths n = as) \<longrightarrow>
       mset (map fst (filter (\<lambda>x. fst (snd x) \<in> {m..<m + k}) orders)) = mset (map holder as))"
proof -
  note once = network_exec_once [OF exec agreed]
  have ordered: "n \<in> set (order_slots orders)" if "n \<in> {m..<m + k}" for n
  proof (rule served_slot_ordered [OF exec])
    from fresh have "unat (last_slot (fst (net (turn_of auths holder n)))) < m" by blast
    with that show "unat (last_slot (fst (net (turn_of auths holder n)))) < n" by simp
  qed (use served fresh that in auto)
  have single: "\<exists>sub. filter (\<lambda>x. fst (snd x) = n) orders = [(turn_of auths holder n, n, sub)]"
    if "n \<in> {m..<m + k}" for n
    using ordered [OF that] once by (intro filter_slot) auto
  moreover have "mset (map fst (filter (\<lambda>x. fst (snd x) \<in> {m..<m + k}) orders)) = mset (map holder as)"
    if as: "as \<noteq> []" "k = length as" "\<forall>n \<in> {m..<m + k}. auths n = as" for as
  proof -
    let ?own = "filter (\<lambda>x. fst (snd x) \<in> {m..<m + k}) orders"
    have "mset (order_slots ?own) = mset_set {m..<m + k}"
      using once(1) ordered by (intro mset_slots) auto
    moreover have "map fst ?own = map (turn_of auths holder) (order_slots ?own)"
      using once(2) by (force simp: order_slots_def)
    ultimately have "mset (map fst ?own) = image_mset (turn_of auths holder) (mset_set {m..<m + k})"
      by (metis mset_map)
    also have "\<dots> = mset (map (\<lambda>i. turn_of auths holder (m + i)) [0..<k])"
      by (simp add: mset_range mset_map image_mset.compositionality comp_def)
    also have "map (\<lambda>i. turn_of auths holder (m + i)) [0..<k] =
        map (\<lambda>i. holder (as ! ((m + i) mod length as))) [0..<length as]"
      using as by (auto simp: turn_of_def)
    finally show ?thesis by (simp only: mset_turns [OF as(1)])
  qed
  ultimately show ?thesis by blast
qed

section \<open>A concrete network\<close>

text \<open>The sample node, with the key of the authority \<open>a\<close> and the authorities \<open>as\<close>.\<close>

definition keeper_env :: "u8 list \<Rightarrow> u8 \<Rightarrow> (string, u8, h256) service_env" where
  "keeper_env as a = sample_env\<lparr>api_authorities := \<lambda>h. Inr as,
     env_keystore := sample_keystore\<lparr>has_keys := \<lambda>keys. list_all (\<lambda>k. fst k = [a]) keys\<rparr>\<rparr>"

lemma keeper_healthy:
  assumes "as \<noteq> []" and "length as < 2 ^ 64"
  shows "healthy Release (keeper_env as a)"
  using assms by (simp add: healthy_def wf_env_def keeper_env_def sample_env_def sample_keystore_def
      sample_rpc_def shift_ok_def)

lemma keeper_can_place:
  assumes "as \<noteq> []" and "length as < 2 ^ 64" and "elected as height 2 = a"
  shows "can_place Release 2000 2 height sample_head r_hash (keeper_env as a)"
proof -
  have "wf_env (keeper_env as a)" using keeper_healthy [OF assms(1,2)] by (simp add: healthy_def)
  moreover have "\<exists>sub. prepare_order Release (relay_rpc (keeper_env as a)) 2000 height 2 30
      (env_keystore (keeper_env as a)) = Ok sub \<and> sign_and_submit (relay_rpc (keeper_env as a)) sub = Ok ()"
    by (simp add: prepare_order_def keeper_env_def sample_env_def sample_rpc_def sample_keystore_def
        signer_new_def first_key_def current_slot_def shr_u32_def shl_u32_def)
  moreover have "order_due (keeper_env as a) sample_head height r_hash 2000 rec 2 30"
    if "unat (last_slot rec) < slot_number height 2" for rec
    using assms that by (simp add: order_due_def keeper_env_def sample_env_def sample_reads)
  ultimately show ?thesis by (auto simp: can_place_def shift_ok_def)
qed

lemma keeper_agreed:
  "agreed_poll (\<lambda>n. as) 2 (\<lambda>a. a = b) (a = b) (Next_head height d r_hash (keeper_env as a))"
  if "length as < 2 ^ 64" for as :: "u8 list"
  using that by (auto simp: agreed_poll_def wf_env_def keeper_env_def sample_env_def)

text \<open>
  Two nodes over the slots 1 and 2, four relay blocks each: each node sees heads of both slots.
\<close>

definition keeper_schedule :: "(bool \<times> (string, u8, h256) poll) list" where
  "keeper_schedule =
     [(False, Next_head 5 sample_head 41 (keeper_env [1, 2] 1)),
      (True, Next_head 6 sample_head 42 (keeper_env [1, 2] 2)),
      (False, Order_event 43 (OnDemandOrderPlaced 2000 9)),
      (True, Next_head 8 sample_head 44 (keeper_env [1, 2] 2)),
      (False, Next_head 9 sample_head 45 (keeper_env [1, 2] 1))]"

lemma keeper_served:
  "served Release 2000 2 keeper_schedule 1 True" "served Release 2000 2 keeper_schedule 2 False"
proof -
  show "served Release 2000 2 keeper_schedule 1 True"
    unfolding served_def
    by (intro exI [of _ "[]"] exI [of _ 6] exI [of _ sample_head] exI [of _ 42]
        exI [of _ "keeper_env [1, 2] 2"] exI conjI keeper_can_place)
      (simp_all add: keeper_schedule_def slot_number_def elected_def)
  have quiet: "\<forall>x \<in> set [Next_head 5 sample_head 41 (keeper_env [1, 2] 1),
      Order_event 43 (OnDemandOrderPlaced 2000 9)]. quiet_poll Release 2 2 x"
    using keeper_healthy [of "[1, 2]" 1]
    by (simp add: quiet_poll_def slot_number_def) (simp add: keeper_env_def sample_env_def)
  have "slot_number 9 2 = 2" by (simp add: slot_number_def)
  then have "elected [1, 2] 9 2 = (1 :: u8)" by (simp only: elected_def) (simp add: numeral_2_eq_2)
  then show "served Release 2000 2 keeper_schedule 2 False"
    unfolding served_def
    by (intro exI [of _ "[Next_head 5 sample_head 41 (keeper_env [1, 2] 1), Order_event 43 (OnDemandOrderPlaced 2000 9)]"]
        exI [of _ 9] exI [of _ sample_head] exI [of _ 45] exI [of _ "keeper_env [1, 2] 1"]
        exI [of _ "[]"] conjI keeper_can_place quiet)
      (simp_all add: keeper_schedule_def slot_number_def)
qed

theorem network_serves_each_slot_once_witness:
  "\<exists>orders net' sub sub'. network_exec Release 2000 keeper_schedule (\<lambda>c. (sample_record, True)) = (orders, net') \<and>
     filter (\<lambda>x. fst (snd x) = 1) orders = [(True, 1, sub)] \<and>
     filter (\<lambda>x. fst (snd x) = 2) orders = [(False, 2, sub')] \<and>
     mset (map fst (filter (\<lambda>x. fst (snd x) \<in> {1..<1 + 2}) orders)) = mset [False, True]"
proof -
  obtain orders net'
    where exec: "network_exec Release 2000 keeper_schedule (\<lambda>c. (sample_record, True)) = (orders, net')"
    by (metis surj_pair)
  have turns: "turn_of (\<lambda>n. [1, 2]) (\<lambda>a. a = (2 :: u8)) 1" "\<not> turn_of (\<lambda>n. [1, 2]) (\<lambda>a. a = (2 :: u8)) 2"
    by (simp_all add: turn_of_def numeral_2_eq_2)
  have "\<forall>x \<in> set keeper_schedule. agreed_poll (\<lambda>n. [1, 2]) 2 (\<lambda>a. a = 2) (fst x) (snd x)"
    using keeper_agreed [of "[1, 2]" 2 1] keeper_agreed [of "[1, 2]" 2 2]
    by (simp add: keeper_schedule_def) (simp add: agreed_poll_def)
  moreover have "\<forall>c :: bool. snd ((\<lambda>c. (sample_record, True)) c) \<and>
      unat (last_slot (fst ((\<lambda>c. (sample_record, True)) c))) < 1" by (simp add: sample_record_def)
  moreover have "\<forall>n \<in> {1..<1 + 2}. served Release 2000 2 keeper_schedule n
      (turn_of (\<lambda>n. [1, 2]) (\<lambda>a. a = (2 :: u8)) n)"
    using keeper_served turns by (auto simp: less_Suc_eq numeral_2_eq_2 numeral_3_eq_3)
  ultimately have all: "(\<forall>n \<in> {1..<1 + 2}. \<exists>sub. filter (\<lambda>x. fst (snd x) = n) orders =
        [(turn_of (\<lambda>n. [1, 2]) (\<lambda>a. a = (2 :: u8)) n, n, sub)]) \<and>
      (\<forall>as. as \<noteq> [] \<longrightarrow> 2 = length as \<longrightarrow> (\<forall>n \<in> {1 :: nat..<1 + 2}. [1, 2] = as) \<longrightarrow>
        mset (map fst (filter (\<lambda>x. fst (snd x) \<in> {1..<1 + 2}) orders)) = mset (map (\<lambda>a. a = (2 :: u8)) as))"
    by (rule network_serves_each_slot_once [OF exec])
  have "\<exists>sub. filter (\<lambda>x. fst (snd x) = 1) orders = [(True, 1, sub)]"
    using all [THEN conjunct1, THEN bspec, of 1] turns(1) by simp
  moreover have "\<exists>sub. filter (\<lambda>x. fst (snd x) = 2) orders = [(False, 2, sub)]"
    using all [THEN conjunct1, THEN bspec, of 2] turns(2) by simp
  moreover have "mset (map fst (filter (\<lambda>x. fst (snd x) \<in> {1..<1 + 2}) orders)) =
      mset (map (\<lambda>a. a = (2 :: u8)) [1, 2])"
    by (rule all [THEN conjunct2, rule_format]) simp_all
  ultimately show ?thesis using exec by (simp only: list.map) auto
qed



end
