(* ===== verification/Template_Runtime.thy ===== *)
theory Template_Runtime
  imports Mock_Runtime
begin

text \<open>
  The runtime of the template (\<open>template/runtime\<close>) as far as it concerns on-demand coretime: its
  units and times, the fee polynomial, the configuration of the on-demand pallet with the check of
  the relay chain's events, the runtime API the node reads, and the genesis presets; and the
  template's example pallet (\<open>template/pallets/template\<close>).
\<close>

section \<open>Times, units, fees\<close>

definition MILLI_SECS_PER_BLOCK :: u64 where "MILLI_SECS_PER_BLOCK = 12000"

definition SLOT_DURATION :: u64 where "SLOT_DURATION = MILLI_SECS_PER_BLOCK"

definition MINUTES :: u32 where "MINUTES = 60000 div ucast MILLI_SECS_PER_BLOCK"

definition HOURS :: u32 where "HOURS = MINUTES * 60"

definition DAYS :: u32 where "DAYS = HOURS * 24"

definition UNIT :: u128 where "UNIT = 1000000000000"

definition MILLI_UNIT :: u128 where "MILLI_UNIT = 1000000000"

definition MICRO_UNIT :: u128 where "MICRO_UNIT = 1000000"

definition EXISTENTIAL_DEPOSIT :: u128 where "EXISTENTIAL_DEPOSIT = MILLI_UNIT"

text \<open>
  \<open>ExtrinsicBaseWeight\<close> and \<open>BlockExecutionWeight\<close>, by their reference times; the time per
  nanosecond is a constant of \<open>frame_support\<close>.
\<close>

definition extrinsic_base_ref_time :: "u64 \<Rightarrow> u64" where
  "extrinsic_base_ref_time per_nanos = saturating_mul per_nanos 125000"

definition block_execution_ref_time :: "u64 \<Rightarrow> u64" where
  "block_execution_ref_time per_nanos = saturating_mul per_nanos 5000000"

record rocksdb_weight =
  db_read :: u64
  db_write :: u64

definition RocksDbWeight :: "u64 \<Rightarrow> rocksdb_weight" where
  "RocksDbWeight per_nanos = \<lparr>db_read = 25000 * per_nanos, db_write = 100000 * per_nanos\<rparr>"

record weight_to_fee_coefficient =
  degree :: u8
  negative :: bool
  coeff_frac :: u32
  coeff_integer :: u128

text \<open>\<open>from_rational\<close> is \<open>Perbill::from_rational\<close>: parts of a billion.\<close>

definition polynomial :: "(u128 \<Rightarrow> u128 \<Rightarrow> u32) \<Rightarrow> u64 \<Rightarrow> weight_to_fee_coefficient list" where
  "polynomial from_rational per_nanos =
     (let p = MILLI_UNIT div 10;
          q = 100 * ucast (extrinsic_base_ref_time per_nanos)
      in [\<lparr>degree = 1, negative = False, coeff_frac = from_rational (p mod q) q,
           coeff_integer = p div q\<rparr>])"

section \<open>The configuration of the on-demand pallet\<close>

definition runtime_to_account_id :: "account_id \<Rightarrow> account_id" where
  "runtime_to_account_id v = v"

definition Reward :: u128 where "Reward = MILLI_UNIT"

text \<open>
  The events of the relay chain, as the state proof shows them; \<open>read_events\<close> is the read of the
  entry \<open>EVENTS\<close>, \<open>None\<close> if it fails.
\<close>

datatype runtime_event = On_demand_order_placed u32 u128 account_id | Other_runtime_event

definition order_placement_checker ::
    "('rsp \<Rightarrow> runtime_event list option) \<Rightarrow> 'rsp \<Rightarrow> u32 \<Rightarrow> (u128 \<times> account_id) list" where
  "order_placement_checker read_events relay_state_proof expected_para_id =
     (let events = (case read_events relay_state_proof of None \<Rightarrow> [] | Some evs \<Rightarrow> evs)
      in List.map_filter
           (\<lambda>item. case item of
               On_demand_order_placed pid spot_price ordered_by \<Rightarrow>
                 if pid = expected_para_id then Some (spot_price, ordered_by) else None
             | Other_runtime_event \<Rightarrow> None)
           events)"

type_synonym ('origin, 'auth, 'cur, 'proof, 'rsp, 'err, 'w, 'fixed) runtime_frame =
  "('origin, 'auth, account_id, u128, 'cur, u128, 'proof, 'rsp, 'err, 'w, 'fixed) frame"

definition runtime_config ::
    "('origin, 'auth, 'cur, 'proof, 'rsp, 'err, 'w, 'fixed) runtime_frame \<Rightarrow> u64 \<Rightarrow>
     ('rsp \<Rightarrow> runtime_event list option) \<Rightarrow>
     ('origin, 'auth, account_id, u128, 'cur, u128, 'proof, 'rsp) config" where
  "runtime_config fr per_nanos read_events =
     \<lparr>ensure_none = fr_ensure_none fr,
      ensure_origin_or_root = fr_ensure_root fr,
      key_type_AURA = fr_key_type_AURA fr,
      to_raw_vec = fr_to_raw_vec fr,
      ValidatorIdOf = fr_identity_collator fr,
      ToAccountId = runtime_to_account_id,
      OnReward = reward (fr_mint_into fr) (fixed_reward_size Reward),
      should_place_order = fee_based_should_place_order
        ((fr_fee_env fr)\<lparr>base_weight :=
           fr_weight_from_parts fr (extrinsic_base_ref_time per_nanos) 0\<rparr>),
      relay_chain_state_proof_new = fr_state_proof_new fr,
      orders_placed = order_placement_checker read_events\<rparr>"

section \<open>The runtime API\<close>

definition api_slot_width_of :: "('auth, 'vid, 'thr, 'cur, 'bal) chain \<Rightarrow> u32" where
  "api_slot_width_of s = SlotWidth s"

definition api_threshold_parameter_of :: "('auth, 'vid, 'thr, 'cur, 'bal) chain \<Rightarrow> 'thr" where
  "api_threshold_parameter_of s = ThresholdParameter s"

definition api_bulk_mode_of :: "('auth, 'vid, 'thr, 'cur, 'bal) chain \<Rightarrow> bool" where
  "api_bulk_mode_of s = (BulkMode s \<noteq> None)"

definition api_authorities_of :: "('auth, 'vid, 'thr, 'cur, 'bal) chain \<Rightarrow> 'auth list" where
  "api_authorities_of s = Aura_Authorities s"

definition impl_slot_duration :: u64 where
  "impl_slot_duration = SLOT_DURATION"

section \<open>Genesis presets\<close>

record 'aura session_keys =
  aura :: 'aura

definition template_session_keys :: "'aura \<Rightarrow> 'aura session_keys" where
  "template_session_keys keys = \<lparr>aura = keys\<rparr>"

record 'aura runtime_genesis_config =
  balances :: "(account_id \<times> u128) list"
  parachain_id :: u32
  invulnerables :: "account_id list"
  candidacy_bond :: u128
  genesis_session_keys :: "(account_id \<times> account_id \<times> 'aura session_keys) list"
  safe_xcm_version :: "u32 option"
  sudo_key :: "account_id option"
  on_demand :: "u128 genesis_config"

definition PARACHAIN_ID :: u32 where "PARACHAIN_ID = 1000"

definition testnet_genesis ::
    "u32 \<Rightarrow> (account_id \<times> 'aura) list \<Rightarrow> account_id list \<Rightarrow> account_id \<Rightarrow> u32 \<Rightarrow>
     'aura runtime_genesis_config" where
  "testnet_genesis xcm_version invs endowed_accounts root pid =
     \<lparr>balances = map (\<lambda>k. (k, push_bit 60 1)) endowed_accounts,
      parachain_id = pid,
      invulnerables = map (\<lambda>(acc, _). acc) invs,
      candidacy_bond = EXISTENTIAL_DEPOSIT * 16,
      genesis_session_keys = map (\<lambda>(acc, aura_id). (acc, acc, template_session_keys aura_id)) invs,
      safe_xcm_version = Some xcm_version,
      sudo_key = Some root,
      on_demand = \<lparr>threshold_parameter = 0, bulk_mode = True\<rparr>\<rparr>"

text \<open>The key ring and the preset identifiers are \<open>sp_keyring\<close>'s and \<open>sp_genesis_builder\<close>'s.\<close>

record 'aura keyring =
  alice_account :: account_id
  alice_public :: 'aura
  bob_account :: account_id
  bob_public :: 'aura
  well_known_accounts :: "account_id list"

definition local_testnet_genesis :: "u32 \<Rightarrow> 'aura keyring \<Rightarrow> 'aura runtime_genesis_config" where
  "local_testnet_genesis xcm_version kr =
     testnet_genesis xcm_version
       [(alice_account kr, alice_public kr), (bob_account kr, bob_public kr)]
       (well_known_accounts kr) (alice_account kr) PARACHAIN_ID"

definition development_config_genesis :: "u32 \<Rightarrow> 'aura keyring \<Rightarrow> 'aura runtime_genesis_config" where
  "development_config_genesis xcm_version kr =
     testnet_genesis xcm_version
       [(alice_account kr, alice_public kr), (bob_account kr, bob_public kr)]
       (well_known_accounts kr) (alice_account kr) PARACHAIN_ID"

definition get_preset ::
    "string \<Rightarrow> string \<Rightarrow> u32 \<Rightarrow> 'aura keyring \<Rightarrow> string \<Rightarrow> 'aura runtime_genesis_config option" where
  "get_preset LOCAL_TESTNET_RUNTIME_PRESET DEV_RUNTIME_PRESET xcm_version kr ident =
     (if ident = LOCAL_TESTNET_RUNTIME_PRESET then Some (local_testnet_genesis xcm_version kr)
      else if ident = DEV_RUNTIME_PRESET then Some (development_config_genesis xcm_version kr)
      else None)"

definition preset_names :: "string \<Rightarrow> string \<Rightarrow> string list" where
  "preset_names LOCAL_TESTNET_RUNTIME_PRESET DEV_RUNTIME_PRESET =
     [DEV_RUNTIME_PRESET, LOCAL_TESTNET_RUNTIME_PRESET]"

section \<open>The example pallet\<close>

datatype template_event = SomethingStored u32 account_id

datatype template_error = Template_BadOrigin | NoneValue | StorageOverflow

record template_state =
  Something :: "u32 option"
  template_events :: "template_event list"

text \<open>\<open>ensure_signed\<close> gives the signer of an origin.\<close>

definition do_something ::
    "('origin \<Rightarrow> account_id option) \<Rightarrow> 'origin \<Rightarrow> u32 \<Rightarrow> template_state \<Rightarrow>
     (template_error, template_state) outcome" where
  "do_something ensure_signed origin bn s =
     (case ensure_signed origin of
        None \<Rightarrow> Err Template_BadOrigin
      | Some who \<Rightarrow>
          let block_number = bn;
              s = s\<lparr>Something := Some block_number\<rparr>
          in Ok (s\<lparr>template_events := template_events s @ [SomethingStored block_number who]\<rparr>))"

definition cause_error ::
    "('origin \<Rightarrow> account_id option) \<Rightarrow> 'origin \<Rightarrow> template_state \<Rightarrow>
     (template_error, template_state) outcome" where
  "cause_error ensure_signed origin s =
     (case ensure_signed origin of
        None \<Rightarrow> Err Template_BadOrigin
      | Some who \<Rightarrow>
          (case Something s of
             None \<Rightarrow> Err NoneValue
           | Some old \<Rightarrow>
               (case checked_add old 1 of
                  None \<Rightarrow> Err StorageOverflow
                | Some new \<Rightarrow> Ok (s\<lparr>Something := Some new\<rparr>))))"

section \<open>build.rs\<close>

text \<open>What the build script of the runtime asks of the WASM builder, by the features it is built with.\<close>

datatype wasm_build_step =
    Init_with_defaults | Enable_metadata_hash string nat | Build_wasm | Build_using_defaults

definition runtime_build_main :: "bool \<Rightarrow> bool \<Rightarrow> wasm_build_step list" where
  "runtime_build_main feature_std feature_metadata_hash =
     (if feature_std then
        if feature_metadata_hash then [Init_with_defaults, Enable_metadata_hash ''UNIT'' 12, Build_wasm]
        else [Build_using_defaults]
      else [])"

end
