(* ===== verification/Template_Node.thy ===== *)
theory Template_Node
  imports Order_Tasks On_Demand_Pallet
begin

text \<open>
  The node of the template (\<open>template/node\<close>) as far as it has logic of its own: the fee criteria
  it gives the order service, the inherent data provider that hands an order to the next block, and
  what a validator starts. The transaction pool and the client are parameters.
\<close>

section \<open>service.rs: the fee criteria\<close>

record ('e, 'details) node_env =
  ready :: "bytes list"
  best_hash :: h256
  query_fee_details :: "h256 \<Rightarrow> bytes \<Rightarrow> u32 \<Rightarrow> 'e + 'details"
  final_fee :: "'details \<Rightarrow> u128"
  api_threshold_parameter :: "h256 \<Rightarrow> 'e + u128"

text \<open>A pending transaction is its encoding.\<close>

definition add_fee :: "('e, 'details) node_env \<Rightarrow> bytes \<Rightarrow> u128 \<Rightarrow> u128" where
  "add_fee env tx total_fees =
     (case query_fee_details env (best_hash env) tx (of_nat (length tx)) of
        Inl e \<Rightarrow> total_fees
      | Inr details \<Rightarrow> saturating_add total_fees (final_fee env details))"

definition pool_fees :: "('e, 'details) node_env \<Rightarrow> u128" where
  "pool_fees env = fold (add_fee env) (ready env) 0"

definition node_should_place_order :: "('e, 'details) node_env \<Rightarrow> u32 \<Rightarrow> bool" where
  "node_should_place_order env height =
     (case api_threshold_parameter env (best_hash env) of
        Inl e \<Rightarrow> False
      | Inr fee_threshold \<Rightarrow> fee_threshold \<le> pool_fees env)"

text \<open>The percentage the criteria log, for a threshold above zero.\<close>

definition logged_percentage :: "u128 \<Rightarrow> u128 \<Rightarrow> u128" where
  "logged_percentage total_fees fee_threshold = saturating_mul (total_fees div fee_threshold) 100"

section \<open>service.rs: starting the node\<close>

definition order_inherent_provider ::
    "('e, 'proof) relay_reader \<Rightarrow> order_record \<Rightarrow> u32 \<Rightarrow> string + 'proof order_inherent_data" where
  "order_inherent_provider relay_chain_interface rec pid =
     (case create_at relay_chain_interface (relay_block_hash rec) pid of
        None \<Rightarrow> Inl ''Failed to create order inherent''
      | Some order_inherent \<Rightarrow> Inr order_inherent)"

definition relay_rpc_of :: "string list option \<Rightarrow> string option" where
  "relay_rpc_of addr =
     (case addr of None \<Rightarrow> None | Some rs \<Rightarrow> (case rs of [] \<Rightarrow> None | f # _ \<Rightarrow> Some f))"

text \<open>
  The last part of \<open>start_parachain_node\<close>: only a validator runs the order service and the
  consensus, over one order record. The result is the URL the service connects to and the record.
\<close>

definition start_validator ::
    "bool \<Rightarrow> string list option \<Rightarrow> 'key option \<Rightarrow> ('x, (string \<times> order_record \<times> 'key) option) outcome" where
  "start_validator validator addr collator_key =
     (if \<not> validator then Ok None else
      let order_record = \<lparr>relay_block_hash = None, last_slot = 0\<rparr> in
      obind (start_on_demand (relay_rpc_of addr)) (\<lambda>url.
      case collator_key of
        None \<Rightarrow> Panic ''Command line arguments do not allow this. qed''
      | Some key \<Rightarrow> Ok (Some (url, order_record, key))))"

datatype da_recovery_profile = Collator | FullNode

definition recovery_profile :: "bool \<Rightarrow> da_recovery_profile" where
  "recovery_profile validator = (if validator then Collator else FullNode)"

section \<open>Lemmas\<close>

text \<open>
  The true fees of the pool: the sum over the transactions whose fee the runtime can tell.
\<close>

definition true_fee :: "('e, 'details) node_env \<Rightarrow> bytes \<Rightarrow> nat" where
  "true_fee env tx =
     (case query_fee_details env (best_hash env) tx (of_nat (length tx)) of
        Inl e \<Rightarrow> 0 | Inr details \<Rightarrow> unat (final_fee env details))"

definition true_fees :: "('e, 'details) node_env \<Rightarrow> nat" where
  "true_fees env = sum_list (map (true_fee env) (ready env))"

lemma unat_add_fee: "unat (add_fee env tx a) = min (unat a + true_fee env tx) (2 ^ 128 - 1)"
  using unat_le_max [of a]
  by (simp add: add_fee_def true_fee_def unat_saturating_add split: sum.split)

lemma unat_fold_add_fee:
  "unat (fold (add_fee env) txs a) = min (unat a + sum_list (map (true_fee env) txs)) (2 ^ 128 - 1)"
proof (induction txs arbitrary: a)
  case Nil
  then show ?case using unat_le_max [of a] by simp
qed (simp add: unat_add_fee)

lemma unat_pool_fees: "unat (pool_fees env) = min (true_fees env) (2 ^ 128 - 1)"
  by (simp add: pool_fees_def true_fees_def unat_fold_add_fee)

text \<open>
  The node decides by the same criteria as the runtime: the fees reach the threshold. A threshold
  that cannot be read counts as one that is not reached.
\<close>

definition node_threshold :: "('e, 'details) node_env \<Rightarrow> nat" where
  "node_threshold env =
     (case api_threshold_parameter env (best_hash env) of
        Inl e \<Rightarrow> true_fees env + 1 | Inr t \<Rightarrow> unat t)"

interpretation node_criteria:
  fee_criteria "\<lambda>env. node_should_place_order env height" true_fees node_threshold for height
proof unfold_locales
  fix env :: "('a, 'b) node_env"
  have "t \<le> pool_fees env \<longleftrightarrow> unat t \<le> true_fees env" for t
    using unat_le_max [of t] by (auto simp: word_le_nat_alt unat_pool_fees)
  then show "node_should_place_order env height \<longleftrightarrow> node_threshold env \<le> true_fees env"
    by (simp add: node_should_place_order_def node_threshold_def split: sum.split)
qed

end
