(* ===== verification/Template_Properties.thy ===== *)
theory Template_Properties
  imports Template_Runtime Template_Node
begin

text \<open>
  What the template guarantees: which orders its runtime pays for, that its genesis presets are
  consistent, what its fee polynomial charges, when its node wants an order and what it hands to a
  block, and the behaviour of the example pallet.
\<close>

section \<open>The runtime\<close>

text \<open>
  The runtime sees exactly the orders the relay chain's events report for the para: each with
  its price and the account that placed it, and none where the events cannot be read.
\<close>

theorem orders_placed_are_the_events_orders:
  "order_placement_checker read_events rsp pid =
     (case read_events rsp of
        None \<Rightarrow> []
      | Some evs \<Rightarrow> [(price, who). On_demand_order_placed q price who \<leftarrow> evs, q = pid])"
proof -
  have "List.map_filter (\<lambda>item. case item of
          On_demand_order_placed q price who \<Rightarrow> if q = pid then Some (price, who) else None
        | Other_runtime_event \<Rightarrow> None) evs =
      [(price, who). On_demand_order_placed q price who \<leftarrow> evs, q = pid]" for evs
    by (induction evs) (auto simp: List.map_filter_def split: runtime_event.split)
  then show ?thesis
    by (simp add: order_placement_checker_def List.map_filter_def split: option.split)
qed

lemma order_placement_checker_mem:
  "(price, who) \<in> set (order_placement_checker read_events rsp pid) \<longleftrightarrow>
     (\<exists>evs. read_events rsp = Some evs \<and> On_demand_order_placed pid price who \<in> set evs)"
  by (force simp: order_placement_checker_def List.map_filter_def
      split: option.splits runtime_event.splits if_splits)

text \<open>
  C20: the template's runtime pays for an order only if the relay chain's events, under the state
  root and proof of the inherent, report an order of the para by the account that owns the elected
  authority's key; it then mints one milli unit to that account, and nothing else moves.
\<close>

theorem runtime_pays_only_for_a_reported_order:
  fixes fr :: "('origin, 'auth, 'cur, 'proof, 'rsp, 'err, 'w, 'fixed) runtime_frame"
  assumes "wf_chain s" and "create_order p (runtime_config fr per_nanos read_events) origin d s = Ok t"
    and "t \<noteq> s"
  shows "\<exists>dt rsp evs price who vid. data d = Some dt \<and>
    fr_state_proof_new fr (para_id dt) (relay_state_root dt) (relay_storage_proof dt) = Some rsp \<and>
    read_events rsp = Some evs \<and> On_demand_order_placed (para_id dt) price who \<in> set evs \<and>
    fr_identity_collator fr who = Some vid \<and>
    KeyOwner s (fr_key_type_AURA fr,
      fr_to_raw_vec fr (elected (Authorities s) (relay_height dt) (SlotWidth s))) = Some vid \<and>
    Currency t = snd (fr_mint_into fr vid MILLI_UNIT (Currency s)) \<and>
    unat (PreviousSlot t) = slot_number (relay_height dt) (SlotWidth s)"
  using assms(2,1)
proof (cases rule: create_order_Ok_cases)
  case silent
  with assms(3) show ?thesis by simp
next
  case (rewards n v)
  let ?cfg = "runtime_config fr per_nanos read_events"
  have "fixed_reward_size Reward = MILLI_UNIT"
    by (simp add: fixed_reward_size_def saturating_add_def Reward_def MILLI_UNIT_def)
  then have "Currency t = snd (fr_mint_into fr v MILLI_UNIT (Currency s))"
    by (simp add: rewards(1) rewarded_def runtime_config_def reward_def runtime_to_account_id_def
        split: prod.split sum.split)
  moreover have "unat (PreviousSlot t) = n"
    unfolding rewards(1) by (rule unat_PreviousSlot_rewarded [OF rewards(2)])
  ultimately show ?thesis
    using rewards(2)
    by (auto simp: reward_due_def runtime_config_def order_placement_checker_mem) blast
qed

text \<open>
  A concrete runtime: a state proof is the list of the relay chain's events, the currency the list
  of the amounts minted; relay block 20 is in slot 5, the turn of authority 13, owned by 113.
\<close>

definition sample_rt_frame ::
    "(string, u32, (account_id \<times> u128) list, runtime_event list, runtime_event list, unit, u64, unit)
       runtime_frame" where
  "sample_rt_frame =
     \<lparr>fr_ensure_none = (\<lambda>o'. o' = ''none''),
      fr_ensure_root = (\<lambda>o'. o' = ''root''),
      fr_key_type_AURA = [97],
      fr_to_raw_vec = (\<lambda>a. [ucast a]),
      fr_identity_collator = Some,
      fr_state_proof_new = (\<lambda>_ root proof. if root = 0 then None else Some proof),
      fr_mint_into = (\<lambda>a b c. (Inr (), c @ [(a, b)])),
      fr_weight_from_parts = (\<lambda>ref _. ref),
      fr_fee_env =
        \<lparr>block_weight_total = (\<lambda>_. 0), weight_to_fee = ucast,
         next_fee_multiplier = (\<lambda>_. ()), saturating_mul_int = (\<lambda>_ f. f),
         all_extrinsics_len = (\<lambda>_. None), length_to_fee = ucast, base_weight = 0\<rparr>\<rparr>"

definition sample_rt_config ::
    "(string, u32, account_id, u128, (account_id \<times> u128) list, u128, runtime_event list,
      runtime_event list) config" where
  "sample_rt_config = runtime_config sample_rt_frame 1000 Some"

definition sample_rt_chain :: "(u32, account_id, u128, (account_id \<times> u128) list, u128) chain" where
  "sample_rt_chain =
     (default_chain 0 [11, 12, 13] sample_owner [])
       \<lparr>Authorities := [11, 12, 13], SlotWidth := 2, PreviousSlot := 4\<rparr>"

definition sample_rt_inherent :: "runtime_event list order_inherent_data" where
  "sample_rt_inherent =
     \<lparr>data = Some \<lparr>relay_storage_proof = [Other_runtime_event, On_demand_order_placed 2000 9 113],
                    relay_state_root = 1, relay_height = 20, para_id = 2000\<rparr>\<rparr>"

lemmas sample_rt_defs = sample_rt_config_def sample_rt_frame_def sample_rt_chain_def
  sample_rt_inherent_def runtime_config_def default_chain_def sample_owner_def

lemma sample_rt_wf: "wf_chain sample_rt_chain"
  by (simp add: sample_rt_defs wf_chain_def)

lemma sample_rt_due: "reward_due sample_rt_config ''none'' sample_rt_inherent sample_rt_chain 5 113"
proof -
  have "(9, 113) \<in> set (orders_placed sample_rt_config
      [Other_runtime_event, On_demand_order_placed 2000 9 113] 2000)"
    by (simp add: sample_rt_config_def runtime_config_def order_placement_checker_mem)
  moreover have "should_place_order sample_rt_config sample_rt_chain"
    by (simp add: sample_rt_defs fee_based_should_place_order_def)
  moreover have "elected (Authorities sample_rt_chain) 20 (SlotWidth sample_rt_chain) = 13"
    by (simp add: sample_rt_chain_def elected_def slot_number_def)
  ultimately show ?thesis
    unfolding reward_due_def
    by (intro conjI exI [of _ "the (data sample_rt_inherent)"]
        exI [of _ "[Other_runtime_event, On_demand_order_placed 2000 9 113]"]
        bexI [of _ "(9, 113)"])
      (simp_all add: sample_rt_defs slot_number_def)
qed

lemma sample_rt_order:
  "create_order Release sample_rt_config ''none'' sample_rt_inherent sample_rt_chain =
     Ok (rewarded sample_rt_config sample_rt_chain 5 113)"
proof -
  from sample_rt_due obtain dt where dt: "data sample_rt_inherent = Some dt"
    and origin: "ensure_none sample_rt_config ''none''"
    and no_skip: "\<not> skips sample_rt_config sample_rt_inherent sample_rt_chain"
    by (auto simp: reward_due_def skips_def)
  have shift: "shift_ok Release (SlotWidth sample_rt_chain)" by (simp add: shift_ok_def)
  show ?thesis
    unfolding create_order_checked [OF origin no_skip dt sample_rt_wf shift refl]
    using sample_rt_due dt by (auto simp: reward_due_def)
qed

theorem runtime_pays_only_for_a_reported_order_witness:
  "wf_chain sample_rt_chain \<and>
   (\<exists>price who. On_demand_order_placed 2000 price who \<in>
      set [Other_runtime_event, On_demand_order_placed 2000 9 113])"
proof -
  have "rewarded sample_rt_config sample_rt_chain 5 113 \<noteq> sample_rt_chain"
    using unat_PreviousSlot_rewarded [OF sample_rt_due] by (auto simp: sample_rt_chain_def)
  from runtime_pays_only_for_a_reported_order
    [OF sample_rt_wf sample_rt_order [unfolded sample_rt_config_def]
      this [unfolded sample_rt_config_def]]
  show ?thesis using sample_rt_wf by (auto simp: sample_rt_inherent_def sample_rt_frame_def)
qed

text \<open>
  The genesis presets are consistent. The names listed are exactly those that have a preset,
  and in every preset each invulnerable collator has session keys under its own account, every
  endowed account can pay the candidacy bond and keep the existential deposit, and the on-demand
  pallet starts in bulk mode with no fee threshold.
\<close>

theorem presets_are_consistent:
  "(ident \<in> set (preset_names loc dev) \<longleftrightarrow> get_preset loc dev xcm kr ident \<noteq> None) \<and>
   (\<forall>g. get_preset loc dev xcm kr ident = Some g \<longrightarrow>
      map fst (genesis_session_keys g) = invulnerables g \<and>
      map (fst \<circ> snd) (genesis_session_keys g) = invulnerables g \<and>
      (\<forall>(acc, amount) \<in> set (balances g).
         unat (candidacy_bond g) + unat EXISTENTIAL_DEPOSIT \<le> unat amount) \<and>
      parachain_id g = 1000 \<and> bulk_mode (on_demand g) \<and> threshold_parameter (on_demand g) = 0)"
  by (auto simp: preset_names_def get_preset_def local_testnet_genesis_def
      development_config_genesis_def testnet_genesis_def EXISTENTIAL_DEPOSIT_def MILLI_UNIT_def
      PARACHAIN_ID_def push_bit_eq_mult)

theorem presets_are_consistent_witness:
  "\<exists>g. get_preset ''local'' ''dev'' 5
      \<lparr>alice_account = 1, alice_public = (), bob_account = 2, bob_public = (),
       well_known_accounts = [1, 2]\<rparr> ''dev'' = Some g \<and> bulk_mode (on_demand g)"
proof -
  let ?kr = "\<lparr>alice_account = 1, alice_public = (), bob_account = 2, bob_public = (),
       well_known_accounts = [1, 2]\<rparr>"
  have "''dev'' \<in> set (preset_names ''local'' ''dev'')" by (simp add: preset_names_def)
  with presets_are_consistent [of "''dev''" "''local''" "''dev''" 5 ?kr] show ?thesis by auto
qed

text \<open>The fee of a weight by a coefficient of degree one.\<close>

definition linear_fee :: "weight_to_fee_coefficient \<Rightarrow> nat \<Rightarrow> nat" where
  "linear_fee c weight =
     unat (coeff_frac c) * weight div 10 ^ 9 + unat (coeff_integer c) * weight"

text \<open>
  What the fee polynomial charges. With a nanosecond of a thousand units of reference time and
  \<open>Perbill::from_rational\<close> rounding down, the base weight of an extrinsic costs one micro unit: a
  thousandth of a milli unit, not the tenth that the comment names.
\<close>

theorem base_weight_costs_a_micro_unit:
  assumes "\<And>a b. 0 < b \<Longrightarrow> a < b \<Longrightarrow> unat (from_rational a b) = unat a * 10 ^ 9 div unat b"
  shows "\<exists>c. polynomial from_rational 1000 = [c] \<and> degree c = 1 \<and> \<not> negative c \<and>
    linear_fee c (unat (extrinsic_base_ref_time 1000)) = unat MICRO_UNIT \<and>
    1000 * unat MICRO_UNIT = unat MILLI_UNIT"
proof -
  have base: "extrinsic_base_ref_time 1000 = 125000000"
    by (simp add: extrinsic_base_ref_time_def saturating_mul_def)
  have "unat (from_rational 100000000 12500000000) = 8000000"
    by (subst assms) simp_all
  then show ?thesis
    by (simp add: polynomial_def base MILLI_UNIT_def MICRO_UNIT_def linear_fee_def Let_def)
qed

theorem base_weight_costs_a_micro_unit_witness:
  "\<exists>c. polynomial (\<lambda>a b. of_nat (unat a * 10 ^ 9 div unat b)) 1000 = [c] \<and>
     linear_fee c (unat (extrinsic_base_ref_time 1000)) = unat MICRO_UNIT"
proof -
  have "unat (of_nat (unat a * 10 ^ 9 div unat b) :: u32) = unat a * 10 ^ 9 div unat b"
    if "0 < b" "a < b" for a b :: u128
  proof -
    have "unat a * 10 ^ 9 div unat b \<le> unat b * 10 ^ 9 div unat b"
      using that by (intro div_le_mono) (simp add: word_less_nat_alt)
    also have "\<dots> = 10 ^ 9" using that by (simp add: word_less_nat_alt)
    finally have "unat a * 10 ^ 9 div unat b < 2 ^ LENGTH(32)" by simp
    then show ?thesis by (simp only: unat_of_nat mod_less)
  qed
  from base_weight_costs_a_micro_unit [OF this] show ?thesis by blast
qed

section \<open>The node\<close>

text \<open>
  The node wants an order exactly when the threshold can be read and the true sum of the fees
  of the pool's ready transactions, without the saturation of the code's sum, reaches it; so more
  transactions never make it change its mind, and with a threshold of zero it always wants one.
\<close>

theorem node_criteria_exact:
  "(node_should_place_order env height \<longleftrightarrow>
     (\<exists>t. api_threshold_parameter env (best_hash env) = Inr t \<and> unat t \<le> true_fees env)) \<and>
   (node_should_place_order env height \<longrightarrow>
     node_should_place_order (env\<lparr>ready := ready env @ txs\<rparr>) height) \<and>
   (api_threshold_parameter env (best_hash env) = Inr 0 \<longrightarrow> node_should_place_order env height)"
proof -
  let ?env = "env\<lparr>ready := ready env @ txs\<rparr>"
  have exact: "node_should_place_order env height \<longleftrightarrow>
      (\<exists>t. api_threshold_parameter env (best_hash env) = Inr t \<and> unat t \<le> true_fees env)"
    unfolding node_criteria.decide_iff by (auto simp: node_threshold_def split: sum.splits)
  have "true_fee ?env = true_fee env" by (rule ext) (simp add: true_fee_def split: sum.split)
  then have "true_fees env \<le> true_fees ?env" by (simp add: true_fees_def)
  moreover have "node_threshold ?env \<le> node_threshold env" if "node_should_place_order env height"
    using that exact by (auto simp: node_threshold_def)
  ultimately have "node_should_place_order ?env height" if "node_should_place_order env height"
    using that node_criteria.more_fees by blast
  with exact show ?thesis by auto
qed

definition sample_node :: "(string, u128) node_env" where
  "sample_node = \<lparr>ready = [[1], [2, 3]], best_hash = 0,
     query_fee_details = \<lambda>h tx len. Inr (ucast len), final_fee = id,
     api_threshold_parameter = \<lambda>h. Inr 3\<rparr>"

theorem node_criteria_exact_witness:
  "node_should_place_order sample_node 6 \<and>
   node_should_place_order (sample_node\<lparr>ready := ready sample_node @ [[4]]\<rparr>) 6"
proof -
  have "\<exists>t. api_threshold_parameter sample_node (best_hash sample_node) = Inr t \<and>
      unat t \<le> true_fees sample_node"
    by (simp add: sample_node_def true_fees_def true_fee_def)
  with node_criteria_exact [of sample_node 6 "[[4]]"] show ?thesis by blast
qed

text \<open>
  The percentage the criteria log is zero until the threshold is reached, and a multiple of a
  hundred beyond it (unless it saturates): the division comes before the multiplication.
\<close>

theorem logged_percentage_is_no_percentage:
  assumes "0 < threshold"
  shows "(fees < threshold \<longrightarrow> logged_percentage fees threshold = 0) \<and>
    (unat fees div unat threshold * 100 < 2 ^ 128 \<longrightarrow>
       100 dvd unat (logged_percentage fees threshold))"
proof -
  have "unat (logged_percentage fees threshold) =
      min (unat fees div unat threshold * 100) (2 ^ 128 - 1)"
    by (simp add: logged_percentage_def unat_saturating_mul unat_div)
  then show ?thesis
    by (auto simp: word_less_nat_alt unat_eq_zero [symmetric])
qed

theorem logged_percentage_is_no_percentage_witness:
  "logged_percentage 99 100 = 0 \<and> (99 :: u128) < 100"
  using logged_percentage_is_no_percentage [of 100 99] by simp

text \<open>
  What the node hands to a block. Without an order on record the inherent is empty; with one
  it is the proof of the relay chain's events at the recorded block, with that block's state root
  and number and the node's para; and if the header or the proof cannot be had, the provider fails
  and with it the block.
\<close>

theorem provider_hands_over_recorded_order:
  "order_inherent_provider rc rec pid =
     (case relay_block_hash rec of
        None \<Rightarrow> Inr \<lparr>data = None\<rparr>
      | Some h \<Rightarrow>
          if \<exists>hdr proof. header rc h = Inr (Some hdr) \<and>
               prove_read rc (header_hash rc hdr) [EVENTS] = Inr proof
          then Inr \<lparr>data = Some
            \<lparr>relay_storage_proof = projr (prove_read rc (header_hash rc (the (projr (header rc h))))
               [EVENTS]),
             relay_state_root = state_root (the (projr (header rc h))),
             relay_height = number (the (projr (header rc h))), para_id = pid\<rparr>\<rparr>
          else Inl ''Failed to create order inherent'')"
  by (auto simp: order_inherent_provider_def create_at_def collect_relay_storage_proof_def
      split: option.split sum.split)

text \<open>
  Starting. A node that is not a validator places no orders; a validator starts with an empty
  order record and the service on the first RPC address of the relay chain, and panics without
  such an address or without a collator key.
\<close>

theorem validator_start:
  "(is_panic (start_validator validator addr key) \<longleftrightarrow>
      validator \<and> (addr = None \<or> addr = Some [] \<or> key = None)) \<and>
   (start_validator validator addr key = Ok (Some (url, rec, k)) \<longleftrightarrow>
      validator \<and> key = Some k \<and> rec = \<lparr>relay_block_hash = None, last_slot = 0\<rparr> \<and>
      (\<exists>first rest. addr = Some (first # rest) \<and> url = ''ws://'' @ first))"
  by (cases addr; cases key)
    (auto simp: start_validator_def start_on_demand_def relay_rpc_of_def Let_def
      split: list.splits)

section \<open>The example pallet\<close>

text \<open>
  \<open>cause_error\<close> counts. A value stored by a signed \<open>do_something\<close> is counted up by one per
  signed \<open>cause_error\<close>, exactly, until the largest block number, where it fails and stores nothing;
  without a stored value it fails, and an unsigned origin is refused.
\<close>

theorem cause_error_counts:
  assumes "ensure_signed origin = Some who"
  shows "(do_something ensure_signed origin bn s = Ok t \<longrightarrow>
      cause_error ensure_signed origin t =
        (if unat bn = 2 ^ 32 - 1 then Err StorageOverflow
         else Ok (t\<lparr>Something := Some (bn + 1)\<rparr>)) \<and>
      template_events t = template_events s @ [SomethingStored bn who]) \<and>
    (Something s = None \<longrightarrow> cause_error ensure_signed origin s = Err NoneValue)"
  using assms unsigned_less [of bn, where ?'a = nat]
  by (auto simp: do_something_def cause_error_def checked_add_def Let_def)

theorem cause_error_counts_witness:
  "cause_error (\<lambda>o'. Some 1) () \<lparr>Something = Some 42, template_events = [SomethingStored 42 1]\<rparr> =
     Ok \<lparr>Something = Some 43, template_events = [SomethingStored 42 1]\<rparr>"
proof -
  have "do_something (\<lambda>o'. Some 1) () 42 \<lparr>Something = None, template_events = []\<rparr> =
      Ok \<lparr>Something = Some 42, template_events = [SomethingStored 42 1]\<rparr>"
    by (simp add: do_something_def)
  with cause_error_counts [of "\<lambda>o'. Some 1" "()" 1 42 "\<lparr>Something = None, template_events = []\<rparr>"
      "\<lparr>Something = Some 42, template_events = [SomethingStored 42 1]\<rparr>"]
  show ?thesis by simp
qed

end
