(* ===== verification/Order_Lifecycle.thy ===== *)
theory Order_Lifecycle
  imports Template_Properties Service_Properties
begin

text \<open>
  The life of one order across the components: a collator submits it, the relay chain includes it,
  every collator's watcher sees it in the events of a relay block and records the block, the node
  that authors the next parachain block hands a proof of that block to the runtime, and the pallet
  pays the collator that placed the order.
\<close>

section \<open>The inherent of a recorded block\<close>

text \<open>The data the provider makes of a recorded relay block with the header \<open>hdr\<close>.\<close>

definition inherent_of :: "relay_header \<Rightarrow> u32 \<Rightarrow> 'proof \<Rightarrow> 'proof order_inherent_data" where
  "inherent_of hdr pid stp =
     \<lparr>data = Some \<lparr>relay_storage_proof = stp, relay_state_root = state_root hdr,
                    relay_height = number hdr, para_id = pid\<rparr>\<rparr>"

lemma provider_of_record:
  assumes "relay_block_hash rec = Some h" and "header rc h = Inr (Some hdr)"
    and "prove_read rc (header_hash rc hdr) [EVENTS] = Inr stp"
  shows "order_inherent_provider rc rec pid = Inr (inherent_of hdr pid stp)"
  using assms
  by (simp add: order_inherent_provider_def create_at_def collect_relay_storage_proof_def
      inherent_of_def)

lemma watcher_record:
  assumes "concat (map (order_blocks pid) sessions) = hs @ [h]"
  shows "relay_block_hash (event_notification pid (map (Inr \<circ> Inr) sessions) rec) = Some h"
  using watcher_records_last_order_block [THEN conjunct1, of pid sessions rec] assms
  by (simp add: note_blocks_def)

lemma elected_slot: "slot_number h w = slot_number h' w \<Longrightarrow> elected auths h w = elected auths h' w"
  by (simp add: elected_def)

text \<open>
  The handler that placed an order: its slot, and that it held the key of the elected authority.
\<close>

lemma placed_facts:
  assumes "wf_env env"
    and "handle_relaychain_stream p env d height r_hash pid rec = (Ok (), rec', Some x)"
    and "decode_header_hash env (parent_head d) = Some para_head"
    and "api_slot_width env para_head = Inr w" and "api_authorities env para_head = Inr auths"
  obtains price where "prepare_order p (relay_rpc env) pid height w price (env_keystore env) = Ok x"
    "shift_ok p w" "auths \<noteq> []" "unat (last_slot rec') = slot_number height w"
    "relay_block_hash rec' = Some r_hash"
    "has_keys (env_keystore env) [(auth_to_raw_vec env (elected auths height w), env_key_type_AURA env)]"
  using assms(2)
proof (cases rule: handle_cases)
  case (placed w' price y slot)
  then have due: "order_due env d height r_hash pid rec w' price" and shift: "shift_ok p w'"
    and slot: "unat slot = slot_number height w'"
    by (simp_all add: order_checks_due [OF assms(1)] current_slot_Ok_iff)
  from due assms(3-5) have w: "w' = w" and "auths \<noteq> []" and "has_keys (env_keystore env)
      [(auth_to_raw_vec env (elected auths height w), env_key_type_AURA env)]"
    by (auto simp: order_due_def)
  with placed shift slot show ?thesis by (intro that [of price]) simp_all
qed simp_all

section \<open>From the submission to the reward\<close>


text \<open>
  The case in which the block at which an order was submitted itself shows an order of the elected
  authority's owner: the record of the submission then earns the reward of that slot at once.
\<close>

theorem order_is_rewarded_for_its_slot:
  assumes "wf_env env"
    and placed: "handle_relaychain_stream p env d height r_hash pid rec = (Ok (), rec', Some x)"
    and head: "decode_header_hash env (parent_head d) = Some para_head"
    and api: "api_slot_width env para_head = Inr (SlotWidth s)"
      "api_authorities env para_head = Inr (Authorities s)"
    and hdr: "header rc r_hash = Inr (Some hdr)" "number hdr = height"
      "prove_read rc (header_hash rc hdr) [EVENTS] = Inr stp"
    and chain: "wf_chain s" "BulkMode s = None" "unat (PreviousSlot s) < unat (last_slot rec')"
    and cfg: "ensure_none cfg origin" "should_place_order cfg s"
      "relay_chain_state_proof_new cfg pid (state_root hdr) stp = Some rsp"
      "KeyOwner s (key_type_AURA cfg,
         to_raw_vec cfg (elected (Authorities s) height (SlotWidth s))) = Some vid"
      "(price, who) \<in> set (orders_placed cfg rsp pid)" "ValidatorIdOf cfg who = Some vid"
  shows "\<exists>inh. order_inherent_provider rc rec' pid = Inr inh \<and>
    create_order p cfg origin inh s = Ok (rewarded cfg s (unat (last_slot rec')) vid)"
proof -
  from placed_facts [OF assms(1) placed head api]
  have shift: "shift_ok p (SlotWidth s)" and auths: "Authorities s \<noteq> []"
    and slot: "unat (last_slot rec') = slot_number height (SlotWidth s)"
    and rec': "relay_block_hash rec' = Some r_hash" by metis+
  let ?inh = "inherent_of hdr pid stp"
  have "\<not> skips cfg ?inh s" using chain(2) auths cfg(2) by (simp add: skips_def inherent_of_def)
  from create_order_checked [OF cfg(1) this _ chain(1) shift refl]
  have "create_order p cfg origin ?inh s = Ok (rewarded cfg s (unat (last_slot rec')) vid)"
    using chain(3) cfg hdr(2) by (auto simp: inherent_of_def slot)
  with provider_of_record [OF rec' hdr(1,3)] show ?thesis by blast
qed

text \<open>
  A chain whose authorities and slot width are those the sample environment of the service reads.
  The order, submitted at relay block 6, is included in relay block 7 with the hash 50, whose proof
  shows it; the account 77 that pays for it owns the authorities' keys.
\<close>

definition life_config ::
    "(string, u8, account_id, unit, unit, u64, (u64 \<times> account_id) list, (u64 \<times> account_id) list) config" where
  "life_config = \<lparr>ensure_none = (\<lambda>o'. o' = ''none''), ensure_origin_or_root = (\<lambda>o'. o' = ''root''),
     key_type_AURA = [97], to_raw_vec = (\<lambda>a. [a]), ValidatorIdOf = Some, ToAccountId = id,
     OnReward = reward (\<lambda>a b c. (Inr () :: unit + unit, c)) 5, should_place_order = (\<lambda>s. True),
     relay_chain_state_proof_new = (\<lambda>_ _ proof. Some proof), orders_placed = (\<lambda>rsp _. rsp)\<rparr>"

definition life_chain :: "(u8, account_id, unit, unit, u64) chain" where
  "life_chain = \<lparr>Authorities = [1, 2], SlotWidth = 2, ThresholdParameter = (), BulkMode = None,
     PreviousSlot = 0, Events = [], Aura_Authorities = [1, 2], KeyOwner = (\<lambda>k. Some 77),
     Currency = ()\<rparr>"

definition life_reader :: "(string, (u64 \<times> account_id) list) relay_reader" where
  "life_reader =
     \<lparr>header = (\<lambda>h. Inr (Some \<lparr>state_root = 1, number = if h = 50 then 7 else 6\<rparr>)),
      header_hash = (\<lambda>hdr. if number hdr = 7 then 50 else 42),
      prove_read = (\<lambda>h keys. Inr (if h = 50 then [(9, 77)] else []))\<rparr>"

definition life_session :: "(string + string best_block) list" where
  "life_session =
     [Inr \<lparr>bb_hash = 49, bb_events = Inr [Inr Other_event, Inr (OnDemandOrderPlaced 2001 8)]\<rparr>,
      Inr \<lparr>bb_hash = 50, bb_events = Inr [Inr (OnDemandOrderPlaced 2000 9), Inr Undecodable_event]\<rparr>,
      Inr \<lparr>bb_hash = 51, bb_events = Inr []\<rparr>]"

lemmas life_defs = life_config_def life_chain_def life_reader_def

lemma life_wf: "wf_chain life_chain"
  by (simp add: life_chain_def wf_chain_def)

lemma life_seen: "concat (map (order_blocks 2000) [life_session]) = [] @ [50]"
  by (simp add: life_session_def own_order_def)




end
