(* ===== verification/On_Demand_System.thy ===== *)
theory On_Demand_System
  imports Order_Lifecycle Collator_Network Reward_Economy
begin

text \<open>
  The system as a whole: the parachain's state, and the order service of every collator with its
  record. A step is a step of one collator's service, a block a collator authors with the inherent
  its node provides from its own record, or any other step of the chain. Here every inherent comes
  from a provider, in contrast to the forged ones of \<open>Reward_Economy\<close>.
\<close>

type_synonym ('auth, 'vid, 'thr, 'cur, 'bal, 'c, 'hdr) system =
  "('auth, 'vid, 'thr, 'cur, 'bal) chain \<times> ('c \<Rightarrow> order_record \<times> 'hdr submission list)"

text \<open>
  \<open>envs c\<close> are the environments the service of the collator \<open>c\<close> may find, \<open>rc\<close> is the relay chain
  all nodes read. A call that is not the inherent, the end of a block and the changes of other
  pallets are the chain's own steps.
\<close>

inductive system_step ::
    "profile \<Rightarrow> ('origin, 'auth, 'vid, 'thr, 'cur, 'bal, 'proof, 'rsp) config \<Rightarrow>
     ('c \<Rightarrow> ('e, 'auth, 'hdr) service_env set) \<Rightarrow> ('x, 'proof) relay_reader \<Rightarrow> u32 \<Rightarrow>
     ('auth, 'vid, 'thr, 'cur, 'bal, 'c, 'hdr) system \<Rightarrow> nat option \<Rightarrow>
     ('auth, 'vid, 'thr, 'cur, 'bal, 'c, 'hdr) system \<Rightarrow> bool"
  for p cfg envs rc pid where
  collator_step: "service_step (envs c) p pid (net c) l st \<Longrightarrow>
     system_step p cfg envs rc pid (s, net) None (s, net(c := st))"
| paying_block: "wf_chain s \<Longrightarrow> order_inherent_provider rc (fst (net c)) pid = Inr inh \<Longrightarrow>
     dispatch p cfg origin (Create_order inh) s = Ok t \<Longrightarrow> reward_due cfg origin inh s n v \<Longrightarrow>
     system_step p cfg envs rc pid (s, net) (Some n) (t, net)"
| silent_block: "wf_chain s \<Longrightarrow> order_inherent_provider rc (fst (net c)) pid = Inr inh \<Longrightarrow>
     dispatch p cfg origin (Create_order inh) s = Ok t \<Longrightarrow>
     (\<And>n v. \<not> reward_due cfg origin inh s n v) \<Longrightarrow>
     system_step p cfg envs rc pid (s, net) None (t, net)"
| other_call: "wf_chain s \<Longrightarrow> \<not> is_inherent call \<Longrightarrow> dispatch p cfg origin call s = Ok t \<Longrightarrow>
     system_step p cfg envs rc pid (s, net) None (t, net)"
| block_end: "system_step p cfg envs rc pid (s, net) None (on_finalize s, net)"
| foreign_change: "system_step p cfg envs rc pid (s, net) None
     (s\<lparr>Aura_Authorities := auths, KeyOwner := owners, Currency := c\<rparr>, net)"

section \<open>Refinement\<close>

text \<open>
  Every step of the system is a step of the chain alone with the same label, or leaves the chain
  as it was; and it is a step of one collator's service, or leaves every record as it was.
\<close>

lemma system_step_chain:
  assumes "system_step p cfg envs rc pid (s, net) l (t, net')"
  shows "pallet_step p cfg s l t \<or> (l = None \<and> t = s)"
  using assms
proof cases
  case (silent_block c inh origin)
  then have "t = s" by (intro create_order_silent [of s p cfg origin inh]) auto
  with silent_block show ?thesis by simp
next
  case (other_call call origin)
  then show ?thesis by (auto intro!: pallet_step.silent_call)
qed (auto intro: pallet_step.intros)

lemma system_step_net:
  assumes "system_step p cfg envs rc pid (s, net) l (t, net')"
  shows "net' = net \<or> (\<exists>c l' st. service_step (envs c) p pid (net c) l' st \<and> net' = net(c := st))"
  using assms by cases auto

interpretation system_ledger:
  slot_ledger "\<lambda>y. unat (PreviousSlot (fst y))" "system_step p cfg envs rc pid" for p cfg envs rc pid
proof unfold_locales
  fix y z assume "system_step p cfg envs rc pid y None z"
  then show "unat (PreviousSlot (fst z)) = unat (PreviousSlot (fst y))"
    using system_step_chain [of p cfg envs rc pid "fst y" "snd y" None "fst z" "snd z"]
    by (auto dest: pallet_silent_step)
next
  fix y n z assume "system_step p cfg envs rc pid y (Some n) z"
  then show "unat (PreviousSlot (fst y)) < n \<and> unat (PreviousSlot (fst z)) = n"
    using system_step_chain [of p cfg envs rc pid "fst y" "snd y" "Some n" "fst z" "snd z"]
    by (auto dest: pallet_rewarding_step)
qed

section \<open>Every reward has its order\<close>

text \<open>
  A relay block that shows an order of the para: the header the nodes read for it, a proof of its
  events and an order among those the runtime finds in the proof.
\<close>

definition order_block ::
    "('origin, 'auth, 'vid, 'thr, 'cur, 'bal, 'proof, 'rsp) config \<Rightarrow> ('x, 'proof) relay_reader \<Rightarrow> u32 \<Rightarrow>
     h256 \<Rightarrow> relay_header \<Rightarrow> bool" where
  "order_block cfg rc pid h hdr \<longleftrightarrow> header rc h = Inr (Some hdr) \<and>
     (\<exists>stp rsp. prove_read rc (header_hash rc hdr) [EVENTS] = Inr stp \<and>
        relay_chain_state_proof_new cfg pid (state_root hdr) stp = Some rsp \<and>
        orders_placed cfg rsp pid \<noteq> [])"

lemma provided_data:
  assumes "order_inherent_provider rc rec pid = Inr inh" and "data inh = Some dt"
  obtains h hdr stp where "relay_block_hash rec = Some h" "header rc h = Inr (Some hdr)"
    "prove_read rc (header_hash rc hdr) [EVENTS] = Inr stp" "inh = inherent_of hdr pid stp"
  using assms
  by (auto simp: order_inherent_provider_def create_at_def collect_relay_storage_proof_def
      inherent_of_def split: option.splits sum.splits)

lemma paying_step_has_order:
  assumes "system_step p cfg envs rc pid y (Some n) z"
  shows "\<exists>h hdr. order_block cfg rc pid h hdr \<and> slot_number (number hdr) (SlotWidth (fst y)) = n"
  using assms
proof cases
  case (paying_block s net c inh origin t v)
  from paying_block(6) obtain dt where "data inh = Some dt" by (auto simp: reward_due_def)
  from provided_data [OF paying_block(4) this] obtain h hdr stp
    where "header rc h = Inr (Some hdr)" "prove_read rc (header_hash rc hdr) [EVENTS] = Inr stp"
      "inh = inherent_of hdr pid stp" by metis
  with paying_block show ?thesis
    by (intro exI [of _ h] exI [of _ hdr]) (auto simp: order_block_def reward_due_def inherent_of_def)
qed



section \<open>A run of the system\<close>

text \<open>
  The sample collator places its order at relay block 6, its watcher sees it in relay block 7, and
  the block it authors pays for slot 1.
\<close>

definition life_envs :: "bool \<Rightarrow> (string, u8, h256) service_env set" where
  "life_envs = (\<lambda>c. {sample_env})"

definition life_start :: "(u8, account_id, unit, unit, u64, bool, h256) system" where
  "life_start = (life_chain, \<lambda>c. (sample_record, []))"

definition life_placed :: "bool \<Rightarrow> order_record \<times> h256 submission list" where
  "life_placed = (snd life_start)(True := (\<lparr>relay_block_hash = Some 42, last_slot = 1\<rparr>, [sample_submission]))"

definition life_noted :: "bool \<Rightarrow> order_record \<times> h256 submission list" where
  "life_noted = life_placed(False := (\<lparr>relay_block_hash = Some 50, last_slot = 0\<rparr>, []))"

definition life_trace :: "(u8, account_id, unit, unit, u64, bool, h256) system list" where
  "life_trace = [life_start, (life_chain, life_placed), (life_chain, life_noted),
     (rewarded life_config life_chain 1 77, life_noted)]"

lemma life_system_trace:
  "trace (system_step Release life_config life_envs life_reader 2000) life_start [None, None, Some 1]
     life_trace"
  unfolding life_trace_def
proof -
  have "service_step (life_envs True) Release 2000 (snd life_start True)
      (Some (unat (last_slot \<lparr>relay_block_hash = Some 42, last_slot = 1\<rparr>)))
      (\<lparr>relay_block_hash = Some 42, last_slot = 1\<rparr>, [] @ [sample_submission])"
    unfolding life_start_def snd_conv
    by (rule service_step.order_placed [OF _ sample_handler]) (simp add: life_envs_def)
  from collator_step [where envs = life_envs and c = True and net = "snd life_start", OF this]
  have place: "system_step Release life_config life_envs life_reader 2000 life_start None (life_chain, life_placed)"
    by (simp add: life_placed_def life_start_def)
  have "service_step (life_envs False) Release 2000 (sample_record, []) None
      (note_event 2000 50 (OnDemandOrderPlaced 2000 9) sample_record, [])"
    by (rule service_step.order_event)
  then have "service_step (life_envs False) Release 2000 (life_placed False) None
      (\<lparr>relay_block_hash = Some 50, last_slot = 0\<rparr>, [])"
    by (simp add: life_placed_def life_start_def sample_record_def)
  from collator_step [where envs = life_envs and c = False and net = life_placed, OF this]
  have noted: "system_step Release life_config life_envs life_reader 2000 (life_chain, life_placed) None
      (life_chain, life_noted)"
    by (simp add: life_noted_def)
  let ?inh = "inherent_of \<lparr>state_root = 1, number = 7\<rparr> 2000 [(9, 77)]"
  have due: "reward_due life_config ''none'' ?inh life_chain 1 77"
    by (simp add: reward_due_def inherent_of_def life_defs slot_number_def)
  have "order_inherent_provider life_reader (fst (life_noted False)) 2000 = Inr ?inh"
    by (rule provider_of_record) (simp_all add: life_noted_def life_reader_def)
  moreover have "dispatch Release life_config ''none'' (Create_order ?inh) life_chain =
      Ok (rewarded life_config life_chain 1 77)"
    using create_order_due [OF life_wf due] by (simp add: shift_ok_def)
  ultimately have pay: "system_step Release life_config life_envs life_reader 2000 (life_chain, life_noted)
      (Some 1) (rewarded life_config life_chain 1 77, life_noted)"
    using due by (rule paying_block [OF life_wf])
  show "trace (system_step Release life_config life_envs life_reader 2000) life_start [None, None, Some 1]
     [life_start, (life_chain, life_placed), (life_chain, life_noted),
      (rewarded life_config life_chain 1 77, life_noted)]"
    by (rule trace_Cons place noted pay trace_Nil)+
qed



end
