(* ===== verification/Aura_Collator.thy ===== *)
theory Aura_Collator
  imports Order_Service
begin

text \<open>
  The crate \<open>client/consensus/on-demand-aura\<close>, its collators: \<open>collator.rs\<close> (claiming a slot,
  building, sealing and importing a block, packaging it), the loop of \<open>collators/basic.rs\<close> and the
  older \<open>AuraConsensus\<close> of \<open>lib.rs\<close>. What the code gets from cumulus and substrate (the proposer,
  the import, the keystore, the relay client) is the environment; opaque values are bytes.
\<close>

section \<open>collator.rs\<close>

type_synonym digest_item = bytes
type_synonym slot = u64
type_synonym timestamp = u64

record para_header =
  ph_parent_hash :: h256
  ph_number :: u32
  ph_digest :: "digest_item list"

record para_block =
  blk_header :: para_header
  blk_body :: "bytes list"

datatype fork_choice_strategy = LongestChain | Custom bool

record block_import_params =
  bip_header :: para_header
  post_digests :: "digest_item list"
  bip_body :: "bytes list option"
  state_action :: bytes
  fork_choice :: "fork_choice_strategy option"
  post_hash :: "h256 option"

record proposal =
  proposal_block :: para_block
  proposal_storage_changes :: bytes
  proposal_proof :: bytes

record parachain_candidate =
  candidate_block :: para_block
  candidate_proof :: bytes

record 'pub slot_claim =
  author_pub :: 'pub
  pre_digest :: digest_item
  claim_slot_number :: slot
  claim_timestamp :: timestamp

datatype 'e collator_error =
    No_paras_inherent_data h256
  | Unable_to_produce_collation
  | Collator_external 'e

record ('e, 'pub) collator_env =
  paras_inherent_create_at :: "h256 \<Rightarrow> persisted_validation_data \<Rightarrow> u32 \<Rightarrow> bytes option"
  inherent_data_providers :: "h256 \<Rightarrow> 'e + ('e + bytes)"
  replace_timestamp :: "timestamp \<Rightarrow> bytes \<Rightarrow> bytes"
  propose :: "para_header \<Rightarrow> bytes \<Rightarrow> bytes \<Rightarrow> digest_item list \<Rightarrow> u64 \<Rightarrow> usize \<Rightarrow> 'e + proposal option"
  para_header_hash :: "para_header \<Rightarrow> h256"
  aura_seal :: "h256 \<Rightarrow> 'pub \<Rightarrow> 'e + digest_item"
  new_own_import_params :: "para_header \<Rightarrow> block_import_params"
  apply_changes :: "bytes \<Rightarrow> bytes"
  post_header :: "block_import_params \<Rightarrow> para_header"
  import_block :: "block_import_params \<Rightarrow> 'e + unit"
  build_collation :: "para_header \<Rightarrow> h256 \<Rightarrow> parachain_candidate \<Rightarrow> (bytes \<times> bytes) option"
  announce_with_barrier :: "h256 \<Rightarrow> bytes"
  runtime_authorities :: "h256 \<Rightarrow> 'e + 'pub list"
  relay_slot_and_timestamp :: "relay_header \<Rightarrow> u64 \<Rightarrow> (slot \<times> timestamp) option"
  slot_from_timestamp :: "timestamp \<Rightarrow> u64 \<Rightarrow> slot"
  aura_claim_slot :: "slot \<Rightarrow> 'pub list \<Rightarrow> 'pub option"
  aura_pre_digest :: "slot \<Rightarrow> digest_item"

fun ext :: "'e + 'a \<Rightarrow> ('e collator_error, 'a) outcome" where
  "ext (Inl e) = Err (Collator_external e)"
| "ext (Inr v) = Ok v"

definition create_inherent_data ::
    "('e, 'pub) collator_env \<Rightarrow> u32 \<Rightarrow> h256 \<Rightarrow> persisted_validation_data \<Rightarrow> h256 \<Rightarrow> timestamp option \<Rightarrow>
     ('e collator_error, bytes \<times> bytes) outcome" where
  "create_inherent_data env pid relay_parent vdata parent_hash time =
     (case paras_inherent_create_at env relay_parent vdata pid of
        None \<Rightarrow> Err (No_paras_inherent_data relay_parent)
      | Some paras_inherent_data \<Rightarrow>
          obind (ext (inherent_data_providers env parent_hash)) (\<lambda>providers.
          obind (ext providers) (\<lambda>other_inherent_data.
          Ok (paras_inherent_data,
              case time of
                None \<Rightarrow> other_inherent_data
              | Some t \<Rightarrow> replace_timestamp env t other_inherent_data))))"

definition slot_claim_unchecked ::
    "('e, 'pub) collator_env \<Rightarrow> 'pub \<Rightarrow> slot \<Rightarrow> timestamp \<Rightarrow> 'pub slot_claim" where
  "slot_claim_unchecked env author s t =
     \<lparr>author_pub = author, pre_digest = aura_pre_digest env s, claim_slot_number = s,
      claim_timestamp = t\<rparr>"

definition claim_slot ::
    "('e, 'pub) collator_env \<Rightarrow> h256 \<Rightarrow> relay_header \<Rightarrow> u64 \<Rightarrow> u64 \<Rightarrow>
     ('e collator_error, 'pub slot_claim option) outcome" where
  "claim_slot env parent_hash relay_parent_header slot_duration relay_chain_slot_duration =
     obind (ext (runtime_authorities env parent_hash)) (\<lambda>authorities.
     case relay_slot_and_timestamp env relay_parent_header relay_chain_slot_duration of
       None \<Rightarrow> Ok None
     | Some (r_s, t) \<Rightarrow>
         (let slot_now = slot_from_timestamp env t slot_duration in
          case aura_claim_slot env slot_now authorities of
            None \<Rightarrow> Ok None
          | Some author \<Rightarrow> Ok (Some (slot_claim_unchecked env author slot_now t))))"

definition seal ::
    "('e, 'pub) collator_env \<Rightarrow> para_block \<Rightarrow> bytes \<Rightarrow> 'pub \<Rightarrow>
     ('e collator_error, block_import_params) outcome" where
  "seal env pre_sealed storage_changes author =
     (let pre_header = blk_header pre_sealed;
          body = blk_body pre_sealed;
          pre_hash = para_header_hash env pre_header in
      obind (ext (aura_seal env pre_hash author)) (\<lambda>seal_digest.
      let params = new_own_import_params env pre_header;
          params = params\<lparr>post_digests := post_digests params @ [seal_digest]\<rparr>;
          params = params\<lparr>bip_body := Some body\<rparr>;
          params = params\<lparr>state_action := apply_changes env storage_changes\<rparr>;
          params = params\<lparr>fork_choice := Some LongestChain\<rparr> in
      Ok params))"

text \<open>
  The second component of the result lists what was handed to the block import, which may refuse
  it.
\<close>

definition build_block_and_import ::
    "('e, 'pub) collator_env \<Rightarrow> para_header \<Rightarrow> 'pub slot_claim \<Rightarrow> digest_item list option \<Rightarrow>
     bytes \<times> bytes \<Rightarrow> u64 \<Rightarrow> usize \<Rightarrow>
     ('e collator_error, parachain_candidate option) outcome \<times> block_import_params list" where
  "build_block_and_import env parent_header claim additional_pre_digest inherent_data
     proposal_duration max_pov =
     (let digest = (case additional_pre_digest of None \<Rightarrow> [] | Some d \<Rightarrow> d) @ [pre_digest claim] in
      case propose env parent_header (fst inherent_data) (snd inherent_data) digest
             proposal_duration max_pov of
        Inl e \<Rightarrow> (Err (Collator_external e), [])
      | Inr None \<Rightarrow> (Ok None, [])
      | Inr (Some prop) \<Rightarrow>
          (case seal env (proposal_block prop) (proposal_storage_changes prop) (author_pub claim) of
             Panic m \<Rightarrow> (Panic m, [])
           | Err e \<Rightarrow> (Err e, [])
           | Ok sealed \<Rightarrow>
               (case bip_body sealed of
                  None \<Rightarrow> (Panic ''body always created with this `propose` fn; qed'', [])
                | Some body \<Rightarrow>
                    let block = \<lparr>blk_header = post_header env sealed, blk_body = body\<rparr> in
                    (case import_block env sealed of
                       Inl e \<Rightarrow> (Err (Collator_external e), [sealed])
                     | Inr _ \<Rightarrow>
                         (Ok (Some \<lparr>candidate_block = block,
                                    candidate_proof = proposal_proof prop\<rparr>), [sealed])))))"

definition collate ::
    "('e, 'pub) collator_env \<Rightarrow> para_header \<Rightarrow> 'pub slot_claim \<Rightarrow> digest_item list option \<Rightarrow>
     bytes \<times> bytes \<Rightarrow> u64 \<Rightarrow> usize \<Rightarrow>
     ('e collator_error, (bytes \<times> bytes \<times> h256) option) outcome \<times> block_import_params list" where
  "collate env parent_header claim additional_pre_digest inherent_data proposal_duration max_pov =
     (case build_block_and_import env parent_header claim additional_pre_digest inherent_data
             proposal_duration max_pov of
        (Panic m, imports) \<Rightarrow> (Panic m, imports)
      | (Err e, imports) \<Rightarrow> (Err e, imports)
      | (Ok None, imports) \<Rightarrow> (Ok None, imports)
      | (Ok (Some candidate), imports) \<Rightarrow>
          (let hash = para_header_hash env (blk_header (candidate_block candidate)) in
           case build_collation env parent_header hash candidate of
             Some (collation, block_data) \<Rightarrow> (Ok (Some (collation, block_data, hash)), imports)
           | None \<Rightarrow> (Err Unable_to_produce_collation, imports)))"

section \<open>collators/mod.rs\<close>

datatype 'e code_check =
    Failed_to_fetch_code_hash 'e
  | Code_matches
  | Code_does_not_match h256
  | No_code_in_relay_state

definition check_validation_code_or_log ::
    "(h256 \<Rightarrow> u32 \<Rightarrow> 'e + h256 option) \<Rightarrow> h256 \<Rightarrow> u32 \<Rightarrow> h256 \<Rightarrow> 'e code_check" where
  "check_validation_code_or_log validation_code_hash local_hash pid relay_parent =
     (case validation_code_hash relay_parent pid of
        Inl e \<Rightarrow> Failed_to_fetch_code_hash e
      | Inr (Some hash) \<Rightarrow> if hash \<noteq> local_hash then Code_does_not_match hash else Code_matches
      | Inr None \<Rightarrow> No_code_in_relay_state)"

section \<open>collators/basic.rs\<close>

record collation_request =
  req_relay_parent :: h256
  req_validation_data :: persisted_validation_data

text \<open>
  A request is dropped (\<open>continue\<close> without an answer), or completed with a collation and the
  result sender, or with nothing.
\<close>

datatype response = Dropped | Completed "(bytes \<times> bytes) option"

record ('e, 'pub) basic_env =
  collator :: "('e, 'pub) collator_env"
  decode_para_header :: "bytes \<Rightarrow> para_header option"
  check_block_status :: "h256 \<Rightarrow> para_header \<Rightarrow> bool"
  code_at :: "h256 \<Rightarrow> 'e + bytes option"
  validation_code_hash_of :: "bytes \<Rightarrow> h256"
  relay_validation_code_hash :: "h256 \<Rightarrow> u32 \<Rightarrow> 'e + h256 option"
  relay_client_header :: "h256 \<Rightarrow> 'e + relay_header option"
  runtime_slot_duration :: "h256 \<Rightarrow> 'e + u64"

record basic_params =
  bp_para_id :: u32
  relay_chain_slot_duration :: u64
  authoring_duration :: u64
  full_pov_size :: bool

record run_state =
  last_processed_slot :: slot
  last_relay_chain_block :: u32

definition run_start :: run_state where
  "run_start = \<lparr>last_processed_slot = 0, last_relay_chain_block = 0\<rparr>"

definition allowed_pov_size :: "bool \<Rightarrow> persisted_validation_data \<Rightarrow> usize" where
  "allowed_pov_size full vdata =
     ucast (if full then max_pov_size vdata else max_pov_size vdata div 2)"

text \<open>
  The body of the loop up to the slot check: an answer, or what the block is built from. The check
  of the validation code only logs, and is left out here.
\<close>

definition request_claim ::
    "basic_params \<Rightarrow> ('e, 'pub) basic_env \<Rightarrow> collation_request \<Rightarrow>
     response + para_header \<times> relay_header \<times> 'pub slot_claim" where
  "request_claim bp env req =
     (case decode_para_header env (parent_head (req_validation_data req)) of
        None \<Rightarrow> Inl (Completed None)
      | Some parent_header \<Rightarrow>
          let parent_hash = para_header_hash (collator env) parent_header in
          if \<not> check_block_status env parent_hash parent_header then Inl Dropped else
          (case code_at env parent_hash of
             Inr (Some code) \<Rightarrow>
               (case relay_client_header env (req_relay_parent req) of
                  Inl e \<Rightarrow> Inl (Completed None)
                | Inr None \<Rightarrow> Inl Dropped
                | Inr (Some relay_parent_header) \<Rightarrow>
                    (case runtime_slot_duration env parent_hash of
                       Inl e \<Rightarrow> Inl (Completed None)
                     | Inr slot_duration \<Rightarrow>
                         (case claim_slot (collator env) parent_hash relay_parent_header
                                 slot_duration (relay_chain_slot_duration bp) of
                            Ok None \<Rightarrow> Inl Dropped
                          | Ok (Some claim) \<Rightarrow> Inr (parent_header, relay_parent_header, claim)
                          | _ \<Rightarrow> Inl (Completed None))))
           | _ \<Rightarrow> Inl Dropped))"

definition process_request ::
    "basic_params \<Rightarrow> ('e, 'pub) basic_env \<Rightarrow> collation_request \<Rightarrow> run_state \<Rightarrow>
     (unit, response) outcome \<times> block_import_params list \<times> run_state" where
  "process_request bp env req st =
     (case request_claim bp env req of
        Inl answer \<Rightarrow> (Ok answer, [], st)
      | Inr (parent_header, relay_parent_header, claim) \<Rightarrow>
          if claim_slot_number claim \<le> last_processed_slot st \<and>
             last_relay_chain_block st < number relay_parent_header
          then (Ok Dropped, [], st) else
          (case create_inherent_data (collator env) (bp_para_id bp) (req_relay_parent req)
                  (req_validation_data req) (para_header_hash (collator env) parent_header)
                  (Some (claim_timestamp claim)) of
             Panic m \<Rightarrow> (Panic m, [], st)
           | Err e \<Rightarrow> (Ok (Completed None), [], st)
           | Ok inherent_data \<Rightarrow>
               (case collate (collator env) parent_header claim None inherent_data
                       (authoring_duration bp)
                       (allowed_pov_size (full_pov_size bp) (req_validation_data req)) of
                  (Panic m, imports) \<Rightarrow> (Panic m, imports, st)
                | (Err e, imports) \<Rightarrow> (Ok (Completed None), imports, st)
                | (Ok maybe_collation, imports) \<Rightarrow>
                    (Ok (case maybe_collation of
                           None \<Rightarrow> Completed None
                         | Some (collation, block_data, hash) \<Rightarrow>
                             Completed (Some (collation, announce_with_barrier (collator env) hash))),
                     imports,
                     \<lparr>last_processed_slot = claim_slot_number claim,
                      last_relay_chain_block = number relay_parent_header\<rparr>))))"

text \<open>
  The loop over the requests, each with what the environment answers while it is processed. The
  loop ends with the stream of requests; a panic would end it early.
\<close>

primrec run_requests ::
    "basic_params \<Rightarrow> (collation_request \<times> ('e, 'pub) basic_env) list \<Rightarrow> run_state \<Rightarrow>
     response list \<times> block_import_params list \<times> run_state" where
  "run_requests bp [] st = ([], [], st)"
| "run_requests bp (r # rs) st =
     (case process_request bp (snd r) (fst r) st of
        (Ok answer, imports, st') \<Rightarrow>
          (case run_requests bp rs st' of
             (answers, imports', st'') \<Rightarrow> (answer # answers, imports @ imports', st''))
      | (_, imports, st') \<Rightarrow> ([], imports, st'))"

section \<open>lib.rs: AuraConsensus\<close>

record slot_info =
  si_slot :: slot
  si_duration :: u64
  si_chain_head :: para_header
  si_block_size_limit :: "usize option"

record 'e aura_env =
  ae_header_hash :: "para_header \<Rightarrow> h256"
  ae_providers :: "h256 \<Rightarrow> h256 \<times> persisted_validation_data \<Rightarrow> 'e + bytes"
  providers_slot :: "bytes \<Rightarrow> slot"
  on_slot :: "slot_info \<Rightarrow> bytes \<Rightarrow> (para_block \<times> bytes) option"

record aura_consensus =
  slot_duration :: u64
  last_slot_processed :: u64

definition inherent_data ::
    "'e aura_env \<Rightarrow> h256 \<Rightarrow> persisted_validation_data \<Rightarrow> h256 \<Rightarrow> bytes option" where
  "inherent_data env parent vdata relay_parent =
     (case ae_providers env parent (relay_parent, vdata) of Inl e \<Rightarrow> None | Inr p \<Rightarrow> Some p)"

definition aura_build :: "u64 \<Rightarrow> aura_consensus" where
  "aura_build duration = \<lparr>slot_duration = duration, last_slot_processed = 0\<rparr>"

text \<open>
  \<open>fetch_max\<close> reads and raises the counter in one atomic step. The counter is shared by the clones
  of the consensus; the second component of the result is its new value.
\<close>

definition produce_candidate ::
    "'e aura_env \<Rightarrow> para_header \<Rightarrow> h256 \<Rightarrow> persisted_validation_data \<Rightarrow> aura_consensus \<Rightarrow>
     parachain_candidate option \<times> aura_consensus" where
  "produce_candidate env parent relay_parent vdata st =
     (case inherent_data env (ae_header_hash env parent) vdata relay_parent of
        None \<Rightarrow> (None, st)
      | Some providers \<Rightarrow>
          let info = \<lparr>si_slot = providers_slot env providers, si_duration = slot_duration st,
                      si_chain_head = parent,
                      si_block_size_limit = Some (ucast (max_pov_size vdata div 2))\<rparr>;
              old = last_slot_processed st;
              st = st\<lparr>last_slot_processed := max old (si_slot info)\<rparr> in
          if si_slot info \<le> old then (None, st) else
          (case on_slot env info providers of
             None \<Rightarrow> (None, st)
           | Some (block, proof) \<Rightarrow>
               (Some \<lparr>candidate_block = block, candidate_proof = proof\<rparr>, st)))"

section \<open>Lemmas on building and importing\<close>

lemma ext_Ok_iff [simp]: "ext x = Ok v \<longleftrightarrow> x = Inr v"
  by (cases x) simp_all

lemma is_panic_ext [simp]: "\<not> is_panic (ext x)"
  by (cases x) simp_all

lemma claim_slot_Some_iff:
  "claim_slot env parent_hash hdr duration relay_duration = Ok (Some claim) \<longleftrightarrow>
     (\<exists>authorities r_s t author. runtime_authorities env parent_hash = Inr authorities \<and>
        relay_slot_and_timestamp env hdr relay_duration = Some (r_s, t) \<and>
        aura_claim_slot env (slot_from_timestamp env t duration) authorities = Some author \<and>
        claim = slot_claim_unchecked env author (slot_from_timestamp env t duration) t)"
proof (cases "runtime_authorities env parent_hash")
  case (Inr authorities)
  show ?thesis
  proof (cases "relay_slot_and_timestamp env hdr relay_duration")
    case (Some st)
    then show ?thesis
      using Inr by (cases st) (auto simp: claim_slot_def Let_def split: option.splits)
  qed (simp add: claim_slot_def Inr)
qed (simp add: claim_slot_def)

lemma seal_Ok_iff:
  "seal env block changes author = Ok sealed \<longleftrightarrow>
     (\<exists>d. aura_seal env (para_header_hash env (blk_header block)) author = Inr d \<and>
        sealed = (let params = new_own_import_params env (blk_header block) in
          params\<lparr>post_digests := post_digests params @ [d], bip_body := Some (blk_body block),
            state_action := apply_changes env changes, fork_choice := Some LongestChain\<rparr>))"
  by (auto simp: seal_def obind_eq_Ok_iff Let_def)

lemma seal_not_Panic [simp]: "seal env block changes author \<noteq> Panic m"
  using is_panic_iff [of "seal env block changes author"]
  by (auto simp: seal_def is_panic_obind Let_def)

lemma create_inherent_data_not_Panic [simp]:
  "create_inherent_data env pid relay_parent vdata parent_hash t \<noteq> Panic m"
  using is_panic_iff [of "create_inherent_data env pid relay_parent vdata parent_hash t"]
  by (auto simp: create_inherent_data_def is_panic_obind split: option.splits)

text \<open>The body of the block is always there, so neither building nor collating panics.\<close>

lemma build_cases:
  assumes "build_block_and_import env ph claim extra inh duration pov = (res, imports)"
  obtains (no_block) "imports = []" "\<nexists>c. res = Ok (Some c)" "\<nexists>m. res = Panic m"
  | (built) pr sealed where
      "propose env ph (fst inh) (snd inh)
         ((case extra of None \<Rightarrow> [] | Some d \<Rightarrow> d) @ [pre_digest claim]) duration pov = Inr (Some pr)"
      "seal env (proposal_block pr) (proposal_storage_changes pr) (author_pub claim) = Ok sealed"
      "imports = [sealed]"
      "res = (case import_block env sealed of
         Inl e \<Rightarrow> Err (Collator_external e)
       | Inr _ \<Rightarrow> Ok (Some \<lparr>candidate_block = \<lparr>blk_header = post_header env sealed,
           blk_body = blk_body (proposal_block pr)\<rparr>, candidate_proof = proposal_proof pr\<rparr>))"
proof -
  let ?digest = "(case extra of None \<Rightarrow> [] | Some d \<Rightarrow> d) @ [pre_digest claim]"
  show ?thesis
  proof (cases "propose env ph (fst inh) (snd inh) ?digest duration pov")
    case (Inl e)
    with assms show ?thesis by (intro no_block) (auto simp: build_block_and_import_def)
  next
    case (Inr maybe)
    show ?thesis
    proof (cases maybe)
      case None
      with assms Inr show ?thesis by (intro no_block) (auto simp: build_block_and_import_def)
    next
      case (Some pr)
      let ?s = "seal env (proposal_block pr) (proposal_storage_changes pr) (author_pub claim)"
      show ?thesis
      proof (cases ?s)
        case (Ok sealed)
        then have "bip_body sealed = Some (blk_body (proposal_block pr))"
          by (auto simp: seal_Ok_iff Let_def)
        with assms Inr Some Ok show ?thesis
          by (intro built [of pr sealed])
            (auto simp: build_block_and_import_def split: sum.splits)
      qed (use assms Inr Some in \<open>auto simp: build_block_and_import_def intro: no_block\<close>)
    qed
  qed
qed

lemma collate_not_Panic: "fst (collate env ph claim extra inh duration pov) \<noteq> Panic m"
proof (cases "build_block_and_import env ph claim extra inh duration pov")
  case (Pair res imps)
  then have "res \<noteq> Panic m"
    by (cases rule: build_cases) (auto split: sum.splits)
  with Pair show ?thesis
    by (auto simp: collate_def Let_def split: outcome.split option.split)
qed

section \<open>Lemmas on the loop\<close>

lemma request_claim_Inr:
  assumes "request_claim bp env req = Inr (ph, rh, claim)"
  shows "decode_para_header env (parent_head (req_validation_data req)) = Some ph \<and>
    relay_client_header env (req_relay_parent req) = Inr (Some rh) \<and>
    (\<exists>duration. runtime_slot_duration env (para_header_hash (collator env) ph) = Inr duration \<and>
       claim_slot (collator env) (para_header_hash (collator env) ph) rh duration
         (relay_chain_slot_duration bp) = Ok (Some claim))"
  using assms
  by (auto simp: request_claim_def Let_def
      split: option.splits sum.splits outcome.splits if_splits)

lemma process_cases:
  assumes "process_request bp env req st = (res, imports, st')"
  obtains (unchanged) "st' = st"
  | (processed) ph rh claim where "request_claim bp env req = Inr (ph, rh, claim)"
      "last_processed_slot st < claim_slot_number claim \<or>
       number rh \<le> last_relay_chain_block st"
      "st' = \<lparr>last_processed_slot = claim_slot_number claim, last_relay_chain_block = number rh\<rparr>"
proof (cases "request_claim bp env req")
  case (Inl a)
  with assms show ?thesis by (intro unchanged) (simp add: process_request_def)
next
  case (Inr t)
  obtain ph rh claim where t: "t = (ph, rh, claim)" by (cases t)
  from assms Inr t have "st' = st \<or>
    (last_processed_slot st < claim_slot_number claim \<or> number rh \<le> last_relay_chain_block st) \<and>
    st' = \<lparr>last_processed_slot = claim_slot_number claim, last_relay_chain_block = number rh\<rparr>"
    by (auto simp: process_request_def not_le not_less
        split: outcome.splits prod.splits if_splits)
  with Inr t show ?thesis using unchanged processed by blast
qed

lemma process_request_no_panic: "fst (process_request bp env req st) \<noteq> Panic m"
proof -
  have "collate e ph claim extra inh duration pov \<noteq> (Panic m, imps)"
    for e :: "('a, 'b) collator_env" and ph claim extra inh duration pov imps
    using collate_not_Panic [of e ph claim extra inh duration pov m] by auto
  then show ?thesis
    by (auto simp: process_request_def split: sum.split outcome.split prod.split)
qed

lemma process_request_Ok:
  assumes "process_request bp env req st = (res, imps, st')"
  shows "\<exists>a. res = Ok a"
proof (cases res)
  case (Panic m)
  with assms process_request_no_panic [of bp env req st m] show ?thesis by simp
next
  case (Err e)
  with assms show ?thesis
    by (auto simp: process_request_def split: sum.splits outcome.splits prod.splits if_splits)
qed simp

text \<open>
  The steps of the loop on requests whose relay parents have growing numbers, labelled with the
  slot of a request that was processed to its end.
\<close>

inductive collator_step ::
    "('e, 'pub) basic_env set \<Rightarrow> basic_params \<Rightarrow> run_state \<times> block_import_params list \<Rightarrow>
     nat option \<Rightarrow> run_state \<times> block_import_params list \<Rightarrow> bool"
  for envs bp where
  request: "env \<in> envs \<Longrightarrow> process_request bp env req st = (Ok answer, imports, st') \<Longrightarrow>
   (\<And>rh. relay_client_header env (req_relay_parent req) = Inr (Some rh) \<Longrightarrow>
      last_relay_chain_block st < number rh) \<Longrightarrow>
   collator_step envs bp (st, imps)
     (if st' = st then None else Some (unat (last_processed_slot st'))) (st', imps @ imports)"

lemma collator_ledger_step:
  assumes "collator_step envs bp s l t"
  shows "(l = None \<longrightarrow> last_processed_slot (fst t) = last_processed_slot (fst s)) \<and>
    (\<forall>n. l = Some n \<longrightarrow> unat (last_processed_slot (fst s)) < n \<and>
       unat (last_processed_slot (fst t)) = n)"
  using assms
proof cases
  case (request env req st answer new st' imps)
  from request(5) show ?thesis
  proof (cases rule: process_cases)
    case unchanged
    with request show ?thesis by simp
  next
    case (processed ph rh claim)
    then have "last_relay_chain_block st < number rh"
      using request(6) request_claim_Inr by blast
    with processed(2) have "unat (last_processed_slot st) < unat (claim_slot_number claim)"
      by (auto simp: word_less_nat_alt word_le_nat_alt)
    with processed(3) request show ?thesis by auto
  qed
qed

interpretation collator_ledger:
  slot_ledger "\<lambda>s. unat (last_processed_slot (fst s))" "collator_step envs bp" for envs bp
  by unfold_locales (auto dest: collator_ledger_step)

text \<open>
  The relay parents of a list of requests have known headers whose numbers grow: what the relay
  chain gives a node that follows one fork.
\<close>

primrec growing :: "u32 \<Rightarrow> (collation_request \<times> ('e, 'pub) basic_env) list \<Rightarrow> bool" where
  "growing n [] = True"
| "growing n (r # rs) =
     (case relay_client_header (snd r) (req_relay_parent (fst r)) of
        Inr (Some rh) \<Rightarrow> n < number rh \<and> growing (number rh) rs
      | _ \<Rightarrow> growing n rs)"

lemma growing_mono: "growing n rs \<Longrightarrow> m \<le> n \<Longrightarrow> growing m rs"
  by (induction rs arbitrary: n m) (auto split: sum.splits option.splits)

lemma growing_step:
  assumes "process_request bp (snd r) (fst r) st = (res, new, st')"
    and "growing (last_relay_chain_block st) (r # rs)"
  shows "growing (last_relay_chain_block st') rs"
  using assms(1)
proof (cases rule: process_cases)
  case unchanged
  with assms(2) show ?thesis
    by (auto split: sum.splits option.splits elim: growing_mono)
next
  case (processed ph rh claim)
  with assms(2) show ?thesis by (auto dest!: request_claim_Inr)
qed

lemma run_requests_run:
  assumes "run_requests bp rs st = (answers, imps, st')"
    and "growing (last_relay_chain_block st) rs" and "snd ` set rs \<subseteq> envs"
  shows "\<exists>ls. run (collator_step envs bp) (st, imps0) ls (st', imps0 @ imps)"
  using assms
proof (induction rs arbitrary: st answers imps imps0)
  case Nil
  then show ?case by (auto intro: run_Nil)
next
  case (Cons r rs)
  obtain req env where r: "r = (req, env)" by (cases r)
  obtain res new st1 where step: "process_request bp env req st = (res, new, st1)"
    by (metis prod_cases3)
  obtain answers1 imps1 st2 where rest: "run_requests bp rs st1 = (answers1, imps1, st2)"
    by (metis prod_cases3)
  from process_request_Ok [OF step] obtain a where res: "res = Ok a" ..
  from Cons.prems(1) r step rest res have eqs: "imps = new @ imps1" "st' = st2" by simp_all
  have later: "last_relay_chain_block st < number rh"
    if "relay_client_header env (req_relay_parent req) = Inr (Some rh)" for rh
    using Cons.prems(2) r that by simp
  have "growing (last_relay_chain_block st1) rs"
    using growing_step [of bp r st] step Cons.prems(2) r by simp
  then have "\<exists>ls. run (collator_step envs bp) (st1, imps0 @ new) ls (st', (imps0 @ new) @ imps1)"
    by (intro Cons.IH) (use rest Cons.prems(3) eqs in auto)
  moreover have "\<exists>l. collator_step envs bp (st, imps0) l (st1, imps0 @ new)"
    using collator_step.request [OF _ step [unfolded res] later] Cons.prems(3) r by auto
  ultimately show ?case unfolding eqs(1) append_assoc by (meson run_Cons)
qed

section \<open>Lemmas on \<open>AuraConsensus\<close>\<close>

text \<open>
  Calls of \<open>produce_candidate\<close> by any clone, labelled with the slot in which the worker runs.
\<close>

inductive aura_step :: "'e aura_env set \<Rightarrow> aura_consensus \<Rightarrow> nat option \<Rightarrow> aura_consensus \<Rightarrow> bool"
  for envs where
  call: "env \<in> envs \<Longrightarrow> produce_candidate env parent relay_parent vdata st = (c, st') \<Longrightarrow>
   aura_step envs st
     (if last_slot_processed st' = last_slot_processed st then None
      else Some (unat (last_slot_processed st'))) st'"

lemma produce_candidate_counter:
  "last_slot_processed st \<le> last_slot_processed (snd (produce_candidate env parent rp vdata st))"
  by (auto simp: produce_candidate_def Let_def max_def split: option.split)

interpretation aura_ledger:
  slot_ledger "\<lambda>s. unat (last_slot_processed s)" "aura_step envs" for envs
proof unfold_locales
  fix s t n
  assume "aura_step envs s (Some n) t"
  then show "unat (last_slot_processed s) < n \<and> unat (last_slot_processed t) = n"
  proof cases
    case (call env parent rp vdata c)
    then have "last_slot_processed s \<le> last_slot_processed t"
      using produce_candidate_counter [of s env parent rp vdata] by simp
    with call(1) have "last_slot_processed s < last_slot_processed t" by (auto split: if_splits)
    with call(1) show ?thesis by (auto simp: word_less_nat_alt split: if_splits)
  qed
qed (auto elim: aura_step.cases split: if_splits)

end
