(* ===== verification/Equivocation_Queue.thy ===== *)
theory Equivocation_Queue
  imports Aura_Collator
begin

text \<open>
  The import side of \<open>client/consensus/on-demand-aura\<close>: the equivocation defender and the verifier
  of \<open>equivocation_import_queue.rs\<close>, and the delegations of \<open>import_queue.rs\<close>. The LRU map of the
  defender is a parameter: the operations the code uses, with the laws of a map that may forget
  other keys when it inserts one.
\<close>

section \<open>The defender\<close>

definition LRU_WINDOW :: u32 where "LRU_WINDOW = 256"

definition EQUIVOCATION_LIMIT :: usize where "EQUIVOCATION_LIMIT = 16"

text \<open>
  \<open>lru_get_or_insert\<close> returns the value under a key, after it inserted the given one if there was
  none (\<open>None\<close> if the limiter refuses the insertion); the mutable reference the code gets is
  written back with \<open>lru_store\<close>. \<open>lru_peek\<close> only serves to state the laws.
\<close>

record 'c lru_map =
  lru_new :: "u32 \<Rightarrow> 'c"
  lru_get_or_insert :: "'c \<Rightarrow> u64 \<Rightarrow> usize \<Rightarrow> (usize \<times> 'c) option"
  lru_store :: "'c \<Rightarrow> u64 \<Rightarrow> usize \<Rightarrow> 'c"
  lru_peek :: "'c \<Rightarrow> u64 \<Rightarrow> usize option"

definition defender_default :: "'c lru_map \<Rightarrow> 'c" where
  "defender_default lru = lru_new lru LRU_WINDOW"

definition insert_and_check :: "'c lru_map \<Rightarrow> slot \<Rightarrow> 'c \<Rightarrow> ('e, bool \<times> 'c) outcome" where
  "insert_and_check lru s cache =
     (case lru_get_or_insert lru cache s 0 of
        None \<Rightarrow> Panic ''insertion with ByLength limiter always succeeds; qed''
      | Some (val, cache) \<Rightarrow>
          if val = EQUIVOCATION_LIMIT then Ok (True, cache)
          else Ok (False, lru_store lru cache s (val + 1)))"

section \<open>The verifier\<close>

datatype seal_verification_error = Deferred para_header slot | Invalid_seal

datatype 'e verify_error =
    No_authorities h256 'e
  | No_slot_duration 'e
  | Excessive_equivocations h256
  | Future_slot h256 slot
  | Bad_seal h256
  | No_inherent_data 'e
  | Inherents_not_checked 'e
  | Inherent_error 'e
  | Unknown_inherent_error bytes

record 'e verifier_env =
  skip_execution_checks :: "bytes \<Rightarrow> bool"
  with_state :: "block_import_params \<Rightarrow> bool"
  ve_header_hash :: "para_header \<Rightarrow> h256"
  fetch_authorities :: "h256 \<Rightarrow> 'e + bytes list"
  ve_slot_duration :: "h256 \<Rightarrow> 'e + u64"
  system_time :: timestamp
  ve_slot_from_timestamp :: "timestamp \<Rightarrow> u64 \<Rightarrow> slot"
  check_header_slot_and_seal :: "slot \<Rightarrow> para_header \<Rightarrow> bytes list \<Rightarrow>
    seal_verification_error + para_header \<times> slot \<times> digest_item"
  ve_inherent_data :: "h256 \<Rightarrow> 'e + ('e + bytes)"
  check_inherents :: "h256 \<Rightarrow> para_block \<Rightarrow> bytes \<Rightarrow> 'e + bool \<times> (bytes \<times> bytes) list"
  providers_try_handle_error :: "h256 \<Rightarrow> bytes \<Rightarrow> bytes \<Rightarrow> ('e + unit) option"

definition slot_now :: "'e verifier_env \<Rightarrow> u64 \<Rightarrow> slot" where
  "slot_now env duration = ve_slot_from_timestamp env (system_time env) duration"

text \<open>
  The loop over the errors of the inherents. The result of \<open>check_inherents\<close> is whether it is
  \<open>ok\<close>, and its errors.
\<close>

primrec handle_inherent_errors ::
    "(bytes \<Rightarrow> bytes \<Rightarrow> ('e + unit) option) \<Rightarrow> (bytes \<times> bytes) list \<Rightarrow> ('e verify_error, unit) outcome" where
  "handle_inherent_errors handle [] = Ok ()"
| "handle_inherent_errors handle (ie # rest) =
     (case handle (fst ie) (snd ie) of
        Some (Inr _) \<Rightarrow> handle_inherent_errors handle rest
      | Some (Inl e) \<Rightarrow> Err (Inherent_error e)
      | None \<Rightarrow> Err (Unknown_inherent_error (fst ie)))"

fun lift_err :: "('e \<Rightarrow> 'e verify_error) \<Rightarrow> 'e + 'a \<Rightarrow> ('e verify_error, 'a) outcome" where
  "lift_err f (Inl e) = Err (f e)"
| "lift_err f (Inr v) = Ok v"

definition verify_inherents ::
    "'e verifier_env \<Rightarrow> h256 \<Rightarrow> block_import_params \<Rightarrow> ('e verify_error, unit) outcome" where
  "verify_inherents env parent_hash params =
     (case bip_body params of
        None \<Rightarrow> Ok ()
      | Some body \<Rightarrow>
          let block = \<lparr>blk_header = bip_header params, blk_body = body\<rparr> in
          obind (lift_err No_inherent_data (ve_inherent_data env parent_hash)) (\<lambda>providers.
          obind (lift_err No_inherent_data providers) (\<lambda>inherents.
          obind (lift_err Inherents_not_checked (check_inherents env parent_hash block inherents))
            (\<lambda>(ok, errors).
               if ok then Ok ()
               else handle_inherent_errors (providers_try_handle_error env parent_hash) errors))))"

definition verify ::
    "'c lru_map \<Rightarrow> 'e verifier_env \<Rightarrow> block_import_params \<Rightarrow> 'c \<Rightarrow>
     ('e verify_error, block_import_params) outcome \<times> 'c" where
  "verify lru env params cache =
     (if skip_execution_checks env (state_action params) \<or> with_state env params
      then (Ok (params\<lparr>fork_choice := Some (Custom (with_state env params))\<rparr>), cache)
      else
      let phash = ve_header_hash env (bip_header params);
          parent_hash = ph_parent_hash (bip_header params) in
      case fetch_authorities env parent_hash of
        Inl e \<Rightarrow> (Err (No_authorities parent_hash e), cache)
      | Inr authorities \<Rightarrow>
          (case ve_slot_duration env parent_hash of
             Inl e \<Rightarrow> (Err (No_slot_duration e), cache)
           | Inr duration \<Rightarrow>
               (case check_header_slot_and_seal env (slot_now env duration) (bip_header params)
                       authorities of
                  Inl (Deferred hdr s) \<Rightarrow> (Err (Future_slot phash s), cache)
                | Inl Invalid_seal \<Rightarrow> (Err (Bad_seal phash), cache)
                | Inr (pre_header, s, seal_digest) \<Rightarrow>
                    let params = params\<lparr>bip_header := pre_header,
                          post_digests := post_digests params @ [seal_digest],
                          fork_choice := Some LongestChain, post_hash := Some phash\<rparr> in
                    (case insert_and_check lru s cache of
                       Panic m \<Rightarrow> (Panic m, cache)
                     | Err e \<Rightarrow> (Err e, cache)
                     | Ok (excessive, cache) \<Rightarrow>
                         if excessive then (Err (Excessive_equivocations phash), cache) else
                         (case verify_inherents env parent_hash params of
                            Panic m \<Rightarrow> (Panic m, cache)
                          | Err e \<Rightarrow> (Err e, cache)
                          | Ok _ \<Rightarrow> (Ok params, cache))))))"

section \<open>Delegation to \<open>sc_consensus_aura\<close>\<close>

datatype check_for_equivocation = Equivocation_Yes | Equivocation_No

datatype compatibility_mode = Compatibility_None | Compatibility_Other

text \<open>
  The parameters of the two functions of \<open>import_queue.rs\<close>, and of those of \<open>sc_consensus_aura\<close> they
  call; a handle of another crate is a value of the type \<open>'h\<close>.
\<close>

record 'h import_queue_params =
  iq_block_import :: 'h
  iq_client :: 'h
  iq_create_inherent_data_providers :: 'h
  iq_spawner :: 'h
  iq_registry :: "'h option"
  iq_telemetry :: "'h option"

record 'h aura_import_queue_params =
  aiq_block_import :: 'h
  aiq_justification_import :: "'h option"
  aiq_client :: 'h
  aiq_create_inherent_data_providers :: 'h
  aiq_spawner :: 'h
  aiq_registry :: "'h option"
  aiq_check_for_equivocation :: check_for_equivocation
  aiq_telemetry :: "'h option"
  aiq_compatibility_mode :: compatibility_mode

definition import_queue :: "('h aura_import_queue_params \<Rightarrow> 'e + 'q) \<Rightarrow> 'h import_queue_params \<Rightarrow> 'e + 'q" where
  "import_queue aura_import_queue params =
     aura_import_queue
       \<lparr>aiq_block_import = iq_block_import params,
        aiq_justification_import = None,
        aiq_client = iq_client params,
        aiq_create_inherent_data_providers = iq_create_inherent_data_providers params,
        aiq_spawner = iq_spawner params,
        aiq_registry = iq_registry params,
        aiq_check_for_equivocation = Equivocation_No,
        aiq_telemetry = iq_telemetry params,
        aiq_compatibility_mode = Compatibility_None\<rparr>"

record 'h build_verifier_params =
  bv_client :: 'h
  bv_create_inherent_data_providers :: 'h
  bv_telemetry :: "'h option"

record 'h aura_build_verifier_params =
  abv_client :: 'h
  abv_create_inherent_data_providers :: 'h
  abv_telemetry :: "'h option"
  abv_check_for_equivocation :: check_for_equivocation
  abv_compatibility_mode :: compatibility_mode

definition build_verifier :: "('h aura_build_verifier_params \<Rightarrow> 'v) \<Rightarrow> 'h build_verifier_params \<Rightarrow> 'v" where
  "build_verifier aura_build_verifier params =
     aura_build_verifier
       \<lparr>abv_client = bv_client params,
        abv_create_inherent_data_providers = bv_create_inherent_data_providers params,
        abv_telemetry = bv_telemetry params,
        abv_check_for_equivocation = Equivocation_No,
        abv_compatibility_mode = Compatibility_None\<rparr>"

text \<open>
  \<open>fully_verifying_import_queue\<close> hands a verifier with a fresh defender, and no import of
  justifications, to the \<open>BasicQueue\<close> of \<open>sc_consensus\<close>; the verifier is its \<open>verify\<close> and the state
  of the defender it starts with.
\<close>

record ('e, 'c) verifier =
  verifier_verify :: "'e verifier_env \<Rightarrow> block_import_params \<Rightarrow> 'c \<Rightarrow>
    ('e verify_error, block_import_params) outcome \<times> 'c"
  verifier_defender :: 'c

definition fully_verifying_import_queue ::
    "'c lru_map \<Rightarrow> (('e, 'c) verifier \<Rightarrow> bool \<Rightarrow> 'q) \<Rightarrow> 'q" where
  "fully_verifying_import_queue lru basic_queue =
     basic_queue \<lparr>verifier_verify = verify lru, verifier_defender = defender_default lru\<rparr> False"

text \<open>The state of the defender after a queue has verified some blocks, each in its environment.\<close>

definition verify_earlier ::
    "('e verifier_env \<times> block_import_params) list \<Rightarrow> ('e, 'c) verifier \<Rightarrow> bool \<Rightarrow> 'c" where
  "verify_earlier earlier v justifications =
     fold (\<lambda>(env, params) cache. snd (verifier_verify v env params cache)) earlier (verifier_defender v)"

definition queue_cache :: "'c lru_map \<Rightarrow> ('e verifier_env \<times> block_import_params) list \<Rightarrow> 'c" where
  "queue_cache lru earlier = fully_verifying_import_queue lru (verify_earlier earlier)"

section \<open>Lemmas on the defender\<close>

text \<open>
  The laws of the map: it returns the stored value or the inserted one and remembers it; an
  insertion may forget other keys but does not change them; a store changes one key; a new map is
  empty.
\<close>

definition lru_laws :: "'c lru_map \<Rightarrow> bool" where
  "lru_laws lru \<longleftrightarrow>
     (\<forall>c k v. \<exists>c'. lru_get_or_insert lru c k v =
          Some (case lru_peek lru c k of None \<Rightarrow> v | Some x \<Rightarrow> x, c') \<and>
        lru_peek lru c' k = Some (case lru_peek lru c k of None \<Rightarrow> v | Some x \<Rightarrow> x) \<and>
        (\<forall>k'. k' \<noteq> k \<longrightarrow> lru_peek lru c' k' = lru_peek lru c k' \<or> lru_peek lru c' k' = None)) \<and>
     (\<forall>c k v. lru_peek lru c k \<noteq> None \<longrightarrow>
        lru_peek lru (lru_store lru c k v) = (lru_peek lru c)(k \<mapsto> v)) \<and>
     (\<forall>n k. lru_peek lru (lru_new lru n) k = None)"

definition seen_count :: "'c lru_map \<Rightarrow> 'c \<Rightarrow> slot \<Rightarrow> nat" where
  "seen_count lru c s = (case lru_peek lru c s of None \<Rightarrow> 0 | Some v \<Rightarrow> unat v)"

lemma insert_and_check_spec:
  fixes c :: 'c
  assumes "lru_laws lru" and "seen_count lru c s \<le> 16"
  shows "\<exists>c'. insert_and_check lru s c =
      (Ok (seen_count lru c s = 16, c') :: ('e, bool \<times> 'c) outcome) \<and>
    lru_peek lru c' s \<noteq> None \<and> seen_count lru c' s = min 16 (seen_count lru c s + 1) \<and>
    (\<forall>t. t \<noteq> s \<longrightarrow> lru_peek lru c' t = lru_peek lru c t \<or> lru_peek lru c' t = None)"
proof -
  let ?v = "case lru_peek lru c s of None \<Rightarrow> 0 | Some x \<Rightarrow> x"
  have laws: "\<exists>c1. lru_get_or_insert lru c s 0 = Some (?v, c1) \<and> lru_peek lru c1 s = Some ?v \<and>
      (\<forall>t. t \<noteq> s \<longrightarrow> lru_peek lru c1 t = lru_peek lru c t \<or> lru_peek lru c1 t = None)"
    and store: "\<And>d k v. lru_peek lru d k \<noteq> None \<Longrightarrow>
      lru_peek lru (lru_store lru d k v) = (lru_peek lru d)(k \<mapsto> v)"
    using assms(1) unfolding lru_laws_def by blast+
  from laws obtain c1 where c1: "lru_get_or_insert lru c s 0 = Some (?v, c1)"
    "lru_peek lru c1 s = Some ?v"
    "\<forall>t. t \<noteq> s \<longrightarrow> lru_peek lru c1 t = lru_peek lru c t \<or> lru_peek lru c1 t = None" by blast
  have v: "unat ?v = seen_count lru c s" by (simp add: seen_count_def split: option.split)
  show ?thesis
  proof (cases "?v = EQUIVOCATION_LIMIT")
    case True
    then have "insert_and_check lru s c = (Ok (True, c1) :: ('e, bool \<times> 'c) outcome)"
      by (simp add: insert_and_check_def c1)
    moreover have "seen_count lru c s = 16" using True v by (simp add: EQUIVOCATION_LIMIT_def)
    moreover have "seen_count lru c1 s = 16"
      using True c1(2) by (simp add: seen_count_def EQUIVOCATION_LIMIT_def)
    ultimately show ?thesis using c1 by auto
  next
    case False
    then have "insert_and_check lru s c =
        (Ok (False, lru_store lru c1 s (?v + 1)) :: ('e, bool \<times> 'c) outcome)"
      by (simp add: insert_and_check_def c1)
    moreover from False have "seen_count lru c s \<noteq> 16"
      using v by (simp add: EQUIVOCATION_LIMIT_def word_unat_eq_iff)
    moreover from this assms(2) v have "unat (?v + 1) = seen_count lru c s + 1"
      by (simp add: unat_word_ariths)
    ultimately show ?thesis
      using c1(3) assms(2) c1(2) store [of c1 s]
      by (intro exI [of _ "lru_store lru c1 s (?v + 1)"]) (auto simp: seen_count_def)
  qed
qed

text \<open>
  A sequence of calls and their verdicts, how many blocks of a slot it lets through, and whether
  the map keeps the slot throughout.
\<close>

primrec check_all :: "'c lru_map \<Rightarrow> slot list \<Rightarrow> 'c \<Rightarrow> ('e, bool list \<times> 'c) outcome" where
  "check_all lru [] c = Ok ([], c)"
| "check_all lru (s # ss) c =
     obind (insert_and_check lru s c) (\<lambda>(v, c').
     obind (check_all lru ss c') (\<lambda>(vs, c''). Ok (v # vs, c'')))"

definition let_through :: "slot \<Rightarrow> slot list \<Rightarrow> bool list \<Rightarrow> nat" where
  "let_through s ss vs = length (filter (\<lambda>(t, excessive). t = s \<and> \<not> excessive) (zip ss vs))"

primrec kept :: "'c lru_map \<Rightarrow> slot \<Rightarrow> slot list \<Rightarrow> 'c \<Rightarrow> bool" where
  "kept lru s [] c = True"
| "kept lru s (t # ts) c =
     (case insert_and_check lru t c :: (unit, bool \<times> 'c) outcome of
        Ok (v, c') \<Rightarrow> (lru_peek lru c s = None \<or> lru_peek lru c' s \<noteq> None) \<and> kept lru s ts c'
      | _ \<Rightarrow> False)"

lemma insert_and_check_poly:
  "insert_and_check lru s c = (Ok r :: ('e, bool \<times> 'c) outcome) \<longleftrightarrow>
   insert_and_check lru s c = (Ok r :: ('f, bool \<times> 'c) outcome)"
  by (auto simp: insert_and_check_def split: option.splits if_splits)

lemma check_all_spec:
  fixes c :: 'c
  assumes "lru_laws lru" and "\<And>t. seen_count lru c t \<le> 16"
  shows "\<exists>vs c'. check_all lru ss c = (Ok (vs, c') :: ('e, bool list \<times> 'c) outcome) \<and>
    length vs = length ss \<and>
    (kept lru s ss c \<longrightarrow> let_through s ss vs = min (count_list ss s) (16 - seen_count lru c s))"
  using assms(2)
proof (induction ss arbitrary: c)
  case Nil
  then show ?case by (simp add: let_through_def)
next
  case (Cons t ss)
  from insert_and_check_spec [OF assms(1) Cons.prems] obtain c'
    where c': "insert_and_check lru t c =
        (Ok (seen_count lru c t = 16, c') :: ('e, bool \<times> 'c) outcome)"
      "lru_peek lru c' t \<noteq> None" "seen_count lru c' t = min 16 (seen_count lru c t + 1)"
      "\<forall>u. u \<noteq> t \<longrightarrow> lru_peek lru c' u = lru_peek lru c u \<or> lru_peek lru c' u = None" by blast
  have others: "seen_count lru c' u = seen_count lru c u \<or> seen_count lru c' u = 0" if "u \<noteq> t" for u
    using c'(4) that by (auto simp: seen_count_def)
  have "seen_count lru c' u \<le> 16" for u
    using others [of u] Cons.prems [of u] c'(3) by (cases "u = t") auto
  from Cons.IH [OF this] obtain vs c''
    where vs: "check_all lru ss c' = (Ok (vs, c'') :: ('e, bool list \<times> 'c) outcome)"
      "length vs = length ss"
      "kept lru s ss c' \<longrightarrow> let_through s ss vs = min (count_list ss s) (16 - seen_count lru c' s)"
    by blast
  have "let_through s (t # ss) ((seen_count lru c t = 16) # vs) =
      min (count_list (t # ss) s) (16 - seen_count lru c s)" if "kept lru s (t # ss) c"
  proof -
    have "insert_and_check lru t c =
        (Ok (seen_count lru c t = 16, c') :: (unit, bool \<times> 'c) outcome)"
      by (rule insert_and_check_poly [THEN iffD1, OF c'(1)])
    with that have keep: "lru_peek lru c s = None \<or> lru_peek lru c' s \<noteq> None" and "kept lru s ss c'"
      by simp_all
    then have rest: "let_through s ss vs = min (count_list ss s) (16 - seen_count lru c' s)"
      using vs(3) by simp
    show ?thesis
    proof (cases "t = s")
      case True
      then show ?thesis
        using rest c'(3) Cons.prems [of s] by (auto simp: let_through_def min_def)
    next
      case False
      then have "seen_count lru c' s = seen_count lru c s"
        using c'(4) keep by (auto simp: seen_count_def)
      then show ?thesis using rest False by (simp add: let_through_def)
    qed
  qed
  with vs c'(1) show ?case by simp
qed

section \<open>Lemmas on the queue\<close>

lemma default_unseen: "lru_laws lru \<Longrightarrow> seen_count lru (defender_default lru) t = 0"
  by (simp add: lru_laws_def defender_default_def seen_count_def)

lemma verify_cache:
  "snd (verify lru env params cache) = cache \<or>
   (\<exists>s v. insert_and_check lru s cache =
      (Ok (v, snd (verify lru env params cache)) :: ('e verify_error, bool \<times> 'c) outcome))"
  for env :: "'e verifier_env" and cache :: 'c
  by (auto simp: verify_def Let_def split: sum.splits outcome.splits seal_verification_error.splits)

lemma verify_keeps_limit:
  fixes env :: "'e verifier_env" and cache :: 'c
  assumes "lru_laws lru" and "\<And>t. seen_count lru cache t \<le> 16"
  shows "seen_count lru (snd (verify lru env params cache)) t \<le> 16"
  using verify_cache [of lru env params cache]
proof
  assume "\<exists>s v. insert_and_check lru s cache =
      (Ok (v, snd (verify lru env params cache)) :: ('e verify_error, bool \<times> 'c) outcome)"
  then obtain s v where ins: "insert_and_check lru s cache =
      (Ok (v, snd (verify lru env params cache)) :: ('e verify_error, bool \<times> 'c) outcome)" by blast
  from insert_and_check_spec [OF assms(1) assms(2) [of s], where ?'e = "'e verify_error"] ins
  have "seen_count lru (snd (verify lru env params cache)) s = min 16 (seen_count lru cache s + 1)"
    "\<forall>u. u \<noteq> s \<longrightarrow> lru_peek lru (snd (verify lru env params cache)) u = lru_peek lru cache u \<or>
       lru_peek lru (snd (verify lru env params cache)) u = None"
    by auto
  then show ?thesis using assms(2) [of t] by (cases "t = s") (auto simp: seen_count_def)
qed (use assms(2) in simp)

text \<open>The defender of a queue never counts beyond its limit, whatever blocks it is given.\<close>

lemma queue_keeps_limit:
  assumes "lru_laws lru"
  shows "seen_count lru (queue_cache lru earlier) t \<le> 16"
proof -
  have "seen_count lru (fold (\<lambda>(env, params) cache. snd (verify lru env params cache)) earlier c) t \<le> 16"
    if "\<And>t. seen_count lru c t \<le> 16" for c
    using that
  proof (induction earlier arbitrary: c)
    case (Cons b bs)
    then show ?case by (cases b) (simp add: verify_keeps_limit [OF assms])
  qed simp
  from this [of "defender_default lru"] show ?thesis
    by (simp add: queue_cache_def fully_verifying_import_queue_def verify_earlier_def
        default_unseen assms)
qed

end
