(* ===== verification/Aura_Properties.thy ===== *)
theory Aura_Properties
  imports Equivocation_Queue "HOL-Library.AList"
begin

text \<open>
  What the consensus client guarantees: at most one block per slot on a growing relay chain, what
  a block is claimed with, sealed with and limited to, and how many blocks of a slot the import
  queue lets through. Concrete environments serve the witnesses.
\<close>

section \<open>Concrete environments\<close>

definition sample_collator :: "(string, u8) collator_env" where
  "sample_collator = \<lparr>
     paras_inherent_create_at = \<lambda>relay_parent vdata pid. Some [1],
     inherent_data_providers = \<lambda>parent. Inr (Inr [2]),
     replace_timestamp = \<lambda>t inh. inh @ [ucast t],
     propose = \<lambda>ph paras inh digest duration pov. Inr (Some \<lparr>
       proposal_block = \<lparr>blk_header = \<lparr>ph_parent_hash = 0, ph_number = ph_number ph + 1, ph_digest = digest\<rparr>,
                         blk_body = [inh]\<rparr>,
       proposal_storage_changes = [], proposal_proof = []\<rparr>),
     para_header_hash = \<lambda>hdr. ucast (ph_number hdr),
     aura_seal = \<lambda>hash author. Inr [author],
     new_own_import_params = \<lambda>hdr. \<lparr>bip_header = hdr, post_digests = [], bip_body = None,
       state_action = [], fork_choice = None, post_hash = None\<rparr>,
     apply_changes = id,
     post_header = \<lambda>params. (bip_header params)
       \<lparr>ph_digest := ph_digest (bip_header params) @ post_digests params\<rparr>,
     import_block = \<lambda>params. Inr (),
     build_collation = \<lambda>ph hash candidate. Some ([3], [4]),
     announce_with_barrier = \<lambda>hash. [5],
     runtime_authorities = \<lambda>hash. Inr [1, 2],
     relay_slot_and_timestamp = \<lambda>hdr duration. Some (9, 24),
     slot_from_timestamp = \<lambda>t duration. t div duration,
     aura_claim_slot = \<lambda>s authorities. Some 2,
     aura_pre_digest = \<lambda>s. [ucast s]\<rparr>"

definition sample_basic :: "(string, u8) basic_env" where
  "sample_basic = \<lparr>
     collator = sample_collator,
     decode_para_header = \<lambda>raw. Some \<lparr>ph_parent_hash = 0, ph_number = 7, ph_digest = []\<rparr>,
     check_block_status = \<lambda>hash hdr. True,
     code_at = \<lambda>hash. Inr (Some []),
     validation_code_hash_of = \<lambda>code. 0,
     relay_validation_code_hash = \<lambda>hash pid. Inr None,
     relay_client_header = \<lambda>hash. Inr (Some \<lparr>state_root = 0, number = ucast hash\<rparr>),
     runtime_slot_duration = \<lambda>hash. Inr 12\<rparr>"

definition sample_params :: basic_params where
  "sample_params = \<lparr>bp_para_id = 2000, relay_chain_slot_duration = 6000,
     authoring_duration = 1500, full_pov_size = False\<rparr>"

definition sample_request :: "h256 \<Rightarrow> collation_request" where
  "sample_request relay_parent = \<lparr>req_relay_parent = relay_parent,
     req_validation_data = \<lparr>parent_head = [], max_pov_size = 10\<rparr>\<rparr>"

lemmas sample_aura_defs = sample_collator_def sample_basic_def sample_params_def sample_request_def

definition sample_sealed :: block_import_params where
  "sample_sealed = \<lparr>bip_header = \<lparr>ph_parent_hash = 0, ph_number = 8, ph_digest = [[2]]\<rparr>,
     post_digests = [[2]], bip_body = Some [[2, 24]], state_action = [],
     fork_choice = Some LongestChain, post_hash = None\<rparr>"

definition sample_claim :: "u8 slot_claim" where
  "sample_claim = \<lparr>author_pub = 2, pre_digest = [2], claim_slot_number = 2, claim_timestamp = 24\<rparr>"

definition sample_parent :: para_header where
  "sample_parent = \<lparr>ph_parent_hash = 0, ph_number = 7, ph_digest = []\<rparr>"

lemma sample_claimed:
  "request_claim sample_params sample_basic (sample_request rp) =
     Inr (sample_parent, \<lparr>state_root = 0, number = ucast rp\<rparr>, sample_claim)"
  by (simp add: request_claim_def claim_slot_def slot_claim_unchecked_def sample_claim_def
      sample_parent_def sample_aura_defs)

lemma sample_inherents:
  "create_inherent_data sample_collator pid rp vdata parent (Some 24) = Ok ([1], [2, 24])"
  by (simp add: create_inherent_data_def sample_collator_def)

lemma sample_built:
  "build_block_and_import sample_collator sample_parent sample_claim None ([1], [2, 24]) d pov =
     (Ok (Some \<lparr>candidate_block = \<lparr>blk_header = \<lparr>ph_parent_hash = 0, ph_number = 8,
        ph_digest = [[2], [2]]\<rparr>, blk_body = [[2, 24]]\<rparr>, candidate_proof = []\<rparr>), [sample_sealed])"
  by (simp add: build_block_and_import_def seal_def Let_def sample_collator_def sample_parent_def
      sample_claim_def sample_sealed_def)

lemma sample_collated:
  "collate sample_collator sample_parent sample_claim None ([1], [2, 24]) d pov =
     (Ok (Some ([3], [4], 8)), [sample_sealed])"
  by (simp add: collate_def sample_built) (simp add: sample_collator_def)

lemma sample_process:
  "process_request sample_params sample_basic (sample_request 5) run_start =
     (Ok (Completed (Some ([3], [5]))), [sample_sealed],
      \<lparr>last_processed_slot = 2, last_relay_chain_block = 5\<rparr>)"
  by (simp add: process_request_def sample_claimed run_start_def)
    (simp add: sample_claim_def sample_basic_def sample_inherents sample_collated [unfolded sample_claim_def]
      del: One_nat_def, simp add: sample_collator_def)

section \<open>The basic collator\<close>

definition collations :: "response list \<Rightarrow> nat" where
  "collations answers = length (filter (\<lambda>a. a \<noteq> Dropped \<and> a \<noteq> Completed None) answers)"

text \<open>A request that was answered with a collation was processed to its end.\<close>

lemma process_collation:
  assumes "process_request bp env req st = (Ok (Completed (Some x)), imps, st')"
  obtains ph rh claim where "request_claim bp env req = Inr (ph, rh, claim)"
    "last_processed_slot st < claim_slot_number claim \<or> number rh \<le> last_relay_chain_block st"
    "st' = \<lparr>last_processed_slot = claim_slot_number claim, last_relay_chain_block = number rh\<rparr>"
proof (cases "request_claim bp env req")
  case (Inl a)
  with assms show ?thesis
    by (auto simp: process_request_def request_claim_def Let_def
        split: option.splits sum.splits outcome.splits if_splits)
next
  case (Inr t)
  obtain ph rh claim where t: "t = (ph, rh, claim)" by (cases t)
  from assms Inr t have
    "(last_processed_slot st < claim_slot_number claim \<or> number rh \<le> last_relay_chain_block st) \<and>
     st' = \<lparr>last_processed_slot = claim_slot_number claim, last_relay_chain_block = number rh\<rparr>"
    by (auto simp: process_request_def not_le not_less
        split: outcome.splits prod.splits if_splits)
  with Inr t that show ?thesis by blast
qed

lemma process_step_collations:
  assumes "process_request bp env req st = (Ok a, imps, st')"
    and "\<And>rh. relay_client_header env (req_relay_parent req) = Inr (Some rh) \<Longrightarrow>
      last_relay_chain_block st < number rh"
  shows "unat (last_processed_slot st) + collations [a] \<le> unat (last_processed_slot st')"
proof (cases "\<exists>x. a = Completed (Some x)")
  case True
  then obtain x where a: "a = Completed (Some x)" ..
  from assms(1) [unfolded a] obtain ph rh claim where
    claim: "request_claim bp env req = Inr (ph, rh, claim)"
      "last_processed_slot st < claim_slot_number claim \<or> number rh \<le> last_relay_chain_block st"
      "st' = \<lparr>last_processed_slot = claim_slot_number claim, last_relay_chain_block = number rh\<rparr>"
    by (rule process_collation)
  then have "last_relay_chain_block st < number rh"
    using assms(2) request_claim_Inr by blast
  with claim show ?thesis
    by (auto simp: a collations_def word_less_nat_alt word_le_nat_alt)
next
  case False
  then have "collations [a] = 0"
    by (cases a) (auto simp: collations_def)
  with collator_ledger.step_mono [OF collator_step.request [OF _ assms, of "UNIV" "[]"]]
  show ?thesis by simp
qed

lemma run_requests_collations:
  assumes "run_requests bp rs st = (answers, imps, st')"
    and "growing (last_relay_chain_block st) rs"
  shows "unat (last_processed_slot st) + collations answers \<le> unat (last_processed_slot st')"
  using assms
proof (induction rs arbitrary: st answers imps)
  case Nil
  then show ?case by (simp add: collations_def)
next
  case (Cons r rs)
  obtain res new st1 where step: "process_request bp (snd r) (fst r) st = (res, new, st1)"
    by (metis prod_cases3)
  obtain answers1 imps1 where rest: "run_requests bp rs st1 = (answers1, imps1, st')"
    and a: "answers = (case res of Ok a \<Rightarrow> a # answers1 | _ \<Rightarrow> [])" and ok: "\<exists>a. res = Ok a"
    using Cons.prems(1) step process_request_Ok [OF step]
    by (auto split: prod.splits)
  from ok a obtain a where res: "res = Ok a" "answers = a # answers1" by auto
  have later: "last_relay_chain_block st < number rh"
    if "relay_client_header (snd r) (req_relay_parent (fst r)) = Inr (Some rh)" for rh
    using Cons.prems(2) that by simp
  have "unat (last_processed_slot st1) + collations answers1 \<le> unat (last_processed_slot st')"
    using rest growing_step [OF step Cons.prems(2)] by (rule Cons.IH)
  moreover have "unat (last_processed_slot st) + collations [a] \<le> unat (last_processed_slot st1)"
    using step [unfolded res(1)] later by (rule process_step_collations)
  moreover have "collations answers = collations [a] + collations answers1"
    by (simp add: res(2) collations_def)
  ultimately show ?case by linarith
qed


lemma sample_process_again:
  "process_request sample_params sample_basic (sample_request 6)
     \<lparr>last_processed_slot = 2, last_relay_chain_block = 5\<rparr> =
     (Ok Dropped, [], \<lparr>last_processed_slot = 2, last_relay_chain_block = 5\<rparr>)"
  by (simp add: process_request_def sample_claimed) (simp add: sample_claim_def)


lemma collate_imports:
  assumes "collate env ph claim extra inh duration pov = (res, imps)"
  shows "snd (build_block_and_import env ph claim extra inh duration pov) = imps"
  using assms
  by (auto simp: collate_def Let_def split: prod.splits outcome.splits option.splits)

lemma process_imports:
  assumes "process_request bp env req st = (res, imps, st')" and "sealed \<in> set imps"
  obtains ph rh claim inh where "request_claim bp env req = Inr (ph, rh, claim)"
    "create_inherent_data (collator env) (bp_para_id bp) (req_relay_parent req)
       (req_validation_data req) (para_header_hash (collator env) ph) (Some (claim_timestamp claim)) = Ok inh"
    "sealed \<in> set (snd (build_block_and_import (collator env) ph claim None inh
       (authoring_duration bp) (allowed_pov_size (full_pov_size bp) (req_validation_data req))))"
proof (cases "request_claim bp env req")
  case (Inl a)
  with assms show ?thesis by (auto simp: process_request_def)
next
  case (Inr t)
  obtain ph rh claim where t: "t = (ph, rh, claim)" by (cases t)
  from assms Inr t obtain inh res' where
    "create_inherent_data (collator env) (bp_para_id bp) (req_relay_parent req)
       (req_validation_data req) (para_header_hash (collator env) ph) (Some (claim_timestamp claim)) = Ok inh"
    "collate (collator env) ph claim None inh (authoring_duration bp)
       (allowed_pov_size (full_pov_size bp) (req_validation_data req)) = (res', imps)"
    by (auto simp: process_request_def split: outcome.splits prod.splits if_splits)
  from collate_imports [OF this(2)] this(1) Inr t assms(2) that show ?thesis by blast
qed

text \<open>
  C23: every block the collator hands to the import was proposed on the parent the relay chain
  asked for, from inherent data made for the relay parent and the slot's time, within half of the
  allowed proof size (all of it with the feature), in the slot that the relay parent's time and the
  runtime's slot duration give, which the node's key could claim; its digest ends with that slot's
  pre-digest, and it carries the seal of the claiming author over the proposed header.
\<close>

theorem imported_block_follows_its_claim:
  assumes "process_request bp env req st = (res, imps, st')" and "sealed \<in> set imps"
  shows "\<exists>ph rh author s t d inh pr authorities duration r_s.
    decode_para_header env (parent_head (req_validation_data req)) = Some ph \<and>
    relay_client_header env (req_relay_parent req) = Inr (Some rh) \<and>
    relay_slot_and_timestamp (collator env) rh (relay_chain_slot_duration bp) = Some (r_s, t) \<and>
    s = slot_from_timestamp (collator env) t duration \<and>
    runtime_slot_duration env (para_header_hash (collator env) ph) = Inr duration \<and>
    runtime_authorities (collator env) (para_header_hash (collator env) ph) = Inr authorities \<and>
    aura_claim_slot (collator env) s authorities = Some author \<and>
    create_inherent_data (collator env) (bp_para_id bp) (req_relay_parent req)
      (req_validation_data req) (para_header_hash (collator env) ph) (Some t) = Ok inh \<and>
    propose (collator env) ph (fst inh) (snd inh) [aura_pre_digest (collator env) s]
      (authoring_duration bp)
      (ucast (if full_pov_size bp then max_pov_size (req_validation_data req)
              else max_pov_size (req_validation_data req) div 2)) = Inr (Some pr) \<and>
    aura_seal (collator env) (para_header_hash (collator env) (blk_header (proposal_block pr)))
      author = Inr d \<and>
    last (post_digests sealed) = d \<and> bip_body sealed = Some (blk_body (proposal_block pr)) \<and>
    fork_choice sealed = Some LongestChain"
proof -
  from assms obtain ph rh claim inh where claim: "request_claim bp env req = Inr (ph, rh, claim)"
    and inh: "create_inherent_data (collator env) (bp_para_id bp) (req_relay_parent req)
       (req_validation_data req) (para_header_hash (collator env) ph) (Some (claim_timestamp claim)) = Ok inh"
    and built: "sealed \<in> set (snd (build_block_and_import (collator env) ph claim None inh
       (authoring_duration bp) (allowed_pov_size (full_pov_size bp) (req_validation_data req))))"
    by (rule process_imports)
  obtain pr where pr: "propose (collator env) ph (fst inh) (snd inh) [pre_digest claim]
      (authoring_duration bp) (allowed_pov_size (full_pov_size bp) (req_validation_data req)) =
      Inr (Some pr)"
    and sealed: "seal (collator env) (proposal_block pr) (proposal_storage_changes pr)
      (author_pub claim) = Ok sealed"
  proof (cases "build_block_and_import (collator env) ph claim None inh (authoring_duration bp)
      (allowed_pov_size (full_pov_size bp) (req_validation_data req))")
    case (Pair res' imps')
    with built have mem: "sealed \<in> set imps'" by simp
    from Pair show ?thesis
      using mem that by (cases rule: build_cases) auto
  qed
  from request_claim_Inr [OF claim] obtain duration where
    duration: "runtime_slot_duration env (para_header_hash (collator env) ph) = Inr duration" and
    "claim_slot (collator env) (para_header_hash (collator env) ph) rh duration
       (relay_chain_slot_duration bp) = Ok (Some claim)" by blast
  from this(2) obtain authorities r_s t author where slot:
    "runtime_authorities (collator env) (para_header_hash (collator env) ph) = Inr authorities"
    "relay_slot_and_timestamp (collator env) rh (relay_chain_slot_duration bp) = Some (r_s, t)"
    "aura_claim_slot (collator env) (slot_from_timestamp (collator env) t duration) authorities =
       Some author"
    "claim = slot_claim_unchecked (collator env) author
       (slot_from_timestamp (collator env) t duration) t"
    by (auto simp: claim_slot_Some_iff)
  from sealed obtain d where d: "aura_seal (collator env)
      (para_header_hash (collator env) (blk_header (proposal_block pr))) author = Inr d"
    "last (post_digests sealed) = d" "bip_body sealed = Some (blk_body (proposal_block pr))"
    "fork_choice sealed = Some LongestChain"
    using slot(4) by (auto simp: seal_Ok_iff slot_claim_unchecked_def Let_def)
  show ?thesis
    using request_claim_Inr [OF claim] duration inh slot(1-3) d pr [unfolded allowed_pov_size_def] slot(4)
    by (intro exI [of _ ph] exI [of _ rh] exI [of _ author]
        exI [of _ "slot_from_timestamp (collator env) t duration"] exI [of _ t] exI [of _ d]
        exI [of _ inh] exI [of _ pr] exI [of _ authorities] exI [of _ duration] exI [of _ r_s])
      (simp add: slot_claim_unchecked_def)
qed

theorem imported_block_follows_its_claim_witness:
  "fork_choice sample_sealed = Some LongestChain"
proof -
  have "sample_sealed \<in> set [sample_sealed]" by simp
  from imported_block_follows_its_claim [OF sample_process this] show ?thesis by blast
qed

text \<open>
  A request that ends in an error after its block was handed to the import leaves the slot
  open. The loop's comment promises one block per slot and relay chain fork, but the slot is only
  recorded after a collation, so the next request of the same slot builds another block.
\<close>

theorem failed_collation_leaves_slot_open:
  assumes "process_request bp env req st = (Ok (Completed None), imps, st')" and "imps \<noteq> []"
  shows "st' = st"
proof (cases "request_claim bp env req")
  case (Inl a)
  with assms show ?thesis by (auto simp: process_request_def)
next
  case (Inr t)
  obtain ph rh claim where t: "t = (ph, rh, claim)" by (cases t)
  have none: "imps' = []" if "collate e ph claim extra inh d pov = (Ok None, imps')"
    for e :: "('a, 'b) collator_env" and extra inh d pov imps'
  proof (cases "build_block_and_import e ph claim extra inh d pov")
    case (Pair res' imps'')
    with that have r: "res' = Ok None \<and> imps' = imps''"
      by (auto simp: collate_def Let_def split: outcome.splits option.splits)
    from Pair show ?thesis
      by (cases rule: build_cases) (use r in \<open>auto split: sum.splits\<close>)
  qed
  from assms Inr t show ?thesis
    by (auto simp: process_request_def dest: none
        split: outcome.splits prod.splits if_splits option.splits)
qed

definition failing_basic :: "(string, u8) basic_env" where
  "failing_basic = sample_basic\<lparr>collator :=
     sample_collator\<lparr>build_collation := \<lambda>ph hash candidate. None\<rparr>\<rparr>"

lemma failing_process:
  "process_request sample_params failing_basic (sample_request rp) run_start =
     (Ok (Completed None), [sample_sealed], run_start)"
proof -
  let ?c = "sample_collator\<lparr>build_collation := \<lambda>ph hash candidate. None\<rparr>"
  have claim: "request_claim sample_params failing_basic (sample_request rp) =
      Inr (sample_parent, \<lparr>state_root = 0, number = ucast rp\<rparr>, sample_claim)"
    by (simp add: request_claim_def claim_slot_def slot_claim_unchecked_def sample_claim_def
        sample_parent_def failing_basic_def sample_aura_defs)
  have inh: "create_inherent_data ?c pid relay vdata parent (Some 24) = Ok ([1], [2, 24])"
    for pid relay vdata parent
    by (simp add: create_inherent_data_def sample_collator_def)
  have built: "build_block_and_import ?c sample_parent sample_claim None ([1], [2, 24]) d pov =
      build_block_and_import sample_collator sample_parent sample_claim None ([1], [2, 24]) d pov"
    for d pov
    unfolding sample_built
    by (simp add: build_block_and_import_def seal_def Let_def sample_collator_def sample_parent_def
        sample_claim_def sample_sealed_def)
  have "collate ?c sample_parent sample_claim None ([1], [2, 24]) d pov =
      (Err Unable_to_produce_collation, [sample_sealed])" for d pov
    by (simp add: collate_def built sample_built)
  with claim inh show ?thesis
    by (simp add: process_request_def run_start_def failing_basic_def sample_claim_def)
qed

theorem failed_collation_leaves_slot_open_witness:
  "snd (snd (process_request sample_params failing_basic (sample_request 5) run_start)) = run_start \<and>
   fst (snd (process_request sample_params failing_basic (sample_request 5) run_start)) \<noteq> []"
  using failed_collation_leaves_slot_open [OF failing_process] failing_process by simp

section \<open>\<open>AuraConsensus\<close>\<close>

text \<open>
  However many clones of the consensus call \<open>produce_candidate\<close>, in any order, the slots in
  which the shared counter lets the worker run strictly increase, and there are no more of them
  than the counter has advanced; a call that does not raise the counter produces nothing.
\<close>

theorem worker_runs_once_per_slot:
  assumes "run (aura_step envs) s ls t"
  shows "sorted_wrt (<) (acted ls) \<and>
    length (acted ls) \<le> unat (last_slot_processed t) - unat (last_slot_processed s) \<and>
    (last_slot_processed (snd (produce_candidate env parent rp vdata t)) = last_slot_processed t \<longrightarrow>
       fst (produce_candidate env parent rp vdata t) = None)"
proof -
  have "fst (produce_candidate env parent rp vdata t) = None"
    if "last_slot_processed (snd (produce_candidate env parent rp vdata t)) = last_slot_processed t"
    using that by (auto simp: produce_candidate_def Let_def max_def split: option.splits if_splits)
  with aura_ledger.run_acted_sorted [OF assms] aura_ledger.run_acted_count [OF assms]
  show ?thesis by simp
qed

definition sample_aura :: "string aura_env" where
  "sample_aura = \<lparr>ae_header_hash = \<lambda>h. 0, ae_providers = \<lambda>h rv. Inr [3],
     providers_slot = \<lambda>p. 3, on_slot = \<lambda>info p. None\<rparr>"

theorem worker_runs_once_per_slot_witness:
  "sorted_wrt (<) (acted [Some 3]) \<and> length (acted [Some (3 :: nat)]) \<le> 3"
proof -
  have "produce_candidate sample_aura sample_parent 0 \<lparr>parent_head = [], max_pov_size = 10\<rparr>
      (aura_build 12) = (None, (aura_build 12)\<lparr>last_slot_processed := 3\<rparr>)"
    by (simp add: produce_candidate_def inherent_data_def sample_aura_def aura_build_def)
  from aura_step.call [OF _ this, of "{sample_aura}"]
  have "aura_step {sample_aura} (aura_build 12) (Some 3) ((aura_build 12)\<lparr>last_slot_processed := 3\<rparr>)"
    by (simp add: aura_build_def)
  then have "run (aura_step {sample_aura}) (aura_build 12) [Some 3]
      ((aura_build 12)\<lparr>last_slot_processed := 3\<rparr>)"
    by (rule run_Cons) (rule run_Nil)
  from worker_runs_once_per_slot [OF this] show ?thesis by (simp add: aura_build_def)
qed

section \<open>The import queue\<close>

text \<open>A concrete map for the witnesses: the most recently used keys first, at most 256 of them.\<close>

definition list_lru :: "(u64 \<times> usize) list lru_map" where
  "list_lru = \<lparr>
     lru_new = \<lambda>n. [],
     lru_get_or_insert = \<lambda>c k v.
       (case map_of c k of
          Some x \<Rightarrow> Some (x, (k, x) # AList.delete k c)
        | None \<Rightarrow> Some (v, (k, v) # take 255 c)),
     lru_store = \<lambda>c k v. AList.update k v c,
     lru_peek = map_of\<rparr>"

lemma map_of_take: "map_of (take n xs) k = map_of xs k \<or> map_of (take n xs) k = None"
  by (induction xs arbitrary: n) (auto simp: take_Cons split: nat.splits)

lemma list_lru_laws: "lru_laws list_lru"
  by (auto simp: lru_laws_def list_lru_def update_conv' delete_conv' map_of_take split: option.splits)

text \<open>
  C25: of the blocks of one slot the defender lets the first 16 through and no more, for as long as
  the map keeps the slot; it never panics.
\<close>

theorem defender_lets_16_blocks_of_a_slot_through:
  assumes "lru_laws lru" and "kept lru s slots (defender_default lru)"
  shows "\<exists>verdicts cache. check_all lru slots (defender_default lru) = Ok (verdicts, cache) \<and>
    length verdicts = length slots \<and> let_through s slots verdicts = min (count_list slots s) 16"
  using check_all_spec [OF assms(1), of "defender_default lru" slots s] assms
  by (auto simp: default_unseen)

theorem defender_lets_16_blocks_of_a_slot_through_witness:
  "lru_laws list_lru \<and> kept list_lru 5 [5, 6, 5] (defender_default list_lru) \<and>
   (\<exists>verdicts cache. check_all list_lru [5, 6, 5] (defender_default list_lru) =
       (Ok (verdicts, cache) :: (unit, bool list \<times> (u64 \<times> usize) list) outcome) \<and>
     let_through 5 [5, 6, 5] verdicts = 2)"
proof -
  have kept: "kept list_lru 5 [5, 6, 5] (defender_default list_lru)"
    by (simp add: defender_default_def list_lru_def insert_and_check_def EQUIVOCATION_LIMIT_def)
  show ?thesis
    using defender_lets_16_blocks_of_a_slot_through [OF list_lru_laws kept]
      list_lru_laws kept by auto
qed


definition sample_verifier :: "string verifier_env" where
  "sample_verifier = \<lparr>
     skip_execution_checks = \<lambda>action. False,
     with_state = \<lambda>params. False,
     ve_header_hash = \<lambda>hdr. ucast (ph_number hdr),
     fetch_authorities = \<lambda>hash. Inr [[1], [2]],
     ve_slot_duration = \<lambda>hash. Inr 12,
     system_time = 24,
     ve_slot_from_timestamp = \<lambda>t duration. t div duration,
     check_header_slot_and_seal = \<lambda>now hdr authorities. Inr (hdr\<lparr>ph_digest := []\<rparr>, now, [2]),
     ve_inherent_data = \<lambda>hash. Inr (Inr []),
     check_inherents = \<lambda>hash block inh. Inr (True, []),
     providers_try_handle_error = \<lambda>hash i e. None\<rparr>"

lemma sample_verified:
  "verify list_lru sample_verifier sample_sealed (defender_default list_lru) =
     (Ok (sample_sealed\<lparr>bip_header := (bip_header sample_sealed)\<lparr>ph_digest := []\<rparr>,
        post_digests := [[2], [2]], post_hash := Some 8\<rparr>), [(2, 1)])"
  by (simp add: verify_def verify_inherents_def insert_and_check_def slot_now_def
      defender_default_def list_lru_def sample_verifier_def sample_sealed_def
      EQUIVOCATION_LIMIT_def)


end
