(* ===== verification/Aura_Wiring.thy ===== *)
theory Aura_Wiring
  imports Aura_Properties
begin

text \<open>
  How the collators of \<open>client/consensus/on-demand-aura\<close> are put together: \<open>Collator::new\<close>, the
  start of the loop of \<open>collators/basic.rs\<close> with the source of its requests, and the handles of
  \<open>AuraConsensus\<close>, whose clones share one counter cell. A handle of another crate is a value of the
  type \<open>'h\<close>.
\<close>

section \<open>collator.rs: Collator::new\<close>

record 'h collator_params =
  cp_create_inherent_data_providers :: 'h
  cp_block_import :: 'h
  cp_relay_client :: 'h
  cp_keystore :: 'h
  cp_para_id :: u32
  cp_proposer :: 'h
  cp_collator_service :: 'h

record 'h collator_fields =
  cf_create_inherent_data_providers :: 'h
  cf_block_import :: 'h
  cf_relay_client :: 'h
  cf_keystore :: 'h
  cf_para_id :: u32
  cf_proposer :: 'h
  cf_collator_service :: 'h

definition Collator_new :: "'h collator_params \<Rightarrow> 'h collator_fields" where
  "Collator_new params =
     \<lparr>cf_create_inherent_data_providers = cp_create_inherent_data_providers params,
      cf_block_import = cp_block_import params,
      cf_relay_client = cp_relay_client params,
      cf_keystore = cp_keystore params,
      cf_para_id = cp_para_id params,
      cf_proposer = cp_proposer params,
      cf_collator_service = cp_collator_service params\<rparr>"

definition collator_service :: "'h collator_fields \<Rightarrow> 'h" where
  "collator_service self = cf_collator_service self"

section \<open>collators/basic.rs: run\<close>

record 'h basic_run_params =
  br_create_inherent_data_providers :: 'h
  br_block_import :: 'h
  br_para_client :: 'h
  br_relay_client :: 'h
  br_keystore :: 'h
  br_collator_key :: 'h
  br_para_id :: u32
  br_overseer_handle :: 'h
  br_relay_chain_slot_duration :: u64
  br_proposer :: 'h
  br_collator_service :: 'h
  br_authoring_duration :: u64
  br_collation_request_receiver :: "'h option"

text \<open>
  The receiver of the requests is the given one, or a new one that the overseer is asked for.
\<close>

definition request_receiver :: "('h \<Rightarrow> u32 \<Rightarrow> 'h \<Rightarrow> 'h) \<Rightarrow> 'h basic_run_params \<Rightarrow> 'h" where
  "request_receiver relay_chain_driven_init params =
     (case br_collation_request_receiver params of
        Some receiver \<Rightarrow> receiver
      | None \<Rightarrow> relay_chain_driven_init (br_collator_key params) (br_para_id params)
          (br_overseer_handle params))"

definition run_collator :: "'h basic_run_params \<Rightarrow> 'h collator_fields" where
  "run_collator params =
     Collator_new
       \<lparr>cp_create_inherent_data_providers = br_create_inherent_data_providers params,
        cp_block_import = br_block_import params,
        cp_relay_client = br_relay_client params,
        cp_keystore = br_keystore params,
        cp_para_id = br_para_id params,
        cp_proposer = br_proposer params,
        cp_collator_service = br_collator_service params\<rparr>"

text \<open>
  \<open>world\<close> is what happens over the handles: the requests a receiver yields, each with what the
  collator's handles and the para client, the relay client and the keystore of the loop answer.
  \<open>full\<close> is the feature \<open>full-pov-size\<close>.
\<close>

definition basic_run ::
    "('h \<Rightarrow> u32 \<Rightarrow> 'h \<Rightarrow> 'h) \<Rightarrow>
     ('h \<Rightarrow> 'h collator_fields \<Rightarrow> 'h \<Rightarrow> 'h \<Rightarrow> 'h \<Rightarrow> (collation_request \<times> ('e, 'pub) basic_env) list) \<Rightarrow> bool \<Rightarrow>
     'h basic_run_params \<Rightarrow> response list \<times> block_import_params list \<times> run_state" where
  "basic_run relay_chain_driven_init world full params =
     (let collation_requests = request_receiver relay_chain_driven_init params;
          collator = run_collator params in
      run_requests
        \<lparr>bp_para_id = br_para_id params, relay_chain_slot_duration = br_relay_chain_slot_duration params,
         authoring_duration = br_authoring_duration params, full_pov_size = full\<rparr>
        (world collation_requests collator (br_para_client params) (br_relay_client params)
          (br_keystore params))
        run_start)"

text \<open>
  The collator of a node, from its start: with relay parents that grow, it answers with at most as
  many collations as the number of the last slot it built in, whichever receiver it was given; and
  it asks the overseer for a receiver exactly if it was given none.
\<close>

theorem collator_run_makes_one_block_per_slot:
  assumes "basic_run init world full params = (answers, imps, st)"
    and "growing 0 (world (request_receiver init params) (run_collator params) (br_para_client params)
      (br_relay_client params) (br_keystore params))"
  shows "collations answers \<le> unat (last_processed_slot st) \<and>
    (br_collation_request_receiver params \<noteq> None \<longrightarrow>
       request_receiver init params = request_receiver init' params)"
  using run_requests_collations [OF assms(1) [unfolded basic_run_def Let_def]] assms(2)
  by (auto simp: run_start_def request_receiver_def)

section \<open>lib.rs: the handles of AuraConsensus\<close>

record 'h build_aura_consensus_params =
  ba_proposer_factory :: 'h
  ba_create_inherent_data_providers :: 'h
  ba_block_import :: 'h
  ba_para_client :: 'h
  ba_backoff_authoring_blocks :: "'h option"
  ba_sync_oracle :: 'h
  ba_keystore :: 'h
  ba_force_authoring :: bool
  ba_slot_duration :: u64
  ba_telemetry :: "'h option"
  ba_block_proposal_slot_portion :: 'h
  ba_max_block_proposal_slot_portion :: "'h option"

record 'h build_aura_worker_params =
  bw_client :: 'h
  bw_block_import :: 'h
  bw_justification_sync_link :: unit
  bw_proposer_factory :: 'h
  bw_sync_oracle :: 'h
  bw_force_authoring :: bool
  bw_backoff_authoring_blocks :: "'h option"
  bw_keystore :: 'h
  bw_telemetry :: "'h option"
  bw_block_proposal_slot_portion :: 'h
  bw_max_block_proposal_slot_portion :: "'h option"
  bw_compatibility_mode :: compatibility_mode

text \<open>
  A handle: the shared providers and worker, the slot duration, and the address of the shared
  counter in the memory of counters.
\<close>

record ('h, 'w) aura_handle =
  ah_create_inherent_data_providers :: 'h
  ah_aura_worker :: 'w
  ah_slot_duration :: u64
  ah_last_slot_processed :: nat

definition aura_clone :: "('h, 'w) aura_handle \<Rightarrow> ('h, 'w) aura_handle" where
  "aura_clone self =
     \<lparr>ah_create_inherent_data_providers = ah_create_inherent_data_providers self,
      ah_aura_worker = ah_aura_worker self,
      ah_slot_duration = ah_slot_duration self,
      ah_last_slot_processed = ah_last_slot_processed self\<rparr>"

definition AuraConsensus_build ::
    "('h build_aura_worker_params \<Rightarrow> 'w) \<Rightarrow> 'h build_aura_consensus_params \<Rightarrow> u64 list \<Rightarrow>
     ('h, 'w) aura_handle \<times> u64 list" where
  "AuraConsensus_build build_aura_worker params mem =
     (let worker = build_aura_worker
        \<lparr>bw_client = ba_para_client params,
         bw_block_import = ba_block_import params,
         bw_justification_sync_link = (),
         bw_proposer_factory = ba_proposer_factory params,
         bw_sync_oracle = ba_sync_oracle params,
         bw_force_authoring = ba_force_authoring params,
         bw_backoff_authoring_blocks = ba_backoff_authoring_blocks params,
         bw_keystore = ba_keystore params,
         bw_telemetry = ba_telemetry params,
         bw_block_proposal_slot_portion = ba_block_proposal_slot_portion params,
         bw_max_block_proposal_slot_portion = ba_max_block_proposal_slot_portion params,
         bw_compatibility_mode = Compatibility_None\<rparr>
      in (\<lparr>ah_create_inherent_data_providers = ba_create_inherent_data_providers params,
           ah_aura_worker = worker,
           ah_slot_duration = ba_slot_duration params,
           ah_last_slot_processed = length mem\<rparr>,
          mem @ [last_slot_processed (aura_build (ba_slot_duration params))]))"

text \<open>A call through a handle reads and writes the counter the handle points to.\<close>

definition handle_produce ::
    "'e aura_env \<Rightarrow> ('h, 'w) aura_handle \<Rightarrow> para_header \<Rightarrow> h256 \<Rightarrow> persisted_validation_data \<Rightarrow> u64 list \<Rightarrow>
     parachain_candidate option \<times> u64 list" where
  "handle_produce env self parent relay_parent vdata mem =
     (let (candidate, st) = produce_candidate env parent relay_parent vdata
        \<lparr>slot_duration = ah_slot_duration self, last_slot_processed = mem ! ah_last_slot_processed self\<rparr>
      in (candidate, mem[ah_last_slot_processed self := last_slot_processed st]))"

inductive handle_step ::
    "'e aura_env set \<Rightarrow> ('h, 'w) aura_handle set \<Rightarrow> nat \<Rightarrow> u64 list \<Rightarrow> nat option \<Rightarrow> u64 list \<Rightarrow> bool"
  for envs handles cell where
  "env \<in> envs \<Longrightarrow> h \<in> handles \<Longrightarrow> handle_produce env h parent relay_parent vdata mem = (c, mem') \<Longrightarrow>
   handle_step envs handles cell mem
     (if mem' ! cell = mem ! cell then None else Some (unat (mem' ! cell))) mem'"

lemma handle_produce_mem:
  assumes "handle_produce env h parent rp vdata mem = (c, mem')"
  shows "length mem' = length mem" and "mem ! i \<le> mem' ! i"
    and "i \<noteq> ah_last_slot_processed h \<Longrightarrow> mem' ! i = mem ! i"
    and "c \<noteq> None \<Longrightarrow> ah_last_slot_processed h < length mem \<Longrightarrow>
      mem ! ah_last_slot_processed h < mem' ! ah_last_slot_processed h"
proof -
  let ?k = "ah_last_slot_processed h"
  let ?st = "\<lparr>slot_duration = ah_slot_duration h, last_slot_processed = mem ! ?k\<rparr>"
  obtain st' where p: "produce_candidate env parent rp vdata ?st = (c, st')"
    and mem': "mem' = mem[?k := last_slot_processed st']"
    using assms by (auto simp: handle_produce_def split: prod.splits)
  have le: "mem ! ?k \<le> last_slot_processed st'"
    using produce_candidate_counter [of ?st env parent rp vdata] p by simp
  show "length mem' = length mem" by (simp add: mem')
  show "mem' ! i = mem ! i" if "i \<noteq> ?k" using that by (simp add: mem')
  show "mem ! i \<le> mem' ! i"
    using le by (cases "i = ?k"; cases "?k < length mem") (simp_all add: mem' not_less list_update_beyond)
  show "mem ! ?k < mem' ! ?k" if "c \<noteq> None" "?k < length mem"
  proof -
    have "last_slot_processed st' \<noteq> mem ! ?k"
      using p that(1) by (auto simp: produce_candidate_def Let_def max_def split: option.splits if_splits)
    with le that(2) show ?thesis by (simp add: mem')
  qed
qed

interpretation handle_ledger:
  slot_ledger "\<lambda>mem. unat (mem ! cell)" "handle_step envs handles cell" for envs handles cell
proof unfold_locales
  fix mem mem' :: "u64 list" assume "handle_step envs handles cell mem None mem'"
  then show "unat (mem' ! cell) = unat (mem ! cell)" by cases (auto split: if_splits)
next
  fix mem mem' :: "u64 list" and n assume "handle_step envs handles cell mem (Some n) mem'"
  then show "unat (mem ! cell) < n \<and> unat (mem' ! cell) = n"
  proof cases
    case (1 env h parent rp vdata c)
    then have "mem ! cell < mem' ! cell"
      using handle_produce_mem(2) [OF 1(4), of cell] by (auto split: if_splits)
    with 1(1) show ?thesis by (auto simp: word_less_nat_alt split: if_splits)
  qed
qed

lemma handle_run_length: "run (handle_step envs handles cell) mem ls mem' \<Longrightarrow> length mem' = length mem"
proof (induction rule: run.induct)
  case (run_Cons s l t ls u)
  from run_Cons.hyps(1) have "length t = length s" by cases (rule handle_produce_mem)
  with run_Cons.IH show ?case by simp
qed simp

lemma aura_clones: "(aura_clone ^^ n) h = h"
  by (induction n) (simp_all add: aura_clone_def)


definition sample_build :: "nat build_aura_consensus_params" where
  "sample_build = \<lparr>ba_proposer_factory = 0, ba_create_inherent_data_providers = 1, ba_block_import = 2,
     ba_para_client = 3, ba_backoff_authoring_blocks = None, ba_sync_oracle = 4, ba_keystore = 5,
     ba_force_authoring = False, ba_slot_duration = 12, ba_telemetry = None,
     ba_block_proposal_slot_portion = 6, ba_max_block_proposal_slot_portion = None\<rparr>"


theorem collator_run_makes_one_block_per_slot_witness:
  "collations (fst (basic_run (\<lambda>key pid handle. key) (\<lambda>r c p q s. [(sample_request 5, sample_basic)]) False
     \<lparr>br_create_inherent_data_providers = 0 :: nat, br_block_import = 1, br_para_client = 2,
      br_relay_client = 3, br_keystore = 4, br_collator_key = 5, br_para_id = 2000,
      br_overseer_handle = 6, br_relay_chain_slot_duration = 6000, br_proposer = 7,
      br_collator_service = 8, br_authoring_duration = 1500,
      br_collation_request_receiver = None\<rparr>)) \<le> 2"
proof -
  let ?params = "\<lparr>br_create_inherent_data_providers = 0 :: nat, br_block_import = 1, br_para_client = 2,
      br_relay_client = 3, br_keystore = 4, br_collator_key = 5, br_para_id = 2000,
      br_overseer_handle = 6, br_relay_chain_slot_duration = 6000, br_proposer = 7,
      br_collator_service = 8, br_authoring_duration = 1500, br_collation_request_receiver = None\<rparr>"
  let ?world = "\<lambda>r c p q s. [(sample_request 5, sample_basic)]"
  have run: "basic_run (\<lambda>key pid handle. key) ?world False ?params =
      ([Completed (Some ([3], [5]))], [sample_sealed], \<lparr>last_processed_slot = 2, last_relay_chain_block = 5\<rparr>)"
    using sample_process by (simp add: basic_run_def Let_def sample_params_def)
  have "growing 0 [(sample_request 5, sample_basic)]" by (simp add: sample_basic_def sample_request_def)
  from collator_run_makes_one_block_per_slot [OF run] this show ?thesis unfolding run by simp
qed

end
