(* ===== verification/Block_Authoring.thy ===== *)
theory Block_Authoring
  imports Aura_Properties Order_Lifecycle
begin

text \<open>
  A collator that authors blocks with the node's inherent data provider: the loop of
  \<open>collators/basic.rs\<close>, whose \<open>create_inherent_data_providers\<close> is the closure of
  \<open>template/node/src/service.rs\<close> over the shared order record. (The template's node hands the
  closure to the lookahead collator of Cumulus, which is not part of the repository; the
  repository's own collator takes the same closure.) Every block it hands to the import
  was proposed with inherent data that the pallet turns into \<open>create_order\<close> with the record's
  proof; and where the record's block cannot be proved any more, it authors no block at all.
\<close>

section \<open>The providers of the node\<close>

text \<open>
  The closure gives the order inherent or an error, which is boxed; the data of the only provider
  is put into the inherent data, empty before. Both are the \<open>create_inherent_data_providers\<close> of a
  collator, whatever the parent.
\<close>

definition node_providers ::
    "('inh, 'e, 'proof) inherent_api \<Rightarrow> 'inh \<Rightarrow> (string \<Rightarrow> 'e) \<Rightarrow> ('x, 'proof) relay_reader \<Rightarrow> order_record \<Rightarrow> u32 \<Rightarrow>
     h256 \<Rightarrow> 'e + ('e + 'inh)" where
  "node_providers api empty_data boxed rc rec pid parent =
     (case order_inherent_provider rc rec pid of
        Inl m \<Rightarrow> Inl (boxed m)
      | Inr order_inherent \<Rightarrow> Inr (provide_inherent_data api order_inherent empty_data))"

text \<open>
  The laws of the inherent data of \<open>sp_inherents\<close> that the composition rests on: what was put under
  an identifier is read back, and replacing the timestamp leaves the other entries alone.
\<close>

definition inherent_laws ::
    "('inh, 'e, 'proof) inherent_api \<Rightarrow> (timestamp \<Rightarrow> 'inh \<Rightarrow> 'inh) \<Rightarrow> bool" where
  "inherent_laws api replace \<longleftrightarrow>
     (\<forall>ident v inh inh'. put_data api ident v inh = Inr inh' \<longrightarrow> get_data api ident inh' = Inr (Some v)) \<and>
     (\<forall>t inh. get_data api ON_DEMAND_INHERENT_IDENTIFIER (replace t inh) =
        get_data api ON_DEMAND_INHERENT_IDENTIFIER inh)"

lemma create_inherent_data_node:
  assumes "inherent_data_providers env = node_providers api empty_data boxed rc rec pid'"
    and "create_inherent_data env pid rp vdata parent (Some t) = Ok (paras, other)"
  obtains d inh where "order_inherent_provider rc rec pid' = Inr d"
    "provide_inherent_data api d empty_data = Inr inh" "other = replace_timestamp env t inh"
  using assms
  by (auto simp: create_inherent_data_def node_providers_def obind_eq_Ok_iff split: option.splits sum.splits)

lemma order_inherent_provider_cases:
  assumes "order_inherent_provider rc rec pid = Inr d"
  obtains (nothing) "relay_block_hash rec = None" "d = \<lparr>data = None\<rparr>"
  | (proved) h hdr stp where "relay_block_hash rec = Some h" "header rc h = Inr (Some hdr)"
      "prove_read rc (header_hash rc hdr) [EVENTS] = Inr stp" "d = inherent_of hdr pid stp"
  using assms
  by (auto simp: order_inherent_provider_def create_at_def collect_relay_storage_proof_def
      inherent_of_def split: option.splits sum.splits)

section \<open>From the record to the call\<close>

text \<open>
  C21: a block carries the record's order. Every block the collator hands to the import was proposed
  with inherent data from which the pallet makes exactly one inherent call: \<open>create_order\<close> with the
  proof of the events of the recorded relay block at its own height and state root, or with
  nothing while the record is empty. The timestamp the collator puts in later does not change it.
\<close>

theorem authored_block_carries_the_order:
  assumes "process_request bp env req st = (res, imps, st')" and "sealed \<in> set imps"
    and node: "inherent_data_providers (collator env) = node_providers api empty_data boxed rc rec pid"
    and laws: "inherent_laws api (replace_timestamp (collator env))"
  shows "\<exists>ph paras other digest pr d.
    propose (collator env) ph paras other digest (authoring_duration bp)
      (allowed_pov_size (full_pov_size bp) (req_validation_data req)) = Inr (Some pr) \<and>
    bip_body sealed = Some (blk_body (proposal_block pr)) \<and>
    create_inherent api other = Ok (Some (Create_order d)) \<and>
    (case relay_block_hash rec of
       None \<Rightarrow> data d = None
     | Some h \<Rightarrow> \<exists>hdr stp. header rc h = Inr (Some hdr) \<and>
         prove_read rc (header_hash rc hdr) [EVENTS] = Inr stp \<and> d = inherent_of hdr pid stp)"
proof -
  from assms(1,2) obtain ph rh claim inh where
    inh: "create_inherent_data (collator env) (bp_para_id bp) (req_relay_parent req)
       (req_validation_data req) (para_header_hash (collator env) ph) (Some (claim_timestamp claim)) = Ok inh"
    and mem: "sealed \<in> set (snd (build_block_and_import (collator env) ph claim None inh
       (authoring_duration bp) (allowed_pov_size (full_pov_size bp) (req_validation_data req))))"
    by (rule process_imports)
  obtain paras other where split: "inh = (paras, other)" by (cases inh)
  from create_inherent_data_node [OF node inh [unfolded split]] obtain d data'
    where d: "order_inherent_provider rc rec pid = Inr d"
      "put_data api ON_DEMAND_INHERENT_IDENTIFIER d empty_data = Inr data'"
      "other = replace_timestamp (collator env) (claim_timestamp claim) data'"
    by (auto simp: provide_inherent_data_def)
  then have call: "create_inherent api other = Ok (Some (Create_order d))"
    using laws by (auto simp: inherent_laws_def create_inherent_def)
  have order: "case relay_block_hash rec of
       None \<Rightarrow> data d = None
     | Some h \<Rightarrow> \<exists>hdr stp. header rc h = Inr (Some hdr) \<and>
         prove_read rc (header_hash rc hdr) [EVENTS] = Inr stp \<and> d = inherent_of hdr pid stp"
    using d(1) by (cases rule: order_inherent_provider_cases) auto
  obtain res' imps' where b: "build_block_and_import (collator env) ph claim None inh
      (authoring_duration bp) (allowed_pov_size (full_pov_size bp) (req_validation_data req)) = (res', imps')"
    by (metis surj_pair)
  from b show ?thesis
  proof (cases rule: build_cases)
    case (built pr sealed')
    with b mem have "bip_body sealed = Some (blk_body (proposal_block pr))"
      by (auto simp: seal_Ok_iff Let_def)
    with built(1) call order show ?thesis unfolding split fst_conv snd_conv by blast
  qed (use b mem in simp)
qed

section \<open>A record that cannot be proved\<close>

text \<open>
  The relay node cannot give the header of the recorded block or a proof of its events: it never
  had the block, or has pruned its state.
\<close>

definition unprovable :: "('x, 'proof) relay_reader \<Rightarrow> order_record \<Rightarrow> bool" where
  "unprovable rc rec \<longleftrightarrow> (\<exists>h. relay_block_hash rec = Some h \<and>
     (\<forall>hdr. header rc h = Inr (Some hdr) \<longrightarrow> isl (prove_read rc (header_hash rc hdr) [EVENTS])))"

lemma unprovable_provider:
  "unprovable rc rec \<longleftrightarrow> isl (order_inherent_provider rc rec pid)"
  by (auto simp: unprovable_def order_inherent_provider_def create_at_def
      collect_relay_storage_proof_def split: option.splits sum.splits)

lemma unprovable_process:
  assumes "inherent_data_providers (collator env) = node_providers api empty_data boxed rc rec pid"
    and "unprovable rc rec"
  shows "\<exists>a. process_request bp env req st = (Ok a, [], st) \<and> (a = Dropped \<or> a = Completed None)"
proof (cases "request_claim bp env req")
  case (Inl a)
  then have "a = Dropped \<or> a = Completed None"
    by (auto simp: request_claim_def Let_def split: option.splits sum.splits outcome.splits if_splits)
  with Inl show ?thesis by (simp add: process_request_def)
next
  case (Inr t)
  obtain ph rh claim where t: "t = (ph, rh, claim)" by (cases t)
  have "\<nexists>v. create_inherent_data (collator env) (bp_para_id bp) (req_relay_parent req)
      (req_validation_data req) parent (Some (claim_timestamp claim)) = Ok v" for parent
    using assms(2) unprovable_provider [of rc rec pid]
    by (auto elim!: create_inherent_data_node [OF assms(1)])
  then obtain e where "create_inherent_data (collator env) (bp_para_id bp) (req_relay_parent req)
      (req_validation_data req) (para_header_hash (collator env) ph) (Some (claim_timestamp claim)) = Err e"
    using create_inherent_data_not_Panic outcome.exhaust by metis
  with Inr t show ?thesis by (simp add: process_request_def)
qed

text \<open>
  C30: a record that cannot be proved stops the authoring. As long as the relay node cannot prove the
  events of the recorded block, the collator answers every request without a block, imports nothing
  and does not move: the provider fails instead of providing no order. Nothing but another order
  of the para or of the node itself replaces the record, so a parachain whose last order is older
  than the state its relay nodes keep makes no blocks, in bulk mode too.
\<close>

theorem stale_record_stops_authoring:
  assumes "\<forall>r \<in> set rs. inherent_data_providers (collator (snd r)) =
      node_providers api empty_data boxed rc rec pid"
    and "unprovable rc rec"
  shows "\<exists>answers. run_requests bp rs st = (answers, [], st) \<and> length answers = length rs \<and>
    collations answers = 0"
  using assms(1)
proof (induction rs)
  case (Cons r rs)
  then obtain answers where "run_requests bp rs st = (answers, [], st)"
    "length answers = length rs" "collations answers = 0" by auto
  moreover from Cons.prems have
    "inherent_data_providers (collator (snd r)) = node_providers api empty_data boxed rc rec pid" by simp
  then obtain a where "process_request bp (snd r) (fst r) st = (Ok a, [], st)"
    "a = Dropped \<or> a = Completed None"
    using unprovable_process [OF _ assms(2)] by metis
  ultimately show ?case by (auto simp: collations_def)
qed (simp add: collations_def)

section \<open>A concrete node\<close>

text \<open>
  Inherent data of few bytes, in which a proof is one byte; data that does not fit is refused. The
  collator of \<open>Aura_Properties\<close> appends the timestamp.
\<close>

definition enc_order :: "u8 order_inherent_data \<Rightarrow> bytes" where
  "enc_order d =
     (case data d of
        None \<Rightarrow> [0]
      | Some dt \<Rightarrow> [1, relay_storage_proof dt, ucast (relay_state_root dt), ucast (relay_height dt),
          ucast (para_id dt div 256), ucast (para_id dt)])"

fun dec_order :: "bytes \<Rightarrow> u8 order_inherent_data option" where
  "dec_order (k # ps # r # h # q # i # rest) =
     Some \<lparr>data = if k = 0 then None else Some \<lparr>relay_storage_proof = ps, relay_state_root = ucast r,
       relay_height = ucast h, para_id = ucast q * 256 + ucast i\<rparr>\<rparr>"
| "dec_order (k # rest) = (if k = 0 then Some \<lparr>data = None\<rparr> else None)"
| "dec_order [] = None"

definition byte_api :: "(bytes, string, u8) inherent_api" where
  "byte_api = \<lparr>put_data = \<lambda>ident v inh.
       if dec_order (enc_order v) = Some v then Inr (enc_order v) else Inl ''too large'',
     get_data = \<lambda>ident inh. Inr (dec_order inh)\<rparr>"

definition byte_replace :: "timestamp \<Rightarrow> bytes \<Rightarrow> bytes" where
  "byte_replace t inh = (if dec_order (inh @ [24]) = dec_order inh then inh @ [24] else inh)"

definition byte_reader :: "(string, u8) relay_reader" where
  "byte_reader = \<lparr>header = \<lambda>h. if h = 50 then Inr (Some \<lparr>state_root = 3, number = 7\<rparr>) else Inr None,
     header_hash = \<lambda>hdr. 50, prove_read = \<lambda>h keys. Inr 9\<rparr>"

definition node_collator :: "order_record \<Rightarrow> (string, u8) basic_env" where
  "node_collator rec = sample_basic\<lparr>collator := sample_collator\<lparr>
     inherent_data_providers := node_providers byte_api [] id byte_reader rec 2000,
     replace_timestamp := byte_replace\<rparr>\<rparr>"

lemma byte_laws: "inherent_laws byte_api byte_replace"
  by (auto simp: inherent_laws_def byte_api_def byte_replace_def split: if_splits)

lemma node_collator_claimed:
  "request_claim sample_params (node_collator rec) (sample_request rp) =
     Inr (sample_parent, \<lparr>state_root = 0, number = ucast rp\<rparr>, sample_claim)"
  by (simp add: request_claim_def claim_slot_def slot_claim_unchecked_def sample_claim_def
      sample_parent_def sample_aura_defs node_collator_def)

definition recorded :: order_record where
  "recorded = \<lparr>relay_block_hash = Some 50, last_slot = 1\<rparr>"

lemma node_collator_provided:
  "node_providers byte_api [] id byte_reader recorded 2000 parent = Inr (Inr [1, 9, 3, 7, 7, 208])"
  by (simp add: node_providers_def order_inherent_provider_def create_at_def recorded_def byte_reader_def
      collect_relay_storage_proof_def provide_inherent_data_def byte_api_def enc_order_def)

lemma node_collator_process:
  "\<exists>res st' sealed. process_request sample_params (node_collator recorded) (sample_request 5) run_start =
     (res, [sealed], st')"
  by (simp add: process_request_def node_collator_claimed run_start_def sample_claim_def)
    (simp add: create_inherent_data_def node_collator_def sample_aura_defs node_collator_provided
      collate_def build_block_and_import_def seal_def Let_def)

theorem authored_block_carries_the_order_witness:
  "\<exists>other d hdr stp. create_inherent byte_api other = (Ok (Some (Create_order d)) :: (unit, (unit, u8) call option) outcome) \<and>
     header byte_reader 50 = Inr (Some hdr) \<and> prove_read byte_reader (header_hash byte_reader hdr) [EVENTS] = Inr stp \<and>
     d = inherent_of hdr 2000 stp"
proof -
  obtain res st' sealed where run: "process_request sample_params (node_collator recorded) (sample_request 5)
      run_start = (res, [sealed], st')" using node_collator_process by blast
  have "inherent_data_providers (collator (node_collator recorded)) =
      node_providers byte_api [] id byte_reader recorded 2000"
    "inherent_laws byte_api (replace_timestamp (collator (node_collator recorded)))"
    by (simp_all add: node_collator_def byte_laws)
  from authored_block_carries_the_order [OF run _ this, of sealed] show ?thesis
    by (auto simp: recorded_def)
qed

theorem stale_record_stops_authoring_witness:
  "\<exists>answers. run_requests sample_params
     [(sample_request 5, node_collator \<lparr>relay_block_hash = Some 51, last_slot = 1\<rparr>),
      (sample_request 6, node_collator \<lparr>relay_block_hash = Some 51, last_slot = 1\<rparr>)] run_start =
     (answers, [], run_start) \<and> length answers = 2 \<and> collations answers = 0"
proof -
  have "unprovable byte_reader \<lparr>relay_block_hash = Some 51, last_slot = 1\<rparr>"
    by (simp add: unprovable_def byte_reader_def)
  moreover have "\<forall>r \<in> set [(sample_request 5, node_collator \<lparr>relay_block_hash = Some 51, last_slot = 1\<rparr>),
      (sample_request 6, node_collator \<lparr>relay_block_hash = Some 51, last_slot = 1\<rparr>)].
      inherent_data_providers (collator (snd r)) =
        node_providers byte_api [] id byte_reader \<lparr>relay_block_hash = Some 51, last_slot = 1\<rparr> 2000"
    by (simp add: node_collator_def)
  ultimately show ?thesis
    using stale_record_stops_authoring by (fastforce simp del: run_requests.simps)
qed

end
