(* ===== verification/Node_Start.thy ===== *)
theory Node_Start
  imports Template_Node
begin

text \<open>
  How the node of the template is put together (\<open>template/node/src/service.rs\<close>): \<open>new_partial\<close>,
  \<open>start_consensus\<close> and \<open>start_parachain_node\<close>, with every early return and panic. The services of
  Substrate and Cumulus that they call are a parameter, the record \<open>node_services\<close>; what the code
  starts and in which order is the log of the node's state, and the order record the tasks share
  is a cell of its memory.
\<close>

section \<open>The state of a starting node\<close>

datatype spawn_handle = Spawn | Spawn_essential | Spawn_essential_blocking

text \<open>
  The parameters the node hands to the lookahead collator; \<open>record_cell\<close> is the shared order record
  its inherent data provider reads.
\<close>

record 'key aura_params =
  collator_key :: 'key
  aura_para_id :: u32
  relay_chain_slot_duration :: u64
  authoring_duration :: u64
  reinitialize :: bool
  record_cell :: nat

datatype 'key node_action =
    Spawned spawn_handle string "string option"
  | Built_pool bool
  | Built_import_queue
  | Built_network u32
  | Spawned_service_tasks
  | Printed_hwbench
  | Warned_about_hardware
  | Started_relay_chain_tasks da_recovery_profile u64
  | Started_order_service string u32 nat
  | Started_aura "'key aura_params"
  | Started_network

record 'key node_state =
  actions_of :: "'key node_action list"
  cells :: "order_record list"

datatype 'e start_error = Service_error 'e | Telemetry_error 'e | Application_error 'e

text \<open>
  A piece of the start-up: it ends in one of the three ways of a Rust function, and what it did
  before that stays done.
\<close>

type_synonym ('err, 'key, 'a) starter = "'key node_state \<Rightarrow> ('err, 'a) outcome \<times> 'key node_state"

definition sret :: "'a \<Rightarrow> ('err, 'key, 'a) starter" where
  "sret v s = (Ok v, s)"

definition sbind ::
    "('err, 'key, 'a) starter \<Rightarrow> ('a \<Rightarrow> ('err, 'key, 'b) starter) \<Rightarrow> ('err, 'key, 'b) starter" where
  "sbind m f s =
     (case m s of
        (Panic x, s') \<Rightarrow> (Panic x, s')
      | (Err e, s') \<Rightarrow> (Err e, s')
      | (Ok v, s') \<Rightarrow> f v s')"

definition act :: "'key node_action \<Rightarrow> ('err, 'key, unit) starter" where
  "act a s = (Ok (), s\<lparr>actions_of := actions_of s @ [a]\<rparr>)"

definition swhen :: "bool \<Rightarrow> ('err, 'key, unit) starter \<Rightarrow> ('err, 'key, unit) starter" where
  "swhen b m = (if b then m else sret ())"

definition attempt :: "('e \<Rightarrow> 'err) \<Rightarrow> 'e + 'a \<Rightarrow> ('err, 'key, 'a) starter" where
  "attempt wrap r s = (case r of Inl e \<Rightarrow> (Err (wrap e), s) | Inr v \<Rightarrow> (Ok v, s))"

definition lift_outcome :: "('err, 'a) outcome \<Rightarrow> ('err, 'key, 'a) starter" where
  "lift_outcome r s = (r, s)"

definition map_failure ::
    "('e \<Rightarrow> 'err) \<Rightarrow> ('e, 'key, 'a) starter \<Rightarrow> ('err, 'key, 'a) starter" where
  "map_failure wrap m s =
     (case m s of
        (Panic x, s') \<Rightarrow> (Panic x, s')
      | (Err e, s') \<Rightarrow> (Err (wrap e), s')
      | (Ok v, s') \<Rightarrow> (Ok v, s'))"

definition new_cell :: "order_record \<Rightarrow> ('err, 'key, nat) starter" where
  "new_cell rec s = (Ok (length (cells s)), s\<lparr>cells := cells s @ [rec]\<rparr>)"

section \<open>new_partial\<close>

datatype heap_alloc_strategy = Default_heap_alloc_strategy | Static u32

record node_configuration =
  telemetry_endpoints :: "string list option"
  default_heap_pages :: "u64 option"
  role_is_authority :: bool
  offchain_worker_enabled :: bool

text \<open>
  The services of other crates, as far as their result decides how the start goes on: a failure is
  an \<open>Inl\<close>.
\<close>

record ('e, 'hw, 'key) node_services =
  prepare_node_config :: "node_configuration \<Rightarrow> node_configuration"
  telemetry_worker_new :: "u64 \<Rightarrow> 'e + unit"
  new_full_parts_record_import :: "bool \<Rightarrow> heap_alloc_strategy \<Rightarrow> bool \<Rightarrow> 'e + unit"
  build_relay_chain_interface :: "bool \<Rightarrow> 'hw option \<Rightarrow> 'e + 'key option"
  build_network :: "u32 \<Rightarrow> 'e + unit"
  offchain_workers_new :: "bool \<Rightarrow> 'e + unit"
  spawn_tasks :: "bool \<Rightarrow> 'e + unit"
  check_hardware :: "'hw \<Rightarrow> string + unit"
  overseer_handle :: "'e + unit"
  start_relay_chain_tasks :: "da_recovery_profile \<Rightarrow> u64 \<Rightarrow> 'e + unit"

text \<open>The endpoints in use: \<open>filter(|x| !x.is_empty())\<close>.\<close>

definition telemetry_in_use :: "node_configuration \<Rightarrow> bool" where
  "telemetry_in_use config =
     (case telemetry_endpoints config of None \<Rightarrow> False | Some endpoints \<Rightarrow> endpoints \<noteq> [])"

definition heap_pages :: "node_configuration \<Rightarrow> heap_alloc_strategy" where
  "heap_pages config =
     (case default_heap_pages config of
        None \<Rightarrow> Default_heap_alloc_strategy
      | Some h \<Rightarrow> Static (ucast h))"

text \<open>The import queue is built on the essential handle, with the system time as its inherent.\<close>

definition build_import_queue :: "('e start_error, 'key, unit) starter" where
  "build_import_queue = act Built_import_queue"

text \<open>The result is whether the components have telemetry.\<close>

definition new_partial ::
    "('e, 'hw, 'key) node_services \<Rightarrow> node_configuration \<Rightarrow> ('e start_error, 'key, bool) starter" where
  "new_partial srv config =
     (let telemetry = telemetry_in_use config in
      sbind (if telemetry then attempt Telemetry_error (telemetry_worker_new srv 16) else sret ()) (\<lambda>_.
      sbind (attempt Service_error
               (new_full_parts_record_import srv telemetry (heap_pages config) True)) (\<lambda>_.
      sbind (swhen telemetry (act (Spawned Spawn ''telemetry'' None))) (\<lambda>_.
      sbind (act (Built_pool (role_is_authority config))) (\<lambda>_.
      sbind build_import_queue (\<lambda>_.
      sret telemetry))))))"

section \<open>start_consensus\<close>

definition code_hash_provider ::
    "(h256 \<Rightarrow> 'e + bytes) \<Rightarrow> (bytes \<Rightarrow> h256) \<Rightarrow> h256 \<Rightarrow> h256 option" where
  "code_hash_provider code_at validation_code_hash block_hash =
     (case code_at block_hash of Inl e \<Rightarrow> None | Inr c \<Rightarrow> Some (validation_code_hash c))"

definition start_consensus ::
    "u64 \<Rightarrow> u32 \<Rightarrow> 'key \<Rightarrow> nat \<Rightarrow> ('e start_error, 'key, unit) starter" where
  "start_consensus slot_duration pid key order_record =
     (let params =
        \<lparr>collator_key = key, aura_para_id = pid, relay_chain_slot_duration = slot_duration,
         authoring_duration = 2000, reinitialize = False, record_cell = order_record\<rparr>
      in sbind (act (Started_aura params)) (\<lambda>_. act (Spawned Spawn_essential ''aura'' None)))"

section \<open>start_parachain_node\<close>

text \<open>\<open>start_on_demand\<close> of the order service, with what it starts.\<close>

definition start_order_service ::
    "u32 \<Rightarrow> string option \<Rightarrow> nat \<Rightarrow> ('e start_error, 'key, unit) starter" where
  "start_order_service pid rpc_addr order_record =
     sbind (lift_outcome (start_on_demand rpc_addr)) (\<lambda>url.
     sbind (act (Started_order_service url pid order_record)) (\<lambda>_.
     act (Spawned Spawn_essential_blocking ''on-demand order placement task'' (Some ''on-demand''))))"

definition report_hwbench ::
    "('e, 'hw, 'key) node_services \<Rightarrow> bool \<Rightarrow> bool \<Rightarrow> 'hw \<Rightarrow> ('e start_error, 'key, unit) starter" where
  "report_hwbench srv validator telemetry hwbench =
     sbind (act Printed_hwbench) (\<lambda>_.
     sbind (case check_hardware srv hwbench of
              Inl err \<Rightarrow> swhen validator (act Warned_about_hardware)
            | Inr _ \<Rightarrow> sret ()) (\<lambda>_.
     swhen telemetry (act (Spawned Spawn ''telemetry_hwbench'' None))))"

text \<open>What only a validator starts, over one order record.\<close>

definition start_validator_tasks ::
    "u32 \<Rightarrow> string option \<Rightarrow> 'key option \<Rightarrow> u64 \<Rightarrow> ('e start_error, 'key, unit) starter" where
  "start_validator_tasks pid rpc_addr key slot_duration =
     sbind (new_cell \<lparr>relay_block_hash = None, last_slot = 0\<rparr>) (\<lambda>order_record.
     sbind (start_order_service pid rpc_addr order_record) (\<lambda>_.
     sbind (lift_outcome
              (case key of
                 None \<Rightarrow> Panic ''Command line arguments do not allow this. qed''
               | Some k \<Rightarrow> Ok k)) (\<lambda>k.
     start_consensus slot_duration pid k order_record)))"

text \<open>
  \<open>relay_rpc_addr\<close> are the RPC addresses of the relay chain's configuration. Durations are in
  milliseconds.
\<close>

definition start_parachain_node ::
    "('e, 'hw, 'key) node_services \<Rightarrow> node_configuration \<Rightarrow> string list option \<Rightarrow> u32 \<Rightarrow> 'hw option \<Rightarrow>
     ('e start_error, 'key, unit) starter" where
  "start_parachain_node srv config relay_rpc_addr pid hwbench =
     (let config = prepare_node_config srv config in
      sbind (new_partial srv config) (\<lambda>telemetry.
      let rpc_addr = relay_rpc_of relay_rpc_addr in
      sbind (attempt Application_error (build_relay_chain_interface srv telemetry hwbench)) (\<lambda>key.
      let validator = role_is_authority config in
      sbind (attempt Service_error (build_network srv pid)) (\<lambda>_.
      sbind (act (Built_network pid)) (\<lambda>_.
      sbind (if offchain_worker_enabled config
             then sbind (attempt Service_error (offchain_workers_new srv validator)) (\<lambda>_.
                  act (Spawned Spawn ''offchain-workers-runner'' (Some ''offchain-work'')))
             else sret ()) (\<lambda>_.
      sbind (attempt Service_error (spawn_tasks srv telemetry)) (\<lambda>_.
      sbind (act Spawned_service_tasks) (\<lambda>_.
      sbind (case hwbench of None \<Rightarrow> sret () | Some hw \<Rightarrow> report_hwbench srv validator telemetry hw) (\<lambda>_.
      let slot_duration = 6000 in
      sbind (attempt Application_error (overseer_handle srv)) (\<lambda>_.
      sbind (attempt Service_error
               (start_relay_chain_tasks srv (recovery_profile validator) slot_duration)) (\<lambda>_.
      sbind (act (Started_relay_chain_tasks (recovery_profile validator) slot_duration)) (\<lambda>_.
      sbind (swhen validator (start_validator_tasks pid rpc_addr key slot_duration)) (\<lambda>_.
      act Started_network)))))))))))))"

section \<open>Lemmas\<close>

text \<open>When the pieces of a start-up return, and when they panic.\<close>

named_theorems starter_Ok
named_theorems starter_panic

lemma sret_Ok [starter_Ok]: "sret u s = (Ok v, t) \<longleftrightarrow> v = u \<and> t = s"
  by (auto simp: sret_def)

lemma sbind_Ok [starter_Ok]:
  "sbind m f s = (Ok v, t) \<longleftrightarrow> (\<exists>u s'. m s = (Ok u, s') \<and> f u s' = (Ok v, t))"
  by (auto simp: sbind_def split: prod.split outcome.split)

lemma act_Ok [starter_Ok]:
  "act a s = (Ok v, t) \<longleftrightarrow> t = s\<lparr>actions_of := actions_of s @ [a]\<rparr>"
  by (auto simp: act_def)

lemma swhen_Ok [starter_Ok]: "swhen b m s = (Ok v, t) \<longleftrightarrow> (if b then m s = (Ok v, t) else t = s)"
  by (auto simp: swhen_def sret_def)

lemma attempt_Ok [starter_Ok]: "attempt wrap r s = (Ok v, t) \<longleftrightarrow> r = Inr v \<and> t = s"
  by (auto simp: attempt_def split: sum.split)

lemma lift_outcome_Ok [starter_Ok]: "lift_outcome r s = (Ok v, t) \<longleftrightarrow> r = Ok v \<and> t = s"
  by (auto simp: lift_outcome_def)

lemma new_cell_Ok [starter_Ok]:
  "new_cell rec s = (Ok v, t) \<longleftrightarrow> v = length (cells s) \<and> t = s\<lparr>cells := cells s @ [rec]\<rparr>"
  by (auto simp: new_cell_def)

definition panics :: "('err, 'key, 'a) starter \<Rightarrow> 'key node_state \<Rightarrow> bool" where
  "panics m s \<longleftrightarrow> is_panic (fst (m s))"

lemma sbind_panics [starter_panic]:
  "panics (sbind m f) s \<longleftrightarrow> panics m s \<or> (\<exists>u s'. m s = (Ok u, s') \<and> panics (f u) s')"
  by (auto simp: panics_def sbind_def split: prod.split outcome.split)

lemma quiet_panics [starter_panic]:
  "\<not> panics (sret v) s" "\<not> panics (act a) s" "\<not> panics (attempt wrap r) s"
  "\<not> panics (new_cell rec) s" "panics (lift_outcome out) s \<longleftrightarrow> is_panic out"
  "panics (swhen b m) s \<longleftrightarrow> b \<and> panics m s"
  by (auto simp: panics_def sret_def act_def attempt_def new_cell_def lift_outcome_def swhen_def
      split: sum.split)

lemma map_failure_Ok [starter_Ok]: "map_failure wrap m s = (Ok v, t) \<longleftrightarrow> m s = (Ok v, t)"
  by (auto simp: map_failure_def split: prod.split outcome.split)

lemma map_failure_panics [starter_panic]: "panics (map_failure wrap m) s \<longleftrightarrow> panics m s"
  by (auto simp: panics_def map_failure_def split: prod.split outcome.split)

lemma start_on_demand_Ok_iff: "start_on_demand addr = Ok url \<longleftrightarrow> (\<exists>a. addr = Some a \<and> url = ''ws://'' @ a)"
  by (auto simp: start_on_demand_def split: option.split)

lemma is_panic_start_on_demand: "is_panic (start_on_demand addr) \<longleftrightarrow> addr = None"
  by (auto simp: start_on_demand_def split: option.split)

end
