(* ===== verification/Node_Command.thy ===== *)
theory Node_Command
  imports Node_Start
begin

text \<open>
  The command line of the template's node: the chain specifications (\<open>chain_spec.rs\<close>), the options
  of the relay chain node it runs inside (\<open>cli.rs\<close>, the \<open>CliConfiguration\<close> of \<open>RelayChainCli\<close> in
  \<open>command.rs\<close>), the dispatch of the sub-commands (\<open>run\<close>) and the RPC module (\<open>rpc.rs\<close>). The
  sub-commands of \<open>sc_cli\<close>, the runner and the argument parser are parameters.
\<close>

type_synonym u16 = "16 word"

section \<open>chain_spec.rs\<close>

record extensions =
  relay_chain_name :: string
  ext_para_id :: u32

datatype chain_type = Chain_type_Development | Chain_type_Local | Chain_type_Other string

datatype json_value = Json_string string | Json_number int

text \<open>What a specification is built from; what the builder is not told is \<open>None\<close>.\<close>

record chain_spec =
  spec_code :: bytes
  spec_extensions :: extensions
  spec_name :: string
  spec_id :: string
  spec_chain_type :: chain_type
  spec_preset_name :: string
  spec_protocol_id :: "string option"
  spec_properties :: "(string \<rightharpoonup> json_value) option"

definition try_get :: "(extensions \<Rightarrow> extensions option) \<Rightarrow> chain_spec \<Rightarrow> extensions option" where
  "try_get get_extension spec = get_extension (spec_extensions spec)"

text \<open>The names of the runtime's presets are constants of \<open>sp_genesis_builder\<close> and \<open>sc_chain_spec\<close>.\<close>

record node_constants =
  WASM_BINARY :: "bytes option"
  DEV_PRESET :: string
  LOCAL_TESTNET_PRESET :: string

definition development_chain_spec :: "node_constants \<Rightarrow> ('err, chain_spec) outcome" where
  "development_chain_spec k =
     (let properties = Map.empty(''tokenSymbol'' \<mapsto> Json_string ''UNIT'',
            ''tokenDecimals'' \<mapsto> Json_number 12, ''ss58Format'' \<mapsto> Json_number 42)
      in case WASM_BINARY k of
           None \<Rightarrow> Panic ''WASM binary was not built, please build it!''
         | Some code \<Rightarrow> Ok
             \<lparr>spec_code = code,
              spec_extensions = \<lparr>relay_chain_name = ''rococo-local'', ext_para_id = 1000\<rparr>,
              spec_name = ''Development'', spec_id = ''dev'', spec_chain_type = Chain_type_Development,
              spec_preset_name = DEV_PRESET k, spec_protocol_id = None, spec_properties = None\<rparr>)"

definition local_chain_spec :: "node_constants \<Rightarrow> ('err, chain_spec) outcome" where
  "local_chain_spec k =
     (let properties = Map.empty(''tokenSymbol'' \<mapsto> Json_string ''UNIT'',
            ''tokenDecimals'' \<mapsto> Json_number 12, ''ss58Format'' \<mapsto> Json_number 42)
      in case WASM_BINARY k of
           None \<Rightarrow> Panic ''WASM binary was not built, please build it!''
         | Some code \<Rightarrow> Ok
             \<lparr>spec_code = code,
              spec_extensions = \<lparr>relay_chain_name = ''rococo-local'', ext_para_id = 1000\<rparr>,
              spec_name = ''Local Testnet'', spec_id = ''local_testnet'',
              spec_chain_type = Chain_type_Local, spec_preset_name = LOCAL_TESTNET_PRESET k,
              spec_protocol_id = Some ''template-local'', spec_properties = Some properties\<rparr>)"

definition load_spec ::
    "node_constants \<Rightarrow> (string \<Rightarrow> string + chain_spec) \<Rightarrow> string \<Rightarrow> (string, chain_spec) outcome" where
  "load_spec k from_json_file ident =
     (if ident = ''dev'' then development_chain_spec k
      else if ident = ''template-rococo'' then local_chain_spec k
      else if ident = '''' \<or> ident = ''local'' then local_chain_spec k
      else case from_json_file ident of Inl e \<Rightarrow> Err e | Inr spec \<Rightarrow> Ok spec)"

section \<open>The relay chain's command line\<close>

record run_configuration =
  run_chain_spec :: chain_spec
  run_base_path :: string
  run_database_path :: "string option"
  run_node_configuration :: node_configuration

text \<open>\<open>Path::join\<close> with a relative component.\<close>

definition path_join :: "string \<Rightarrow> string \<Rightarrow> string" where
  "path_join path component =
     (if path = [] then component
      else if last path = CHR ''/'' then path @ component
      else path @ ''/'' @ component)"

record 'base relay_chain_cli =
  cli_base :: 'base
  cli_chain_id :: "string option"
  cli_base_path :: "string option"

definition relay_chain_cli_new ::
    "(string list \<Rightarrow> 'base) \<Rightarrow> (extensions \<Rightarrow> extensions option) \<Rightarrow> run_configuration \<Rightarrow> string list \<Rightarrow>
     'base relay_chain_cli" where
  "relay_chain_cli_new parse_from get_extension para_config relay_chain_args =
     (let extension = try_get get_extension (run_chain_spec para_config);
          chain_id = map_option relay_chain_name extension;
          base_path = path_join (run_base_path para_config) ''polkadot''
      in \<lparr>cli_base = parse_from relay_chain_args, cli_chain_id = chain_id,
          cli_base_path = Some base_path\<rparr>)"

text \<open>
  The trait \<open>CliConfiguration\<close> as the record of its methods; \<open>'o\<close> stands for the option types of
  Substrate that the code only passes on.
\<close>

record ('e, 'o) cli_configuration =
  shared_params_base_path :: "'e + string option"
  import_params :: "'o option"
  network_params :: "'o option"
  keystore_params :: "'o option"
  base_path_option :: "'e + string option"
  rpc_addr_option :: "u16 \<Rightarrow> 'e + string list option"
  prometheus_config :: "u16 \<Rightarrow> chain_spec \<Rightarrow> 'e + 'o option"
  init_cli :: "('e, unit) outcome"
  chain_id_option :: "bool \<Rightarrow> 'e + string"
  role_option :: "bool \<Rightarrow> 'e + 'o"
  transaction_pool_option :: "bool \<Rightarrow> 'e + 'o"
  trie_cache_maximum_size :: "'e + usize option"
  rpc_methods :: "'e + 'o"
  rpc_max_connections :: "'e + u32"
  rpc_cors :: "bool \<Rightarrow> 'e + string list option"
  heap_pages_option :: "'e + u64 option"
  force_authoring :: "'e + bool"
  disable_grandpa :: "'e + bool"
  max_runtime_instances :: "'e + usize option"
  announce_block_option :: "'e + bool"
  telemetry_option :: "chain_spec \<Rightarrow> 'e + 'o option"
  node_name :: "'e + string"

definition relay_base_path :: "'base relay_chain_cli \<Rightarrow> 'e + string option \<Rightarrow> 'e + string option" where
  "relay_base_path cli shared =
     map_sum id (\<lambda>path. case path of Some p \<Rightarrow> Some p | None \<Rightarrow> cli_base_path cli) shared"

definition relay_chain_id :: "'base relay_chain_cli \<Rightarrow> 'e + string \<Rightarrow> 'e + string" where
  "relay_chain_id cli base =
     map_sum id (\<lambda>chain_id.
       if chain_id = [] then (case cli_chain_id cli of None \<Rightarrow> [] | Some c \<Rightarrow> c) else chain_id) base"

text \<open>
  \<open>CliConfiguration for RelayChainCli\<close>: every method asks the relay chain's own command line, but
  for the base path, the chain and \<open>init\<close>.
\<close>

definition relay_cli_configuration ::
    "('base \<Rightarrow> ('e, 'o) cli_configuration) \<Rightarrow> 'base relay_chain_cli \<Rightarrow> ('e, 'o) cli_configuration" where
  "relay_cli_configuration conf cli =
     (let base = conf (cli_base cli) in
      \<lparr>shared_params_base_path = shared_params_base_path base,
       import_params = import_params base,
       network_params = network_params base,
       keystore_params = keystore_params base,
       base_path_option = relay_base_path cli (shared_params_base_path base),
       rpc_addr_option = rpc_addr_option base,
       prometheus_config = prometheus_config base,
       init_cli = Panic ''internal error: entered unreachable code: PolkadotCli is never initialized; qed'',
       chain_id_option = (\<lambda>is_dev. relay_chain_id cli (chain_id_option base is_dev)),
       role_option = role_option base,
       transaction_pool_option = transaction_pool_option base,
       trie_cache_maximum_size = trie_cache_maximum_size base,
       rpc_methods = rpc_methods base,
       rpc_max_connections = rpc_max_connections base,
       rpc_cors = rpc_cors base,
       heap_pages_option = heap_pages_option base,
       force_authoring = force_authoring base,
       disable_grandpa = disable_grandpa base,
       max_runtime_instances = max_runtime_instances base,
       announce_block_option = announce_block_option base,
       telemetry_option = telemetry_option base,
       node_name = node_name base\<rparr>)"

definition p2p_listen_port :: u16 where "p2p_listen_port = 30334"

definition rpc_listen_port :: u16 where "rpc_listen_port = 9945"

definition prometheus_listen_port :: u16 where "prometheus_listen_port = 9616"

text \<open>What \<open>SubstrateCli\<close> asks of both command lines.\<close>

record cli_description =
  impl_name :: string
  impl_version :: string
  description :: string
  author :: string
  support_url :: string
  copyright_start_year :: int

text \<open>\<open>version\<close> and \<open>authors\<close> are set by the build, \<open>exe\<close> is the name of the executable.\<close>

definition cli_description_of :: "string \<Rightarrow> string \<Rightarrow> string \<Rightarrow> cli_description" where
  "cli_description_of version authors exe =
     \<lparr>impl_name = ''Parachain Collator Template'',
      impl_version = version,
      description =
        ''Parachain Collator Template'' @ [CHR 0x0A, CHR 0x0A] @
        ''The command-line arguments provided first will be passed to the parachain node, while '' @
        ''the arguments provided after -- will be passed to the relay chain node.'' @
        [CHR 0x0A, CHR 0x0A] @ exe @ '' <parachain-args> -- <relay-chain-args>'',
      author = authors,
      support_url = ''https://github.com/paritytech/polkadot-sdk/issues/new'',
      copyright_start_year = 2020\<rparr>"

definition relay_cli_description_of :: "string \<Rightarrow> string \<Rightarrow> string \<Rightarrow> cli_description" where
  "relay_cli_description_of version authors exe =
     \<lparr>impl_name = ''Parachain Collator Template'',
      impl_version = version,
      description =
        ''Parachain Collator Template'' @ [CHR 0x0A, CHR 0x0A] @
        ''The command-line arguments provided first will be passed to the parachain node, while '' @
        ''the arguments provided after -- will be passed to the relay chain node.'' @
        [CHR 0x0A, CHR 0x0A] @ exe @ '' <parachain-args> -- <relay-chain-args>'',
      author = authors,
      support_url = ''https://github.com/paritytech/polkadot-sdk/issues/new'',
      copyright_start_year = 2020\<rparr>"

text \<open>The relay chain's specifications are those of a Polkadot command line without arguments.\<close>

definition relay_load_spec ::
    "(string list \<Rightarrow> 'cli) \<Rightarrow> ('cli \<Rightarrow> string \<Rightarrow> string + 'spec) \<Rightarrow> string \<Rightarrow> string \<Rightarrow> string + 'spec" where
  "relay_load_spec polkadot_from_iter polkadot_load_spec exe ident =
     polkadot_load_spec (polkadot_from_iter [exe]) ident"

section \<open>The sub-commands\<close>

datatype benchmark_cmd =
  Bench_pallet | Bench_block | Bench_storage | Bench_machine | Bench_unsupported

datatype subcommand =
    BuildSpec | CheckBlock | ExportBlocks | ExportState | ImportBlocks | Revert | PurgeChain
  | ExportGenesisHead | ExportGenesisWasm "string option" | Benchmark benchmark_cmd

record cli =
  subcommand_of :: "subcommand option"
  no_hardware_benchmarks :: bool
  relay_chain_args :: "string list"

text \<open>What the \<open>run\<close> method of a command is called with.\<close>

datatype command_input =
    With_spec_and_network chain_spec
  | With_client_and_import_queue
  | With_client_and_database
  | With_client_and_spec chain_spec
  | With_client_and_backend
  | With_configurations run_configuration "string list option"
  | With_client
  | With_spec chain_spec
  | With_storage run_configuration
  | With_reference_hardware run_configuration

datatype 'e cli_error = Cli_failed 'e | Cli_service "'e start_error" | Cli_message string

text \<open>
  The environment of \<open>run\<close>: \<open>create_runner\<close> gives the configuration the runner passes to its
  closure, \<open>create_configuration\<close> the RPC addresses of the relay chain's configuration.
\<close>

record ('e, 'hw, 'key, 'base) cli_env =
  constants :: node_constants
  from_json_file :: "string \<Rightarrow> string + chain_spec"
  create_runner :: "subcommand option \<Rightarrow> 'e + run_configuration"
  run_command :: "subcommand \<Rightarrow> command_input \<Rightarrow> 'e + unit"
  parse_from :: "string list \<Rightarrow> 'base"
  get_extension :: "extensions \<Rightarrow> extensions option"
  executable_name :: string
  create_configuration :: "'base relay_chain_cli \<Rightarrow> 'e + string list option"
  display_error :: "'e \<Rightarrow> string"
  gather_hwbench :: "string \<Rightarrow> 'hw"
  runtime_benchmarks :: bool
  services :: "('e, 'hw, 'key) node_services"

definition polkadot_cli_of ::
    "('e, 'hw, 'key, 'base) cli_env \<Rightarrow> cli \<Rightarrow> run_configuration \<Rightarrow> 'base relay_chain_cli" where
  "polkadot_cli_of env cli config =
     relay_chain_cli_new (parse_from env) (get_extension env) config
       (executable_name env # relay_chain_args cli)"

definition polkadot_config_of ::
    "('e, 'hw, 'key, 'base) cli_env \<Rightarrow> cli \<Rightarrow> run_configuration \<Rightarrow>
     ('e cli_error, 'key, string list option) starter" where
  "polkadot_config_of env cli config =
     attempt (\<lambda>err. Cli_message (''Relay chain argument error: '' @ display_error env err))
       (create_configuration env (polkadot_cli_of env cli config))"

definition call_command ::
    "('e, 'hw, 'key, 'base) cli_env \<Rightarrow> subcommand \<Rightarrow> command_input \<Rightarrow> ('e cli_error, 'key, unit) starter" where
  "call_command env cmd input = attempt Cli_failed (run_command env cmd input)"

definition components_of ::
    "('e, 'hw, 'key, 'base) cli_env \<Rightarrow> run_configuration \<Rightarrow> ('e cli_error, 'key, bool) starter" where
  "components_of env config =
     map_failure Cli_service (new_partial (services env) (run_node_configuration config))"

text \<open>The macro \<open>construct_async_run!\<close>, for the input its body builds from the configuration.\<close>

definition construct_async_run ::
    "('e, 'hw, 'key, 'base) cli_env \<Rightarrow> subcommand \<Rightarrow> (run_configuration \<Rightarrow> command_input) \<Rightarrow>
     ('e cli_error, 'key, unit) starter" where
  "construct_async_run env cmd input =
     sbind (attempt Cli_failed (create_runner env (Some cmd))) (\<lambda>config.
     sbind (components_of env config) (\<lambda>components.
     call_command env cmd (input config)))"

definition run_benchmark ::
    "('e, 'hw, 'key, 'base) cli_env \<Rightarrow> benchmark_cmd \<Rightarrow> run_configuration \<Rightarrow>
     ('e cli_error, 'key, unit) starter" where
  "run_benchmark env cmd config =
     (case cmd of
        Bench_pallet \<Rightarrow>
          if runtime_benchmarks env
          then call_command env (Benchmark cmd) (With_spec (run_chain_spec config))
          else lift_outcome (Err (Cli_message (''Benchmarking wasn'' @ [CHR 0x27] @
            ''t enabled when building the node. '' @
            ''You can enable it with `--features runtime-benchmarks`.'')))
      | Bench_block \<Rightarrow>
          sbind (components_of env config) (\<lambda>partials. call_command env (Benchmark cmd) With_client)
      | Bench_storage \<Rightarrow>
          if runtime_benchmarks env
          then sbind (components_of env config) (\<lambda>partials.
                 call_command env (Benchmark cmd) (With_storage config))
          else lift_outcome (Err (Cli_message
            (''Compile with --features=runtime-benchmarks '' @ ''to enable storage benchmarks.'')))
      | Bench_machine \<Rightarrow> call_command env (Benchmark cmd) (With_reference_hardware config)
      | Bench_unsupported \<Rightarrow> lift_outcome (Err (Cli_message ''Benchmarking sub-command unsupported'')))"

text \<open>Running the node: no sub-command.\<close>

definition run_node ::
    "('e, 'hw, 'key, 'base) cli_env \<Rightarrow> cli \<Rightarrow> run_configuration \<Rightarrow> ('e cli_error, 'key, unit) starter" where
  "run_node env cli config =
     (let hwbench = (if no_hardware_benchmarks cli then None
                     else map_option (gather_hwbench env) (run_database_path config)) in
      sbind (lift_outcome
               (case map_option ext_para_id (try_get (get_extension env) (run_chain_spec config)) of
                  None \<Rightarrow> Err (Cli_message ''Could not find parachain ID in chain-spec.'')
                | Some pid \<Rightarrow> Ok pid)) (\<lambda>pid.
      sbind (polkadot_config_of env cli config) (\<lambda>polkadot_config.
      map_failure Cli_service
        (start_parachain_node (services env) (run_node_configuration config) polkadot_config pid
           hwbench))))"

definition load_spec_of ::
    "('e, 'hw, 'key, 'base) cli_env \<Rightarrow> string \<Rightarrow> ('e cli_error, 'key, chain_spec) starter" where
  "load_spec_of env ident =
     map_failure Cli_message (lift_outcome (load_spec (constants env) (from_json_file env) ident))"

definition run_cli ::
    "('e, 'hw, 'key, 'base) cli_env \<Rightarrow> cli \<Rightarrow> ('e cli_error, 'key, unit) starter" where
  "run_cli env cli =
     (case subcommand_of cli of
        Some BuildSpec \<Rightarrow>
          sbind (attempt Cli_failed (create_runner env (Some BuildSpec))) (\<lambda>config.
          call_command env BuildSpec (With_spec_and_network (run_chain_spec config)))
      | Some CheckBlock \<Rightarrow> construct_async_run env CheckBlock (\<lambda>config. With_client_and_import_queue)
      | Some ExportBlocks \<Rightarrow> construct_async_run env ExportBlocks (\<lambda>config. With_client_and_database)
      | Some ExportState \<Rightarrow>
          construct_async_run env ExportState (\<lambda>config. With_client_and_spec (run_chain_spec config))
      | Some ImportBlocks \<Rightarrow> construct_async_run env ImportBlocks (\<lambda>config. With_client_and_import_queue)
      | Some Revert \<Rightarrow> construct_async_run env Revert (\<lambda>config. With_client_and_backend)
      | Some PurgeChain \<Rightarrow>
          sbind (attempt Cli_failed (create_runner env (Some PurgeChain))) (\<lambda>config.
          sbind (polkadot_config_of env cli config) (\<lambda>polkadot_config.
          call_command env PurgeChain (With_configurations config polkadot_config)))
      | Some ExportGenesisHead \<Rightarrow>
          sbind (attempt Cli_failed (create_runner env (Some ExportGenesisHead))) (\<lambda>config.
          sbind (components_of env config) (\<lambda>partials.
          call_command env ExportGenesisHead With_client))
      | Some (ExportGenesisWasm chain) \<Rightarrow>
          sbind (attempt Cli_failed (create_runner env (Some (ExportGenesisWasm chain)))) (\<lambda>config.
          sbind (load_spec_of env (case chain of None \<Rightarrow> [] | Some ident \<Rightarrow> ident)) (\<lambda>spec.
          call_command env (ExportGenesisWasm chain) (With_spec spec)))
      | Some (Benchmark cmd) \<Rightarrow>
          sbind (attempt Cli_failed (create_runner env (Some (Benchmark cmd)))) (run_benchmark env cmd)
      | None \<Rightarrow>
          sbind (attempt Cli_failed (create_runner env None)) (run_node env cli))"

text \<open>\<open>main\<close> of the node, from a node that has done nothing.\<close>

definition main_node ::
    "('e, 'hw, 'key, 'base) cli_env \<Rightarrow> cli \<Rightarrow> ('e cli_error, unit) outcome \<times> 'key node_state" where
  "main_node env cli = run_cli env cli \<lparr>actions_of = [], cells = []\<rparr>"

section \<open>rpc.rs\<close>

text \<open>
  A module is the methods it has; \<open>merge\<close> is \<open>jsonrpsee\<close>'s, \<open>system\<close> and \<open>payment\<close> are the modules of
  the two RPC crates.
\<close>

definition create_full ::
    "('m \<Rightarrow> 'm \<Rightarrow> 'e + 'm) \<Rightarrow> 'm \<Rightarrow> ('client \<Rightarrow> 'pool \<Rightarrow> 'm) \<Rightarrow> ('client \<Rightarrow> 'm) \<Rightarrow> 'client \<Rightarrow> 'pool \<Rightarrow>
     'e + 'm" where
  "create_full merge empty_module system payment client pool =
     (case merge empty_module (system client pool) of
        Inl e \<Rightarrow> Inl e
      | Inr module \<Rightarrow> merge module (payment client))"

section \<open>build.rs\<close>

datatype cargo_directive = Generate_cargo_keys | Rerun_if_git_head_changed

definition node_build_main :: "cargo_directive list" where
  "node_build_main = [Generate_cargo_keys, Rerun_if_git_head_changed]"

end
