(* ===== verification/Node_Properties.thy ===== *)
theory Node_Properties
  imports Node_Command Template_Runtime
begin

text \<open>
  What starting a node does: which tasks run and over which order record, that a node joins its
  network only when everything else has started, and when the start fails or panics; which commands
  start a node at all; and that the node's chain specifications fit the runtime.
\<close>

section \<open>What a started node runs\<close>

text \<open>
  The specification: every service that is asked for can be had, and the order service and the
  consensus of a validator have an RPC address and a collator key.
\<close>

definition services_available ::
    "('e, 'hw, 'key) node_services \<Rightarrow> node_configuration \<Rightarrow> u32 \<Rightarrow> 'hw option \<Rightarrow> 'key option \<Rightarrow> bool" where
  "services_available srv config pid hwbench key \<longleftrightarrow>
     (telemetry_in_use config \<longrightarrow> telemetry_worker_new srv 16 = Inr ()) \<and>
     new_full_parts_record_import srv (telemetry_in_use config) (heap_pages config) True = Inr () \<and>
     build_relay_chain_interface srv (telemetry_in_use config) hwbench = Inr key \<and>
     build_network srv pid = Inr () \<and>
     (offchain_worker_enabled config \<longrightarrow> offchain_workers_new srv (role_is_authority config) = Inr ()) \<and>
     spawn_tasks srv (telemetry_in_use config) = Inr () \<and>
     overseer_handle srv = Inr () \<and>
     start_relay_chain_tasks srv (recovery_profile (role_is_authority config)) 6000 = Inr ()"

text \<open>What runs before the tasks of a validator.\<close>

definition base_actions ::
    "('e, 'hw, 'key) node_services \<Rightarrow> node_configuration \<Rightarrow> u32 \<Rightarrow> 'hw option \<Rightarrow> 'key node_action list" where
  "base_actions srv config pid hwbench =
     (if telemetry_in_use config then [Spawned Spawn ''telemetry'' None] else []) @
     [Built_pool (role_is_authority config), Built_import_queue, Built_network pid] @
     (if offchain_worker_enabled config
      then [Spawned Spawn ''offchain-workers-runner'' (Some ''offchain-work'')] else []) @
     [Spawned_service_tasks] @
     (case hwbench of
        None \<Rightarrow> []
      | Some hw \<Rightarrow> [Printed_hwbench] @
          (if isl (check_hardware srv hw) \<and> role_is_authority config
           then [Warned_about_hardware] else []) @
          (if telemetry_in_use config then [Spawned Spawn ''telemetry_hwbench'' None] else [])) @
     [Started_relay_chain_tasks (recovery_profile (role_is_authority config)) 6000]"

definition validator_actions :: "u32 \<Rightarrow> string \<Rightarrow> 'key \<Rightarrow> nat \<Rightarrow> 'key node_action list" where
  "validator_actions pid addr key cell =
     [Started_order_service (''ws://'' @ addr) pid cell,
      Spawned Spawn_essential_blocking ''on-demand order placement task'' (Some ''on-demand''),
      Started_aura \<lparr>collator_key = key, aura_para_id = pid, relay_chain_slot_duration = 6000,
        authoring_duration = 2000, reinitialize = False, record_cell = cell\<rparr>,
      Spawned Spawn_essential ''aura'' None]"

lemma new_partial_Ok:
  "new_partial srv config s = (Ok v, t) \<longleftrightarrow>
     v = telemetry_in_use config \<and>
     (telemetry_in_use config \<longrightarrow> telemetry_worker_new srv 16 = Inr ()) \<and>
     new_full_parts_record_import srv (telemetry_in_use config) (heap_pages config) True = Inr () \<and>
     t = s\<lparr>actions_of := actions_of s @
       (if telemetry_in_use config then [Spawned Spawn ''telemetry'' None] else []) @
       [Built_pool (role_is_authority config), Built_import_queue]\<rparr>"
  by (cases "telemetry_in_use config")
    (auto simp: new_partial_def starter_Ok build_import_queue_def Let_def)

lemma report_hwbench_Ok:
  "report_hwbench srv validator telemetry hw s = (Ok v, t) \<longleftrightarrow>
     t = s\<lparr>actions_of := actions_of s @ [Printed_hwbench] @
       (if isl (check_hardware srv hw) \<and> validator then [Warned_about_hardware] else []) @
       (if telemetry then [Spawned Spawn ''telemetry_hwbench'' None] else [])\<rparr>"
  by (cases "check_hardware srv hw") (auto simp: report_hwbench_def starter_Ok)

lemma start_validator_tasks_Ok:
  "start_validator_tasks pid addr key 6000 s = (Ok v, t) \<longleftrightarrow>
     (\<exists>a k. addr = Some a \<and> key = Some k \<and>
        t = s\<lparr>actions_of := actions_of s @ validator_actions pid a k (length (cells s)),
              cells := cells s @ [\<lparr>relay_block_hash = None, last_slot = 0\<rparr>]\<rparr>)"
  by (cases key; cases addr)
    (auto simp: start_validator_tasks_def start_order_service_def start_consensus_def starter_Ok
      start_on_demand_Ok_iff validator_actions_def)

lemma base_actions_no_order_service [simp]:
  "Started_order_service url pid cell \<notin> set (base_actions srv c pid' hwbench)"
  by (auto simp: base_actions_def split: option.splits)

definition fresh_node :: "'key node_state" where
  "fresh_node = \<lparr>actions_of = [], cells = []\<rparr>"

lemma start_parachain_node_Ok:
  assumes "c = prepare_node_config srv config"
  shows "start_parachain_node srv config addrs pid hwbench fresh_node = (Ok (), t) \<longleftrightarrow>
    (\<exists>key. services_available srv c pid hwbench key \<and>
      (if role_is_authority c then
         \<exists>a k. relay_rpc_of addrs = Some a \<and> key = Some k \<and>
           t = \<lparr>actions_of = base_actions srv c pid hwbench @ validator_actions pid a k 0 @ [Started_network],
                cells = [\<lparr>relay_block_hash = None, last_slot = 0\<rparr>]\<rparr>
       else t = \<lparr>actions_of = base_actions srv c pid hwbench @ [Started_network], cells = []\<rparr>))"
proof -
  have bench: "(case hwbench of None \<Rightarrow> sret () | Some hw \<Rightarrow> report_hwbench srv v tel hw) s = (Ok u, s') \<longleftrightarrow>
      s' = s\<lparr>actions_of := actions_of s @ (case hwbench of None \<Rightarrow> [] | Some hw \<Rightarrow> [Printed_hwbench] @
          (if isl (check_hardware srv hw) \<and> v then [Warned_about_hardware] else []) @
          (if tel then [Spawned Spawn ''telemetry_hwbench'' None] else []))\<rparr>" for v tel s u s'
    by (cases hwbench) (auto simp: report_hwbench_Ok starter_Ok)
  show ?thesis
    unfolding start_parachain_node_def services_available_def base_actions_def fresh_node_def Let_def
      assms [symmetric]
    by (cases "offchain_worker_enabled c"; cases "role_is_authority c")
      (auto simp: starter_Ok new_partial_Ok bench start_validator_tasks_Ok)
qed

text \<open>
  C17: what a started node runs. The start succeeds exactly when every service it asks for can be
  had and, for a validator, the relay chain has an RPC address and there is a collator key; then it
  has done exactly the listed steps in that order. A validator runs the order service and the
  collator over one and the same order record, which starts without an order, for the para the
  node was started for; any other node runs neither, and keeps no order record.
\<close>

theorem node_starts_exactly:
  assumes "c = prepare_node_config srv config"
  shows "start_parachain_node srv config addrs pid hwbench fresh_node = (Ok (), t) \<longleftrightarrow>
    (\<exists>key. services_available srv c pid hwbench key \<and>
      (if role_is_authority c then
         \<exists>a k. relay_rpc_of addrs = Some a \<and> key = Some k \<and>
           t = \<lparr>actions_of = base_actions srv c pid hwbench @ validator_actions pid a k 0 @ [Started_network],
                cells = [\<lparr>relay_block_hash = None, last_slot = 0\<rparr>]\<rparr>
       else t = \<lparr>actions_of = base_actions srv c pid hwbench @ [Started_network], cells = []\<rparr>))"
  by (rule start_parachain_node_Ok [OF assms])

definition sample_services :: "(string, unit, nat) node_services" where
  "sample_services =
     \<lparr>prepare_node_config = id, telemetry_worker_new = (\<lambda>n. Inr ()),
      new_full_parts_record_import = (\<lambda>t h r. Inr ()),
      build_relay_chain_interface = (\<lambda>t hw. Inr (Some 7)), build_network = (\<lambda>pid. Inr ()),
      offchain_workers_new = (\<lambda>v. Inr ()), spawn_tasks = (\<lambda>t. Inr ()), check_hardware = (\<lambda>hw. Inr ()),
      overseer_handle = Inr (), start_relay_chain_tasks = (\<lambda>prof d. Inr ())\<rparr>"

definition sample_configuration :: node_configuration where
  "sample_configuration =
     \<lparr>telemetry_endpoints = Some [], default_heap_pages = None, role_is_authority = True,
      offchain_worker_enabled = False\<rparr>"

definition sample_started :: "nat node_state" where
  "sample_started =
     \<lparr>actions_of = base_actions sample_services sample_configuration 2000 None @
        validator_actions 2000 ''127.0.0.1:9945'' 7 0 @ [Started_network],
      cells = [\<lparr>relay_block_hash = None, last_slot = 0\<rparr>]\<rparr>"

lemma sample_services_available:
  "services_available sample_services sample_configuration pid hwbench key \<longleftrightarrow> key = Some 7"
  by (auto simp: services_available_def sample_services_def sample_configuration_def)

theorem node_starts_exactly_witness:
  "start_parachain_node sample_services sample_configuration (Some [''127.0.0.1:9945'']) 2000 None
     fresh_node = (Ok (), sample_started)"
proof -
  have "sample_configuration = prepare_node_config sample_services sample_configuration"
    by (simp add: sample_services_def)
  from node_starts_exactly [OF this] show ?thesis
    by (simp add: sample_services_available relay_rpc_of_def sample_started_def)
      (simp add: sample_configuration_def)
qed

section \<open>When the start fails\<close>

text \<open>
  C28: a node panics on start exactly when it is a validator, every other service could be had, and
  the relay chain has no RPC address or the node no collator key; every other failure is an error.
\<close>

theorem node_start_panics_iff:
  assumes "c = prepare_node_config srv config"
  shows "is_panic (fst (start_parachain_node srv config addrs pid hwbench s)) \<longleftrightarrow>
    role_is_authority c \<and>
    (\<exists>key. services_available srv c pid hwbench key \<and> (relay_rpc_of addrs = None \<or> key = None))"
proof -
  have partial: "\<not> panics (new_partial srv c) s" for s
    by (simp add: new_partial_def build_import_queue_def Let_def starter_panic)
  have bench: "\<not> panics (case hwbench of None \<Rightarrow> sret () | Some hw \<Rightarrow> report_hwbench srv v tel hw) s"
    for v tel s
    by (simp add: report_hwbench_def starter_panic split: option.split sum.split)
  have bench_Ok: "\<exists>s'. (case hwbench of None \<Rightarrow> sret () | Some hw \<Rightarrow> report_hwbench srv v tel hw) s =
      (Ok (), s')" for v tel s
    by (cases hwbench) (simp_all add: report_hwbench_Ok sret_def)
  have tasks: "panics (start_validator_tasks pid addr key d) s \<longleftrightarrow> addr = None \<or> key = None"
    for addr key d s
    by (cases key) (auto simp: start_validator_tasks_def start_order_service_def start_consensus_def
        starter_panic starter_Ok is_panic_start_on_demand start_on_demand_Ok_iff)
  have "panics (start_parachain_node srv config addrs pid hwbench) s \<longleftrightarrow>
    role_is_authority c \<and>
    (\<exists>key. services_available srv c pid hwbench key \<and> (relay_rpc_of addrs = None \<or> key = None))"
    unfolding start_parachain_node_def services_available_def Let_def assms [symmetric]
    using bench_Ok
    by (cases "offchain_worker_enabled c")
      (auto simp: starter_panic starter_Ok new_partial_Ok partial bench tasks)
  then show ?thesis by (simp add: panics_def)
qed

theorem node_start_panics_iff_witness:
  "is_panic (fst (start_parachain_node sample_services sample_configuration None 2000 None fresh_node))"
proof -
  have "sample_configuration = prepare_node_config sample_services sample_configuration"
    by (simp add: sample_services_def)
  from node_start_panics_iff [OF this] show ?thesis
    by (simp add: sample_services_available relay_rpc_of_def) (simp add: sample_configuration_def)
qed

text \<open>
  Pieces of the start-up that do not start the network, and pieces that start it exactly when they
  return.
\<close>

definition offline :: "('err, 'key, 'a) starter \<Rightarrow> bool" where
  "offline m \<longleftrightarrow> (\<forall>s. Started_network \<in> set (actions_of (snd (m s))) \<longleftrightarrow>
     Started_network \<in> set (actions_of s))"

definition goes_online :: "('err, 'key, unit) starter \<Rightarrow> bool" where
  "goes_online m \<longleftrightarrow> (\<forall>s. Started_network \<notin> set (actions_of s) \<longrightarrow>
     (Started_network \<in> set (actions_of (snd (m s))) \<longleftrightarrow> fst (m s) = Ok ()))"

lemma offline_intros [intro]:
  "offline (sret v)" "a \<noteq> Started_network \<Longrightarrow> offline (act a)" "offline (attempt wrap r)"
  "offline (new_cell rec)" "offline (lift_outcome out)" "offline m \<Longrightarrow> offline (swhen b m)"
  by (auto simp: offline_def sret_def act_def attempt_def new_cell_def lift_outcome_def swhen_def
      split: sum.split)

lemma offline_sbind [intro]: "offline m \<Longrightarrow> (\<And>v. offline (f v)) \<Longrightarrow> offline (sbind m f)"
  by (auto simp: offline_def sbind_def split: prod.splits outcome.splits)
    (metis snd_conv)+

lemma goes_online_act: "goes_online (act Started_network)"
  by (simp add: goes_online_def act_def)

lemma goes_online_sbind: "offline m \<Longrightarrow> (\<And>v. goes_online (f v)) \<Longrightarrow> goes_online (sbind m f)"
  unfolding goes_online_def offline_def sbind_def
  by (intro allI impI, rename_tac s, case_tac "m s", case_tac a) (force split: outcome.split)+

lemma start_parachain_node_goes_online:
  "goes_online (start_parachain_node srv config addrs pid hwbench)"
proof -
  have "offline (new_partial srv c)" for c
    unfolding new_partial_def build_import_queue_def Let_def by (auto intro!: offline_sbind)
  moreover have "offline (case hwbench of None \<Rightarrow> sret () | Some hw \<Rightarrow> report_hwbench srv v tel hw)" for v tel
    unfolding report_hwbench_def by (auto intro!: offline_sbind split: option.split sum.split)
  moreover have "offline (swhen b (start_validator_tasks pid addr key d))" for b addr key d
    unfolding start_validator_tasks_def start_order_service_def start_consensus_def Let_def
    by (auto intro!: offline_sbind offline_intros(6))
  ultimately show ?thesis
    unfolding start_parachain_node_def Let_def
    by (intro goes_online_sbind goes_online_act) (auto intro!: offline_sbind)
qed

text \<open>
  A node joins its network only when everything else has started. However the start ends, the
  network has been started exactly if the whole start succeeded; a node whose services, order
  service or collator fail to start never takes part in the network.
\<close>

theorem node_joins_network_iff_started:
  "Started_network \<in> set (actions_of (snd (start_parachain_node srv config addrs pid hwbench fresh_node))) \<longleftrightarrow>
     fst (start_parachain_node srv config addrs pid hwbench fresh_node) = Ok ()"
  using start_parachain_node_goes_online [of srv config addrs pid hwbench]
  by (simp add: goes_online_def fresh_node_def)

section \<open>Commands\<close>

text \<open>
  Pieces of the start-up that add nothing to what was started but actions of the given kind.
\<close>

definition only_does :: "('key node_action \<Rightarrow> bool) \<Rightarrow> ('err, 'key, 'a) starter \<Rightarrow> bool" where
  "only_does P m \<longleftrightarrow> (\<forall>s. \<forall>a \<in> set (actions_of (snd (m s))). a \<in> set (actions_of s) \<or> P a)"

lemma only_does_intros [intro]:
  "only_does P (sret v)" "P a \<Longrightarrow> only_does P (act a)" "only_does P (attempt wrap r)"
  "only_does P (new_cell rec)" "only_does P (lift_outcome out)" "only_does P m \<Longrightarrow> only_does P (swhen b m)"
  "only_does P m' \<Longrightarrow> only_does P (map_failure wrap m')"
  by (auto simp: only_does_def sret_def act_def attempt_def new_cell_def lift_outcome_def swhen_def
      map_failure_def split: sum.split prod.split outcome.split)

lemma only_does_sbind [intro]:
  assumes "only_does P m" and "\<And>v. only_does P (f v)"
  shows "only_does P (sbind m f)"
proof -
  have "a \<in> set (actions_of s) \<or> P a" if "a \<in> set (actions_of (snd (sbind m f s)))" for s a
  proof (cases "m s")
    case (Pair r s')
    with assms(1) have first: "b \<in> set (actions_of s) \<or> P b" if "b \<in> set (actions_of s')" for b
      using that by (metis only_does_def snd_conv)
    show ?thesis
    proof (cases r)
      case (Ok v)
      with that Pair have "a \<in> set (actions_of (snd (f v s')))" by (simp add: sbind_def)
      with assms(2) have "a \<in> set (actions_of s') \<or> P a" by (auto simp: only_does_def)
      with first show ?thesis by blast
    qed (use that Pair first in \<open>simp_all add: sbind_def\<close>)
  qed
  then show ?thesis by (simp add: only_does_def)
qed

text \<open>The actions of \<open>new_partial\<close>.\<close>

fun partial_action :: "'key node_action \<Rightarrow> bool" where
  "partial_action (Spawned h task grp) \<longleftrightarrow> h = Spawn \<and> task = ''telemetry'' \<and> grp = None"
| "partial_action (Built_pool b) \<longleftrightarrow> True"
| "partial_action Built_import_queue \<longleftrightarrow> True"
| "partial_action _ \<longleftrightarrow> False"

lemma components_of_partial: "only_does partial_action (components_of env config)"
  unfolding components_of_def new_partial_def build_import_queue_def Let_def
  by (auto intro!: only_does_sbind only_does_intros)

text \<open>
  Only the node itself runs the node. A sub-command, whatever it is and however it ends, spawns
  at most the telemetry worker, a pool and an import queue, and never the order service, the
  collator or the network.
\<close>

theorem subcommands_start_no_node:
  assumes "subcommand_of cli = Some cmd" and "a \<in> set (actions_of (snd (main_node env cli)))"
  shows "partial_action a"
proof -
  have "only_does partial_action (run_cli env cli)"
    using assms(1) components_of_partial [of env]
    by (auto simp: run_cli_def run_benchmark_def construct_async_run_def call_command_def
        polkadot_config_of_def load_spec_of_def split: subcommand.split benchmark_cmd.split
        intro!: only_does_sbind only_does_intros)
  with assms(2) show ?thesis by (fastforce simp: only_does_def main_node_def)
qed

definition sample_constants :: node_constants where
  "sample_constants = \<lparr>WASM_BINARY = Some [0], DEV_PRESET = ''development'',
     LOCAL_TESTNET_PRESET = ''local_testnet''\<rparr>"

definition sample_spec :: chain_spec where
  "sample_spec =
     \<lparr>spec_code = [0], spec_extensions = \<lparr>relay_chain_name = ''rococo-local'', ext_para_id = 2000\<rparr>,
      spec_name = ''Sample'', spec_id = ''sample'', spec_chain_type = Chain_type_Local,
      spec_preset_name = ''local_testnet'', spec_protocol_id = None, spec_properties = None\<rparr>"

definition sample_run_configuration :: run_configuration where
  "sample_run_configuration =
     \<lparr>run_chain_spec = sample_spec, run_base_path = ''/data'', run_database_path = None,
      run_node_configuration = sample_configuration\<rparr>"

definition sample_cli_env :: "(string, unit, nat, string list) cli_env" where
  "sample_cli_env =
     \<lparr>constants = sample_constants, from_json_file = (\<lambda>path. Inl ''no such file''),
      create_runner = (\<lambda>cmd. Inr sample_run_configuration), run_command = (\<lambda>cmd input. Inr ()),
      parse_from = id, get_extension = Some, executable_name = ''parachain-template-node'',
      create_configuration = (\<lambda>cli. Inr (Some [''127.0.0.1:9945''])), display_error = id,
      gather_hwbench = (\<lambda>path. ()), runtime_benchmarks = False, services = sample_services\<rparr>"

definition sample_cli :: "subcommand option \<Rightarrow> cli" where
  "sample_cli cmd = \<lparr>subcommand_of = cmd, no_hardware_benchmarks = False, relay_chain_args = []\<rparr>"

theorem subcommands_start_no_node_witness:
  "partial_action (Built_import_queue :: nat node_action) \<and>
   Built_import_queue \<in> set (actions_of (snd (main_node sample_cli_env (sample_cli (Some CheckBlock)))))"
proof -
  have "new_partial sample_services sample_configuration \<lparr>actions_of = [], cells = []\<rparr> =
      (Ok False, \<lparr>actions_of = [Built_pool True, Built_import_queue], cells = []\<rparr>)"
    by (simp add: new_partial_Ok telemetry_in_use_def sample_services_def sample_configuration_def)
  then have "Built_import_queue \<in> set (actions_of (snd (main_node sample_cli_env (sample_cli (Some CheckBlock)))))"
    by (simp add: main_node_def run_cli_def construct_async_run_def components_of_def call_command_def
        sample_cli_def sample_cli_env_def sample_run_configuration_def sbind_def attempt_def
        map_failure_def)
  with subcommands_start_no_node [OF _ this, of CheckBlock] show ?thesis
    by (simp add: sample_cli_def)
qed

text \<open>
  C18: a node orders for the para its chain specification names. If the command line without a
  sub-command leads to a running node, the specification has an extension, the order service (if
  the node is a validator) works for the para of that extension on the first RPC address of the
  relay chain, and the collator works for the same para and reads the record the service writes.
\<close>

theorem node_orders_for_its_para:
  assumes "subcommand_of cli = None" and "main_node env cli = (Ok (), t)"
  shows "\<exists>config ext. create_runner env None = Inr config \<and>
    try_get (get_extension env) (run_chain_spec config) = Some ext \<and>
    (\<forall>url pid cell. Started_order_service url pid cell \<in> set (actions_of t) \<longrightarrow> pid = ext_para_id ext \<and>
       cells t = [\<lparr>relay_block_hash = None, last_slot = 0\<rparr>] \<and> cell = 0 \<and>
       (\<exists>addrs addr rest. create_configuration env (polkadot_cli_of env cli config) = Inr (Some addrs) \<and>
          addrs = addr # rest \<and> url = ''ws://'' @ addr) \<and>
       (\<exists>params. Started_aura params \<in> set (actions_of t) \<and> aura_para_id params = pid \<and>
          record_cell params = cell))"
proof -
  from assms obtain config ext addrs where config: "create_runner env None = Inr config"
    and ext: "try_get (get_extension env) (run_chain_spec config) = Some ext"
    and addrs: "create_configuration env (polkadot_cli_of env cli config) = Inr addrs"
    and start: "\<exists>hwbench. start_parachain_node (services env) (run_node_configuration config) addrs
      (ext_para_id ext) hwbench fresh_node = (Ok (), t)"
    by (auto simp: main_node_def run_cli_def run_node_def polkadot_config_of_def starter_Ok
        fresh_node_def Let_def split: option.splits) blast
  from start obtain hwbench where "start_parachain_node (services env) (run_node_configuration config) addrs
      (ext_para_id ext) hwbench fresh_node = (Ok (), t)" ..
  note t = this [unfolded start_parachain_node_Ok [OF refl]]
  with t config ext addrs show ?thesis
    by (auto simp: validator_actions_def relay_rpc_of_def split: if_splits option.splits list.splits)
qed

theorem node_orders_for_its_para_witness:
  "main_node sample_cli_env (sample_cli None) = (Ok (), sample_started) \<and>
   Started_order_service ''ws://127.0.0.1:9945'' 2000 0 \<in> set (actions_of sample_started) \<and>
   (\<exists>config ext. create_runner sample_cli_env None = Inr config \<and>
      try_get (get_extension sample_cli_env) (run_chain_spec config) = Some ext \<and> 2000 = ext_para_id ext)"
proof -
  have "start_parachain_node sample_services sample_configuration (Some [''127.0.0.1:9945'']) 2000 None
      fresh_node = (Ok (), sample_started)"
    by (simp add: start_parachain_node_Ok [OF refl] sample_started_def relay_rpc_of_def)
      (simp add: services_available_def sample_services_def sample_configuration_def)
  then have main: "main_node sample_cli_env (sample_cli None) = (Ok (), sample_started)"
    by (simp add: main_node_def run_cli_def run_node_def polkadot_config_of_def sample_cli_def
        sample_cli_env_def sample_run_configuration_def sample_spec_def try_get_def sbind_def attempt_def
        lift_outcome_def map_failure_def fresh_node_def)
  have started: "Started_order_service ''ws://127.0.0.1:9945'' 2000 0 \<in> set (actions_of sample_started)"
    by (simp add: sample_started_def validator_actions_def)
  have "subcommand_of (sample_cli None) = None" by (simp add: sample_cli_def)
  from node_orders_for_its_para [OF this main] obtain config ext
    where "create_runner sample_cli_env None = Inr config"
      and "try_get (get_extension sample_cli_env) (run_chain_spec config) = Some ext"
      and "2000 = ext_para_id ext"
    using started by (elim exE conjE, atomize_elim) blast
  with main started show ?thesis by blast
qed

section \<open>Chain specifications\<close>

lemma metadata_hash_enabled:
  "Enable_metadata_hash symbol d \<in> set (runtime_build_main std metadata_hash) \<longleftrightarrow>
     std \<and> metadata_hash \<and> symbol = ''UNIT'' \<and> d = 12"
  by (auto simp: runtime_build_main_def)

lemma built_in_specs_load:
  assumes "ident \<in> {''dev'', ''template-rococo'', [], ''local''}"
  shows "(is_panic (load_spec k json ident) \<longleftrightarrow> WASM_BINARY k = None) \<and>
    (\<forall>spec. load_spec k json ident = Ok spec \<longrightarrow>
      (\<exists>g. get_preset (LOCAL_TESTNET_PRESET k) (DEV_PRESET k) xcm kr (spec_preset_name spec) = Some g \<and>
         parachain_id g = ext_para_id (spec_extensions spec)) \<and>
      relay_chain_id (relay_chain_cli_new parse Some (config\<lparr>run_chain_spec := spec\<rparr>) args) (Inr []) =
        (Inr ''rococo-local'' :: 'e + string) \<and>
      (spec_properties spec = None \<longleftrightarrow> ident = ''dev''))"
  using assms
  by (auto simp: load_spec_def development_chain_spec_def local_chain_spec_def get_preset_def
      local_testnet_genesis_def development_config_genesis_def testnet_genesis_def PARACHAIN_ID_def
      relay_chain_id_def relay_chain_cli_new_def try_get_def split: option.splits)

lemma built_in_properties:
  assumes "ident \<in> {''dev'', ''template-rococo'', [], ''local''}" and "load_spec k json ident = Ok spec"
    and "spec_properties spec = Some properties"
  shows "properties ''tokenSymbol'' = Some (Json_string ''UNIT'')"
    and "properties ''tokenDecimals'' = Some (Json_number (int 12))"
  using assms
  by (auto simp: load_spec_def development_chain_spec_def local_chain_spec_def split: option.splits)



end
