(* ===== verification/Runtime_Weights.thy ===== *)
theory Runtime_Weights
  imports Template_Runtime
begin

text \<open>
  Weights: the cost of the calls of both pallets (\<open>weights.rs\<close> of \<open>pallets/on-demand\<close> and of
  \<open>template/pallets/template\<close>, and the annotations of their calls), the database weights of the
  runtime (\<open>template/runtime/src/weights\<close>) with the tests that come with them, and the block limits
  the runtime derives (\<open>template/runtime/src/lib.rs\<close>, \<open>configs/mod.rs\<close>). The type of weights and the
  fractions it is multiplied with are \<open>sp_weights\<close>'s and \<open>sp_arithmetic\<close>'s: a parameter, the record
  \<open>weight_api\<close>, whose documented behaviour is \<open>weight_laws\<close>.
\<close>

section \<open>The weight library\<close>

record ('w, 'p) weight_api =
  from_parts :: "u64 \<Rightarrow> u64 \<Rightarrow> 'w"
  ref_time :: "'w \<Rightarrow> u64"
  proof_size :: "'w \<Rightarrow> u64"
  weight_saturating_add :: "'w \<Rightarrow> 'w \<Rightarrow> 'w"
  weight_add :: "'w \<Rightarrow> 'w \<Rightarrow> 'w"
  weight_sub :: "'w \<Rightarrow> 'w \<Rightarrow> 'w"
  weight_saturating_div :: "'w \<Rightarrow> u64 \<Rightarrow> 'w"
  db_reads :: "rocksdb_weight \<Rightarrow> u64 \<Rightarrow> 'w"
  db_writes :: "rocksdb_weight \<Rightarrow> u64 \<Rightarrow> 'w"
  db_reads_writes :: "rocksdb_weight \<Rightarrow> u64 \<Rightarrow> u64 \<Rightarrow> 'w"
  from_percent :: "u32 \<Rightarrow> 'p"
  fraction_mul :: "'p \<Rightarrow> 'w \<Rightarrow> 'w"
  WEIGHT_REF_TIME_PER_NANOS :: u64
  WEIGHT_REF_TIME_PER_MICROS :: u64
  WEIGHT_REF_TIME_PER_MILLIS :: u64
  WEIGHT_REF_TIME_PER_SECOND :: u64
  MAX_POV_SIZE :: u32
  frame_RocksDbWeight :: rocksdb_weight

text \<open>The nearest whole number of percents of a number.\<close>

definition is_percent_of :: "nat \<Rightarrow> nat \<Rightarrow> nat \<Rightarrow> bool" where
  "is_percent_of k x y \<longleftrightarrow> 100 * y \<le> k * x + 50 \<and> k * x \<le> 100 * y + 50"

text \<open>
  The documented behaviour: weights are pairs, sums (that do not overflow), differences (that do not
  underflow) and fractions work on both components, the
  reads and writes of the database cost reference time only, and a second has \<open>10 ^ 12\<close> units.
\<close>

definition weight_laws :: "('w, 'p) weight_api \<Rightarrow> bool" where
  "weight_laws W \<longleftrightarrow>
     (\<forall>t s. ref_time W (from_parts W t s) = t \<and> proof_size W (from_parts W t s) = s) \<and>
     (\<forall>v w. ref_time W (weight_saturating_add W v w) = saturating_add (ref_time W v) (ref_time W w) \<and>
        proof_size W (weight_saturating_add W v w) = saturating_add (proof_size W v) (proof_size W w)) \<and>
     (\<forall>v w. unat (ref_time W v) + unat (ref_time W w) < 2 ^ 64 \<and>
        unat (proof_size W v) + unat (proof_size W w) < 2 ^ 64 \<longrightarrow>
        ref_time W (weight_add W v w) = ref_time W v + ref_time W w \<and>
        proof_size W (weight_add W v w) = proof_size W v + proof_size W w) \<and>
     (\<forall>v w. ref_time W w \<le> ref_time W v \<and> proof_size W w \<le> proof_size W v \<longrightarrow>
        ref_time W (weight_sub W v w) = ref_time W v - ref_time W w \<and>
        proof_size W (weight_sub W v w) = proof_size W v - proof_size W w) \<and>
     (\<forall>w d. ref_time W (weight_saturating_div W w d) = ref_time W w div d \<and>
        proof_size W (weight_saturating_div W w d) = proof_size W w div d) \<and>
     (\<forall>db n. ref_time W (db_reads W db n) = saturating_mul (db_read db) n \<and>
        proof_size W (db_reads W db n) = 0) \<and>
     (\<forall>db n. ref_time W (db_writes W db n) = saturating_mul (db_write db) n \<and>
        proof_size W (db_writes W db n) = 0) \<and>
     (\<forall>db n m. db_reads_writes W db n m = weight_saturating_add W (db_reads W db n) (db_writes W db m)) \<and>
     (\<forall>k w. k \<le> 100 \<longrightarrow>
        is_percent_of (unat k) (unat (ref_time W w)) (unat (ref_time W (fraction_mul W (from_percent W k) w))) \<and>
        is_percent_of (unat k) (unat (proof_size W w)) (unat (proof_size W (fraction_mul W (from_percent W k) w)))) \<and>
     WEIGHT_REF_TIME_PER_NANOS W = 1000 \<and> WEIGHT_REF_TIME_PER_MICROS W = 1000000 \<and>
     WEIGHT_REF_TIME_PER_MILLIS W = 1000000000 \<and> WEIGHT_REF_TIME_PER_SECOND W = 1000000000000"

section \<open>The calls of the on-demand pallet\<close>

record 'w on_demand_weight_info =
  wi_set_slot_width :: 'w
  wi_set_threshold_parameter :: 'w
  wi_set_bulk_mode :: 'w
  wi_on_reward :: 'w
  wi_should_place_order :: 'w

text \<open>\<open>WeightInfo for SubstrateWeight<T>\<close>, over the database weight of the runtime.\<close>

definition SubstrateWeight :: "('w, 'p) weight_api \<Rightarrow> rocksdb_weight \<Rightarrow> 'w on_demand_weight_info" where
  "SubstrateWeight W db =
     \<lparr>wi_set_slot_width =
        weight_saturating_add W (from_parts W 3497000 0) (db_writes W db 1),
      wi_set_threshold_parameter =
        weight_saturating_add W (from_parts W 3487000 0) (db_writes W db 1),
      wi_set_bulk_mode =
        weight_saturating_add W (from_parts W 3487000 0) (db_writes W db 1),
      wi_on_reward =
        weight_saturating_add W (from_parts W 3487000 0) (db_writes W db 1),
      wi_should_place_order =
        weight_saturating_add W (from_parts W 3487000 0) (db_writes W db 1)\<rparr>"

text \<open>\<open>WeightInfo for ()\<close>, over the database weight of \<open>frame_support\<close>.\<close>

definition unit_weight_info :: "('w, 'p) weight_api \<Rightarrow> 'w on_demand_weight_info" where
  "unit_weight_info W =
     \<lparr>wi_set_slot_width =
        weight_saturating_add W (from_parts W 3497000 0) (db_writes W (frame_RocksDbWeight W) 1),
      wi_set_threshold_parameter =
        weight_saturating_add W (from_parts W 3487000 0) (db_writes W (frame_RocksDbWeight W) 1),
      wi_set_bulk_mode =
        weight_saturating_add W (from_parts W 3487000 0) (db_writes W (frame_RocksDbWeight W) 1),
      wi_on_reward =
        weight_saturating_add W (from_parts W 3487000 0) (db_writes W (frame_RocksDbWeight W) 1),
      wi_should_place_order =
        weight_saturating_add W (from_parts W 3487000 0) (db_writes W (frame_RocksDbWeight W) 1)\<rparr>"

datatype dispatch_class = Normal | Operational | Mandatory

text \<open>The annotations of the calls: the weight and the class.\<close>

fun call_weight ::
    "('w, 'p) weight_api \<Rightarrow> 'w on_demand_weight_info \<Rightarrow> ('thr, 'proof) call \<Rightarrow> 'w \<times> dispatch_class" where
  "call_weight W info (Create_order d) = (from_parts W 0 0, Mandatory)"
| "call_weight W info (Set_slot_width w) = (wi_set_slot_width info, Normal)"
| "call_weight W info (Set_threshold_parameter t) = (wi_set_threshold_parameter info, Normal)"
| "call_weight W info (Set_bulk_mode b) = (wi_set_bulk_mode info, Normal)"

section \<open>The calls of the example pallet\<close>

record 'w template_weight_info =
  wi_do_something :: 'w
  wi_cause_error :: 'w

definition template_SubstrateWeight ::
    "('w, 'p) weight_api \<Rightarrow> rocksdb_weight \<Rightarrow> 'w template_weight_info" where
  "template_SubstrateWeight W db =
     \<lparr>wi_do_something =
        weight_saturating_add W (from_parts W 9000000 0) (db_writes W db 1),
      wi_cause_error =
        weight_saturating_add W
          (weight_saturating_add W (from_parts W 6000000 1489) (db_reads W db 1))
          (db_writes W db 1)\<rparr>"

definition template_unit_weight_info :: "('w, 'p) weight_api \<Rightarrow> 'w template_weight_info" where
  "template_unit_weight_info W =
     \<lparr>wi_do_something =
        weight_saturating_add W (from_parts W 9000000 0) (db_writes W (frame_RocksDbWeight W) 1),
      wi_cause_error =
        weight_saturating_add W
          (weight_saturating_add W (from_parts W 6000000 1489) (db_reads W (frame_RocksDbWeight W) 1))
          (db_writes W (frame_RocksDbWeight W) 1)\<rparr>"

text \<open>The annotations of the calls, which do not ask the pallet's \<open>WeightInfo\<close>.\<close>

definition do_something_weight :: "('w, 'p) weight_api \<Rightarrow> rocksdb_weight \<Rightarrow> 'w" where
  "do_something_weight W db = weight_add W (from_parts W 10000 0) (db_writes W db 1)"

definition cause_error_weight :: "('w, 'p) weight_api \<Rightarrow> rocksdb_weight \<Rightarrow> 'w" where
  "cause_error_weight W db = weight_add W (from_parts W 10000 0) (db_reads_writes W db 1 1)"

section \<open>The weights of the runtime\<close>

definition BlockExecutionWeight :: "('w, 'p) weight_api \<Rightarrow> 'w" where
  "BlockExecutionWeight W = from_parts W (block_execution_ref_time (WEIGHT_REF_TIME_PER_NANOS W)) 0"

definition ExtrinsicBaseWeight :: "('w, 'p) weight_api \<Rightarrow> 'w" where
  "ExtrinsicBaseWeight W = from_parts W (extrinsic_base_ref_time (WEIGHT_REF_TIME_PER_NANOS W)) 0"

definition ParityDbWeight :: "u64 \<Rightarrow> rocksdb_weight" where
  "ParityDbWeight per_nanos = \<lparr>db_read = 8000 * per_nanos, db_write = 50000 * per_nanos\<rparr>"

text \<open>The tests that come with the constants.\<close>

definition block_execution_weight_sane :: "('w, 'p) weight_api \<Rightarrow> bool" where
  "block_execution_weight_sane W =
     (let w = BlockExecutionWeight W in
      100 * WEIGHT_REF_TIME_PER_MICROS W \<le> ref_time W w \<and>
      ref_time W w \<le> 50 * WEIGHT_REF_TIME_PER_MILLIS W)"

definition extrinsic_base_weight_sane :: "('w, 'p) weight_api \<Rightarrow> bool" where
  "extrinsic_base_weight_sane W =
     (let w = ExtrinsicBaseWeight W in
      10 * WEIGHT_REF_TIME_PER_MICROS W \<le> ref_time W w \<and>
      ref_time W w \<le> WEIGHT_REF_TIME_PER_MILLIS W)"

definition rocksdb_weight_sane :: "('w, 'p) weight_api \<Rightarrow> bool" where
  "rocksdb_weight_sane W =
     (let db = RocksDbWeight (WEIGHT_REF_TIME_PER_NANOS W) in
      WEIGHT_REF_TIME_PER_MICROS W \<le> ref_time W (db_reads W db 1) \<and>
      WEIGHT_REF_TIME_PER_MICROS W \<le> ref_time W (db_writes W db 1) \<and>
      ref_time W (db_reads W db 1) \<le> WEIGHT_REF_TIME_PER_MILLIS W \<and>
      ref_time W (db_writes W db 1) \<le> WEIGHT_REF_TIME_PER_MILLIS W)"

definition paritydb_weight_sane :: "('w, 'p) weight_api \<Rightarrow> bool" where
  "paritydb_weight_sane W =
     (let db = ParityDbWeight (WEIGHT_REF_TIME_PER_NANOS W) in
      WEIGHT_REF_TIME_PER_MICROS W \<le> ref_time W (db_reads W db 1) \<and>
      WEIGHT_REF_TIME_PER_MICROS W \<le> ref_time W (db_writes W db 1) \<and>
      ref_time W (db_reads W db 1) \<le> WEIGHT_REF_TIME_PER_MILLIS W \<and>
      ref_time W (db_writes W db 1) \<le> WEIGHT_REF_TIME_PER_MILLIS W)"

section \<open>The limits of a block\<close>

definition AVERAGE_ON_INITIALIZE_RATIO :: "('w, 'p) weight_api \<Rightarrow> 'p" where
  "AVERAGE_ON_INITIALIZE_RATIO W = from_percent W 5"

definition NORMAL_DISPATCH_RATIO :: "('w, 'p) weight_api \<Rightarrow> 'p" where
  "NORMAL_DISPATCH_RATIO W = from_percent W 75"

definition MAXIMUM_BLOCK_WEIGHT :: "('w, 'p) weight_api \<Rightarrow> 'w" where
  "MAXIMUM_BLOCK_WEIGHT W =
     from_parts W (saturating_mul (WEIGHT_REF_TIME_PER_SECOND W) 2) (ucast (MAX_POV_SIZE W))"

record 'w weights_per_class =
  base_extrinsic :: 'w
  max_total :: "'w option"
  reserved :: "'w option"

text \<open>
  What the closures handed to the builder do to the weights of a class, in their order.
\<close>

definition runtime_class_weights ::
    "('w, 'p) weight_api \<Rightarrow> dispatch_class \<Rightarrow> 'w weights_per_class \<Rightarrow> 'w weights_per_class" where
  "runtime_class_weights W cls weights =
     (let weights = weights\<lparr>base_extrinsic := ExtrinsicBaseWeight W\<rparr>;
          normal = fraction_mul W (NORMAL_DISPATCH_RATIO W) (MAXIMUM_BLOCK_WEIGHT W)
      in case cls of
           Normal \<Rightarrow> weights\<lparr>max_total := Some normal\<rparr>
         | Operational \<Rightarrow>
             weights\<lparr>max_total := Some (MAXIMUM_BLOCK_WEIGHT W),
                     reserved := Some (weight_sub W (MAXIMUM_BLOCK_WEIGHT W) normal)\<rparr>
         | Mandatory \<Rightarrow> weights)"

text \<open>The builder takes the base weight, the closures and the share of initialisation.\<close>

definition RuntimeBlockWeights ::
    "('w \<Rightarrow> (dispatch_class \<Rightarrow> 'w weights_per_class \<Rightarrow> 'w weights_per_class) \<Rightarrow> 'p \<Rightarrow> 'bw) \<Rightarrow>
     ('w, 'p) weight_api \<Rightarrow> 'bw" where
  "RuntimeBlockWeights builder W =
     builder (BlockExecutionWeight W) (runtime_class_weights W) (AVERAGE_ON_INITIALIZE_RATIO W)"

definition RuntimeBlockLength :: "(u32 \<Rightarrow> 'p \<Rightarrow> 'bl) \<Rightarrow> ('w, 'p) weight_api \<Rightarrow> 'bl" where
  "RuntimeBlockLength max_with_normal_ratio W =
     max_with_normal_ratio (5 * 1024 * 1024) (NORMAL_DISPATCH_RATIO W)"

definition ReservedXcmpWeight :: "('w, 'p) weight_api \<Rightarrow> 'w" where
  "ReservedXcmpWeight W = weight_saturating_div W (MAXIMUM_BLOCK_WEIGHT W) 4"

definition ReservedDmpWeight :: "('w, 'p) weight_api \<Rightarrow> 'w" where
  "ReservedDmpWeight W = weight_saturating_div W (MAXIMUM_BLOCK_WEIGHT W) 4"

text \<open>\<open>max_block\<close> is the field of that name of \<open>RuntimeBlockWeights\<close>.\<close>

definition MessageQueueServiceWeight :: "('w, 'p) weight_api \<Rightarrow> 'w \<Rightarrow> 'w" where
  "MessageQueueServiceWeight W max_block = fraction_mul W (from_percent W 35) max_block"

section \<open>Lemmas\<close>

lemma weight_laws_parts:
  assumes "weight_laws W"
  shows "ref_time W (from_parts W t s) = t" "proof_size W (from_parts W t s) = s"
    "ref_time W (weight_saturating_add W v w) = saturating_add (ref_time W v) (ref_time W w)"
    "proof_size W (weight_saturating_add W v w) = saturating_add (proof_size W v) (proof_size W w)"
    "ref_time W (weight_saturating_div W w d) = ref_time W w div d"
    "proof_size W (weight_saturating_div W w d) = proof_size W w div d"
    "ref_time W (db_reads W db n) = saturating_mul (db_read db) n" "proof_size W (db_reads W db n) = 0"
    "ref_time W (db_writes W db n) = saturating_mul (db_write db) n" "proof_size W (db_writes W db n) = 0"
    "db_reads_writes W db n m = weight_saturating_add W (db_reads W db n) (db_writes W db m)"
    "WEIGHT_REF_TIME_PER_NANOS W = 1000" "WEIGHT_REF_TIME_PER_MICROS W = 1000000"
    "WEIGHT_REF_TIME_PER_MILLIS W = 1000000000" "WEIGHT_REF_TIME_PER_SECOND W = 1000000000000"
  using assms by (auto simp: weight_laws_def)

lemma weight_laws_add:
  assumes "weight_laws W" and "unat (ref_time W v) + unat (ref_time W w) < 2 ^ 64"
    and "unat (proof_size W v) + unat (proof_size W w) < 2 ^ 64"
  shows "ref_time W (weight_add W v w) = ref_time W v + ref_time W w"
    "proof_size W (weight_add W v w) = proof_size W v + proof_size W w"
  using assms unfolding weight_laws_def by blast+

lemma weight_laws_sub:
  assumes "weight_laws W" and "ref_time W w \<le> ref_time W v" and "proof_size W w \<le> proof_size W v"
  shows "ref_time W (weight_sub W v w) = ref_time W v - ref_time W w"
    "proof_size W (weight_sub W v w) = proof_size W v - proof_size W w"
  using assms unfolding weight_laws_def by blast+

lemma weight_laws_percent:
  assumes "weight_laws W" and "k \<le> 100"
  shows "is_percent_of (unat k) (unat (ref_time W w)) (unat (ref_time W (fraction_mul W (from_percent W k) w)))"
    "is_percent_of (unat k) (unat (proof_size W w)) (unat (proof_size W (fraction_mul W (from_percent W k) w)))"
  using assms unfolding weight_laws_def by blast+

lemma is_percent_of_le: "is_percent_of k x y \<Longrightarrow> k < 100 \<Longrightarrow> y \<le> x"
proof -
  assume "is_percent_of k x y" and "k < 100"
  then have "100 * y \<le> k * x + 50" and "k * x \<le> 99 * x" by (simp_all add: is_percent_of_def)
  then show "y \<le> x" by linarith
qed

end
