(* ===== verification/Runtime_Config.thy ===== *)
theory Runtime_Config
  imports Runtime_Weights
begin

text \<open>
  The rest of the runtime's configuration (\<open>template/runtime/src/lib.rs\<close>, \<open>configs/mod.rs\<close>,
  \<open>benchmarks.rs\<close>, parts of \<open>apis.rs\<close>): its pallets and their order, its version, the constants it
  gives to the pallets of Substrate and Cumulus, and the runtime APIs that do more than hand a call
  on. The pallets of other crates are parameters.
\<close>

section \<open>The pallets\<close>

datatype runtime_pallet =
    System | ParachainSystem | Timestamp | ParachainInfo
  | Balances | TransactionPayment
  | Sudo
  | Authorship | CollatorSelection | Session | Aura | AuraExt
  | XcmpQueue | PolkadotXcm | CumulusXcm | MessageQueue
  | OnDemand
  | TemplatePallet

fun pallet_index :: "runtime_pallet \<Rightarrow> nat" where
  "pallet_index System = 0"
| "pallet_index ParachainSystem = 1"
| "pallet_index Timestamp = 2"
| "pallet_index ParachainInfo = 3"
| "pallet_index Balances = 10"
| "pallet_index TransactionPayment = 11"
| "pallet_index Sudo = 15"
| "pallet_index Authorship = 20"
| "pallet_index CollatorSelection = 21"
| "pallet_index Session = 22"
| "pallet_index Aura = 23"
| "pallet_index AuraExt = 24"
| "pallet_index XcmpQueue = 30"
| "pallet_index PolkadotXcm = 31"
| "pallet_index CumulusXcm = 32"
| "pallet_index MessageQueue = 33"
| "pallet_index OnDemand = 40"
| "pallet_index TemplatePallet = 50"

text \<open>The declaration order, in which the hooks of a block run.\<close>

definition AllPalletsWithSystem :: "runtime_pallet list" where
  "AllPalletsWithSystem =
     [System, ParachainSystem, Timestamp, ParachainInfo, Balances, TransactionPayment, Sudo,
      Authorship, CollatorSelection, Session, Aura, AuraExt, XcmpQueue, PolkadotXcm, CumulusXcm,
      MessageQueue, OnDemand, TemplatePallet]"

lemma pallet_index_inj: "pallet_index a = pallet_index b \<longleftrightarrow> a = b"
  by (cases a; cases b) simp_all

text \<open>Pallets are ordered by their index.\<close>

instantiation runtime_pallet :: linorder
begin

definition less_eq_runtime_pallet :: "runtime_pallet \<Rightarrow> runtime_pallet \<Rightarrow> bool" where
  "a \<le> b \<longleftrightarrow> pallet_index a \<le> pallet_index b"

definition less_runtime_pallet :: "runtime_pallet \<Rightarrow> runtime_pallet \<Rightarrow> bool" where
  "a < b \<longleftrightarrow> pallet_index a < pallet_index b"

instance
  by standard
    (auto simp: less_eq_runtime_pallet_def less_runtime_pallet_def simp flip: pallet_index_inj)

end

section \<open>Version and block times\<close>

record runtime_version =
  rv_spec_name :: string
  rv_impl_name :: string
  rv_authoring_version :: u32
  rv_spec_version :: u32
  rv_impl_version :: u32
  rv_transaction_version :: u32
  rv_system_version :: u8

definition VERSION :: runtime_version where
  "VERSION =
     \<lparr>rv_spec_name = ''parachain-template-runtime'',
      rv_impl_name = ''parachain-template-runtime'',
      rv_authoring_version = 1, rv_spec_version = 1, rv_impl_version = 0,
      rv_transaction_version = 1, rv_system_version = 1\<rparr>"

definition UNINCLUDED_SEGMENT_CAPACITY :: u32 where "UNINCLUDED_SEGMENT_CAPACITY = 1"

definition BLOCK_PROCESSING_VELOCITY :: u32 where "BLOCK_PROCESSING_VELOCITY = 1"

definition RELAY_CHAIN_SLOT_DURATION_MILLIS :: u32 where "RELAY_CHAIN_SLOT_DURATION_MILLIS = 6000"

text \<open>The hook is \<open>FixedVelocityConsensusHook\<close> of \<open>cumulus_pallet_aura_ext\<close> at these values.\<close>

definition ConsensusHook :: "(u32 \<Rightarrow> u32 \<Rightarrow> u32 \<Rightarrow> 'hook) \<Rightarrow> 'hook" where
  "ConsensusHook fixed_velocity_consensus_hook =
     fixed_velocity_consensus_hook RELAY_CHAIN_SLOT_DURATION_MILLIS BLOCK_PROCESSING_VELOCITY
       UNINCLUDED_SEGMENT_CAPACITY"

definition impl_can_build_upon ::
    "('hook \<Rightarrow> h256 \<Rightarrow> u64 \<Rightarrow> bool) \<Rightarrow> (u32 \<Rightarrow> u32 \<Rightarrow> u32 \<Rightarrow> 'hook) \<Rightarrow> h256 \<Rightarrow> u64 \<Rightarrow> bool" where
  "impl_can_build_upon can_build_upon fixed_velocity_consensus_hook included_hash slot =
     can_build_upon (ConsensusHook fixed_velocity_consensus_hook) included_hash slot"

section \<open>Constants for other pallets\<close>

definition SS58Prefix :: "16 word" where "SS58Prefix = 42"

record balances_config =
  MaxLocks :: u32
  ExistentialDeposit :: u128
  MaxReserves :: u32

definition runtime_balances_config :: balances_config where
  "runtime_balances_config =
     \<lparr>MaxLocks = 50, ExistentialDeposit = EXISTENTIAL_DEPOSIT, MaxReserves = 50\<rparr>"

definition TransactionByteFee :: u128 where "TransactionByteFee = 10 * MICRO_UNIT"

text \<open>\<open>LengthToFee\<close> is \<open>ConstantMultiplier\<close> of \<open>frame_support\<close> at this fee.\<close>

definition runtime_length_to_fee :: "(u128 \<Rightarrow> u32 \<Rightarrow> u128) \<Rightarrow> u32 \<Rightarrow> u128" where
  "runtime_length_to_fee constant_multiplier len = constant_multiplier TransactionByteFee len"

record message_queue_config =
  HeapSize :: u32
  MaxStale :: u32

definition runtime_message_queue_config :: message_queue_config where
  "runtime_message_queue_config = \<lparr>HeapSize = 103 * 1024, MaxStale = 8\<rparr>"

record xcmp_queue_config =
  MaxInboundSuspended :: u32
  MaxActiveOutboundChannels :: u32
  MaxPageSize :: u32

definition runtime_xcmp_queue_config :: xcmp_queue_config where
  "runtime_xcmp_queue_config =
     \<lparr>MaxInboundSuspended = 1000, MaxActiveOutboundChannels = 128, MaxPageSize = push_bit 16 1\<rparr>"

definition Period :: u32 where "Period = 6 * HOURS"

definition Offset :: u32 where "Offset = 0"

text \<open>\<open>PeriodicSessions\<close> of \<open>pallet_session\<close>, by whether a session ends at a block.\<close>

definition should_end_session :: "(u32 \<Rightarrow> u32 \<Rightarrow> u32 \<Rightarrow> bool) \<Rightarrow> u32 \<Rightarrow> bool" where
  "should_end_session periodic_sessions now = periodic_sessions Period Offset now"

record aura_config =
  MaxAuthorities :: u32
  AllowMultipleBlocksPerSlot :: bool
  SlotDuration :: u64

definition runtime_aura_config :: aura_config where
  "runtime_aura_config =
     \<lparr>MaxAuthorities = 100000, AllowMultipleBlocksPerSlot = False, SlotDuration = SLOT_DURATION\<rparr>"

definition PotId :: string where "PotId = ''PotStake''"

definition SessionLength :: u32 where "SessionLength = 6 * HOURS"

record collator_selection_config =
  MaxCandidates :: u32
  MinEligibleCollators :: u32
  MaxInvulnerables :: u32
  KickThreshold :: u32

definition runtime_collator_selection_config :: collator_selection_config where
  "runtime_collator_selection_config =
     \<lparr>MaxCandidates = 100, MinEligibleCollators = 4, MaxInvulnerables = 20, KickThreshold = Period\<rparr>"

text \<open>
  \<open>CollatorSelectionUpdateOrigin\<close>: root, or the voice of a body of the relay chain;
  \<open>is_voice_of_body\<close> is \<open>EnsureXcm<IsVoiceOfBody<RelayLocation, StakingAdminBodyId>>\<close>.
\<close>

datatype body_id = Body_Executive | Body_Defense | Other_body nat

definition StakingAdminBodyId :: body_id where "StakingAdminBodyId = Body_Defense"

definition collator_selection_update_origin ::
    "('origin \<Rightarrow> bool) \<Rightarrow> (body_id \<Rightarrow> 'origin \<Rightarrow> bool) \<Rightarrow> 'origin \<Rightarrow> bool" where
  "collator_selection_update_origin ensure_root is_voice_of_body origin \<longleftrightarrow>
     ensure_root origin \<or> is_voice_of_body StakingAdminBodyId origin"

section \<open>Runtime APIs with a body\<close>

text \<open>\<open>TryRuntime\<close>: an error of the executive is unwrapped.\<close>

definition try_on_runtime_upgrade ::
    "('checks \<Rightarrow> 'e + 'w) \<Rightarrow> 'w \<Rightarrow> 'checks \<Rightarrow> ('err, 'w \<times> 'w) outcome" where
  "try_on_runtime_upgrade try_runtime_upgrade max_block checks =
     (case try_runtime_upgrade checks of
        Inl e \<Rightarrow> Panic ''called `Result::unwrap()` on an `Err` value''
      | Inr weight \<Rightarrow> Ok (weight, max_block))"

definition try_execute ::
    "('blk \<Rightarrow> bool \<Rightarrow> bool \<Rightarrow> 'select \<Rightarrow> 'e + 'w) \<Rightarrow> 'blk \<Rightarrow> bool \<Rightarrow> bool \<Rightarrow> 'select \<Rightarrow>
     ('err, 'w) outcome" where
  "try_execute try_execute_block block state_root_check signature_check select =
     (case try_execute_block block state_root_check signature_check select of
        Inl e \<Rightarrow> Panic ''called `Result::unwrap()` on an `Err` value''
      | Inr weight \<Rightarrow> Ok weight)"

text \<open>The benchmarks the runtime defines, and their dispatch; \<open>add_benchmarks\<close> runs them.\<close>

definition defined_benchmarks :: "(string \<times> runtime_pallet) list" where
  "defined_benchmarks =
     [(''frame_system'', System), (''pallet_balances'', Balances), (''pallet_session'', Session),
      (''pallet_timestamp'', Timestamp), (''pallet_message_queue'', MessageQueue),
      (''pallet_sudo'', Sudo), (''pallet_collator_selection'', CollatorSelection),
      (''cumulus_pallet_parachain_system'', ParachainSystem),
      (''cumulus_pallet_xcmp_queue'', XcmpQueue), (''pallet_on_demand'', OnDemand)]"

definition dispatch_benchmark ::
    "('config \<Rightarrow> (string \<times> runtime_pallet) list \<Rightarrow> string + 'batch list) \<Rightarrow> 'config \<Rightarrow>
     string + 'batch list" where
  "dispatch_benchmark add_benchmarks config =
     (case add_benchmarks config defined_benchmarks of
        Inl e \<Rightarrow> Inl e
      | Inr batches \<Rightarrow>
          if batches = [] then Inl ''Benchmark not found for this pallet.'' else Inr batches)"

text \<open>
  The genesis builder: \<open>frame_preset\<close> is \<open>genesis_builder_helper::get_preset\<close>, which asks the
  runtime's presets for a name.
\<close>

definition api_get_preset ::
    "(string option \<Rightarrow> (string \<Rightarrow> 'aura runtime_genesis_config option) \<Rightarrow> bytes option) \<Rightarrow>
     string \<Rightarrow> string \<Rightarrow> u32 \<Rightarrow> 'aura keyring \<Rightarrow> string option \<Rightarrow> bytes option" where
  "api_get_preset frame_preset local_preset dev_preset xcm_version kr ident =
     frame_preset ident (get_preset local_preset dev_preset xcm_version kr)"

definition api_preset_names :: "string \<Rightarrow> string \<Rightarrow> string list" where
  "api_preset_names local_preset dev_preset = preset_names local_preset dev_preset"

end
