(* ===== verification/Xcm_Config.thy ===== *)
theory Xcm_Config
  imports Runtime_Config
begin

text \<open>
  The configuration of cross-consensus messages (\<open>template/runtime/src/configs/xcm_config.rs\<close>): who
  executes for free, which messages are let in, how a location becomes an account or an origin, and
  where a message is sent. The converters, barriers and routers the configuration composes are
  those of \<open>xcm_builder\<close> and Cumulus: parameters of the compositions.
\<close>

section \<open>Locations\<close>

datatype junction = Parachain u32 | Plurality body_id | Other_junction nat

text \<open>A location as \<open>unpack\<close> shows it: the number of parents and the junctions.\<close>

record location =
  parents :: u8
  interior :: "junction list"

definition RelayLocation :: location where
  "RelayLocation = \<lparr>parents = 1, interior = []\<rparr>"

definition UniversalLocation :: "u32 \<Rightarrow> junction list" where
  "UniversalLocation pid = [Parachain pid]"

definition ParentOrParentsExecutivePlurality :: "location \<Rightarrow> bool" where
  "ParentOrParentsExecutivePlurality l =
     (case (parents l, interior l) of
        (n, []) \<Rightarrow> n = 1
      | (n, [Plurality b]) \<Rightarrow> n = 1 \<and> b = Body_Executive
      | _ \<Rightarrow> False)"

section \<open>Accounts and origins\<close>

text \<open>
  What the configuration composes: converters of locations, barriers (whether a message from a
  location may execute), routers, and the combinators, among them the tuples of each.
\<close>

record ('acc, 'origin, 'msg, 'router) xcm_builder =
  account_tuple :: "(location \<Rightarrow> 'acc option) list \<Rightarrow> location \<Rightarrow> 'acc option"
  origin_tuple :: "(location \<Rightarrow> 'origin option) list \<Rightarrow> location \<Rightarrow> 'origin option"
  barrier_tuple :: "(location \<Rightarrow> 'msg \<Rightarrow> bool) list \<Rightarrow> location \<Rightarrow> 'msg \<Rightarrow> bool"
  deny_then_try ::
    "(location \<Rightarrow> 'msg \<Rightarrow> bool) \<Rightarrow> (location \<Rightarrow> 'msg \<Rightarrow> bool) \<Rightarrow> location \<Rightarrow> 'msg \<Rightarrow> bool"
  parent_is_preset :: "location \<Rightarrow> 'acc option"
  sibling_converts_via :: "location \<Rightarrow> 'acc option"
  account_id32_aliases :: "location \<Rightarrow> 'acc option"
  sovereign_signed_via :: "(location \<Rightarrow> 'acc option) \<Rightarrow> location \<Rightarrow> 'origin option"
  relay_chain_as_native :: "location \<Rightarrow> 'origin option"
  sibling_as_native :: "location \<Rightarrow> 'origin option"
  signed_account_as_native :: "location \<Rightarrow> 'origin option"
  xcm_passthrough :: "location \<Rightarrow> 'origin option"
  trailing_set_topic :: "(location \<Rightarrow> 'msg \<Rightarrow> bool) \<Rightarrow> location \<Rightarrow> 'msg \<Rightarrow> bool"
  deny_reserve_transfer_to_relay :: "location \<Rightarrow> 'msg \<Rightarrow> bool"
  take_weight_credit :: "location \<Rightarrow> 'msg \<Rightarrow> bool"
  with_computed_origin ::
    "(location \<Rightarrow> 'msg \<Rightarrow> bool) \<Rightarrow> junction list \<Rightarrow> u32 \<Rightarrow> location \<Rightarrow> 'msg \<Rightarrow> bool"
  allow_paid_execution_from :: "(location \<Rightarrow> bool) \<Rightarrow> location \<Rightarrow> 'msg \<Rightarrow> bool"
  allow_unpaid_execution_from :: "(location \<Rightarrow> bool) \<Rightarrow> location \<Rightarrow> 'msg \<Rightarrow> bool"
  router_tuple :: "'router list \<Rightarrow> 'router"
  parent_as_ump :: 'router
  xcmp_queue_router :: 'router
  with_unique_topic :: "'router \<Rightarrow> 'router"

definition LocationToAccountId :: "('acc, 'origin, 'msg, 'router) xcm_builder \<Rightarrow> location \<Rightarrow> 'acc option" where
  "LocationToAccountId B =
     account_tuple B [parent_is_preset B, sibling_converts_via B, account_id32_aliases B]"

definition XcmOriginToTransactDispatchOrigin ::
    "('acc, 'origin, 'msg, 'router) xcm_builder \<Rightarrow> location \<Rightarrow> 'origin option" where
  "XcmOriginToTransactDispatchOrigin B =
     origin_tuple B [sovereign_signed_via B (LocationToAccountId B), relay_chain_as_native B,
       sibling_as_native B, signed_account_as_native B, xcm_passthrough B]"

section \<open>The barrier\<close>

text \<open>\<open>deny_reserve_transfer_to_relay\<close> is the barrier that denies, the others allow.\<close>

definition Barrier :: "('acc, 'origin, 'msg, 'router) xcm_builder \<Rightarrow> u32 \<Rightarrow> location \<Rightarrow> 'msg \<Rightarrow> bool" where
  "Barrier B pid =
     trailing_set_topic B
       (deny_then_try B (deny_reserve_transfer_to_relay B)
          (barrier_tuple B
             [take_weight_credit B,
              with_computed_origin B
                (barrier_tuple B
                   [allow_paid_execution_from B (\<lambda>l. True),
                    allow_unpaid_execution_from B ParentOrParentsExecutivePlurality])
                (UniversalLocation pid) 8]))"

section \<open>Weights and limits\<close>

definition UnitWeightCost :: "('w, 'p) weight_api \<Rightarrow> 'w" where
  "UnitWeightCost W = from_parts W 1000000000 (64 * 1024)"

definition MaxInstructions :: u32 where "MaxInstructions = 100"

definition MaxAssetsIntoHolding :: u32 where "MaxAssetsIntoHolding = 64"

section \<open>Routing\<close>

text \<open>The upward queue to the relay chain, then the queue to the sibling chains.\<close>

definition XcmRouter :: "('acc, 'origin, 'msg, 'router) xcm_builder \<Rightarrow> 'router" where
  "XcmRouter B = with_unique_topic B (router_tuple B [parent_as_ump B, xcmp_queue_router B])"

section \<open>Who executes for free\<close>

lemma ParentOrParentsExecutivePlurality_iff:
  "ParentOrParentsExecutivePlurality l \<longleftrightarrow>
     l = RelayLocation \<or> l = RelayLocation\<lparr>interior := [Plurality Body_Executive]\<rparr>"
proof (cases "interior l")
  case (Cons j js)
  then show ?thesis
    by (cases l; cases j; cases js) (auto simp: ParentOrParentsExecutivePlurality_def RelayLocation_def)
qed (cases l, simp add: ParentOrParentsExecutivePlurality_def RelayLocation_def)

section \<open>The executor and the pallet\<close>

text \<open>
  Assets and calls are the executor's types. \<open>()\<close> and \<open>Nothing\<close> as a filter let nothing pass,
  \<open>Everything\<close> lets everything pass.
\<close>

record ('acc, 'origin, 'msg, 'router, 'asset, 'call, 'w, 'tr, 'trader) executor_config =
  ec_XcmSender :: 'router
  ec_AssetTransactor :: 'tr
  ec_OriginConverter :: "location \<Rightarrow> 'origin option"
  ec_IsReserve :: "'asset \<Rightarrow> location \<Rightarrow> bool"
  ec_IsTeleporter :: "'asset \<Rightarrow> location \<Rightarrow> bool"
  ec_UniversalLocation :: "junction list"
  ec_Barrier :: "location \<Rightarrow> 'msg \<Rightarrow> bool"
  ec_Weigher :: "'w \<times> u32"
  ec_Trader :: 'trader
  ec_ResponseHandler :: runtime_pallet
  ec_AssetTrap :: runtime_pallet
  ec_AssetClaims :: runtime_pallet
  ec_SubscriptionService :: runtime_pallet
  ec_PalletInstancesInfo :: "runtime_pallet list"
  ec_MaxAssetsIntoHolding :: u32
  ec_UniversalAliases :: "location \<Rightarrow> junction \<Rightarrow> bool"
  ec_SafeCallFilter :: "'call \<Rightarrow> bool"
  ec_Aliasers :: "location \<Rightarrow> location \<Rightarrow> bool"
  ec_XcmRecorder :: runtime_pallet

text \<open>\<open>fungible_adapter\<close> is \<open>FungibleAdapter\<close> over a currency, a location of the asset and accounts.\<close>

definition LocalAssetTransactor ::
    "('acc, 'origin, 'msg, 'router) xcm_builder \<Rightarrow>
     (runtime_pallet \<Rightarrow> location \<Rightarrow> (location \<Rightarrow> 'acc option) \<Rightarrow> 'tr) \<Rightarrow> 'tr" where
  "LocalAssetTransactor B fungible_adapter =
     fungible_adapter Balances RelayLocation (LocationToAccountId B)"

text \<open>
  \<open>native_asset\<close> is \<open>NativeAsset\<close>, \<open>using_components\<close> is \<open>UsingComponents\<close> over the fee polynomial, the
  location that pays and the currency.
\<close>

definition XcmConfig ::
    "('acc, 'origin, 'msg, 'router) xcm_builder \<Rightarrow> ('w, 'p) weight_api \<Rightarrow> u32 \<Rightarrow>
     (runtime_pallet \<Rightarrow> location \<Rightarrow> (location \<Rightarrow> 'acc option) \<Rightarrow> 'tr) \<Rightarrow>
     ('asset \<Rightarrow> location \<Rightarrow> bool) \<Rightarrow>
     (weight_to_fee_coefficient list \<Rightarrow> location \<Rightarrow> runtime_pallet \<Rightarrow> 'trader) \<Rightarrow>
     weight_to_fee_coefficient list \<Rightarrow>
     ('acc, 'origin, 'msg, 'router, 'asset, 'call, 'w, 'tr, 'trader) executor_config" where
  "XcmConfig B W pid fungible_adapter native_asset using_components weight_to_fee_poly =
     \<lparr>ec_XcmSender = XcmRouter B,
      ec_AssetTransactor = LocalAssetTransactor B fungible_adapter,
      ec_OriginConverter = XcmOriginToTransactDispatchOrigin B,
      ec_IsReserve = native_asset,
      ec_IsTeleporter = (\<lambda>asset l. False),
      ec_UniversalLocation = UniversalLocation pid,
      ec_Barrier = Barrier B pid,
      ec_Weigher = (UnitWeightCost W, MaxInstructions),
      ec_Trader = using_components weight_to_fee_poly RelayLocation Balances,
      ec_ResponseHandler = PolkadotXcm,
      ec_AssetTrap = PolkadotXcm,
      ec_AssetClaims = PolkadotXcm,
      ec_SubscriptionService = PolkadotXcm,
      ec_PalletInstancesInfo = AllPalletsWithSystem,
      ec_MaxAssetsIntoHolding = MaxAssetsIntoHolding,
      ec_UniversalAliases = (\<lambda>l j. False),
      ec_SafeCallFilter = (\<lambda>call. True),
      ec_Aliasers = (\<lambda>l l'. False),
      ec_XcmRecorder = PolkadotXcm\<rparr>"

text \<open>\<open>signed_to_account_id32\<close> is \<open>SignedToAccountId32\<close>: the location of a signed origin.\<close>

definition LocalOriginToLocation :: "('origin \<Rightarrow> location option) \<Rightarrow> 'origin \<Rightarrow> location option" where
  "LocalOriginToLocation signed_to_account_id32 = signed_to_account_id32"

record ('acc, 'origin, 'msg, 'router, 'w, 'assets) pallet_xcm_config =
  px_SendXcmOrigin :: "'origin \<Rightarrow> location option"
  px_XcmRouter :: 'router
  px_ExecuteXcmOrigin :: "'origin \<Rightarrow> location option"
  px_XcmExecuteFilter :: "location \<times> 'msg \<Rightarrow> bool"
  px_XcmTeleportFilter :: "location \<times> 'assets \<Rightarrow> bool"
  px_XcmReserveTransferFilter :: "location \<times> 'assets \<Rightarrow> bool"
  px_Weigher :: "'w \<times> u32"
  px_UniversalLocation :: "junction list"
  px_VERSION_DISCOVERY_QUEUE_SIZE :: u32
  px_AdvertisedXcmVersion :: u32
  px_Currency :: runtime_pallet
  px_SovereignAccountOf :: "location \<Rightarrow> 'acc option"
  px_MaxLockers :: u32
  px_AdminOrigin :: "'origin \<Rightarrow> bool"
  px_MaxRemoteLockConsumers :: u32

text \<open>\<open>ensure_xcm_origin\<close> is \<open>EnsureXcmOrigin\<close>: the location the conversion gives, if it gives one.\<close>

definition runtime_pallet_xcm_config ::
    "('acc, 'origin, 'msg, 'router) xcm_builder \<Rightarrow> ('w, 'p) weight_api \<Rightarrow> u32 \<Rightarrow> u32 \<Rightarrow>
     (('origin \<Rightarrow> location option) \<Rightarrow> 'origin \<Rightarrow> location option) \<Rightarrow> ('origin \<Rightarrow> location option) \<Rightarrow>
     ('origin \<Rightarrow> bool) \<Rightarrow> ('acc, 'origin, 'msg, 'router, 'w, 'assets) pallet_xcm_config" where
  "runtime_pallet_xcm_config B W pid current_xcm_version ensure_xcm_origin signed_to_account_id32 ensure_root =
     \<lparr>px_SendXcmOrigin = ensure_xcm_origin (LocalOriginToLocation signed_to_account_id32),
      px_XcmRouter = XcmRouter B,
      px_ExecuteXcmOrigin = ensure_xcm_origin (LocalOriginToLocation signed_to_account_id32),
      px_XcmExecuteFilter = (\<lambda>_. False),
      px_XcmTeleportFilter = (\<lambda>_. True),
      px_XcmReserveTransferFilter = (\<lambda>_. False),
      px_Weigher = (UnitWeightCost W, MaxInstructions),
      px_UniversalLocation = UniversalLocation pid,
      px_VERSION_DISCOVERY_QUEUE_SIZE = 100,
      px_AdvertisedXcmVersion = current_xcm_version,
      px_Currency = Balances,
      px_SovereignAccountOf = LocationToAccountId B,
      px_MaxLockers = 8,
      px_AdminOrigin = ensure_root,
      px_MaxRemoteLockConsumers = 0\<rparr>"

text \<open>
  No local account runs a message or transfers a reserve: the pallet's filters refuse both, for
  every message and every asset. A teleport passes the pallet's filter, but the executor accepts
  no teleported asset from anywhere. Sending is open to every origin that has a location.
\<close>

theorem local_origins_execute_nothing:
  assumes "\<And>f origin. ensure_xcm_origin f origin = f origin"
  shows "\<not> px_XcmExecuteFilter (runtime_pallet_xcm_config B W pid v ensure_xcm_origin conv root) (l, msg) \<and>
    \<not> px_XcmReserveTransferFilter (runtime_pallet_xcm_config B W pid v ensure_xcm_origin conv root) (l, assets) \<and>
    px_XcmTeleportFilter (runtime_pallet_xcm_config B W pid v ensure_xcm_origin conv root) (l, assets) \<and>
    \<not> ec_IsTeleporter (XcmConfig B W pid adapter native trader poly) asset l \<and>
    px_SendXcmOrigin (runtime_pallet_xcm_config B W pid v ensure_xcm_origin conv root) origin = conv origin"
  using assms by (simp add: runtime_pallet_xcm_config_def XcmConfig_def LocalOriginToLocation_def)

end
