(* ===== verification/Runtime_Properties.thy ===== *)
theory Runtime_Properties
  imports Xcm_Config
begin

text \<open>
  What the runtime's configuration guarantees: the limits of its blocks, the weights of the calls
  and that they fit, the order of its pallets, and that its constants fit each other and the
  genesis presets. A weight library of pairs serves the witnesses.
\<close>

section \<open>A concrete weight library\<close>

definition nearest_percent :: "u32 \<Rightarrow> u64 \<Rightarrow> u64" where
  "nearest_percent k x = of_nat ((unat k * unat x + 49) div 100)"

definition pair_weights :: "(u64 \<times> u64, u32) weight_api" where
  "pair_weights =
     \<lparr>from_parts = Pair, ref_time = fst, proof_size = snd,
      weight_saturating_add = (\<lambda>v w. (saturating_add (fst v) (fst w), saturating_add (snd v) (snd w))),
      weight_add = (\<lambda>v w. (fst v + fst w, snd v + snd w)),
      weight_sub = (\<lambda>v w. (fst v - fst w, snd v - snd w)),
      weight_saturating_div = (\<lambda>w d. (fst w div d, snd w div d)),
      db_reads = (\<lambda>db n. (saturating_mul (db_read db) n, 0)),
      db_writes = (\<lambda>db n. (saturating_mul (db_write db) n, 0)),
      db_reads_writes = (\<lambda>db n m. (saturating_add (saturating_mul (db_read db) n)
         (saturating_mul (db_write db) m), saturating_add 0 0)),
      from_percent = id,
      fraction_mul = (\<lambda>k w. (nearest_percent k (fst w), nearest_percent k (snd w))),
      WEIGHT_REF_TIME_PER_NANOS = 1000, WEIGHT_REF_TIME_PER_MICROS = 1000000,
      WEIGHT_REF_TIME_PER_MILLIS = 1000000000, WEIGHT_REF_TIME_PER_SECOND = 1000000000000,
      MAX_POV_SIZE = 5242880,
      frame_RocksDbWeight = \<lparr>db_read = 25000000, db_write = 100000000\<rparr>\<rparr>"

lemma nearest_percent:
  assumes "k \<le> 100"
  shows "is_percent_of (unat k) (unat x) (unat (nearest_percent k x))"
proof -
  let ?n = "(unat k * unat x + 49) div 100"
  have "unat k \<le> 100" using assms by (simp add: word_le_nat_alt)
  then have "unat k * unat x \<le> 100 * unat x" by simp
  then have "?n \<le> unat x" by linarith
  also have "\<dots> < 2 ^ 64" using unsigned_less [of x] by simp
  finally have "unat (of_nat ?n :: u64) = ?n"
    by (simp only: unat_of_nat take_bit_nat_eq_self_iff) simp
  moreover have "100 * ?n \<le> unat k * unat x + 49" "unat k * unat x + 49 < 100 * ?n + 100"
    by linarith+
  ultimately show ?thesis by (simp add: is_percent_of_def nearest_percent_def)
qed

lemma pair_weight_laws: "weight_laws pair_weights"
  by (simp add: weight_laws_def pair_weights_def nearest_percent)

section \<open>Blocks\<close>

lemma maximum_block_weight:
  assumes "weight_laws W"
  shows "unat (ref_time W (MAXIMUM_BLOCK_WEIGHT W)) = 2000000000000"
    "proof_size W (MAXIMUM_BLOCK_WEIGHT W) = ucast (MAX_POV_SIZE W)"
  using assms
  by (simp_all add: MAXIMUM_BLOCK_WEIGHT_def weight_laws_parts saturating_mul_def)

lemma percent_of_weight_le:
  assumes "weight_laws W" and "k < 100"
  shows "ref_time W (fraction_mul W (from_percent W k) w) \<le> ref_time W w"
    "proof_size W (fraction_mul W (from_percent W k) w) \<le> proof_size W w"
proof -
  have k: "k \<le> 100" "unat k < 100" using assms(2) by (simp_all add: word_less_nat_alt word_le_nat_alt)
  show "ref_time W (fraction_mul W (from_percent W k) w) \<le> ref_time W w"
    using weight_laws_percent(1) [OF assms(1) k(1)] is_percent_of_le [OF _ k(2)]
    unfolding word_le_nat_alt by blast
  show "proof_size W (fraction_mul W (from_percent W k) w) \<le> proof_size W w"
    using weight_laws_percent(2) [OF assms(1) k(1)] is_percent_of_le [OF _ k(2)]
    unfolding word_le_nat_alt by blast
qed

text \<open>
  How the runtime divides a block. A block has two seconds of reference time. Normal calls get
  one and a half seconds, and the reserve of the operational calls is exactly the rest, in time and
  in proof size, so that together they make up the block and no more; the reserves for downward and
  sideward messages are a quarter of the block each, and serving the message queue takes at most
  the block. Every class counts the same base weight per extrinsic.
\<close>

theorem block_is_divided:
  assumes "weight_laws W"
    and normal: "max_total (runtime_class_weights W Normal init) = Some normal"
    and reserve: "reserved (runtime_class_weights W Operational init') = Some reserve"
  shows "unat (ref_time W normal) = 1500000000000 \<and> unat (ref_time W reserve) = 500000000000 \<and>
    proof_size W normal + proof_size W reserve = ucast (MAX_POV_SIZE W) \<and>
    max_total (runtime_class_weights W Operational init') = Some (MAXIMUM_BLOCK_WEIGHT W) \<and>
    base_extrinsic (runtime_class_weights W cls init'') = ExtrinsicBaseWeight W \<and>
    4 * unat (ref_time W (ReservedXcmpWeight W)) = 2000000000000 \<and>
    ReservedDmpWeight W = ReservedXcmpWeight W \<and>
    ref_time W (MessageQueueServiceWeight W w) \<le> ref_time W w"
proof -
  let ?max = "MAXIMUM_BLOCK_WEIGHT W"
  have n: "normal = fraction_mul W (from_percent W 75) ?max" and r: "reserve = weight_sub W ?max normal"
    using normal reserve by (auto simp: runtime_class_weights_def NORMAL_DISPATCH_RATIO_def Let_def)
  have le: "ref_time W normal \<le> ref_time W ?max" "proof_size W normal \<le> proof_size W ?max"
    unfolding n by (rule percent_of_weight_le [OF assms(1)], simp)+
  have "is_percent_of 75 2000000000000 (unat (ref_time W normal))"
    using weight_laws_percent(1) [OF assms(1), of 75 ?max]
    by (simp add: n maximum_block_weight(1) [OF assms(1)])
  then have nt: "unat (ref_time W normal) = 1500000000000" by (auto simp: is_percent_of_def)
  have "unat (ref_time W reserve) = unat (ref_time W ?max) - unat (ref_time W normal)"
    unfolding r weight_laws_sub(1) [OF assms(1) le] using le(1) by (simp add: unat_sub)
  then have rt: "unat (ref_time W reserve) = 500000000000"
    by (simp add: nt maximum_block_weight(1) [OF assms(1)])
  have ps: "proof_size W normal + proof_size W reserve = ucast (MAX_POV_SIZE W)"
    unfolding r weight_laws_sub(2) [OF assms(1) le] maximum_block_weight(2) [OF assms(1)] by simp
  have "unat (ref_time W (ReservedXcmpWeight W)) = 2000000000000 div 4"
    using maximum_block_weight(1) [OF assms(1)]
    by (simp add: ReservedXcmpWeight_def weight_laws_parts(5) [OF assms(1)] unat_div_distrib)
  moreover have "ref_time W (MessageQueueServiceWeight W w) \<le> ref_time W w"
    unfolding MessageQueueServiceWeight_def by (rule percent_of_weight_le(1) [OF assms(1)]) simp
  moreover have "base_extrinsic (runtime_class_weights W cls init'') = ExtrinsicBaseWeight W"
    by (cases cls) (simp_all add: runtime_class_weights_def)
  ultimately show ?thesis
    using nt rt ps
    by (simp add: runtime_class_weights_def ReservedXcmpWeight_def ReservedDmpWeight_def)
qed

definition zero_class :: "(u64 \<times> u64) weights_per_class" where
  "zero_class = \<lparr>base_extrinsic = (0, 0), max_total = None, reserved = None\<rparr>"

theorem block_is_divided_witness:
  "\<exists>normal reserve. max_total (runtime_class_weights pair_weights Normal zero_class) = Some normal \<and>
     reserved (runtime_class_weights pair_weights Operational zero_class) = Some reserve \<and>
     unat (ref_time pair_weights normal) = 1500000000000 \<and>
     unat (ref_time pair_weights reserve) = 500000000000"
proof -
  obtain normal where n: "max_total (runtime_class_weights pair_weights Normal zero_class) = Some normal"
    by (simp add: runtime_class_weights_def)
  moreover obtain reserve
    where r: "reserved (runtime_class_weights pair_weights Operational zero_class) = Some reserve"
    by (simp add: runtime_class_weights_def)
  ultimately show ?thesis
    using block_is_divided [OF pair_weight_laws n r, of Mandatory zero_class "(0, 0)"] by simp
qed

text \<open>
  The checks the weight files come with hold: executing an empty block, an empty extrinsic and a
  single read or write of either database weigh within the limits the tests state.
\<close>

theorem weight_constants_are_sane:
  assumes "weight_laws W"
  shows "block_execution_weight_sane W \<and> extrinsic_base_weight_sane W \<and> rocksdb_weight_sane W \<and>
    paritydb_weight_sane W"
  using assms
  by (simp add: block_execution_weight_sane_def extrinsic_base_weight_sane_def rocksdb_weight_sane_def
      paritydb_weight_sane_def BlockExecutionWeight_def ExtrinsicBaseWeight_def RocksDbWeight_def
      ParityDbWeight_def block_execution_ref_time_def extrinsic_base_ref_time_def weight_laws_parts
      saturating_mul_def word_le_nat_alt)

theorem weight_constants_are_sane_witness: "rocksdb_weight_sane pair_weights"
  using weight_constants_are_sane [OF pair_weight_laws] by simp

section \<open>Calls\<close>

text \<open>The heaviest weights of the calls, over the database weight of the runtime.\<close>

lemma runtime_write:
  assumes "weight_laws W"
  shows "ref_time W (db_writes W (RocksDbWeight (WEIGHT_REF_TIME_PER_NANOS W)) 1) = 100000000"
    "ref_time W (db_reads W (RocksDbWeight (WEIGHT_REF_TIME_PER_NANOS W)) 1) = 25000000"
  using assms by (simp_all add: weight_laws_parts RocksDbWeight_def saturating_mul_def)

text \<open>
  What the calls of the on-demand pallet are charged. Placing the order inherent is mandatory
  and weighs nothing, whatever the proof it carries; the three setters are normal calls without
  proof size, whose reference time is one database write and the measured time, so that each of
  them together with the base weight of an extrinsic fills less than a thousandth of what a block
  has for normal calls.
\<close>

theorem on_demand_call_weights:
  assumes "weight_laws W"
    and w: "call_weight W (SubstrateWeight W (RocksDbWeight (WEIGHT_REF_TIME_PER_NANOS W))) c = (weight, cls)"
  shows "cls = (if is_inherent c then Mandatory else Normal) \<and> proof_size W weight = 0 \<and>
    (is_inherent c \<longleftrightarrow> ref_time W weight = 0) \<and>
    1000 * (unat (ref_time W weight) + unat (ref_time W (ExtrinsicBaseWeight W))) < 1500000000000"
proof -
  have base: "unat (ref_time W (ExtrinsicBaseWeight W)) = 125000000"
    using assms(1)
    by (simp add: ExtrinsicBaseWeight_def extrinsic_base_ref_time_def weight_laws_parts saturating_mul_def)
  show ?thesis
    using assms base
    by (cases c) (auto simp: SubstrateWeight_def weight_laws_parts(1-4,10) runtime_write saturating_add_def)
qed

theorem on_demand_call_weights_witness:
  "\<exists>weight cls. call_weight pair_weights
      (SubstrateWeight pair_weights (RocksDbWeight (WEIGHT_REF_TIME_PER_NANOS pair_weights)))
      (Set_slot_width 3 :: (u128, unit) call) = (weight, cls) \<and> cls = Normal \<and>
    proof_size pair_weights weight = 0"
proof -
  obtain weight cls where w: "call_weight pair_weights
      (SubstrateWeight pair_weights (RocksDbWeight (WEIGHT_REF_TIME_PER_NANOS pair_weights)))
      (Set_slot_width 3 :: (u128, unit) call) = (weight, cls)" by fastforce
  from on_demand_call_weights [OF pair_weight_laws w] w show ?thesis by auto
qed

text \<open>
  The example pallet undercharges its calls. What its calls are annotated with is, over the same
  database weight, less than what its own benchmarks measured and its \<open>WeightInfo\<close> would charge; by
  almost nine microseconds for \<open>do_something\<close>, and by six and all of the proof size for
  \<open>cause_error\<close>.
\<close>

theorem template_calls_are_undercharged:
  assumes "weight_laws W" and db: "db = RocksDbWeight (WEIGHT_REF_TIME_PER_NANOS W)"
    and info: "info = template_SubstrateWeight W db"
  shows "unat (ref_time W (wi_do_something info)) =
      unat (ref_time W (do_something_weight W db)) + 8990000 \<and>
    unat (ref_time W (wi_cause_error info)) = unat (ref_time W (cause_error_weight W db)) + 5990000 \<and>
    proof_size W (wi_cause_error info) = 1489 \<and> proof_size W (cause_error_weight W db) = 0"
proof -
  note parts = weight_laws_parts(1-4,8,10,11) [OF assms(1)]
    runtime_write [OF assms(1), folded db]
  have something: "ref_time W (do_something_weight W db) = 10000 + 100000000"
    unfolding do_something_weight_def
    by (subst weight_laws_add(1) [OF assms(1)]) (simp_all add: parts)
  have error: "ref_time W (cause_error_weight W db) = 10000 + (25000000 + 100000000)"
    "proof_size W (cause_error_weight W db) = 0"
    unfolding cause_error_weight_def
    by (subst weight_laws_add [OF assms(1)]; simp add: parts saturating_add_def)+
  show ?thesis
    by (simp add: something error info template_SubstrateWeight_def parts saturating_add_def)
qed

theorem template_calls_are_undercharged_witness:
  "unat (ref_time pair_weights (wi_do_something (template_SubstrateWeight pair_weights (RocksDbWeight 1000)))) =
     unat (ref_time pair_weights (do_something_weight pair_weights (RocksDbWeight 1000))) + 8990000"
proof -
  have "RocksDbWeight 1000 = RocksDbWeight (WEIGHT_REF_TIME_PER_NANOS pair_weights)"
    by (simp add: pair_weights_def)
  from template_calls_are_undercharged [OF pair_weight_laws this refl] show ?thesis by blast
qed

section \<open>Pallets and constants\<close>

text \<open>
  The pallets of the runtime. Every pallet is in the runtime once, the declaration order is the
  order of the indices (so no two pallets share one), the four pallets of collator support keep the
  order they must have, and the on-demand pallet ends a block after Aura, so that the authorities
  it copies are those Aura has at the end of the block. Every benchmark is of a pallet of the
  runtime, and no pallet is benchmarked twice.
\<close>

theorem pallets_are_ordered:
  "set AllPalletsWithSystem = UNIV \<and> sorted_wrt (<) AllPalletsWithSystem \<and>
   distinct (map pallet_index AllPalletsWithSystem) \<and>
   sorted_wrt (<) [Authorship, CollatorSelection, Session, Aura, OnDemand] \<and>
   distinct (map snd defined_benchmarks)"
proof -
  have "a \<in> set AllPalletsWithSystem" for a
    by (cases a) (simp_all add: AllPalletsWithSystem_def)
  then show ?thesis
    by (auto simp: AllPalletsWithSystem_def defined_benchmarks_def less_runtime_pallet_def)
qed

text \<open>
  The constants of the runtime fit each other. A session lasts six hours of blocks, a collator is
  kicked after exactly one session without a block, a block takes two slots of the relay chain, a
  day is a whole number of sessions; and the invulnerables of every genesis preset are within the
  limit of the collator selection and, with all candidates, within that of Aura.
\<close>

theorem constants_fit:
  assumes "get_preset local_preset dev_preset xcm kr ident = Some g"
  shows "unat Period * unat MILLI_SECS_PER_BLOCK = 6 * 60 * 60 * 1000 \<and>
    KickThreshold runtime_collator_selection_config = Period \<and> SessionLength = Period \<and>
    unat SLOT_DURATION = 2 * unat RELAY_CHAIN_SLOT_DURATION_MILLIS \<and>
    unat DAYS = 4 * unat Period \<and>
    length (invulnerables g) \<le> unat (MaxInvulnerables runtime_collator_selection_config) \<and>
    unat (MaxInvulnerables runtime_collator_selection_config) +
      unat (MaxCandidates runtime_collator_selection_config) \<le> unat (MaxAuthorities runtime_aura_config)"
  using assms
  by (auto simp: get_preset_def local_testnet_genesis_def development_config_genesis_def
      testnet_genesis_def Period_def SessionLength_def HOURS_def DAYS_def MINUTES_def
      MILLI_SECS_PER_BLOCK_def SLOT_DURATION_def RELAY_CHAIN_SLOT_DURATION_MILLIS_def
      runtime_collator_selection_config_def runtime_aura_config_def split: if_splits)

theorem constants_fit_witness:
  "unat Period * unat MILLI_SECS_PER_BLOCK = 21600000"
proof -
  have "get_preset ''local_testnet'' ''development'' 4
      \<lparr>alice_account = 1, alice_public = 11 :: nat, bob_account = 2, bob_public = 12,
       well_known_accounts = [1, 2]\<rparr> ''development'' =
      Some (development_config_genesis 4 \<lparr>alice_account = 1, alice_public = 11 :: nat,
        bob_account = 2, bob_public = 12, well_known_accounts = [1, 2]\<rparr>)"
    by (simp add: get_preset_def)
  from constants_fit [OF this] show ?thesis by simp
qed

end
