(* ===== verification/Runtime_Apis.thy ===== *)
theory Runtime_Apis
  imports Runtime_Config Service_Properties Template_Properties
begin

text \<open>
  The runtime APIs (\<open>template/runtime/src/apis.rs\<close>, and the declaration of the on-demand one in
  \<open>primitives/order/src/lib.rs\<close>): each trait the runtime implements is the record of its functions,
  and each \<open>impl\<close> the record's value over the services of FRAME it hands its calls to, the parameter
  \<open>frame_services\<close>. The last section says what the order service and the fee criteria of a node see
  through them.
\<close>

section \<open>The services of FRAME\<close>

text \<open>
  \<open>'s\<close> is the state of the whole runtime; the functions that build or execute a block change it, the
  others read it.
\<close>

record ('s, 'blk, 'hdr, 'xt, 'inh, 'call, 'w, 'info, 'details) frame_services =
  fs_execute_block :: "'blk \<Rightarrow> 's \<Rightarrow> (unit, 's) outcome"
  fs_initialize_block :: "'hdr \<Rightarrow> 's \<Rightarrow> (unit, bool \<times> 's) outcome"
  fs_metadata :: bytes
  fs_metadata_at_version :: "u32 \<Rightarrow> bytes option"
  fs_metadata_versions :: "u32 list"
  fs_apply_extrinsic :: "'xt \<Rightarrow> 's \<Rightarrow> (unit, (string + unit) \<times> 's) outcome"
  fs_finalize_block :: "'s \<Rightarrow> (unit, 'hdr \<times> 's) outcome"
  fs_create_extrinsics :: "'inh \<Rightarrow> 's \<Rightarrow> (unit, 'xt list) outcome"
  fs_check_extrinsics :: "'inh \<Rightarrow> 'blk \<Rightarrow> 's \<Rightarrow> string + unit"
  fs_validate_transaction :: "bool \<Rightarrow> 'xt \<Rightarrow> h256 \<Rightarrow> 's \<Rightarrow> string + unit"
  fs_offchain_worker :: "'hdr \<Rightarrow> 's \<Rightarrow> 's"
  fs_session_keys_generate :: "bytes option \<Rightarrow> bytes"
  fs_session_keys_decode :: "bytes \<Rightarrow> (bytes \<times> bytes) list option"
  fs_account_nonce :: "account_id \<Rightarrow> 's \<Rightarrow> u32"
  fs_query_info :: "'xt \<Rightarrow> u32 \<Rightarrow> 's \<Rightarrow> 'info"
  fs_query_fee_details :: "'xt \<Rightarrow> u32 \<Rightarrow> 's \<Rightarrow> 'details"
  fs_weight_to_fee :: "'w \<Rightarrow> u128"
  fs_length_to_fee :: "u32 \<Rightarrow> u128"
  fs_query_call_info :: "'call \<Rightarrow> u32 \<Rightarrow> 's \<Rightarrow> 'info"
  fs_query_call_fee_details :: "'call \<Rightarrow> u32 \<Rightarrow> 's \<Rightarrow> 'details"
  fs_collect_collation_info :: "'hdr \<Rightarrow> 's \<Rightarrow> bytes"
  fs_list_benchmarks :: "bool \<Rightarrow> (string \<times> runtime_pallet) list \<Rightarrow> string list"
  fs_storage_info :: "runtime_pallet list \<Rightarrow> string list"
  fs_build_state :: "bytes \<Rightarrow> 's \<Rightarrow> string + 's"

section \<open>Aura and the blocks\<close>

record 'auth aura_api =
  aura_slot_duration :: u64
  aura_authorities :: "'auth list"

definition impl_AuraApi :: "('auth, 'vid, 'thr, 'cur, 'bal) chain \<Rightarrow> 'auth aura_api" where
  "impl_AuraApi s =
     \<lparr>aura_slot_duration = impl_slot_duration, aura_authorities = api_authorities_of s\<rparr>"

definition impl_AuraUnincludedSegmentApi ::
    "('hook \<Rightarrow> h256 \<Rightarrow> u64 \<Rightarrow> bool) \<Rightarrow> (u32 \<Rightarrow> u32 \<Rightarrow> u32 \<Rightarrow> 'hook) \<Rightarrow> h256 \<Rightarrow> u64 \<Rightarrow> bool" where
  "impl_AuraUnincludedSegmentApi can_build_upon hook included_hash slot =
     impl_can_build_upon can_build_upon hook included_hash slot"

record ('s, 'blk, 'hdr) core_api =
  core_version :: runtime_version
  core_execute_block :: "'blk \<Rightarrow> 's \<Rightarrow> (unit, 's) outcome"
  core_initialize_block :: "'hdr \<Rightarrow> 's \<Rightarrow> (unit, bool \<times> 's) outcome"

definition impl_Core ::
    "('s, 'blk, 'hdr, 'xt, 'inh, 'call, 'w, 'info, 'details) frame_services \<Rightarrow>
     ('s, 'blk, 'hdr) core_api" where
  "impl_Core F =
     \<lparr>core_version = VERSION,
      core_execute_block = (\<lambda>block. fs_execute_block F block),
      core_initialize_block = (\<lambda>hdr. fs_initialize_block F hdr)\<rparr>"

record metadata_api =
  md_metadata :: bytes
  md_metadata_at_version :: "u32 \<Rightarrow> bytes option"
  md_metadata_versions :: "u32 list"

definition impl_Metadata ::
    "('s, 'blk, 'hdr, 'xt, 'inh, 'call, 'w, 'info, 'details) frame_services \<Rightarrow> metadata_api" where
  "impl_Metadata F =
     \<lparr>md_metadata = fs_metadata F,
      md_metadata_at_version = (\<lambda>version. fs_metadata_at_version F version),
      md_metadata_versions = fs_metadata_versions F\<rparr>"

record ('s, 'blk, 'hdr, 'xt, 'inh) block_builder_api =
  bb_apply_extrinsic :: "'xt \<Rightarrow> 's \<Rightarrow> (unit, (string + unit) \<times> 's) outcome"
  bb_finalize_block :: "'s \<Rightarrow> (unit, 'hdr \<times> 's) outcome"
  bb_inherent_extrinsics :: "'inh \<Rightarrow> 's \<Rightarrow> (unit, 'xt list) outcome"
  bb_check_inherents :: "'blk \<Rightarrow> 'inh \<Rightarrow> 's \<Rightarrow> string + unit"

definition impl_BlockBuilder ::
    "('s, 'blk, 'hdr, 'xt, 'inh, 'call, 'w, 'info, 'details) frame_services \<Rightarrow>
     ('s, 'blk, 'hdr, 'xt, 'inh) block_builder_api" where
  "impl_BlockBuilder F =
     \<lparr>bb_apply_extrinsic = (\<lambda>extrinsic. fs_apply_extrinsic F extrinsic),
      bb_finalize_block = fs_finalize_block F,
      bb_inherent_extrinsics = (\<lambda>inh. fs_create_extrinsics F inh),
      bb_check_inherents = (\<lambda>block inh. fs_check_extrinsics F inh block)\<rparr>"

section \<open>Transactions, keys, fees, collations\<close>

definition impl_TaggedTransactionQueue ::
    "('s, 'blk, 'hdr, 'xt, 'inh, 'call, 'w, 'info, 'details) frame_services \<Rightarrow>
     bool \<Rightarrow> 'xt \<Rightarrow> h256 \<Rightarrow> 's \<Rightarrow> string + unit" where
  "impl_TaggedTransactionQueue F source tx block_hash = fs_validate_transaction F source tx block_hash"

definition impl_OffchainWorkerApi ::
    "('s, 'blk, 'hdr, 'xt, 'inh, 'call, 'w, 'info, 'details) frame_services \<Rightarrow> 'hdr \<Rightarrow> 's \<Rightarrow> 's" where
  "impl_OffchainWorkerApi F hdr = fs_offchain_worker F hdr"

record session_keys_api =
  sk_generate :: "bytes option \<Rightarrow> bytes"
  sk_decode :: "bytes \<Rightarrow> (bytes \<times> bytes) list option"

definition impl_SessionKeys ::
    "('s, 'blk, 'hdr, 'xt, 'inh, 'call, 'w, 'info, 'details) frame_services \<Rightarrow> session_keys_api" where
  "impl_SessionKeys F =
     \<lparr>sk_generate = (\<lambda>seed. fs_session_keys_generate F seed),
      sk_decode = (\<lambda>encoded. fs_session_keys_decode F encoded)\<rparr>"

definition impl_AccountNonceApi ::
    "('s, 'blk, 'hdr, 'xt, 'inh, 'call, 'w, 'info, 'details) frame_services \<Rightarrow> account_id \<Rightarrow> 's \<Rightarrow> u32" where
  "impl_AccountNonceApi F acc = fs_account_nonce F acc"

record ('s, 'x, 'w, 'info, 'details) payment_api =
  pay_query_info :: "'x \<Rightarrow> u32 \<Rightarrow> 's \<Rightarrow> 'info"
  pay_query_fee_details :: "'x \<Rightarrow> u32 \<Rightarrow> 's \<Rightarrow> 'details"
  pay_query_weight_to_fee :: "'w \<Rightarrow> u128"
  pay_query_length_to_fee :: "u32 \<Rightarrow> u128"

definition impl_TransactionPaymentApi ::
    "('s, 'blk, 'hdr, 'xt, 'inh, 'call, 'w, 'info, 'details) frame_services \<Rightarrow>
     ('s, 'xt, 'w, 'info, 'details) payment_api" where
  "impl_TransactionPaymentApi F =
     \<lparr>pay_query_info = (\<lambda>uxt len. fs_query_info F uxt len),
      pay_query_fee_details = (\<lambda>uxt len. fs_query_fee_details F uxt len),
      pay_query_weight_to_fee = (\<lambda>weight. fs_weight_to_fee F weight),
      pay_query_length_to_fee = (\<lambda>len. fs_length_to_fee F len)\<rparr>"

definition impl_TransactionPaymentCallApi ::
    "('s, 'blk, 'hdr, 'xt, 'inh, 'call, 'w, 'info, 'details) frame_services \<Rightarrow>
     ('s, 'call, 'w, 'info, 'details) payment_api" where
  "impl_TransactionPaymentCallApi F =
     \<lparr>pay_query_info = (\<lambda>call len. fs_query_call_info F call len),
      pay_query_fee_details = (\<lambda>call len. fs_query_call_fee_details F call len),
      pay_query_weight_to_fee = (\<lambda>weight. fs_weight_to_fee F weight),
      pay_query_length_to_fee = (\<lambda>len. fs_length_to_fee F len)\<rparr>"

definition impl_CollectCollationInfo ::
    "('s, 'blk, 'hdr, 'xt, 'inh, 'call, 'w, 'info, 'details) frame_services \<Rightarrow> 'hdr \<Rightarrow> 's \<Rightarrow> bytes" where
  "impl_CollectCollationInfo F hdr = fs_collect_collation_info F hdr"

definition benchmark_metadata ::
    "('s, 'blk, 'hdr, 'xt, 'inh, 'call, 'w, 'info, 'details) frame_services \<Rightarrow> bool \<Rightarrow>
     string list \<times> string list" where
  "benchmark_metadata F extra =
     (let list = fs_list_benchmarks F extra defined_benchmarks;
          storage_info = fs_storage_info F AllPalletsWithSystem
      in (list, storage_info))"

definition api_build_state ::
    "('s, 'blk, 'hdr, 'xt, 'inh, 'call, 'w, 'info, 'details) frame_services \<Rightarrow> bytes \<Rightarrow> 's \<Rightarrow> string + 's" where
  "api_build_state F config s = fs_build_state F config s"

section \<open>The on-demand API\<close>

record 'thr on_demand_runtime_api =
  od_slot_width :: u32
  od_threshold_parameter :: 'thr
  od_bulk_mode :: bool

definition impl_OnDemandRuntimeApi ::
    "('auth, 'vid, 'thr, 'cur, 'bal) chain \<Rightarrow> 'thr on_demand_runtime_api" where
  "impl_OnDemandRuntimeApi s =
     \<lparr>od_slot_width = api_slot_width_of s,
      od_threshold_parameter = api_threshold_parameter_of s,
      od_bulk_mode = api_bulk_mode_of s\<rparr>"

section \<open>What the node sees\<close>

text \<open>
  A service that reads the runtime: at every block it knows, the runtime API answers from the state
  of the chain at that block.
\<close>

definition reads_runtime ::
    "(h256 \<Rightarrow> ('auth, 'vid, 'thr, 'cur, 'bal) chain) \<Rightarrow> ('e, 'auth, 'hdr) service_env \<Rightarrow> bool" where
  "reads_runtime state_at env \<longleftrightarrow> (\<forall>h.
     api_bulk_mode env h = Inr (od_bulk_mode (impl_OnDemandRuntimeApi (state_at h))) \<and>
     api_slot_width env h = Inr (od_slot_width (impl_OnDemandRuntimeApi (state_at h))) \<and>
     api_authorities env h = Inr (aura_authorities (impl_AuraApi (state_at h))))"

lemmas api_defs = impl_OnDemandRuntimeApi_def impl_AuraApi_def api_bulk_mode_of_def
  api_slot_width_of_def api_authorities_of_def api_threshold_parameter_of_def

lemma reads_runtime_wf:
  assumes "reads_runtime state_at env" and "\<And>h. wf_chain (state_at h)"
  shows "wf_env env"
  using assms by (auto simp: reads_runtime_def wf_env_def wf_chain_def api_defs)

text \<open>
  C14: the order service acts on the pallet's storage. Read through the runtime API at the head of the
  parachain, the handler submits an order only if the pallet is not in bulk mode there, the slot
  of the relay block at the pallet's width is past the recorded one, and the node holds the key of
  the authority that Aura's list at that head elects for it; the slot it records is computed with
  the pallet's width, and the order lives for the blocks of that slot.
\<close>

theorem service_acts_on_the_pallet:
  assumes "reads_runtime state_at env" and "\<And>h. wf_chain (state_at h)"
    and "decode_header_hash env (parent_head d) = Some para_head"
    and "handle_relaychain_stream p env d height r_hash pid rec = (Ok (), rec', Some x)"
  shows "BulkMode (state_at para_head) = None \<and> Aura_Authorities (state_at para_head) \<noteq> [] \<and>
    unat (last_slot rec') = slot_number height (SlotWidth (state_at para_head)) \<and>
    unat (last_slot rec) < unat (last_slot rec') \<and>
    unat (sub_mortality x) = 2 ^ (unat (SlotWidth (state_at para_head)) mod 32) \<and>
    has_keys (env_keystore env) [(auth_to_raw_vec env (elected
      (Aura_Authorities (state_at para_head)) height (SlotWidth (state_at para_head))),
      env_key_type_AURA env)]"
proof -
  note wf = reads_runtime_wf [OF assms(1,2)]
  from assms(4) show ?thesis
  proof (cases rule: handle_cases)
    case (placed w price y slot)
    then have due: "order_due env d height r_hash pid rec w price"
      and slot: "unat slot = slot_number height w"
      by (simp_all add: order_checks_due [OF wf] current_slot_Ok_iff)
    have w: "w = SlotWidth (state_at para_head)"
      using due assms(1,3) by (auto simp: order_due_def reads_runtime_def api_defs)
    have "unat (sub_mortality x) = 2 ^ (unat w mod 32)"
      using placed prepare_order_life by blast
    with due assms(1,3) placed slot w show ?thesis
      by (auto simp: order_due_def reads_runtime_def api_defs)
  qed simp_all
qed

theorem service_acts_on_the_pallet_witness:
  "reads_runtime (\<lambda>h. (default_chain () [1, 2] (\<lambda>k. None) () ::
       (u8, account_id, unit, unit, u64) chain)\<lparr>SlotWidth := 2\<rparr>) sample_env \<and>
   unat (last_slot \<lparr>relay_block_hash = Some 42, last_slot = 1\<rparr>) = slot_number 6 2"
proof -
  let ?s = "(default_chain () [1, 2] (\<lambda>k. None) () ::
    (u8, account_id, unit, unit, u64) chain)\<lparr>SlotWidth := 2\<rparr>"
  have reads: "reads_runtime (\<lambda>h. ?s) sample_env"
    by (simp add: reads_runtime_def api_defs default_chain_def sample_env_def)
  have "wf_chain ?s" by (simp add: wf_chain_def default_chain_def)
  moreover have "decode_header_hash sample_env (parent_head sample_head) = Some 9"
    by (simp add: sample_env_def)
  ultimately show ?thesis
    using service_acts_on_the_pallet [OF reads _ _ sample_handler] reads by simp
qed

text \<open>
  The node's \<open>OnDemandConfig\<close>: the order service decides with the node's \<open>FeeBasedCriteria\<close>, over the
  transactions that are ready in its pool and the client's runtime API.
\<close>

definition node_on_demand_config ::
    "('e, 'details) node_env \<Rightarrow> ('e, 'auth, 'hdr) service_env \<Rightarrow> ('e, 'auth, 'hdr) service_env" where
  "node_on_demand_config nenv env =
     env\<lparr>criteria_should_place_order := node_should_place_order nenv\<rparr>"

lemma order_due_node:
  "order_due (node_on_demand_config nenv env) d height r_hash pid rec w price \<longleftrightarrow>
     order_due (env\<lparr>criteria_should_place_order := \<lambda>h. True\<rparr>) d height r_hash pid rec w price \<and>
     node_threshold nenv \<le> true_fees nenv"
  by (auto simp: order_due_def node_on_demand_config_def node_criteria.decide_iff)

text \<open>
  C38: the template's node orders exactly when the waiting transactions pay for it. With the node's
  configuration the handler submits an order for the slot exactly when all that does not depend on
  the criteria asks for one, the transaction can be prepared, and the true sum of the fees of the
  pool's ready transactions, with no saturation, reaches the threshold in the pallet's storage at
  the node's best block; with a threshold of zero the pool does not matter.
\<close>

theorem node_orders_iff_the_pool_pays:
  fixes s :: "('auth, 'vid, u128, 'cur, 'bal) chain"
  assumes "wf_env env"
    and api: "api_threshold_parameter nenv (best_hash nenv) =
      Inr (od_threshold_parameter (impl_OnDemandRuntimeApi s))"
    and handled: "handle_relaychain_stream p (node_on_demand_config nenv env) d height r_hash pid rec = (res, rec', sub)"
  shows "(sub = Some x \<longleftrightarrow>
      (\<exists>w price. order_due (env\<lparr>criteria_should_place_order := \<lambda>h. True\<rparr>) d height r_hash pid rec w price \<and>
         unat (ThresholdParameter s) \<le> true_fees nenv \<and> shift_ok p w \<and>
         prepare_order p (relay_rpc env) pid height w price (env_keystore env) = Ok x)) \<and>
    (true_fees nenv < unat (ThresholdParameter s) \<longrightarrow> sub = None \<and> rec' = rec)"
proof -
  let ?env = "node_on_demand_config nenv env"
  have wf: "wf_env ?env" using assms(1) by (simp add: wf_env_def node_on_demand_config_def)
  have fields: "relay_rpc ?env = relay_rpc env" "env_keystore ?env = env_keystore env"
    by (simp_all add: node_on_demand_config_def)
  have threshold: "node_threshold nenv = unat (ThresholdParameter s)"
    by (simp add: node_threshold_def api api_defs)
  have checks: "order_checks p ?env d height r_hash pid rec = Ok (Inr (w, price)) \<longleftrightarrow>
      order_due (env\<lparr>criteria_should_place_order := \<lambda>h. True\<rparr>) d height r_hash pid rec w price \<and>
      unat (ThresholdParameter s) \<le> true_fees nenv \<and> shift_ok p w" for w price
    by (auto simp: order_checks_due [OF wf] order_due_node threshold)
  have "sub = None \<and> rec' = rec" if "true_fees nenv < unat (ThresholdParameter s)"
    using handled that by (cases rule: handle_cases) (simp_all add: checks)
  then show ?thesis by (simp add: handler_submits [OF handled] checks fields)
qed

theorem node_orders_iff_the_pool_pays_witness:
  "\<exists>rec' x. handle_relaychain_stream Release (node_on_demand_config \<lparr>ready = [[1], [2]], best_hash = 3,
       query_fee_details = (\<lambda>h tx len. Inr ()), final_fee = (\<lambda>_. 60),
       api_threshold_parameter = (\<lambda>h. Inr 100)\<rparr> sample_env) sample_head 6 42 2000 sample_record = (Ok (), rec', Some x)"
proof -
  let ?nenv = "\<lparr>ready = [[1], [2]], best_hash = 3,
       query_fee_details = (\<lambda>h tx len. Inr () :: string + unit), final_fee = (\<lambda>_. 60),
       api_threshold_parameter = (\<lambda>h. Inr 100)\<rparr>"
  let ?s = "(default_chain 100 [1, 2] (\<lambda>k. None) () :: (u8, account_id, u128, unit, u64) chain)"
  obtain res rec' sub where h: "handle_relaychain_stream Release (node_on_demand_config ?nenv sample_env)
      sample_head 6 42 2000 sample_record = (res, rec', sub)" by (metis prod_cases3)
  have due: "order_due (sample_env\<lparr>criteria_should_place_order := \<lambda>h. True\<rparr>) sample_head 6 42 2000
      sample_record 2 30"
    by (simp add: order_due_def sample_env_def sample_reads sample_record_def sample_keystore_def
        slot_number_def elected_def)
  have "sub = Some sample_submission"
    using node_orders_iff_the_pool_pays [OF sample_wf_env _ h, of ?s sample_submission] due sample_prepared
    by (auto simp: api_defs default_chain_def true_fees_def true_fee_def shift_ok_def sample_env_def)
  moreover from h this have "res = Ok ()"
    by (cases rule: handle_cases)
      (auto simp: node_on_demand_config_def sample_env_def sample_rpc_def)
  ultimately show ?thesis using h by blast
qed



end
