(* ===== verification/Benchmarks.thy ===== *)
theory Benchmarks
  imports Runtime_Config
begin

text \<open>
  The benchmarks of both pallets (\<open>pallets/on-demand/src/benchmarking.rs\<close>,
  \<open>template/pallets/template/src/benchmarking.rs\<close>) as functions on the state they run in, with their
  assertions as panics, and the session handler of the mock runtime
  (\<open>pallets/on-demand/src/mock.rs\<close>).
\<close>

section \<open>The on-demand pallet\<close>

datatype benchmark_error = Weightless | Call_failed dispatch_error

fun call_result :: "(dispatch_error, 'a) outcome \<Rightarrow> (benchmark_error, 'a) outcome" where
  "call_result (Panic m) = Panic m"
| "call_result (Err e) = Err (Call_failed e)"
| "call_result (Ok v) = Ok v"

definition assert_last_event ::
    "('thr, 'bal) event \<Rightarrow> ('auth, 'vid, 'thr, 'cur, 'bal) chain \<Rightarrow>
     (benchmark_error, ('auth, 'vid, 'thr, 'cur, 'bal) chain) outcome" where
  "assert_last_event e s =
     (if Events s \<noteq> [] \<and> last (Events s) = e then Ok s
      else Panic ''expected event is not equal to the last event'')"

text \<open>\<open>try_successful_origin\<close> is the admin origin's: an origin it accepts, if it can make one.\<close>

definition with_admin ::
    "'origin option \<Rightarrow> ('origin \<Rightarrow> (benchmark_error, 'a) outcome) \<Rightarrow> (benchmark_error, 'a) outcome" where
  "with_admin try_successful_origin body =
     (case try_successful_origin of None \<Rightarrow> Err Weightless | Some origin \<Rightarrow> body origin)"

definition bench_set_slot_width ::
    "('origin, 'auth, 'vid, 'thr, 'cur, 'bal, 'proof, 'rsp) config \<Rightarrow> 'origin option \<Rightarrow>
     ('auth, 'vid, 'thr, 'cur, 'bal) chain \<Rightarrow>
     (benchmark_error, ('auth, 'vid, 'thr, 'cur, 'bal) chain) outcome" where
  "bench_set_slot_width cfg try_successful_origin s =
     with_admin try_successful_origin (\<lambda>origin.
     obind (call_result (set_slot_width cfg origin 1 s)) (assert_last_event (SlotWidthSet 1)))"

definition bench_set_threshold_parameter ::
    "('origin, 'auth, 'vid, 'thr, 'cur, 'bal, 'proof, 'rsp) config \<Rightarrow> 'thr \<Rightarrow> 'origin option \<Rightarrow>
     ('auth, 'vid, 'thr, 'cur, 'bal) chain \<Rightarrow>
     (benchmark_error, ('auth, 'vid, 'thr, 'cur, 'bal) chain) outcome" where
  "bench_set_threshold_parameter cfg mock_threshold_parameter try_successful_origin s =
     with_admin try_successful_origin (\<lambda>origin.
     let param = mock_threshold_parameter in
     obind (call_result (set_threshold_parameter cfg origin param s))
       (assert_last_event (ThresholdParameterSet param)))"

definition bench_set_bulk_mode ::
    "('origin, 'auth, 'vid, 'thr, 'cur, 'bal, 'proof, 'rsp) config \<Rightarrow> 'origin option \<Rightarrow>
     ('auth, 'vid, 'thr, 'cur, 'bal) chain \<Rightarrow>
     (benchmark_error, ('auth, 'vid, 'thr, 'cur, 'bal) chain) outcome" where
  "bench_set_bulk_mode cfg try_successful_origin s =
     with_admin try_successful_origin (\<lambda>origin.
     obind (call_result (set_bulk_mode cfg origin True s)) (assert_last_event (BulkModeSet True)))"

definition bench_on_reward ::
    "('origin, 'auth, 'vid, 'thr, 'cur, 'bal, 'proof, 'rsp) config \<Rightarrow> account_id \<Rightarrow>
     ('auth, 'vid, 'thr, 'cur, 'bal) chain \<Rightarrow>
     (benchmark_error, ('auth, 'vid, 'thr, 'cur, 'bal) chain) outcome" where
  "bench_on_reward cfg rewardee s = Ok (OnReward cfg rewardee s)"

definition bench_should_place_order ::
    "('origin, 'auth, 'vid, 'thr, 'cur, 'bal, 'proof, 'rsp) config \<Rightarrow>
     ('auth, 'vid, 'thr, 'cur, 'bal) chain \<Rightarrow>
     (benchmark_error, ('auth, 'vid, 'thr, 'cur, 'bal) chain) outcome" where
  "bench_should_place_order cfg s = (let decision = should_place_order cfg s in Ok s)"

text \<open>The helpers of the two runtimes.\<close>

definition mock_threshold_parameter :: u64 where "mock_threshold_parameter = 1000"

definition runtime_mock_threshold_parameter :: u128 where "runtime_mock_threshold_parameter = 1000"

section \<open>The example pallet\<close>

definition bench_do_something ::
    "('origin \<Rightarrow> account_id option) \<Rightarrow> (account_id \<Rightarrow> 'origin) \<Rightarrow> account_id \<Rightarrow> template_state \<Rightarrow>
     (template_error, template_state) outcome" where
  "bench_do_something ensure_signed raw_signed caller s =
     obind (do_something ensure_signed (raw_signed caller) 100 s) (\<lambda>t.
     if Something t = Some 100 then Ok t else Panic ''assertion `left == right` failed'')"

definition bench_cause_error ::
    "('origin \<Rightarrow> account_id option) \<Rightarrow> (account_id \<Rightarrow> 'origin) \<Rightarrow> account_id \<Rightarrow> template_state \<Rightarrow>
     (template_error, template_state) outcome" where
  "bench_cause_error ensure_signed raw_signed caller s =
     obind (cause_error ensure_signed (raw_signed caller) (s\<lparr>Something := Some 100\<rparr>)) (\<lambda>t.
     if Something t = Some 101 then Ok t else Panic ''assertion `left == right` failed'')"

section \<open>The session handler of the mock\<close>

record session_handler =
  SessionHandlerCollators :: "account_id list"
  SessionChangeBlock :: u64

definition on_genesis_session :: "(account_id \<times> 'ks) list \<Rightarrow> session_handler \<Rightarrow> session_handler" where
  "on_genesis_session keys h = h\<lparr>SessionHandlerCollators := map fst keys\<rparr>"

definition on_new_session ::
    "u64 \<Rightarrow> bool \<Rightarrow> (account_id \<times> 'ks) list \<Rightarrow> (account_id \<times> 'ks) list \<Rightarrow> session_handler \<Rightarrow>
     session_handler" where
  "on_new_session block_number changed keys queued h =
     h\<lparr>SessionChangeBlock := block_number, SessionHandlerCollators := map fst keys\<rparr>"

section \<open>The benchmarks measure the calls\<close>

text \<open>
  Every benchmark runs to its end. On any state, with an origin the admin check accepts, each
  setter's benchmark returns the state the call leaves and its assertion holds; without such an
  origin it reports that it has no weight. The benchmarks of the example pallet pass for every
  caller, whatever was stored before.
\<close>

theorem benchmarks_pass:
  assumes "ensure_origin_or_root cfg origin" and "\<And>a. ensure_signed (raw_signed a) = Some a"
  shows "bench_set_slot_width cfg (Some origin) s = call_result (set_slot_width cfg origin 1 s) \<and>
    \<not> is_panic (bench_set_slot_width cfg (Some origin) s) \<and>
    bench_set_slot_width cfg None s = Err Weightless \<and>
    bench_set_threshold_parameter cfg par (Some origin) s =
      call_result (set_threshold_parameter cfg origin par s) \<and>
    \<not> is_panic (bench_set_threshold_parameter cfg par (Some origin) s) \<and>
    bench_set_bulk_mode cfg (Some origin) s = call_result (set_bulk_mode cfg origin True s) \<and>
    \<not> is_panic (bench_set_bulk_mode cfg (Some origin) s) \<and>
    (\<exists>t. bench_do_something ensure_signed raw_signed caller ts = Ok t) \<and>
    (\<exists>t. bench_cause_error ensure_signed raw_signed caller ts = Ok t)"
  using assms
  by (simp add: bench_set_slot_width_def bench_set_threshold_parameter_def bench_set_bulk_mode_def
      with_admin_def set_slot_width_def set_threshold_parameter_def set_bulk_mode_def
      assert_last_event_def deposit_event_def bench_do_something_def do_something_def
      bench_cause_error_def cause_error_def checked_add_def Let_def)

theorem benchmarks_pass_witness:
  "\<not> is_panic (bench_set_bulk_mode sample_config (Some ''root'') sample_chain)"
proof -
  have "ensure_origin_or_root sample_config ''root''" and "Some (id a) = Some a" for a :: account_id
    by (simp_all add: sample_defs)
  from benchmarks_pass [where ensure_signed = Some and raw_signed = id, OF this] show ?thesis by blast
qed

end
