(* ===== verification/Runtime_Wiring.thy ===== *)
theory Runtime_Wiring
  imports Xcm_Config
begin

text \<open>
  How the runtime wires the pallets of other crates together (\<open>template/runtime/src/configs/mod.rs\<close>,
  \<open>lib.rs\<close>): for each \<open>impl ... Config for Runtime\<close> the constants it sets, the pallets of the
  runtime it names and the functions it composes. Defaults of other crates are parameters.
\<close>

section \<open>Transactions and the executive\<close>

datatype tx_extension =
    CheckNonZeroSender | CheckSpecVersion | CheckTxVersion | CheckGenesis | CheckEra | CheckNonce
  | CheckWeight | ChargeTransactionPayment | StorageWeightReclaim | CheckMetadataHash

definition TxExtension :: "tx_extension list" where
  "TxExtension =
     [CheckNonZeroSender, CheckSpecVersion, CheckTxVersion, CheckGenesis, CheckEra, CheckNonce,
      CheckWeight, ChargeTransactionPayment, StorageWeightReclaim, CheckMetadataHash]"

definition Migrations :: "runtime_pallet list" where "Migrations = []"

definition Executive :: "(runtime_pallet list \<Rightarrow> runtime_pallet list \<Rightarrow> 'exec) \<Rightarrow> 'exec" where
  "Executive frame_executive = frame_executive AllPalletsWithSystem Migrations"

text \<open>
  \<open>register_validate_block!\<close>: what the relay chain's validators run on a block is Aura's block
  executor around the executive.
\<close>

definition register_validate_block ::
    "('exec \<Rightarrow> 'executor) \<Rightarrow> (runtime_pallet list \<Rightarrow> runtime_pallet list \<Rightarrow> 'exec) \<Rightarrow> 'executor" where
  "register_validate_block aura_block_executor frame_executive =
     aura_block_executor (Executive frame_executive)"

section \<open>System, time, authorship\<close>

record ('bw, 'bl) system_config =
  sc_BlockHashCount :: u32
  sc_Version :: runtime_version
  sc_DbWeight :: rocksdb_weight
  sc_BlockWeights :: 'bw
  sc_BlockLength :: 'bl
  sc_SS58Prefix :: "16 word"
  sc_OnSetCode :: runtime_pallet
  sc_MaxConsumers :: u32

definition runtime_system_config ::
    "('w \<Rightarrow> (dispatch_class \<Rightarrow> 'w weights_per_class \<Rightarrow> 'w weights_per_class) \<Rightarrow> 'p \<Rightarrow> 'bw) \<Rightarrow>
     (u32 \<Rightarrow> 'p \<Rightarrow> 'bl) \<Rightarrow> ('w, 'p) weight_api \<Rightarrow> u32 \<Rightarrow> ('bw, 'bl) system_config" where
  "runtime_system_config builder max_with_normal_ratio W block_hash_count =
     \<lparr>sc_BlockHashCount = block_hash_count,
      sc_Version = VERSION,
      sc_DbWeight = RocksDbWeight (WEIGHT_REF_TIME_PER_NANOS W),
      sc_BlockWeights = RuntimeBlockWeights builder W,
      sc_BlockLength = RuntimeBlockLength max_with_normal_ratio W,
      sc_SS58Prefix = SS58Prefix,
      sc_OnSetCode = ParachainSystem,
      sc_MaxConsumers = 16\<rparr>"

record timestamp_config =
  ts_OnTimestampSet :: runtime_pallet
  ts_MinimumPeriod :: u64

definition runtime_timestamp_config :: timestamp_config where
  "runtime_timestamp_config = \<lparr>ts_OnTimestampSet = Aura, ts_MinimumPeriod = 0\<rparr>"

text \<open>The author of a block is the session's validator at the index Aura finds.\<close>

record authorship_config =
  as_FindAuthor :: runtime_pallet
  as_EventHandler :: "runtime_pallet list"

definition runtime_authorship_config :: authorship_config where
  "runtime_authorship_config = \<lparr>as_FindAuthor = Aura, as_EventHandler = [CollatorSelection]\<rparr>"

section \<open>Fees\<close>

record 'fmu transaction_payment_config =
  tp_OnChargeTransaction :: runtime_pallet
  tp_WeightToFee :: "weight_to_fee_coefficient list"
  tp_LengthToFee :: "u32 \<Rightarrow> u128"
  tp_FeeMultiplierUpdate :: 'fmu
  tp_OperationalFeeMultiplier :: u8

definition runtime_transaction_payment_config ::
    "(u128 \<Rightarrow> u128 \<Rightarrow> u32) \<Rightarrow> u64 \<Rightarrow> (u128 \<Rightarrow> u32 \<Rightarrow> u128) \<Rightarrow> 'fmu \<Rightarrow> 'fmu transaction_payment_config" where
  "runtime_transaction_payment_config from_rational per_nanos constant_multiplier slow_adjusting_fee_update =
     \<lparr>tp_OnChargeTransaction = Balances,
      tp_WeightToFee = polynomial from_rational per_nanos,
      tp_LengthToFee = runtime_length_to_fee constant_multiplier,
      tp_FeeMultiplierUpdate = slow_adjusting_fee_update,
      tp_OperationalFeeMultiplier = 5\<rparr>"

section \<open>Messages\<close>

datatype aggregate_message_origin = Here_origin | Parent_origin | Sibling_origin u32

definition RelayOrigin :: aggregate_message_origin where "RelayOrigin = Parent_origin"

text \<open>
  \<open>enqueue_with_origin\<close> is \<open>EnqueueWithOrigin\<close> and \<open>RelayNumberMonotonicallyIncreases\<close> the check of
  that name: a relay parent number must exceed the last one.
\<close>

record ('w, 'hook, 'q, 'chk) parachain_system_config =
  ps_SelfParaId :: runtime_pallet
  ps_OutboundXcmpMessageSource :: runtime_pallet
  ps_DmpQueue :: 'q
  ps_ReservedDmpWeight :: 'w
  ps_XcmpMessageHandler :: runtime_pallet
  ps_ReservedXcmpWeight :: 'w
  ps_CheckAssociatedRelayNumber :: 'chk
  ps_ConsensusHook :: 'hook

definition runtime_parachain_system_config ::
    "('w, 'p) weight_api \<Rightarrow> (u32 \<Rightarrow> u32 \<Rightarrow> u32 \<Rightarrow> 'hook) \<Rightarrow>
     (runtime_pallet \<Rightarrow> aggregate_message_origin \<Rightarrow> 'q) \<Rightarrow> 'chk \<Rightarrow>
     ('w, 'hook, 'q, 'chk) parachain_system_config" where
  "runtime_parachain_system_config W hook enqueue_with_origin relay_number_monotonically_increases =
     \<lparr>ps_SelfParaId = ParachainInfo,
      ps_OutboundXcmpMessageSource = XcmpQueue,
      ps_DmpQueue = enqueue_with_origin MessageQueue RelayOrigin,
      ps_ReservedDmpWeight = ReservedDmpWeight W,
      ps_XcmpMessageHandler = XcmpQueue,
      ps_ReservedXcmpWeight = ReservedXcmpWeight W,
      ps_CheckAssociatedRelayNumber = relay_number_monotonically_increases,
      ps_ConsensusHook = ConsensusHook hook\<rparr>"

text \<open>
  The message queue: what processes a message (a stub in a build for benchmarks), and the handlers
  of its queues, which see siblings only (\<open>narrow\<close> is \<open>NarrowOriginToSibling\<close>).
\<close>

record ('w, 'h, 'mp) message_queue_wiring =
  mq_MessageProcessor :: 'mp
  mq_QueueChangeHandler :: 'h
  mq_QueuePausedQuery :: 'h
  mq_ServiceWeight :: 'w
  mq_IdleMaxServiceWeight :: unit

definition runtime_message_queue_wiring ::
    "('w, 'p) weight_api \<Rightarrow> 'w \<Rightarrow> (runtime_pallet \<Rightarrow> 'h) \<Rightarrow> bool \<Rightarrow> 'mp \<Rightarrow> 'mp \<Rightarrow>
     ('w, 'h, 'mp) message_queue_wiring" where
  "runtime_message_queue_wiring W max_block narrow runtime_benchmarks noop_message_processor process_xcm_message =
     \<lparr>mq_MessageProcessor = (if runtime_benchmarks then noop_message_processor else process_xcm_message),
      mq_QueueChangeHandler = narrow XcmpQueue,
      mq_QueuePausedQuery = narrow XcmpQueue,
      mq_ServiceWeight = MessageQueueServiceWeight W max_block,
      mq_IdleMaxServiceWeight = ()\<rparr>"

record ('origin, 'loc_origin, 'q, 'price) xcmp_queue_wiring =
  xq_ChannelInfo :: runtime_pallet
  xq_XcmpQueue :: 'q
  xq_ControllerOrigin :: "'origin \<Rightarrow> bool"
  xq_ControllerOriginConverter :: 'loc_origin
  xq_PriceForSiblingDelivery :: 'price

definition runtime_xcmp_queue_wiring ::
    "('acc, 'origin, 'msg, 'router) xcm_builder \<Rightarrow> (runtime_pallet \<Rightarrow> 'q) \<Rightarrow> ('origin \<Rightarrow> bool) \<Rightarrow> 'price \<Rightarrow>
     ('origin, location \<Rightarrow> 'origin option, 'q, 'price) xcmp_queue_wiring" where
  "runtime_xcmp_queue_wiring B transform_origin_to_sibling ensure_root no_price =
     \<lparr>xq_ChannelInfo = ParachainSystem,
      xq_XcmpQueue = transform_origin_to_sibling MessageQueue,
      xq_ControllerOrigin = ensure_root,
      xq_ControllerOriginConverter = XcmOriginToTransactDispatchOrigin B,
      xq_PriceForSiblingDelivery = no_price\<rparr>"

section \<open>Sessions\<close>

record ('vid, 'keys) session_config =
  ss_ValidatorIdOf :: "account_id \<Rightarrow> 'vid option"
  ss_ShouldEndSession :: "u32 \<Rightarrow> bool"
  ss_NextSessionRotation :: "u32 \<Rightarrow> bool"
  ss_SessionManager :: runtime_pallet
  ss_SessionHandler :: "runtime_pallet list"
  ss_Keys :: 'keys

text \<open>\<open>identity_collator\<close> is \<open>IdentityCollator\<close>; the key of a session is the one of Aura.\<close>

definition runtime_session_config ::
    "(account_id \<Rightarrow> 'vid option) \<Rightarrow> (u32 \<Rightarrow> u32 \<Rightarrow> u32 \<Rightarrow> bool) \<Rightarrow>
     ('vid, 'aura \<Rightarrow> 'aura session_keys) session_config" where
  "runtime_session_config identity_collator periodic_sessions =
     \<lparr>ss_ValidatorIdOf = identity_collator,
      ss_ShouldEndSession = should_end_session periodic_sessions,
      ss_NextSessionRotation = should_end_session periodic_sessions,
      ss_SessionManager = CollatorSelection,
      ss_SessionHandler = [Aura],
      ss_Keys = template_session_keys\<rparr>"

section \<open>The wiring holds together\<close>

text \<open>
  A transaction's sender, versions, era and nonce are checked before its weight, and its weight
  before its fee is charged; no check runs twice. A session that ends changes Aura's keys after the
  collator selection has chosen the validators, and the on-demand pallet ends the block after both.
\<close>

theorem wiring_is_ordered:
  "distinct TxExtension \<and>
   takeWhile (\<lambda>x. x \<noteq> CheckWeight) TxExtension =
     [CheckNonZeroSender, CheckSpecVersion, CheckTxVersion, CheckGenesis, CheckEra, CheckNonce] \<and>
   hd (tl (dropWhile (\<lambda>x. x \<noteq> CheckWeight) TxExtension)) = ChargeTransactionPayment \<and>
   sorted_wrt (<) (ss_SessionManager (runtime_session_config ident periodic) # Session #
     ss_SessionHandler (runtime_session_config ident periodic) @ [OnDemand]) \<and>
   ts_OnTimestampSet runtime_timestamp_config = as_FindAuthor runtime_authorship_config"
  by (simp add: TxExtension_def runtime_session_config_def runtime_timestamp_config_def
      runtime_authorship_config_def less_runtime_pallet_def)

end
