(* ===== verification/Pallet_Tests.thy ===== *)
theory Pallet_Tests
  imports Benchmarks Runtime_Wiring
begin

text \<open>
  The unit tests of both pallets (\<open>pallets/on-demand/src/tests.rs\<close>,
  \<open>template/pallets/template/src/tests.rs\<close>) as Boolean functions, and what remains of the mock
  runtimes they run in: their pallets and the constants they give to the pallets of other crates.
\<close>

section \<open>The mock runtimes\<close>

datatype mock_pallet =
    Mock_System | Mock_TransactionPayment | Mock_Balances | Mock_Timestamp | Mock_Aura | Mock_Session
  | Mock_OnDemand

definition Mock_AllPallets :: "mock_pallet list" where
  "Mock_AllPallets =
     [Mock_System, Mock_TransactionPayment, Mock_Balances, Mock_Timestamp, Mock_Aura, Mock_Session,
      Mock_OnDemand]"

text \<open>\<open>alice\<close> is the account of that name in the key ring.\<close>

definition alice :: "'aura keyring \<Rightarrow> account_id" where
  "alice kr = alice_account kr"

record mock_system_config =
  ms_BlockHashCount :: u64
  ms_SS58Prefix :: u8
  ms_MaxConsumers :: u32

definition Mock_system_config :: mock_system_config where
  "Mock_system_config = \<lparr>ms_BlockHashCount = 250, ms_SS58Prefix = 42, ms_MaxConsumers = 16\<rparr>"

record mock_balances_config =
  mb_ExistentialDeposit :: u64
  mb_AccountStore :: mock_pallet
  mb_MaxReserves :: u32

definition Mock_balances_config :: mock_balances_config where
  "Mock_balances_config =
     \<lparr>mb_ExistentialDeposit = 1, mb_AccountStore = Mock_System, mb_MaxReserves = 50\<rparr>"

record mock_timestamp_config =
  mt_OnTimestampSet :: mock_pallet
  mt_MinimumPeriod :: u64

definition Mock_timestamp_config :: mock_timestamp_config where
  "Mock_timestamp_config = \<lparr>mt_OnTimestampSet = Mock_Aura, mt_MinimumPeriod = 1\<rparr>"

text \<open>\<open>minimum_period_times_two\<close> is \<open>MinimumPeriodTimesTwo\<close> of \<open>pallet_aura\<close>.\<close>

definition Mock_aura_config :: "(u64 \<Rightarrow> u64) \<Rightarrow> aura_config" where
  "Mock_aura_config minimum_period_times_two =
     \<lparr>MaxAuthorities = 100000, AllowMultipleBlocksPerSlot = False,
      SlotDuration = minimum_period_times_two (mt_MinimumPeriod Mock_timestamp_config)\<rparr>"

record 'aura mock_session_keys =
  mock_aura :: 'aura

definition Mock_session_keys_from :: "'aura \<Rightarrow> 'aura mock_session_keys" where
  "Mock_session_keys_from key = \<lparr>mock_aura = key\<rparr>"

definition Mock_Offset :: u64 where "Mock_Offset = 0"

definition Mock_Period :: u64 where "Mock_Period = 10"

record 'vid mock_session_config =
  mss_ValidatorIdOf :: "account_id \<Rightarrow> 'vid option"
  mss_ShouldEndSession :: "u64 \<Rightarrow> bool"
  mss_NextSessionRotation :: "u64 \<Rightarrow> bool"

definition Mock_session_config ::
    "('origin, 'auth, 'cur, 'proof, 'rsp, 'err, 'w, 'fixed) mock_frame \<Rightarrow>
     (u64 \<Rightarrow> u64 \<Rightarrow> u64 \<Rightarrow> bool) \<Rightarrow> account_id mock_session_config" where
  "Mock_session_config fr periodic_sessions =
     \<lparr>mss_ValidatorIdOf = fr_identity_collator fr,
      mss_ShouldEndSession = periodic_sessions Mock_Period Mock_Offset,
      mss_NextSessionRotation = periodic_sessions Mock_Period Mock_Offset\<rparr>"

definition Mock_charge_transaction_payment ::
    "('origin, 'auth, 'cur, 'proof, 'rsp, 'err, 'w, 'fixed) mock_frame \<Rightarrow> 'w" where
  "Mock_charge_transaction_payment fr = fr_weight_from_parts fr 10 0"

definition Mock_TransactionByteFee :: u64 where "Mock_TransactionByteFee = 0"

record 'w mock_payment_config =
  mp_OnChargeTransaction :: mock_pallet
  mp_OperationalFeeMultiplier :: u8
  mp_WeightToFee :: "'w \<Rightarrow> u64"
  mp_LengthToFee :: "u32 \<Rightarrow> u64"
  mp_WeightInfo :: 'w

definition Mock_payment_config ::
    "('origin, 'auth, 'cur, 'proof, 'rsp, 'err, 'w, 'fixed) mock_frame \<Rightarrow> ('w \<Rightarrow> u64) \<Rightarrow>
     (u64 \<Rightarrow> u32 \<Rightarrow> u64) \<Rightarrow> 'w mock_payment_config" where
  "Mock_payment_config fr identity_fee constant_multiplier =
     \<lparr>mp_OnChargeTransaction = Mock_Balances,
      mp_OperationalFeeMultiplier = 5,
      mp_WeightToFee = identity_fee,
      mp_LengthToFee = constant_multiplier Mock_TransactionByteFee,
      mp_WeightInfo = Mock_charge_transaction_payment fr\<rparr>"

text \<open>The mock runtime of the example pallet, and its initial state.\<close>

datatype template_mock_pallet = TM_System | TM_Template

fun template_mock_index :: "template_mock_pallet \<Rightarrow> nat" where
  "template_mock_index TM_System = 0"
| "template_mock_index TM_Template = 1"

definition template_mock_BlockHashCount :: u64 where "template_mock_BlockHashCount = 250"

definition template_new_test_ext :: template_state where
  "template_new_test_ext = \<lparr>Something = None, template_events = []\<rparr>"

section \<open>The tests\<close>

text \<open>
  \<open>assert_noop\<close>: the call fails with the error; a call that fails leaves the state to be rolled
  back. \<open>assert_ok\<close>: the call succeeds, and the rest of the test runs on its state.
\<close>

fun assert_noop :: "('e, 's) outcome \<Rightarrow> 'e \<Rightarrow> bool" where
  "assert_noop (Err e) e' \<longleftrightarrow> e = e'"
| "assert_noop (Ok s) e' \<longleftrightarrow> False"
| "assert_noop (Panic m) e' \<longleftrightarrow> False"

fun assert_ok :: "('e, 's) outcome \<Rightarrow> ('s \<Rightarrow> bool) \<Rightarrow> bool" where
  "assert_ok (Ok s) rest \<longleftrightarrow> rest s"
| "assert_ok (Err e) rest \<longleftrightarrow> False"
| "assert_ok (Panic m) rest \<longleftrightarrow> False"

definition last_event_is :: "('thr, 'bal) event \<Rightarrow> ('auth, 'vid, 'thr, 'cur, 'bal) chain \<Rightarrow> bool" where
  "last_event_is e s \<longleftrightarrow> Events s \<noteq> [] \<and> last (Events s) = e"

text \<open>\<open>root\<close> and \<open>alice_signed\<close> are \<open>RuntimeOrigin::root()\<close> and \<open>RuntimeOrigin::signed(alice())\<close>.\<close>

definition set_slot_width_works ::
    "('origin, 'auth, account_id, u64, 'cur, u64, 'proof, 'rsp) config \<Rightarrow> 'origin \<Rightarrow> 'origin \<Rightarrow>
     ('auth, account_id, u64, 'cur, u64) chain \<Rightarrow> bool" where
  "set_slot_width_works cfg root alice_signed s \<longleftrightarrow>
     SlotWidth s = 0 \<and>
     assert_noop (set_slot_width cfg alice_signed 1 s) BadOrigin \<and>
     assert_ok (set_slot_width cfg root 1 s) (\<lambda>t.
       SlotWidth t = 1 \<and> last_event_is (SlotWidthSet 1) t)"

definition set_threshold_parameter_works ::
    "('origin, 'auth, account_id, u64, 'cur, u64, 'proof, 'rsp) config \<Rightarrow> 'origin \<Rightarrow> 'origin \<Rightarrow>
     ('auth, account_id, u64, 'cur, u64) chain \<Rightarrow> bool" where
  "set_threshold_parameter_works cfg root alice_signed s \<longleftrightarrow>
     ThresholdParameter s = 0 \<and>
     assert_noop (set_threshold_parameter cfg alice_signed 1000 s) BadOrigin \<and>
     assert_ok (set_threshold_parameter cfg root 1000 s) (\<lambda>t.
       ThresholdParameter t = 1000 \<and> last_event_is (ThresholdParameterSet 1000) t)"

definition set_bulk_mode_works ::
    "('origin, 'auth, account_id, u64, 'cur, u64, 'proof, 'rsp) config \<Rightarrow> 'origin \<Rightarrow> 'origin \<Rightarrow>
     ('auth, account_id, u64, 'cur, u64) chain \<Rightarrow> bool" where
  "set_bulk_mode_works cfg root alice_signed s \<longleftrightarrow>
     ThresholdParameter s = 0 \<and>
     assert_noop (set_bulk_mode cfg alice_signed True s) BadOrigin \<and>
     assert_ok (set_bulk_mode cfg root True s) (\<lambda>t.
       BulkMode t = Some () \<and> last_event_is (BulkModeSet True) t)"

definition it_works_for_default_value ::
    "('origin \<Rightarrow> account_id option) \<Rightarrow> 'origin \<Rightarrow> template_state \<Rightarrow> bool" where
  "it_works_for_default_value ensure_signed signed_by_1 s \<longleftrightarrow>
     assert_ok (do_something ensure_signed signed_by_1 42 s) (\<lambda>t. Something t = Some 42)"

definition correct_error_for_none_value ::
    "('origin \<Rightarrow> account_id option) \<Rightarrow> 'origin \<Rightarrow> template_state \<Rightarrow> bool" where
  "correct_error_for_none_value ensure_signed signed_by_1 s \<longleftrightarrow>
     assert_noop (cause_error ensure_signed signed_by_1 s) NoneValue"

text \<open>
  Every unit test of the repository passes, on the mock runtimes they are written for, whatever
  the parameters of those runtimes are, as long as root passes the check of root, a signed origin
  does not, and a signed origin has its signer.
\<close>

theorem unit_tests_pass:
  assumes "fr_ensure_root fr root" and "\<not> fr_ensure_root fr alice_signed"
    and "ensure_signed signed_by_1 = Some 1"
  shows "set_slot_width_works (mock_config fr) root alice_signed (new_test_ext owners c) \<and>
    set_threshold_parameter_works (mock_config fr) root alice_signed (new_test_ext owners c) \<and>
    set_bulk_mode_works (mock_config fr) root alice_signed (new_test_ext owners c) \<and>
    it_works_for_default_value ensure_signed signed_by_1 template_new_test_ext \<and>
    correct_error_for_none_value ensure_signed signed_by_1 template_new_test_ext"
proof -
  have "ensure_origin_or_root (mock_config fr) root" "\<not> ensure_origin_or_root (mock_config fr) alice_signed"
    using assms(1,2) by (simp_all add: mock_config_def)
  then have "set_slot_width_works (mock_config fr) root alice_signed (new_test_ext owners c)"
    "set_threshold_parameter_works (mock_config fr) root alice_signed (new_test_ext owners c)"
    "set_bulk_mode_works (mock_config fr) root alice_signed (new_test_ext owners c)"
    by (simp_all add: set_slot_width_works_def set_threshold_parameter_works_def set_bulk_mode_works_def
        setter_defs last_event_is_def new_test_ext_def default_chain_def)
  with assms(3) show ?thesis
    by (simp add: it_works_for_default_value_def correct_error_for_none_value_def do_something_def
        cause_error_def template_new_test_ext_def)
qed

theorem unit_tests_pass_witness:
  "set_slot_width_works (mock_config sample_frame) ''root'' ''alice'' (new_test_ext sample_owner [])"
proof -
  have "fr_ensure_root sample_frame ''root''" "\<not> fr_ensure_root sample_frame ''alice''"
    by (simp_all add: sample_frame_def)
  from unit_tests_pass [OF this, of Some 1 sample_owner "[]"] show ?thesis by simp
qed

end
