(* ===== verification/Spec2Isabelle.thy ===== *)
theory Spec2Isabelle
  imports Pallet_Properties Reward_Economy Network_Schedule Order_Lifecycle On_Demand_System Aura_Wiring
    Block_Authoring Node_Properties Runtime_Properties Runtime_Apis Pallet_Tests
begin

text \<open>
  A verification of On-Demand: the pallet, the collator-side service and the consensus client with
  which a parachain buys block space from its relay chain order by order instead of in bulk.

  \<^bold>\<open>The program.\<close> A parachain in on-demand mode divides the relay chain's blocks into slots of
  \<open>2 ^ w\<close> blocks and elects one of its authorities per slot to place an order. The collators' order
  service (\<open>src/services/order\<close>) follows the relay chain, and when it is the node's turn submits
  the order and records its relay block. The node (\<open>src/template/node\<close>) hands a proof of that
  block's events to the next parachain block as an inherent (\<open>src/primitives/order\<close>). The
  on-demand pallet (\<open>src/pallets/on-demand\<close>) checks the proof, finds the elected authority's order
  in it and pays its owner, once per slot. The runtime (\<open>src/template/runtime\<close>) configures the
  pallet; \<open>src/client/consensus/on-demand-aura\<close> is a collator and an import queue for Aura.

  \<^bold>\<open>The theories.\<close>
  \<^item> \<open>Prelude\<close>: Rust's integers as words with their shifts, remainder and saturating sums, results
    as \<open>outcome\<close> (a panic, an error or a value), the reference definitions of slots
    (\<open>slot_number\<close>) and turns (\<open>elected\<close>), and the locale \<open>slot_ledger\<close>: the contract of every
    component that acts at most once per slot. The pallet, the service, the collator loop, the
    Aura wrapper and its handles, and the whole system interpret it. \<open>run\<close> is a sequence of steps with its labels,
    \<open>trace\<close> one with the states it goes through.
  \<^item> \<open>Order_Primitives\<close> (\<open>primitives/order\<close>): the inherent data, the storage keys, \<open>create_at\<close>.
  \<^item> \<open>On_Demand_Pallet\<close> (\<open>pallets/on-demand/src/lib.rs\<close>): the storage as the record \<open>chain\<close>, the
    runtime's configuration as the record \<open>config\<close>, genesis, hooks, the four calls, the inherent,
    the rewards and the fee criteria; the steps of a chain as \<open>pallet_step\<close>. The locale
    \<open>reward_hook\<close> is what \<open>create_order\<close> relies on in the reward it calls, \<open>fee_criteria\<close> what the
    runtime's and the node's criteria have in common.
  \<^item> \<open>Mock_Runtime\<close> (\<open>pallets/on-demand/src/mock.rs\<close>) configures the pallet, and holds the concrete
    environment of the pallet's witnesses; \<open>Pallet_Properties\<close> states what the pallet does: it
    refines its specification \<open>reward_due\<close>, pays no slot twice, pays whom, fails and panics when,
    and what changing the slot width does.
  \<^item> \<open>Reward_Economy\<close>: what the pallet pays over time. The rewards of a run are bounded by the slots
    that pass, an inherent pays once however often it is executed, a late one never; and, since the
    call compares the inherent's height and state root with nothing, what an author can do with a
    forged one: be paid for one order at every turn, or end all rewards.
  \<^item> \<open>Order_Service\<close> (\<open>services/order/src/config.rs\<close>, \<open>chain.rs\<close>) and \<open>Order_Tasks\<close> (\<open>lib.rs\<close>): the
    election, the reads of the relay chain, the submission, the handler of a relay block, the loop
    over the heads and the event watcher, and the interleaving of the two tasks over the shared
    record as \<open>service_step\<close>. \<open>Service_Properties\<close>: the handler submits exactly when \<open>order_due\<close>
    holds, the record follows the submissions, one order per slot, the order's life is its slot,
    and the loop over the heads runs to its end. \<open>Order_Runs\<close>: the whole task with its \<open>select!\<close>, over
    any order of polls; each is a run of \<open>service_step\<close>, and ends only with the stream of heads.
  \<^item> \<open>Collator_Network\<close>: the order services of all collators of a parachain, interleaved. The locale
    \<open>turn_taking\<close> extends the contract of \<open>slot_ledger\<close> to many members that act in turns; the order
    services interpret it, so the whole network places at most one order per slot.
    \<open>Network_Schedule\<close>: the same network as a program over a schedule of polls, with authorities that
    change from slot to slot, which interprets \<open>turn_taking\<close> too. Each node in it runs its
    \<open>run_on_demand_task\<close>; a slot its elected node sees gets exactly one order, and nodes that see
    different authorities within a slot place two.
  \<^item> \<open>Order_Lifecycle\<close> follows one order through the components: submitted by one collator, included
    by the relay chain, seen by another collator's watcher, proved by that node's inherent, and
    rewarded by the pallet for the slot it was placed for.
  \<^item> \<open>On_Demand_System\<close>: the chain and all its collators as one transition system, in which every
    inherent comes from a node's record. It refines the pallet's runs and the network's; every
    reward in it has an order of its own slot in the relay chain.
  \<^item> \<open>Aura_Collator\<close> (\<open>collator.rs\<close>, \<open>collators/\<close>, \<open>lib.rs\<close> of the consensus client),
    \<open>Equivocation_Queue\<close> (its import queues) and \<open>Aura_Properties\<close>: one block per slot on a growing
    relay chain, what a block is sealed with, what a queue accepts after whatever it verified
    before, how many blocks of a slot are let through.
    \<open>Aura_Wiring\<close>: how the collator is built and started, and the handles of \<open>AuraConsensus\<close> with
    their shared counter cell.
  \<^item> \<open>Block_Authoring\<close>: the collator with the node's inherent data provider. Its blocks carry the
    record's order as the pallet's call; a record that cannot be proved stops it.
  \<^item> \<open>Template_Runtime\<close>, \<open>Template_Node\<close> and \<open>Template_Properties\<close> (\<open>src/template\<close>): the runtime's
    configuration of the pallet, its units, fees and presets, the node's criteria and inherent
    provider, the example pallet.
  \<^item> \<open>Node_Start\<close> (\<open>node/src/service.rs\<close>): \<open>new_partial\<close>, \<open>start_consensus\<close> and
    \<open>start_parachain_node\<close> as programs of a state with a log of what was started and a memory for the
    shared order record, which end with a value, an error or a panic. \<open>Node_Command\<close> (\<open>command.rs\<close>,
    \<open>cli.rs\<close>, \<open>chain_spec.rs\<close>, \<open>rpc.rs\<close>): the chain specifications, the relay chain's command line
    and the dispatch of every sub-command. \<open>Node_Properties\<close>: what a started node runs and over
    which record, that it joins the network last, when it panics, that no sub-command runs a node,
    and that specifications and runtime fit.
  \<^item> \<open>Runtime_Weights\<close> (both \<open>weights.rs\<close>, \<open>runtime/src/weights\<close>, the block limits), \<open>Runtime_Config\<close>
    (pallets and their order, version, constants, the runtime APIs with a body), \<open>Xcm_Config\<close>
    (\<open>xcm_config.rs\<close>), \<open>Runtime_Wiring\<close> (the configurations of the other pallets, the transaction
    extensions, the executive), \<open>Benchmarks\<close> (both \<open>benchmarking.rs\<close>, the session handler of the
    mock), \<open>Pallet_Tests\<close> (both \<open>tests.rs\<close> as Boolean functions, both \<open>mock.rs\<close>) and
    \<open>Runtime_Properties\<close>: how a block is divided, what the calls weigh, the order of the pallets,
    constants that fit, benchmarks and tests that pass.
  \<^item> \<open>Runtime_Apis\<close> (\<open>apis.rs\<close>): every runtime API as the record of its functions; what the order
    service reads through them is the pallet's storage, the node orders exactly when its pool pays
    the pallet's threshold, and how the node's criteria and the runtime's can disagree.
  \<^item> This theory: the service and the pallet elect the same authority, also across the end of a
    block; the provided inherent becomes the call; a chain started from a preset orders nothing
    while it is in bulk mode.

  \<^bold>\<open>Conventions.\<close> Code outside the repository is a parameter: a field of an environment record
  (\<open>config\<close>, \<open>frame\<close>, \<open>service_env\<close>, \<open>rpc\<close>, \<open>collator_env\<close>, \<open>verifier_env\<close>, \<open>lru_map\<close>, \<open>node_env\<close>,
  \<open>node_services\<close>, \<open>cli_env\<close>, \<open>weight_api\<close>, \<open>xcm_builder\<close>, \<open>frame_services\<close>), and what a property needs of it is a hypothesis of the property. A call of such code
  that fails is an \<open>Inl\<close>. Asynchronous streams are the lists of what they yield, each element with
  the environment's answers at that time; the mutex of the order record makes a handler one step.
  Shifts depend on the build profile (\<open>Overflow_Checks\<close> panics, \<open>Release\<close> masks the amount), and
  every statement holds for both. No definition needs fuel: all loops run over lists. Lengths of
  authority lists are bounded by \<open>2 ^ 64\<close> (\<open>wf_chain\<close>, \<open>wf_env\<close>), as vectors are.

  \<^bold>\<open>Not modelled.\<close> Logging; the encoding of foreign types (decoders are parameters); entries of a
  configuration that only name a type, declarations of traits and type aliases, and imports: they
  have no behaviour of their own.
\<close>

section \<open>The service and the pallet\<close>

text \<open>
  The service and the pallet elect the same order placer. For the same authorities, slot width
  and relay block, the collator-side computation and the runtime's return the same authority.
\<close>

theorem service_and_pallet_elect_the_same:
  fixes s :: "('auth, 'vid, 'thr, 'cur, 'bal) chain"
  assumes "Authorities s \<noteq> []" and "length (Authorities s) < 2 ^ 64"
    and "shift_ok p (SlotWidth s)"
  shows "\<exists>a \<in> set (Authorities s).
    order_placer_at p s h = (Ok (Some a) :: (dispatch_error, 'auth option) outcome) \<and>
    order_placer p (Authorities s) h (SlotWidth s) = (Ok a :: ('e service_error, 'auth) outcome)"
  by (rule bexI [of _ "elected (Authorities s) h (SlotWidth s)"])
    (simp_all add: order_placer_at_elected [OF assms] order_placer_Ok_iff [OF assms(2)] elected_in_set
      assms(1,3))

theorem service_and_pallet_elect_the_same_witness:
  "\<exists>a \<in> set (Authorities sample_chain).
     order_placer_at Release sample_chain 20 = (Ok (Some a) :: (dispatch_error, u32 option) outcome) \<and>
     order_placer Release (Authorities sample_chain) 20 (SlotWidth sample_chain) =
       (Ok a :: (unit service_error, u32) outcome)"
  by (rule service_and_pallet_elect_the_same)
    (simp_all add: sample_chain_def default_chain_def shift_ok_def)

text \<open>
  C11: what the service reads at the parachain's head is what the pallet elects by in the next block.
  At the end of a block the pallet copies Aura's authorities, so the list the runtime API answers at
  that block is the pallet's; whatever Aura's list, the key owners and the balances become when the
  next block begins, \<open>create_order\<close> of that block elects exactly the authority the service elected
  from the API's answers, for every relay block.
\<close>

theorem election_survives_the_next_block:
  fixes s :: "('auth, 'vid, 'thr, 'cur, 'bal) chain"
  assumes "Aura_Authorities s \<noteq> []" and "length (Aura_Authorities s) < 2 ^ 64"
    and "shift_ok p (SlotWidth s)"
    and head: "head = on_finalize s"
    and next_block: "t = head\<lparr>Aura_Authorities := auths, KeyOwner := owners, Currency := c\<rparr>"
  shows "\<exists>a \<in> set (Aura_Authorities s).
    order_placer p (api_authorities_of head) h (api_slot_width_of head) =
      (Ok a :: ('e service_error, 'auth) outcome) \<and>
    order_placer_at p t h = (Ok (Some a) :: (dispatch_error, 'auth option) outcome)"
proof (rule bexI [of _ "elected (Aura_Authorities s) h (SlotWidth s)"])
  have t: "Authorities t = Aura_Authorities s" "SlotWidth t = SlotWidth s"
    by (simp_all add: head next_block on_finalize_def)
  show "order_placer p (api_authorities_of head) h (api_slot_width_of head) =
      (Ok (elected (Aura_Authorities s) h (SlotWidth s)) :: ('e service_error, 'auth) outcome) \<and>
    order_placer_at p t h =
      (Ok (Some (elected (Aura_Authorities s) h (SlotWidth s))) :: (dispatch_error, 'auth option) outcome)"
    using order_placer_at_elected [of t p h] assms(1-3)
    by (simp add: t head on_finalize_def api_authorities_of_def api_slot_width_of_def
        order_placer_Ok_iff [OF assms(2)])
qed (simp add: elected_in_set assms(1))

theorem election_survives_the_next_block_witness:
  "\<exists>a \<in> set (Aura_Authorities sample_chain).
     order_placer Release (api_authorities_of (on_finalize sample_chain)) 20
       (api_slot_width_of (on_finalize sample_chain)) = (Ok a :: (unit service_error, u32) outcome) \<and>
     order_placer_at Release ((on_finalize sample_chain)\<lparr>Aura_Authorities := [99],
       KeyOwner := sample_owner, Currency := []\<rparr>) 20 =
       (Ok (Some a) :: (dispatch_error, u32 option) outcome)"
  by (rule election_survives_the_next_block [OF _ _ _ refl refl])
    (simp_all add: sample_chain_def default_chain_def shift_ok_def)

section \<open>From the node to the call\<close>

text \<open>
  The inherent data a node provides is the call its runtime makes. If reading back what was put
  under an identifier gives it (the law of the block's inherent data), the pallet turns the data
  into \<open>create_order\<close> with exactly that data, recognises the call as its inherent, and dispatches
  it to \<open>create_order\<close>; where a node provides nothing, or other data, building the block panics.
\<close>

theorem provided_inherent_becomes_the_call:
  assumes "\<And>ident v inh inh'. put_data api ident v inh = Inr inh' \<Longrightarrow> get_data api ident inh' = Inr (Some v)"
    and "provide_inherent_data api d inh = Inr inh'"
  shows "create_inherent api inh' = Ok (Some (Create_order d)) \<and> is_inherent (Create_order d) \<and>
    dispatch p cfg origin (Create_order d) s = create_order p cfg origin d s \<and>
    (get_data api ON_DEMAND_INHERENT_IDENTIFIER other = Inr None \<longrightarrow>
       is_panic (create_inherent api other))"
  using assms by (auto simp: provide_inherent_data_def create_inherent_def)

theorem provided_inherent_becomes_the_call_witness:
  "create_inherent \<lparr>put_data = (\<lambda>ident v inh. Inr (inh(ident \<mapsto> v))), get_data = (\<lambda>ident inh. Inr (inh ident))\<rparr>
     [ON_DEMAND_INHERENT_IDENTIFIER \<mapsto> \<lparr>data = None\<rparr>] = Ok (Some (Create_order \<lparr>data = None\<rparr>))"
proof -
  let ?api = "\<lparr>put_data = (\<lambda>ident v inh. Inr (inh(ident \<mapsto> v))), get_data = (\<lambda>ident inh. Inr (inh ident))\<rparr>"
  have "provide_inherent_data ?api \<lparr>data = None\<rparr> Map.empty =
      Inr [ON_DEMAND_INHERENT_IDENTIFIER \<mapsto> \<lparr>data = None\<rparr>]"
    by (simp add: provide_inherent_data_def)
  from provided_inherent_becomes_the_call [OF _ this] show ?thesis by auto
qed

section \<open>The presets and the services\<close>

text \<open>
  A chain started from a genesis preset neither orders nor rewards until bulk mode is switched
  off. On the state the preset builds, \<open>create_order\<close> never changes anything, and an order service
  that reads that state through the runtime API never submits an order and keeps its record.
\<close>

theorem presets_start_without_orders:
  assumes "get_preset loc dev xcm kr ident = Some g" and "s = build (on_demand g) s0"
    and "\<And>h. api_bulk_mode env h = Inr (api_bulk_mode_of s)"
    and "handle_relaychain_stream p env d height r_hash pid rec = (res, rec', sub)"
  shows "create_order p cfg origin inh s \<in> {Ok s, Err BadOrigin} \<and> sub = None \<and> rec' = rec"
proof -
  have bulk: "BulkMode s \<noteq> None"
    using assms(1,2)
    by (auto simp: build_def get_preset_def local_testnet_genesis_def Let_def
        development_config_genesis_def testnet_genesis_def split: if_splits)
  then have "create_order p cfg origin inh s \<in> {Ok s, Err BadOrigin}"
    by (auto simp: create_order_def split: option.splits)
  moreover have "\<nexists>w price. order_checks p env d height r_hash pid rec = Ok (Inr (w, price))"
    using bulk by (auto simp: order_checks_Inr_iff assms(3) api_bulk_mode_of_def)
  with assms(4) have "sub = None \<and> rec' = rec"
    by (cases rule: handle_cases) auto
  ultimately show ?thesis by simp
qed

theorem presets_start_without_orders_witness:
  "\<exists>g. get_preset ''local'' ''dev'' 5
      \<lparr>alice_account = 1, alice_public = (), bob_account = 2, bob_public = (),
       well_known_accounts = [1, 2]\<rparr> ''dev'' = Some g \<and>
     create_order Release sample_rt_config ''none'' sample_rt_inherent
       (build (on_demand g) sample_rt_chain) \<in> {Ok (build (on_demand g) sample_rt_chain), Err BadOrigin}"
proof -
  let ?kr = "\<lparr>alice_account = 1, alice_public = (), bob_account = 2, bob_public = (),
       well_known_accounts = [1, 2]\<rparr>"
  let ?g = "development_config_genesis 5 ?kr"
  let ?env = "sample_env\<lparr>api_bulk_mode := \<lambda>h. Inr (api_bulk_mode_of (build (on_demand ?g) sample_rt_chain))\<rparr>"
  have g: "get_preset ''local'' ''dev'' 5 ?kr ''dev'' = Some ?g" by (simp add: get_preset_def)
  obtain res rec' sub where h: "handle_relaychain_stream Release ?env sample_head 6 42 2000
      sample_record = (res, rec', sub)" by (metis prod_cases3)
  have api: "\<And>h. api_bulk_mode ?env h = Inr (api_bulk_mode_of (build (on_demand ?g) sample_rt_chain))"
    by simp
  from presets_start_without_orders [OF g refl api h, of sample_rt_config "''none''"
      sample_rt_inherent] g
  show ?thesis by (intro exI [of _ ?g] conjI) simp_all
qed

end
